(* ===== verification/Prelude.thy ===== *)
theory Prelude
  imports
    Main
    "HOL-Library.Word"
    "HOL-Library.List_Lexorder"
    "HOL-Library.Char_ord"
    "HOL-Library.Sublist"
begin

section \<open>Prelude: byte strings, machine integers, big-endian encodings\<close>

text \<open>
  A Go string and a Go byte slice are both sequences of bytes, and the code converts between them
  freely (\<^verbatim>\<open>[]byte(s)\<close>, \<^verbatim>\<open>string(bz)\<close>).  A HOL character is exactly one byte, so both are
  modelled by the type \<open>bytes\<close>, a synonym of \<open>string\<close>.  Where the code tells a nil slice from an
  empty one the model uses an option.  Fixed-width integers are words, so that \<open>+\<close> wraps as in Go.

  The theory collects what every component shares: the type synonyms, the big-endian encoding of
  Go's encoding/binary package with its round trip and its order preservation, the lexicographic
  order of byte strings, and prefix facts used for store keys.
\<close>

type_synonym bytes = string
type_synonym u8 = "8 word"
type_synonym u32 = "32 word"
type_synonym u64 = "64 word"

text \<open>Facts about byte encodings, and facts about store keys.\<close>

named_theorems byte_enc
named_theorems key_facts

subsection \<open>Big-endian encoding (encoding/binary)\<close>

fun be :: "nat \<Rightarrow> nat \<Rightarrow> bytes" where
  "be 0 n = []"
| "be (Suc k) n = be k (n div 256) @ [char_of (n mod 256)]"

definition of_be :: "bytes \<Rightarrow> nat" where
  "of_be bz = foldl (\<lambda>acc c. 256 * acc + of_char c) 0 bz"

definition Uint64ToBigEndian :: "u64 \<Rightarrow> bytes" where
  "Uint64ToBigEndian i = be 8 (unat i)"

definition PutUint32 :: "u32 \<Rightarrow> bytes" where
  "PutUint32 i = be 4 (unat i)"

text \<open>binary.BigEndian.Uint64 reads the first eight bytes (a shorter slice panics in Go; callers
  check the length or pass a value written by \<open>Uint64ToBigEndian\<close>).\<close>

definition BigEndianUint64 :: "bytes \<Rightarrow> u64" where
  "BigEndianUint64 bz = of_nat (of_be (take 8 bz))"

definition BigEndianUint32 :: "bytes \<Rightarrow> u32" where
  "BigEndianUint32 bz = of_nat (of_be (take 4 bz))"

lemma length_be [simp]: "length (be k n) = k"
  by (induction k n rule: be.induct) auto

lemma of_be_append: "of_be (xs @ [c]) = 256 * of_be xs + of_char c"
  by (simp add: of_be_def)

lemma of_be_be [byte_enc]: "of_be (be k n) = n mod 256 ^ k"
proof (induction k n rule: be.induct)
  case (1 n)
  then show ?case by (simp add: of_be_def)
next
  case (2 k n)
  have "n mod 256 ^ Suc k = 256 * (n div 256 mod 256 ^ k) + n mod 256"
    by (simp add: mod_mult2_eq)
  then show ?case using 2 by (simp add: of_be_append)
qed

lemma of_char_less_256: "of_char c < (256 :: nat)"
  by (metis mod_less_divisor of_char_mod_256 zero_less_numeral)

lemma of_be_bound: "of_be bz < 256 ^ length bz"
proof (induction bz rule: rev_induct)
  case Nil
  then show ?case by (simp add: of_be_def)
next
  case (snoc c bz)
  have "of_char c < (256 :: nat)" by (rule of_char_less_256)
  moreover have "256 * of_be bz + 256 \<le> 256 * 256 ^ length bz"
    using snoc by (metis Suc_leI mult_Suc_right mult_le_mono2 add.commute)
  ultimately have "256 * of_be bz + of_char c < 256 * 256 ^ length bz" by linarith
  then show ?case by (simp add: of_be_append)
qed

lemma be_of_be [byte_enc]: "be (length bz) (of_be bz) = bz"
proof (induction bz rule: rev_induct)
  case Nil
  then show ?case by simp
next
  case (snoc c bz)
  have "of_char c < (256 :: nat)" by (rule of_char_less_256)
  then have "(256 * of_be bz + of_char c) div 256 = of_be bz"
    and "(256 * of_be bz + of_char c) mod 256 = (of_char c :: nat)" by simp_all
  then show ?case using snoc by (simp add: of_be_append)
qed

lemma be_inject: "n < 256 ^ k \<Longrightarrow> m < 256 ^ k \<Longrightarrow> be k n = be k m \<longleftrightarrow> n = m"
  by (metis of_be_be mod_less)

lemma char_of_0: "char_of (0 :: nat) = CHR 0x00"
  by code_simp

subsection \<open>The lexicographic order on byte strings\<close>

lemma less_append_same [simp]: "(xs @ ys < xs @ zs) = (ys < (zs :: bytes))"
  by (induction xs) auto

lemma less_snoc_same_length:
  "length xs = length ys \<Longrightarrow>
    (xs @ [a] < ys @ [b]) = (xs < ys \<or> xs = ys \<and> a < (b :: char))"
  by (induction xs ys rule: list_induct2) auto

lemma less_append_same_length:
  "length xs = length ys \<Longrightarrow>
    (xs @ us < ys @ vs) = (xs < ys \<or> xs = ys \<and> us < (vs :: bytes))"
  by (induction xs ys rule: list_induct2) auto

lemma char_of_less_iff: "(char_of m < char_of (n :: nat)) = (m mod 256 < n mod 256)"
  by (simp add: less_char_def)

lemma be_less_iff [byte_enc]:
  "n < 256 ^ k \<Longrightarrow> m < 256 ^ k \<Longrightarrow> (be k n < be k m) = (n < m)"
proof (induction k arbitrary: n m)
  case 0
  then show ?case by simp
next
  case (Suc k)
  have bn: "n div 256 < 256 ^ k" and bm: "m div 256 < 256 ^ k"
    using Suc.prems by (simp_all add: less_mult_imp_div_less mult.commute)
  have "(be (Suc k) n < be (Suc k) m) =
      (n div 256 < m div 256 \<or> n div 256 = m div 256 \<and> n mod 256 < m mod 256)"
    using Suc.IH [OF bn bm] be_inject [OF bn bm]
    by (simp add: less_snoc_same_length char_of_less_iff)
  also have "\<dots> = (n < m)"
  proof -
    have "n = 256 * (n div 256) + n mod 256" and "m = 256 * (m div 256) + m mod 256"
      by simp_all
    moreover have "n mod 256 < 256" and "m mod 256 < 256" by simp_all
    ultimately show ?thesis by linarith
  qed
  finally show ?case .
qed

subsection \<open>64-bit and 32-bit round trips\<close>

lemma unat_u64_bound: "unat (w :: u64) < 256 ^ 8"
  using unsigned_less [of w, where ?'a = nat] by simp

lemma unat_u32_bound: "unat (w :: u32) < 256 ^ 4"
  using unsigned_less [of w, where ?'a = nat] by simp

lemma Uint64ToBigEndian_not_Nil [simp]: "Uint64ToBigEndian i \<noteq> []"
  by (auto simp: Uint64ToBigEndian_def dest: arg_cong [where f = length])

lemma length_Uint64ToBigEndian [simp]: "length (Uint64ToBigEndian i) = 8"
  by (simp add: Uint64ToBigEndian_def)

lemma length_PutUint32 [simp]: "length (PutUint32 i) = 4"
  by (simp add: PutUint32_def)

lemma BigEndianUint64_inverse [simp]: "BigEndianUint64 (Uint64ToBigEndian i @ bz) = i"
  using unat_u64_bound [of i]
  by (simp add: BigEndianUint64_def Uint64ToBigEndian_def of_be_be)

lemma BigEndianUint64_inverse' [simp]: "BigEndianUint64 (Uint64ToBigEndian i) = i"
  using BigEndianUint64_inverse [of i "[]"] by simp

lemma BigEndianUint32_inverse [simp]: "BigEndianUint32 (PutUint32 i @ bz) = i"
  using unat_u32_bound [of i]
  by (simp add: BigEndianUint32_def PutUint32_def of_be_be)

lemma BigEndianUint32_inverse' [simp]: "BigEndianUint32 (PutUint32 i) = i"
  using BigEndianUint32_inverse [of i "[]"] by simp

lemma Uint64ToBigEndian_BigEndianUint64 [simp]:
  assumes "length bz = 8"
  shows "Uint64ToBigEndian (BigEndianUint64 bz) = bz"
proof -
  have "of_be bz < 2 ^ 64" using of_be_bound [of bz] assms by simp
  then have "unat (of_nat (of_be bz) :: u64) = of_be bz"
    by (simp add: unsigned_of_nat take_bit_eq_mod)
  then show ?thesis
    using be_of_be [of bz] assms by (simp add: BigEndianUint64_def Uint64ToBigEndian_def)
qed

lemma Uint64ToBigEndian_inject [simp]: "Uint64ToBigEndian i = Uint64ToBigEndian j \<longleftrightarrow> i = j"
  by (metis BigEndianUint64_inverse')

lemma PutUint32_inject [simp]: "PutUint32 i = PutUint32 j \<longleftrightarrow> i = j"
  by (metis BigEndianUint32_inverse')

lemma Uint64ToBigEndian_less_iff [byte_enc]:
  "(Uint64ToBigEndian i < Uint64ToBigEndian j) = (i < j)"
  using be_less_iff [OF unat_u64_bound [of i] unat_u64_bound [of j]]
  by (simp add: Uint64ToBigEndian_def word_less_nat_alt)

lemma unat_of_nat_u64 [simp]: "n < 2 ^ 64 \<Longrightarrow> unat (of_nat n :: u64) = n"
  by (simp add: unsigned_of_nat take_bit_eq_mod)

lemma unat_of_nat_u32 [simp]: "n < 2 ^ 32 \<Longrightarrow> unat (of_nat n :: u32) = n"
  by (simp add: unsigned_of_nat take_bit_eq_mod)

lemma of_nat_u64_inject: "n < 2 ^ 64 \<Longrightarrow> m < 2 ^ 64 \<Longrightarrow> (of_nat n :: u64) = of_nat m \<longleftrightarrow> n = m"
  by (metis unat_of_nat_u64)

lemma u64_less_succ:
  assumes "(w :: u64) \<noteq> - 1"
  shows "w < w + 1"
proof -
  have "unat w \<noteq> 2 ^ 64 - 1"
  proof
    assume "unat w = 2 ^ 64 - 1"
    then have "unat w = unat (- 1 :: u64)" by (simp add: unsigned_minus_1_eq_mask mask_eq_exp_minus_1)
    then show False using assms by (simp only: word_unat_eq_iff)
  qed
  then have "unat w + 1 < 2 ^ 64" using unat_u64_bound [of w] by simp
  then show ?thesis by (simp add: word_less_nat_alt unat_word_ariths)
qed

subsection \<open>Prefixes\<close>

lemma prefix_append_same_length:
  "length xs = length ys \<Longrightarrow> xs @ us = ys @ vs \<longleftrightarrow> xs = ys \<and> us = vs"
  by simp

lemma prefix_Cons_neq [key_facts]: "c \<noteq> d \<Longrightarrow> \<not> prefix (c # xs) (d # ys)"
  by simp

lemma prefix_append_iff_same_length:
  "length xs = length ys \<Longrightarrow> prefix (xs @ us) (ys @ vs) \<longleftrightarrow> xs = ys \<and> prefix us vs"
  by (induction xs ys rule: list_induct2) auto

lemma prefix_exD: "prefix p k \<Longrightarrow> k = p @ drop (length p) k"
  by (auto simp: prefix_def)

end
