(* ===== verification/GoMonad.thy ===== *)
theory GoMonad
  imports Prelude
begin

section \<open>Outcomes of Go functions\<close>

text \<open>
  A Go function of the keepers takes a mutable state (the multi-store, meters and event manager
  behind the context) and returns a value, returns an error, or panics.  The state keeps every
  change made before an error or a panic: undoing it is the work of a cache context or of the
  transaction runner, and is modelled where the code does it.  A computation is therefore a function
  from a state to an outcome and a state.

  Errors carry what the code can observe of them: the registered codespace and code (wrapping keeps
  them; \<^verbatim>\<open>errors.Is\<close> and \<^verbatim>\<open>ABCIInfo\<close> read them), the wasmvm error inside a
  \<^verbatim>\<open>WasmVMFlavouredError\<close>, the full text of a \<^verbatim>\<open>DeterministicError\<close>, a wasmvm system error,
  or a plain text.  Message texts of registered errors, which are only printed, are dropped.
\<close>

datatype vmerror =
    NoSuchContract bytes
  | NoSuchCode u64
  | OtherSystemError bytes

datatype gerror =
    Registered bytes nat
  | WasmVMFlavouredError bytes nat vmerror
  | DeterministicError bytes nat bytes
  | SystemError vmerror
  | PlainErr bytes

datatype gpanic =
    OutOfGasPanic bytes
  | OtherPanic bytes

datatype 'a outcome = Ok 'a | Err gerror | Panic gpanic

type_synonym ('s, 'a) go = "'s \<Rightarrow> 'a outcome \<times> 's"

named_theorems pres
named_theorems go_simps

definition retM :: "'a \<Rightarrow> ('s, 'a) go" where
  "retM x = (\<lambda>s. (Ok x, s))"

definition failM :: "gerror \<Rightarrow> ('s, 'a) go" where
  "failM e = (\<lambda>s. (Err e, s))"

definition panicM :: "gpanic \<Rightarrow> ('s, 'a) go" where
  "panicM p = (\<lambda>s. (Panic p, s))"

definition bindM :: "('s, 'a) go \<Rightarrow> ('a \<Rightarrow> ('s, 'b) go) \<Rightarrow> ('s, 'b) go" where
  "bindM m f = (\<lambda>s. case m s of
      (Ok x, s') \<Rightarrow> f x s'
    | (Err e, s') \<Rightarrow> (Err e, s')
    | (Panic p, s') \<Rightarrow> (Panic p, s'))"

definition thenM :: "('s, unit) go \<Rightarrow> ('s, 'b) go \<Rightarrow> ('s, 'b) go" where
  "thenM m n = bindM m (\<lambda>_. n)"

definition getsM :: "('s \<Rightarrow> 'a) \<Rightarrow> ('s, 'a) go" where
  "getsM f = (\<lambda>s. (Ok (f s), s))"

definition modifyM :: "('s \<Rightarrow> 's) \<Rightarrow> ('s, unit) go" where
  "modifyM f = (\<lambda>s. (Ok (), f s))"

text \<open>\<open>guardM b e\<close> is the early return \<^verbatim>\<open>if !b { return e }\<close>.\<close>

definition guardM :: "bool \<Rightarrow> gerror \<Rightarrow> ('s, unit) go" where
  "guardM b e = (if b then retM () else failM e)"

text \<open>\<open>liftO\<close> runs a call that changes no state; \<open>wrapM\<close> replaces the error, as a
  \<^verbatim>\<open>Wrap\<close> of a different root error does; \<open>tryM\<close> hands the error to the caller as a value,
  the way Go does with a second result.\<close>

definition liftO :: "'a outcome \<Rightarrow> ('s, 'a) go" where
  "liftO r = (\<lambda>s. (r, s))"

definition wrapM :: "(gerror \<Rightarrow> gerror) \<Rightarrow> ('s, 'a) go \<Rightarrow> ('s, 'a) go" where
  "wrapM w m = (\<lambda>s. case m s of (Err e, s') \<Rightarrow> (Err (w e), s') | r \<Rightarrow> r)"

definition tryM :: "('s, 'a) go \<Rightarrow> ('s, gerror + 'a) go" where
  "tryM m = (\<lambda>s. case m s of
      (Ok x, s') \<Rightarrow> (Ok (Inr x), s')
    | (Err e, s') \<Rightarrow> (Ok (Inl e), s')
    | (Panic p, s') \<Rightarrow> (Panic p, s'))"

fun forM :: "'a list \<Rightarrow> ('a \<Rightarrow> ('s, unit) go) \<Rightarrow> ('s, unit) go" where
  "forM [] f = retM ()"
| "forM (x # xs) f = thenM (f x) (forM xs f)"

subsection \<open>Evaluation\<close>

lemma bindM_Ok [simp]: "m s = (Ok x, s') \<Longrightarrow> bindM m f s = f x s'"
  by (simp add: bindM_def)

lemma bindM_Err [simp]: "m s = (Err e, s') \<Longrightarrow> bindM m f s = (Err e, s')"
  by (simp add: bindM_def)

lemma bindM_Panic [simp]: "m s = (Panic p, s') \<Longrightarrow> bindM m f s = (Panic p, s')"
  by (simp add: bindM_def)

lemma bindM_retM [simp]: "bindM (retM x) f = f x"
  by (simp add: bindM_def retM_def)

lemma bindM_failM [simp]: "bindM (failM e) f = failM e"
  by (simp add: bindM_def failM_def)

lemma bindM_panicM [simp]: "bindM (panicM p) f = panicM p"
  by (simp add: bindM_def panicM_def)

lemma bindM_assoc: "bindM (bindM m f) g = bindM m (\<lambda>x. bindM (f x) g)"
  by (rule ext) (auto simp: bindM_def split: prod.splits outcome.splits)

lemma bindM_Ok_iff:
  "bindM m f s = (Ok y, t) \<longleftrightarrow> (\<exists>x s'. m s = (Ok x, s') \<and> f x s' = (Ok y, t))"
  by (auto simp: bindM_def split: prod.splits outcome.splits)

lemma thenM_Ok_iff:
  "thenM m n s = (Ok y, t) \<longleftrightarrow> (\<exists>s'. m s = (Ok (), s') \<and> n s' = (Ok y, t))"
  by (simp add: thenM_def bindM_Ok_iff)

lemma retM_Ok_iff [simp]: "retM x s = (Ok y, t) \<longleftrightarrow> y = x \<and> t = s"
  by (auto simp: retM_def)

lemma failM_not_Ok [simp]: "failM e s \<noteq> (Ok y, t)"
  by (simp add: failM_def)

lemma panicM_not_Ok [simp]: "panicM p s \<noteq> (Ok y, t)"
  by (simp add: panicM_def)

lemma getsM_Ok_iff [simp]: "getsM f s = (Ok y, t) \<longleftrightarrow> y = f s \<and> t = s"
  by (auto simp: getsM_def)

lemma modifyM_Ok_iff [simp]: "modifyM f s = (Ok y, t) \<longleftrightarrow> t = f s"
  by (auto simp: modifyM_def)

lemma guardM_Ok_iff [simp]: "guardM b e s = (Ok y, t) \<longleftrightarrow> b \<and> t = s"
  by (simp add: guardM_def)

lemma liftO_Ok_iff [simp]: "liftO r s = (Ok y, t) \<longleftrightarrow> r = Ok y \<and> t = s"
  by (auto simp: liftO_def)

lemma wrapM_Ok_iff [simp]: "wrapM w m s = (Ok y, t) \<longleftrightarrow> m s = (Ok y, t)"
  by (auto simp: wrapM_def split: prod.splits outcome.splits)

lemma tryM_Ok_iff:
  "tryM m s = (Ok y, t) \<longleftrightarrow>
    (case y of Inr x \<Rightarrow> m s = (Ok x, t) | Inl e \<Rightarrow> m s = (Err e, t))"
  by (auto simp: tryM_def split: prod.splits outcome.splits sum.splits)

lemmas go_Ok_iff = bindM_Ok_iff thenM_Ok_iff retM_Ok_iff getsM_Ok_iff modifyM_Ok_iff
  guardM_Ok_iff liftO_Ok_iff wrapM_Ok_iff

lemmas go_defs = retM_def failM_def panicM_def bindM_def thenM_def getsM_def modifyM_def
  guardM_def liftO_def wrapM_def tryM_def

subsection \<open>Step-by-step evaluation\<close>

text \<open>Evaluating a closed computation with the simplifier: the congruence rules \<open>go_frozen\<close> keep it
  from rewriting inside a continuation before its argument is known.\<close>

lemma bindM_step: "bindM m f s = (case m s of
    (Ok x, s') \<Rightarrow> f x s' | (Err e, s') \<Rightarrow> (Err e, s') | (Panic p, s') \<Rightarrow> (Panic p, s'))"
  by (simp add: bindM_def)

lemma thenM_step: "thenM m n s = (case m s of
    (Ok x, s') \<Rightarrow> n s' | (Err e, s') \<Rightarrow> (Err e, s') | (Panic p, s') \<Rightarrow> (Panic p, s'))"
  by (simp add: thenM_def bindM_def)

lemma wrapM_step: "wrapM w m s = (case m s of (Err e, s') \<Rightarrow> (Err (w e), s') | r \<Rightarrow> r)"
  by (simp add: wrapM_def)

lemma tryM_step: "tryM m s = (case m s of
    (Ok x, s') \<Rightarrow> (Ok (Inr x), s') | (Err e, s') \<Rightarrow> (Ok (Inl e), s') | (Panic p, s') \<Rightarrow> (Panic p, s'))"
  by (simp add: tryM_def)

lemma bindM_frozen: "s = s' \<Longrightarrow> bindM m f s = bindM m f s'"
  by simp

lemma thenM_frozen: "s = s' \<Longrightarrow> thenM m n s = thenM m n s'"
  by simp

lemma wrapM_frozen: "s = s' \<Longrightarrow> wrapM w m s = wrapM w m s'"
  by simp

lemma tryM_frozen: "s = s' \<Longrightarrow> tryM m s = tryM m s'"
  by simp

lemmas go_step = bindM_step thenM_step wrapM_step tryM_step retM_def failM_def panicM_def getsM_def
  modifyM_def guardM_def liftO_def

lemmas go_frozen = bindM_frozen thenM_frozen wrapM_frozen tryM_frozen

subsection \<open>Invariants of computations\<close>

text \<open>\<open>preserves P m\<close>: whatever the outcome of \<open>m\<close>, error and panic included, \<open>P\<close> is kept.\<close>

definition preserves :: "('s \<Rightarrow> bool) \<Rightarrow> ('s, 'a) go \<Rightarrow> bool" where
  "preserves P m = (\<forall>s. P s \<longrightarrow> P (snd (m s)))"

lemma preservesI: "(\<And>s. P s \<Longrightarrow> P (snd (m s))) \<Longrightarrow> preserves P m"
  by (simp add: preserves_def)

lemma preservesD: "preserves P m \<Longrightarrow> m s = (r, t) \<Longrightarrow> P s \<Longrightarrow> P t"
  by (metis preserves_def snd_conv)

lemma preserves_retM [pres]: "preserves P (retM x)"
  by (simp add: preserves_def retM_def)

lemma preserves_failM [pres]: "preserves P (failM e)"
  by (simp add: preserves_def failM_def)

lemma preserves_panicM [pres]: "preserves P (panicM p)"
  by (simp add: preserves_def panicM_def)

lemma preserves_getsM [pres]: "preserves P (getsM f)"
  by (simp add: preserves_def getsM_def)

lemma preserves_guardM [pres]: "preserves P (guardM b e)"
  by (simp add: preserves_def guardM_def retM_def failM_def)

lemma preserves_liftO [pres]: "preserves P (liftO r)"
  by (simp add: preserves_def liftO_def)

lemma preserves_modifyM: "(\<And>s. P s \<Longrightarrow> P (f s)) \<Longrightarrow> preserves P (modifyM f)"
  by (simp add: preserves_def modifyM_def)

lemma preserves_bindM [pres]:
  "preserves P m \<Longrightarrow> (\<And>x. preserves P (f x)) \<Longrightarrow> preserves P (bindM m f)"
  unfolding preserves_def bindM_def by (auto split: prod.splits outcome.splits)

lemma preserves_thenM [pres]:
  "preserves P m \<Longrightarrow> preserves P n \<Longrightarrow> preserves P (thenM m n)"
  by (simp add: thenM_def preserves_bindM)

lemma preserves_wrapM [pres]: "preserves P m \<Longrightarrow> preserves P (wrapM w m)"
  unfolding preserves_def wrapM_def by (auto split: prod.splits outcome.splits)

lemma preserves_tryM [pres]: "preserves P m \<Longrightarrow> preserves P (tryM m)"
  unfolding preserves_def tryM_def by (auto split: prod.splits outcome.splits)

lemma preserves_If [pres]:
  "(b \<Longrightarrow> preserves P m) \<Longrightarrow> (\<not> b \<Longrightarrow> preserves P n) \<Longrightarrow> preserves P (if b then m else n)"
  by simp

lemma preserves_case_option [pres]:
  "preserves P m \<Longrightarrow> (\<And>x. preserves P (f x)) \<Longrightarrow>
    preserves P (case opt of None \<Rightarrow> m | Some x \<Rightarrow> f x)"
  by (cases opt) simp_all

lemma preserves_forM [pres]: "(\<And>x. x \<in> set xs \<Longrightarrow> preserves P (f x)) \<Longrightarrow> preserves P (forM xs f)"
  by (induction xs) (auto intro: pres)

text \<open>\<open>keeps P m\<close>: when \<open>m\<close> succeeds, \<open>P\<close> is kept.  An operation that writes several entries keeps
  an invariant in this sense only; a failed operation is rolled back by its caller.\<close>

definition keeps :: "('s \<Rightarrow> bool) \<Rightarrow> ('s, 'a) go \<Rightarrow> bool" where
  "keeps P m = (\<forall>s x t. P s \<longrightarrow> m s = (Ok x, t) \<longrightarrow> P t)"

named_theorems kept

lemma keepsI: "(\<And>s x t. P s \<Longrightarrow> m s = (Ok x, t) \<Longrightarrow> P t) \<Longrightarrow> keeps P m"
  by (simp add: keeps_def)

lemma keepsD: "keeps P m \<Longrightarrow> m s = (Ok x, t) \<Longrightarrow> P s \<Longrightarrow> P t"
  by (simp add: keeps_def)

lemma preserves_keeps: "preserves P m \<Longrightarrow> keeps P m"
  by (metis keepsI preservesD)

lemma keeps_simple [kept]:
  "keeps P (retM x)" "keeps P (failM e)" "keeps P (panicM p)" "keeps P (getsM f)"
  "keeps P (guardM b e)" "keeps P (liftO r)"
  by (auto intro!: keepsI simp: guardM_def split: if_splits)

lemma keeps_bindM [kept]: "keeps P m \<Longrightarrow> (\<And>x. keeps P (f x)) \<Longrightarrow> keeps P (bindM m f)"
  unfolding keeps_def bindM_Ok_iff by blast

lemma keeps_thenM [kept]: "keeps P m \<Longrightarrow> keeps P n \<Longrightarrow> keeps P (thenM m n)"
  by (simp add: thenM_def keeps_bindM)

lemma keeps_wrapM [kept]: "keeps P m \<Longrightarrow> keeps P (wrapM w m)"
  by (simp add: keeps_def)

lemma keeps_If [kept]:
  "(b \<Longrightarrow> keeps P m) \<Longrightarrow> (\<not> b \<Longrightarrow> keeps P n) \<Longrightarrow> keeps P (if b then m else n)"
  by simp

lemma keeps_case_option [kept]:
  "(opt = None \<Longrightarrow> keeps P m) \<Longrightarrow> (\<And>x. opt = Some x \<Longrightarrow> keeps P (f x)) \<Longrightarrow>
    keeps P (case opt of None \<Rightarrow> m | Some x \<Rightarrow> f x)"
  by (cases opt) simp_all

lemma keeps_case_prod [kept]:
  "(\<And>x y. p = (x, y) \<Longrightarrow> keeps P (f x y)) \<Longrightarrow> keeps P (case p of (x, y) \<Rightarrow> f x y)"
  by (cases p) simp

lemma preserves_case_prod [pres]:
  "(\<And>x y. p = (x, y) \<Longrightarrow> preserves P (f x y)) \<Longrightarrow> preserves P (case p of (x, y) \<Rightarrow> f x y)"
  by (cases p) simp

lemma keeps_forM [kept]: "(\<And>x. x \<in> set xs \<Longrightarrow> keeps P (f x)) \<Longrightarrow> keeps P (forM xs f)"
  by (induction xs) (auto intro: kept)

text \<open>\<open>triple P m Q\<close>: started in \<open>P\<close>, a success of \<open>m\<close> with result \<open>x\<close> ends in \<open>Q x\<close>.\<close>

definition triple :: "('s \<Rightarrow> bool) \<Rightarrow> ('s, 'a) go \<Rightarrow> ('a \<Rightarrow> 's \<Rightarrow> bool) \<Rightarrow> bool" where
  "triple P m Q = (\<forall>s x t. P s \<longrightarrow> m s = (Ok x, t) \<longrightarrow> Q x t)"

lemma tripleI: "(\<And>s x t. P s \<Longrightarrow> m s = (Ok x, t) \<Longrightarrow> Q x t) \<Longrightarrow> triple P m Q"
  by (simp add: triple_def)

lemma tripleD: "triple P m Q \<Longrightarrow> m s = (Ok x, t) \<Longrightarrow> P s \<Longrightarrow> Q x t"
  by (simp add: triple_def)

lemma keeps_triple: "keeps P m \<longleftrightarrow> triple P m (\<lambda>_. P)"
  by (simp add: keeps_def triple_def)

lemma triple_bindM:
  "triple P m R \<Longrightarrow> (\<And>x. triple (R x) (f x) Q) \<Longrightarrow> triple P (bindM m f) Q"
  unfolding triple_def bindM_Ok_iff by blast

lemma triple_thenM: "triple P m (\<lambda>_. R) \<Longrightarrow> triple R n Q \<Longrightarrow> triple P (thenM m n) Q"
  unfolding thenM_def by (rule triple_bindM)

text \<open>Steps that keep the precondition, as they occur in front of the step that matters.\<close>

lemma triple_bind_keep:
  "preserves P m \<Longrightarrow> (\<And>x. triple P (f x) Q) \<Longrightarrow> triple P (bindM m f) Q"
  using preserves_keeps triple_bindM unfolding keeps_triple by blast

lemma triple_then_keep: "preserves P m \<Longrightarrow> triple P n Q \<Longrightarrow> triple P (thenM m n) Q"
  using preserves_keeps triple_thenM unfolding keeps_triple by blast

lemma triple_fail: "triple P (failM e) Q" "triple P (panicM p) Q"
  by (simp_all add: triple_def)

lemma triple_If:
  "(b \<Longrightarrow> triple P m Q) \<Longrightarrow> (\<not> b \<Longrightarrow> triple P n Q) \<Longrightarrow> triple P (if b then m else n) Q"
  by simp

lemma triple_case_option:
  "(opt = None \<Longrightarrow> triple P m Q) \<Longrightarrow> (\<And>x. opt = Some x \<Longrightarrow> triple P (f x) Q) \<Longrightarrow>
    triple P (case opt of None \<Rightarrow> m | Some x \<Rightarrow> f x) Q"
  by (cases opt) simp_all

lemma triple_weaken: "triple P m Q \<Longrightarrow> (\<And>s. P' s \<Longrightarrow> P s) \<Longrightarrow> (\<And>x s. Q x s \<Longrightarrow> Q' x s) \<Longrightarrow> triple P' m Q'"
  unfolding triple_def by blast

lemma triple_wrapM: "triple P m Q \<Longrightarrow> triple P (wrapM w m) Q"
  by (simp add: triple_def)

lemma triple_retM: "(\<And>s. P s \<Longrightarrow> Q x s) \<Longrightarrow> triple P (retM x) Q"
  by (simp add: triple_def)

lemma triple_pure: "(C \<Longrightarrow> triple P m Q) \<Longrightarrow> triple (\<lambda>s. P s \<and> C) m Q"
  unfolding triple_def by blast

end
