(* ===== verification/Types.thy ===== *)
theory Types
  imports GoMonad
begin

section \<open>Data types of x/wasm\<close>

text \<open>
  The protobuf messages of x/wasm that the keeper stores, their constructors and the registered
  errors (src/x/wasm/types: types.go, errors.go and the struct declarations of types.pb.go).  A Go
  pointer field is an option.  \<^verbatim>\<open>Extension\<close> is an opaque protobuf Any.  An enum field can hold a
  number outside the enumeration when it comes from the wire, so each enum has such a case.
\<close>

type_synonym AccAddress = bytes

subsection \<open>Registered errors\<close>

definition wasmErr :: "nat \<Rightarrow> gerror" where
  "wasmErr n = Registered ''wasm'' n"

definition sdkErr :: "nat \<Rightarrow> gerror" where
  "sdkErr n = Registered ''sdk'' n"

abbreviation "ErrCreateFailed \<equiv> wasmErr 2"
abbreviation "ErrAccountExists \<equiv> wasmErr 3"
abbreviation "ErrInstantiateFailed \<equiv> wasmErr 4"
abbreviation "ErrExecuteFailed \<equiv> wasmErr 5"
abbreviation "ErrGasLimit \<equiv> wasmErr 6"
abbreviation "ErrInvalidGenesis \<equiv> wasmErr 7"
abbreviation "ErrNotFound \<equiv> wasmErr 8"
abbreviation "ErrQueryFailed \<equiv> wasmErr 9"
abbreviation "ErrInvalidMsg \<equiv> wasmErr 10"
abbreviation "ErrMigrationFailed \<equiv> wasmErr 11"
abbreviation "ErrEmpty \<equiv> wasmErr 12"
abbreviation "ErrLimit \<equiv> wasmErr 13"
abbreviation "ErrInvalid \<equiv> wasmErr 14"
abbreviation "ErrDuplicate \<equiv> wasmErr 15"
abbreviation "ErrMaxIBCChannels \<equiv> wasmErr 16"
abbreviation "ErrUnsupportedForContract \<equiv> wasmErr 17"
abbreviation "ErrPinContractFailed \<equiv> wasmErr 18"
abbreviation "ErrUnpinContractFailed \<equiv> wasmErr 19"
abbreviation "ErrUnknownMsg \<equiv> wasmErr 20"
abbreviation "ErrInvalidEvent \<equiv> wasmErr 21"
abbreviation "ErrExceedMaxQueryStackSize \<equiv> wasmErr 27"
abbreviation "ErrVMError \<equiv> wasmErr 29"
abbreviation "ErrExceedMaxCallDepth \<equiv> wasmErr 30"
abbreviation "ErrSetGaslessFailed \<equiv> wasmErr 40"
abbreviation "ErrUnsetGaslessFailed \<equiv> wasmErr 41"

definition ErrNoSuchContractFn :: "bytes \<Rightarrow> gerror" where
  "ErrNoSuchContractFn addr = WasmVMFlavouredError ''wasm'' 22 (NoSuchContract addr)"

definition ErrNoSuchCodeFn :: "u64 \<Rightarrow> gerror" where
  "ErrNoSuchCodeFn i = WasmVMFlavouredError ''wasm'' 28 (NoSuchCode i)"

text \<open>Registered errors of the SDK the code returns (codespace sdk).\<close>

abbreviation "ErrUnauthorized \<equiv> sdkErr 4"
abbreviation "ErrInsufficientFunds \<equiv> sdkErr 5"
abbreviation "ErrInvalidAddress \<equiv> sdkErr 7"
abbreviation "ErrInvalidCoins \<equiv> sdkErr 10"
abbreviation "ErrOutOfGas \<equiv> sdkErr 11"
abbreviation "ErrInvalidRequest \<equiv> sdkErr 18"
abbreviation "ErrInvalidType \<equiv> sdkErr 29"
abbreviation "ErrPackAny \<equiv> sdkErr 33"
abbreviation "ErrLogic \<equiv> sdkErr 35"
abbreviation "ErrNotSupported \<equiv> sdkErr 37"

text \<open>\<^verbatim>\<open>errorsmod.Wrap\<close> keeps the root error; only an unwrapped \<^verbatim>\<open>DeterministicError\<close> or system
  error is recognised by the type assertions of the code.\<close>

fun errWrap :: "gerror \<Rightarrow> gerror" where
  "errWrap (DeterministicError cs c _) = Registered cs c"
| "errWrap (SystemError _) = PlainErr ''wrapped system error''"
| "errWrap e = e"

subsection \<open>Positions in the chain\<close>

record AbsoluteTxPosition =
  BlockHeight :: u64
  TxIndex :: u64

definition AbsoluteTxPositionLen :: nat where
  "AbsoluteTxPositionLen = 16"

fun LessThan :: "AbsoluteTxPosition option \<Rightarrow> AbsoluteTxPosition option \<Rightarrow> bool" where
  "LessThan None _ = True"
| "LessThan (Some a) None = False"
| "LessThan (Some a) (Some b) =
    (BlockHeight a < BlockHeight b \<or> BlockHeight a = BlockHeight b \<and> TxIndex a < TxIndex b)"

definition posBytes :: "AbsoluteTxPosition \<Rightarrow> bytes" where
  "posBytes a = Uint64ToBigEndian (BlockHeight a) @ Uint64ToBigEndian (TxIndex a)"

fun PositionBytes :: "AbsoluteTxPosition option \<Rightarrow> bytes outcome" where
  "PositionBytes None = Panic (OtherPanic ''object must not be nil'')"
| "PositionBytes (Some a) = Ok (posBytes a)"

text \<open>The context gives the block height (a signed 64-bit number) and, when a block gas meter is
  set, the block gas consumed so far.\<close>

definition NewAbsoluteTxPosition :: "int \<Rightarrow> u64 option \<Rightarrow> AbsoluteTxPosition outcome" where
  "NewAbsoluteTxPosition height blockGas =
    (let index = (case blockGas of None \<Rightarrow> 0 | Some g \<Rightarrow> g) in
     if height < 0 then Panic (OtherPanic ''unsupported height'')
     else Ok \<lparr>BlockHeight = word_of_int height, TxIndex = index\<rparr>)"

subsection \<open>Stored messages\<close>

datatype AccessType =
    AccessTypeUnspecified
  | AccessTypeNobody
  | AccessTypeEverybody
  | AccessTypeAnyOfAddresses
  | AccessTypeUnknown int

record AccessConfig =
  Permission :: AccessType
  Addresses :: "bytes list"

record Params =
  CodeUploadAccess :: AccessConfig
  InstantiateDefaultPermission :: AccessType

record CodeInfo =
  CodeHash :: bytes
  CodeCreator :: bytes
  InstantiateConfig :: AccessConfig

record ContractInfo =
  CodeID :: u64
  Creator :: bytes
  Admin :: bytes
  Label :: bytes
  Created :: "AbsoluteTxPosition option"
  IBCPortID :: bytes
  Extension :: "bytes option"

datatype ContractCodeHistoryOperationType =
    ContractCodeHistoryOperationTypeUnspecified
  | ContractCodeHistoryOperationTypeInit
  | ContractCodeHistoryOperationTypeMigrate
  | ContractCodeHistoryOperationTypeGenesis
  | ContractCodeHistoryOperationTypeUnknown int

record ContractCodeHistoryEntry =
  Operation :: ContractCodeHistoryOperationType
  HistCodeID :: u64
  Updated :: "AbsoluteTxPosition option"
  HistMsg :: bytes

record Model =
  ModelKey :: bytes
  ModelValue :: bytes

definition NewCodeInfo :: "(AccAddress \<Rightarrow> bytes) \<Rightarrow> bytes \<Rightarrow> AccAddress \<Rightarrow> AccessConfig \<Rightarrow> CodeInfo" where
  "NewCodeInfo accString codeHash creator instantiatePermission =
    \<lparr>CodeHash = codeHash, CodeCreator = accString creator,
     InstantiateConfig = instantiatePermission\<rparr>"

text \<open>A nil or empty admin address leaves the admin field empty.\<close>

definition NewContractInfo ::
  "(AccAddress \<Rightarrow> bytes) \<Rightarrow> u64 \<Rightarrow> AccAddress \<Rightarrow> AccAddress \<Rightarrow> bytes \<Rightarrow> AbsoluteTxPosition option
    \<Rightarrow> ContractInfo" where
  "NewContractInfo accString codeID creator admin label createdAt =
    \<lparr>CodeID = codeID, Creator = accString creator,
     Admin = (if admin \<noteq> [] then accString admin else ''''),
     Label = label, Created = createdAt, IBCPortID = '''', Extension = None\<rparr>"

definition InitialHistory :: "ContractInfo \<Rightarrow> bytes \<Rightarrow> ContractCodeHistoryEntry" where
  "InitialHistory c initMsg =
    \<lparr>Operation = ContractCodeHistoryOperationTypeInit, HistCodeID = CodeID c,
     Updated = Created c, HistMsg = initMsg\<rparr>"

definition AddMigration ::
  "AbsoluteTxPosition \<Rightarrow> u64 \<Rightarrow> bytes \<Rightarrow> ContractInfo \<Rightarrow> ContractCodeHistoryEntry \<times> ContractInfo" where
  "AddMigration pos codeID msg c =
    (\<lparr>Operation = ContractCodeHistoryOperationTypeMigrate, HistCodeID = codeID,
      Updated = Some pos, HistMsg = msg\<rparr>,
     c\<lparr>CodeID := codeID\<rparr>)"

text \<open>The admin address, or nil when the field is empty; an undecodable field panics.\<close>

definition AdminAddr ::
  "(bytes \<Rightarrow> AccAddress outcome) \<Rightarrow> ContractInfo \<Rightarrow> AccAddress option outcome" where
  "AdminAddr fromBech32 c =
    (if Admin c = '''' then Ok None
     else case fromBech32 (Admin c) of
        Ok a \<Rightarrow> Ok (Some a)
      | Err _ \<Rightarrow> Panic (OtherPanic ''admin address'')
      | Panic p \<Rightarrow> Panic p)"

subsection \<open>Facts\<close>

lemma length_posBytes [simp]: "length (posBytes a) = 16"
  by (simp add: posBytes_def)

lemma posBytes_inject [simp]: "posBytes a = posBytes b \<longleftrightarrow> a = b"
  by (auto simp: posBytes_def AbsoluteTxPosition.equality)

lemma posBytes_less_iff [byte_enc]: "posBytes a < posBytes b \<longleftrightarrow> LessThan (Some a) (Some b)"
  by (simp add: posBytes_def less_append_same_length Uint64ToBigEndian_less_iff)

lemma errWrap_Registered [simp]: "errWrap (wasmErr n) = wasmErr n" "errWrap (sdkErr n) = sdkErr n"
  by (simp_all add: wasmErr_def sdkErr_def)

end
