(* ===== verification/GoStd.thy ===== *)
theory GoStd
  imports Prelude
begin

section \<open>The parts of Go's standard library the code relies on\<close>

text \<open>
  \<^item> \<open>json_Valid\<close> is \<^verbatim>\<open>encoding/json.Valid\<close>: the byte-driven scanner with its step states and its
    stack of parse states, and the nesting limit of 10000.
  \<^item> \<open>DecodeRune\<close> is \<^verbatim>\<open>unicode/utf8.DecodeRune\<close>: the rune and its width, the replacement rune of
    width one on a malformed byte.
  \<^item> \<open>TrimSpace\<close>, \<open>splitOn\<close> (\<^verbatim>\<open>strings.Split\<close> at a one-byte separator), \<open>joinWith\<close>
    (\<^verbatim>\<open>strings.Join\<close>) and \<open>ToUpperASCII\<close> are functions of \<^verbatim>\<open>strings\<close>.  The last one covers
    ASCII input; the code calls it on accepted bech32 strings only, which are ASCII.
\<close>

subsection \<open>Bytes\<close>

definition byte :: "char \<Rightarrow> nat" where
  "byte c = of_char c"

definition isDigit :: "char \<Rightarrow> bool" where
  "isDigit c = (48 \<le> byte c \<and> byte c \<le> 57)"

definition isHex :: "char \<Rightarrow> bool" where
  "isHex c = (isDigit c \<or> 97 \<le> byte c \<and> byte c \<le> 102 \<or> 65 \<le> byte c \<and> byte c \<le> 70)"

definition toUpperByte :: "char \<Rightarrow> char" where
  "toUpperByte c = (if 97 \<le> byte c \<and> byte c \<le> 122 then char_of (byte c - 32) else c)"

definition ToUpperASCII :: "bytes \<Rightarrow> bytes" where
  "ToUpperASCII s = map toUpperByte s"

text \<open>\<^verbatim>\<open>hex.EncodeToString\<close> and the decimal printing of \<^verbatim>\<open>strconv\<close>.\<close>

definition hexDigit :: "nat \<Rightarrow> char" where
  "hexDigit n = (if n < 10 then char_of (48 + n) else char_of (87 + n))"

definition hexEncode :: "bytes \<Rightarrow> bytes" where
  "hexEncode bz = concat (map (\<lambda>c. [hexDigit (byte c div 16), hexDigit (byte c mod 16)]) bz)"

fun formatNat :: "nat \<Rightarrow> bytes" where
  "formatNat n = (if n < 10 then [char_of (48 + n)]
     else formatNat (n div 10) @ [char_of (48 + n mod 10)])"

declare formatNat.simps [simp del]

definition formatInt :: "int \<Rightarrow> bytes" where
  "formatInt i = (if i < 0 then CHR ''-'' # formatNat (nat (- i)) else formatNat (nat i))"

subsection \<open>encoding/json.Valid\<close>

datatype json_parse = ParseObjectKey | ParseObjectValue | ParseArrayValue

datatype json_step =
    BeginValueOrEmpty | BeginValue | BeginStringOrEmpty | BeginString | EndValue | EndTop
  | InString | InStringEsc | InStringEscU nat
  | Neg | Digits1 | Digit0 | Dot | Dot0 | ExpE | ExpSign | ExpE0
  | Literal bytes

definition json_space :: "char \<Rightarrow> bool" where
  "json_space c = (byte c \<in> {32, 9, 13, 10})"

definition maxNestingDepth :: nat where
  "maxNestingDepth = 10000"

type_synonym json_scanner = "json_step \<times> json_parse list"

definition pushParseState :: "json_step \<Rightarrow> json_parse \<Rightarrow> json_parse list \<Rightarrow> json_scanner option" where
  "pushParseState step p ps = (if length ps < maxNestingDepth then Some (step, p # ps) else None)"

definition popParseState :: "json_parse list \<Rightarrow> json_scanner" where
  "popParseState ps = (case tl ps of [] \<Rightarrow> (EndTop, []) | qs \<Rightarrow> (EndValue, qs))"

definition stateBeginValue :: "char \<Rightarrow> json_parse list \<Rightarrow> json_scanner option" where
  "stateBeginValue c ps =
    (if json_space c then Some (BeginValue, ps)
     else if c = CHR ''{'' then pushParseState BeginStringOrEmpty ParseObjectKey ps
     else if c = CHR ''['' then pushParseState BeginValueOrEmpty ParseArrayValue ps
     else if byte c = 34 then Some (InString, ps)
     else if c = CHR ''-'' then Some (Neg, ps)
     else if c = CHR ''0'' then Some (Digit0, ps)
     else if c = CHR ''t'' then Some (Literal ''rue'', ps)
     else if c = CHR ''f'' then Some (Literal ''alse'', ps)
     else if c = CHR ''n'' then Some (Literal ''ull'', ps)
     else if isDigit c then Some (Digits1, ps)
     else None)"

definition stateBeginString :: "char \<Rightarrow> json_parse list \<Rightarrow> json_scanner option" where
  "stateBeginString c ps =
    (if json_space c then Some (BeginString, ps)
     else if byte c = 34 then Some (InString, ps)
     else None)"

definition stateEndValue :: "char \<Rightarrow> json_parse list \<Rightarrow> json_scanner option" where
  "stateEndValue c ps =
    (case ps of
       [] \<Rightarrow> if json_space c then Some (EndTop, []) else None
     | p # qs \<Rightarrow>
        if json_space c then Some (EndValue, ps)
        else (case p of
            ParseObjectKey \<Rightarrow>
              if c = CHR '':'' then Some (BeginValue, ParseObjectValue # qs) else None
          | ParseObjectValue \<Rightarrow>
              if c = CHR '','' then Some (BeginString, ParseObjectKey # qs)
              else if c = CHR ''}'' then Some (popParseState ps) else None
          | ParseArrayValue \<Rightarrow>
              if c = CHR '','' then Some (BeginValue, ps)
              else if c = CHR '']'' then Some (popParseState ps) else None))"

definition state0 :: "char \<Rightarrow> json_parse list \<Rightarrow> json_scanner option" where
  "state0 c ps =
    (if c = CHR ''.'' then Some (Dot, ps)
     else if c = CHR ''e'' \<or> c = CHR ''E'' then Some (ExpE, ps)
     else stateEndValue c ps)"

fun json_stepf :: "char \<Rightarrow> json_scanner \<Rightarrow> json_scanner option" where
  "json_stepf c (BeginValueOrEmpty, ps) =
    (if json_space c then Some (BeginValueOrEmpty, ps)
     else if c = CHR '']'' then stateEndValue c ps else stateBeginValue c ps)"
| "json_stepf c (BeginValue, ps) = stateBeginValue c ps"
| "json_stepf c (BeginStringOrEmpty, ps) =
    (if json_space c then Some (BeginStringOrEmpty, ps)
     else if c = CHR ''}'' then stateEndValue c (ParseObjectValue # tl ps)
     else stateBeginString c ps)"
| "json_stepf c (BeginString, ps) = stateBeginString c ps"
| "json_stepf c (EndValue, ps) = stateEndValue c ps"
| "json_stepf c (EndTop, ps) = (if json_space c then Some (EndTop, ps) else None)"
| "json_stepf c (InString, ps) =
    (if byte c = 34 then Some (EndValue, ps)
     else if byte c = 92 then Some (InStringEsc, ps)
     else if byte c < 32 then None else Some (InString, ps))"
| "json_stepf c (InStringEsc, ps) =
    (if c \<in> set ''bfnrt/'' \<or> byte c = 92 \<or> byte c = 34 then Some (InString, ps)
     else if c = CHR ''u'' then Some (InStringEscU 3, ps) else None)"
| "json_stepf c (InStringEscU n, ps) =
    (if isHex c then Some (case n of 0 \<Rightarrow> InString | Suc m \<Rightarrow> InStringEscU m, ps) else None)"
| "json_stepf c (Neg, ps) =
    (if c = CHR ''0'' then Some (Digit0, ps) else if isDigit c then Some (Digits1, ps) else None)"
| "json_stepf c (Digits1, ps) = (if isDigit c then Some (Digits1, ps) else state0 c ps)"
| "json_stepf c (Digit0, ps) = state0 c ps"
| "json_stepf c (Dot, ps) = (if isDigit c then Some (Dot0, ps) else None)"
| "json_stepf c (Dot0, ps) =
    (if isDigit c then Some (Dot0, ps)
     else if c = CHR ''e'' \<or> c = CHR ''E'' then Some (ExpE, ps) else stateEndValue c ps)"
| "json_stepf c (ExpE, ps) =
    (if c = CHR ''+'' \<or> c = CHR ''-'' then Some (ExpSign, ps)
     else if isDigit c then Some (ExpE0, ps) else None)"
| "json_stepf c (ExpSign, ps) = (if isDigit c then Some (ExpE0, ps) else None)"
| "json_stepf c (ExpE0, ps) = (if isDigit c then Some (ExpE0, ps) else stateEndValue c ps)"
| "json_stepf c (Literal [], ps) = stateEndValue c ps"
| "json_stepf c (Literal (d # ds), ps) =
    (if c = d then Some (if ds = [] then EndValue else Literal ds, ps) else None)"

fun json_scan :: "bytes \<Rightarrow> json_scanner \<Rightarrow> json_scanner option" where
  "json_scan [] sc = Some sc"
| "json_scan (c # cs) sc = (case json_stepf c sc of None \<Rightarrow> None | Some sc' \<Rightarrow> json_scan cs sc')"

text \<open>At the end of the input the scanner feeds one space and must then be at the top.\<close>

definition json_eof :: "json_scanner \<Rightarrow> bool" where
  "json_eof sc =
    (fst sc = EndTop \<or>
     (case json_stepf (CHR '' '') sc of Some (EndTop, _) \<Rightarrow> True | _ \<Rightarrow> False))"

definition json_Valid :: "bytes \<Rightarrow> bool" where
  "json_Valid data =
    (case json_scan data (BeginValue, []) of None \<Rightarrow> False | Some sc \<Rightarrow> json_eof sc)"

subsection \<open>unicode/utf8\<close>

definition isCont :: "char \<Rightarrow> bool" where
  "isCont c = (128 \<le> byte c \<and> byte c \<le> 191)"

definition RuneError :: nat where
  "RuneError = 65533"

fun DecodeRune :: "bytes \<Rightarrow> nat \<times> nat" where
  "DecodeRune [] = (RuneError, 0)"
| "DecodeRune (a # s) =
    (let x = byte a in
     if x < 128 then (x, 1)
     else if 194 \<le> x \<and> x \<le> 223 then
       (case s of
          b # _ \<Rightarrow> if isCont b then ((x - 192) * 64 + (byte b - 128), 2) else (RuneError, 1)
        | _ \<Rightarrow> (RuneError, 1))
     else if 224 \<le> x \<and> x \<le> 239 then
       (case s of
          b # c # _ \<Rightarrow>
            if isCont b \<and> isCont c \<and> (x = 224 \<longrightarrow> 160 \<le> byte b) \<and> (x = 237 \<longrightarrow> byte b \<le> 159)
            then ((x - 224) * 4096 + (byte b - 128) * 64 + (byte c - 128), 3)
            else (RuneError, 1)
        | _ \<Rightarrow> (RuneError, 1))
     else if 240 \<le> x \<and> x \<le> 244 then
       (case s of
          b # c # d # _ \<Rightarrow>
            if isCont b \<and> isCont c \<and> isCont d \<and> (x = 240 \<longrightarrow> 144 \<le> byte b) \<and>
              (x = 244 \<longrightarrow> byte b \<le> 143)
            then ((x - 240) * 262144 + (byte b - 128) * 4096 + (byte c - 128) * 64 +
                  (byte d - 128), 4)
            else (RuneError, 1)
        | _ \<Rightarrow> (RuneError, 1))
     else (RuneError, 1))"

subsection \<open>strings\<close>

text \<open>The UTF-8 encodings of the runes for which \<^verbatim>\<open>unicode.IsSpace\<close> holds.\<close>

definition bytesOf :: "nat list \<Rightarrow> bytes" where
  "bytesOf ns = map char_of ns"

definition spaceEncodings :: "bytes list" where
  "spaceEncodings = map bytesOf
    ([[9], [10], [11], [12], [13], [32], [194, 133], [194, 160], [225, 154, 128]] @
     map (\<lambda>b. [226, 128, b]) [128 ..< 139] @
     [[226, 128, 168], [226, 128, 169], [226, 128, 175], [226, 129, 159], [227, 128, 128]])"

fun stripWith :: "nat \<Rightarrow> bytes list \<Rightarrow> bytes \<Rightarrow> bytes" where
  "stripWith 0 pats s = s"
| "stripWith (Suc n) pats s =
    (case find (\<lambda>p. prefix p s) pats of
       None \<Rightarrow> s
     | Some p \<Rightarrow> stripWith n pats (drop (length p) s))"

definition TrimSpace :: "bytes \<Rightarrow> bytes" where
  "TrimSpace s =
    (let l = stripWith (length s) spaceEncodings s
     in rev (stripWith (length l) (map rev spaceEncodings) (rev l)))"

fun splitOn :: "char \<Rightarrow> bytes \<Rightarrow> bytes list" where
  "splitOn sep [] = [[]]"
| "splitOn sep (c # s) =
    (if c = sep then [] # splitOn sep s
     else (case splitOn sep s of [] \<Rightarrow> [[c]] | x # xs \<Rightarrow> (c # x) # xs))"

fun joinWith :: "bytes \<Rightarrow> bytes list \<Rightarrow> bytes" where
  "joinWith sep [] = []"
| "joinWith sep [x] = x"
| "joinWith sep (x # y # xs) = x @ sep @ joinWith sep (y # xs)"

subsection \<open>Facts\<close>

lemma splitOn_not_Nil [simp]: "splitOn sep s \<noteq> []"
  by (cases s) (auto split: list.splits)

lemma splitOn_no_sep: "sep \<notin> set s \<Longrightarrow> splitOn sep s = [s]"
  by (induction s) auto

lemma splitOn_append_sep: "sep \<notin> set x \<Longrightarrow> splitOn sep (x @ sep # s) = x # splitOn sep s"
  by (induction x) auto

lemma joinWith_Cons: "xs \<noteq> [] \<Longrightarrow> joinWith sep (x # xs) = x @ sep @ joinWith sep xs"
  by (cases xs) auto

lemma joinWith_splitOn: "joinWith [sep] (splitOn sep s) = s"
proof (induction s)
  case Nil
  then show ?case by simp
next
  case (Cons c s)
  obtain x xs where split: "splitOn sep s = x # xs"
    by (cases "splitOn sep s") auto
  show ?case
  proof (cases "c = sep")
    case True
    then show ?thesis using Cons by (simp add: joinWith_Cons)
  next
    case False
    then show ?thesis using Cons split by (cases xs) auto
  qed
qed

lemma stripWith_length: "length (stripWith n pats s) \<le> length s"
  by (induction n pats s rule: stripWith.induct) (auto split: option.splits)

lemma TrimSpace_length: "length (TrimSpace s) \<le> length s"
  using stripWith_length [of "length s" spaceEncodings s]
    stripWith_length [of "length (stripWith (length s) spaceEncodings s)"
      "map rev spaceEncodings" "rev (stripWith (length s) spaceEncodings s)"]
  by (simp add: TrimSpace_def Let_def)

text \<open>The scanner accepts a few documents and rejects malformed ones.\<close>

lemma json_Valid_empty_object: "json_Valid ''{}''"
  by code_simp

lemma json_Valid_number_list: "json_Valid ''[1, -2.5e+3, true, null]''"
  by code_simp

lemma json_Valid_rejects: "\<not> json_Valid ''''" "\<not> json_Valid ''{]''" "\<not> json_Valid ''01''"
  by code_simp+

end
