(* ===== verification/KVStore.thy ===== *)
theory KVStore
  imports Prelude
begin

section \<open>The ordered key-value store\<close>

text \<open>
  A module store of the chain is an ordered map from byte strings to values.  The code reaches it
  through \<^verbatim>\<open>Get\<close>, \<^verbatim>\<open>Has\<close>, \<^verbatim>\<open>Set\<close>, \<^verbatim>\<open>Delete\<close> and through (reverse) iterators over a
  \<^verbatim>\<open>prefix.NewStore\<close>, which strip the prefix and visit the keys in ascending (descending) order.
  The model is a list of key/value pairs kept strictly sorted by key.

  The locale \<open>kv_store\<close> is the interface the keepers rely on: the read-after-write laws and the two
  laws of a prefix iteration (exactly the keys with the prefix, in ascending order).  Its lemmas are
  proved once from these laws and used through the interpretation \<open>kv\<close> on the sorted list.
\<close>

type_synonym 'v kv = "(bytes \<times> 'v) list"

definition kv_get :: "'v kv \<Rightarrow> bytes \<Rightarrow> 'v option" where
  "kv_get st k = map_of st k"

definition kv_has :: "'v kv \<Rightarrow> bytes \<Rightarrow> bool" where
  "kv_has st k = (kv_get st k \<noteq> None)"

fun kv_set :: "bytes \<Rightarrow> 'v \<Rightarrow> 'v kv \<Rightarrow> 'v kv" where
  "kv_set k v [] = [(k, v)]"
| "kv_set k v ((k', v') # st) =
    (if k < k' then (k, v) # (k', v') # st
     else if k = k' then (k, v) # st
     else (k', v') # kv_set k v st)"

definition kv_delete :: "bytes \<Rightarrow> 'v kv \<Rightarrow> 'v kv" where
  "kv_delete k st = filter (\<lambda>(k', _). k' \<noteq> k) st"

definition kv_iter :: "'v kv \<Rightarrow> bytes \<Rightarrow> (bytes \<times> 'v) list" where
  "kv_iter st p = map (\<lambda>(k, v). (drop (length p) k, v)) (filter (\<lambda>(k, _). prefix p k) st)"

definition kv_riter :: "'v kv \<Rightarrow> bytes \<Rightarrow> (bytes \<times> 'v) list" where
  "kv_riter st p = rev (kv_iter st p)"

definition kv_wf :: "'v kv \<Rightarrow> bool" where
  "kv_wf st = sorted_wrt (<) (map fst st)"

subsection \<open>The interface\<close>

locale kv_store =
  fixes get :: "'s \<Rightarrow> bytes \<Rightarrow> 'v option"
    and upd :: "bytes \<Rightarrow> 'v \<Rightarrow> 's \<Rightarrow> 's"
    and del :: "bytes \<Rightarrow> 's \<Rightarrow> 's"
    and iter :: "'s \<Rightarrow> bytes \<Rightarrow> (bytes \<times> 'v) list"
    and wf :: "'s \<Rightarrow> bool"
  assumes get_upd: "get (upd k v s) k' = (if k' = k then Some v else get s k')"
    and get_del: "get (del k s) k' = (if k' = k then None else get s k')"
    and wf_upd: "wf s \<Longrightarrow> wf (upd k v s)"
    and wf_del: "wf s \<Longrightarrow> wf (del k s)"
    and iter_mem: "wf s \<Longrightarrow> (k, v) \<in> set (iter s p) \<longleftrightarrow> get s (p @ k) = Some v"
    and iter_sorted: "wf s \<Longrightarrow> sorted_wrt (<) (map fst (iter s p))"
begin

lemma strict_sorted_pairs_eq:
  assumes "sorted_wrt (<) (map fst xs)" and "sorted_wrt (<) (map fst ys)"
    and "set xs = set (ys :: (bytes \<times> 'v) list)"
  shows "xs = ys"
proof -
  have sx: "sorted (map fst xs)" "distinct (map fst xs)"
    using assms(1) unfolding strict_sorted_iff by blast+
  have sy: "sorted (map fst ys)" "distinct (map fst ys)"
    using assms(2) unfolding strict_sorted_iff by blast+
  have "inj_on fst (set xs \<union> set ys)"
    using sx(2) assms(3) by (simp add: distinct_map)
  then show ?thesis
    using map_sorted_distinct_set_unique sx sy assms(3) by blast
qed

lemma iter_cong:
  assumes "wf s" and "wf t" and "\<And>k. get s (p @ k) = get t (p @ k)"
  shows "iter s p = iter t p"
proof (rule strict_sorted_pairs_eq)
  show "set (iter s p) = set (iter t p)"
    using assms by (auto simp: iter_mem)
qed (use assms in \<open>simp_all add: iter_sorted\<close>)

lemma iter_upd_other: "wf s \<Longrightarrow> \<not> prefix p k \<Longrightarrow> iter (upd k v s) p = iter s p"
  by (rule iter_cong) (auto simp: wf_upd get_upd)

lemma iter_del_other: "wf s \<Longrightarrow> \<not> prefix p k \<Longrightarrow> iter (del k s) p = iter s p"
  by (rule iter_cong) (auto simp: wf_del get_del)

lemma iter_upd_last:
  assumes "wf s" and "\<And>k' v'. (k', v') \<in> set (iter s p) \<Longrightarrow> k' < k"
  shows "iter (upd (p @ k) v s) p = iter s p @ [(k, v)]"
proof (rule strict_sorted_pairs_eq)
  have "get s (p @ k) = None"
    using assms(2) [of k] assms(1) by (cases "get s (p @ k)") (auto simp: iter_mem)
  then show "set (iter (upd (p @ k) v s) p) = set (iter s p @ [(k, v)])"
    using assms(1) by (auto simp: iter_mem wf_upd get_upd split: if_splits)
  show "sorted_wrt (<) (map fst (iter s p @ [(k, v)]))"
    using iter_sorted [OF assms(1), of p] assms(2) by (auto simp: sorted_wrt_append)
qed (simp add: assms(1) iter_sorted wf_upd)

text \<open>The part of an iteration that satisfies a test on keys, when a key beyond all others is added,
  and when a key is written that fails the test.\<close>

lemma filter_iter_upd_last:
  assumes "wf s" and "P k"
    and "\<And>k' v'. (k', v') \<in> set (iter s p) \<Longrightarrow> P k' \<Longrightarrow> k' < k"
  shows "filter (\<lambda>(k, _). P k) (iter (upd (p @ k) v s) p) =
    filter (\<lambda>(k, _). P k) (iter s p) @ [(k, v)]"
proof (rule strict_sorted_pairs_eq)
  have none: "get s (p @ k) = None"
    using assms(2) assms(3) [of k] assms(1) by (cases "get s (p @ k)") (auto simp: iter_mem)
  then show "set (filter (\<lambda>(k, _). P k) (iter (upd (p @ k) v s) p)) =
      set (filter (\<lambda>(k, _). P k) (iter s p) @ [(k, v)])"
    using assms(1,2) by (auto simp: iter_mem wf_upd get_upd split: if_splits)
  have sorted: "sorted_wrt (<) (map fst (filter Q (iter t p)))" if "wf t" for t Q
    using iter_sorted [OF that, of p] by (simp add: sorted_wrt_map sorted_wrt_filter)
  show "sorted_wrt (<) (map fst (filter (\<lambda>(k, _). P k) (iter (upd (p @ k) v s) p)))"
    using sorted [OF wf_upd [OF assms(1)]] .
  show "sorted_wrt (<) (map fst (filter (\<lambda>(k, _). P k) (iter s p) @ [(k, v)]))"
    using sorted [OF assms(1)] assms(3) by (auto simp: sorted_wrt_append)
qed

lemma filter_iter_cong:
  assumes "wf s" and "wf t" and "\<And>k. P k \<Longrightarrow> get s (p @ k) = get t (p @ k)"
  shows "filter (\<lambda>(k, _). P k) (iter s p) = filter (\<lambda>(k, _). P k) (iter t p)"
proof (rule strict_sorted_pairs_eq)
  show "set (filter (\<lambda>(k, _). P k) (iter s p)) = set (filter (\<lambda>(k, _). P k) (iter t p))"
    using assms by (auto simp: iter_mem)
  have sorted: "sorted_wrt (<) (map fst (filter Q (iter t p)))" if "wf t" for t Q
    using iter_sorted [OF that, of p] by (simp add: sorted_wrt_map sorted_wrt_filter)
  show "sorted_wrt (<) (map fst (filter (\<lambda>(k, _). P k) (iter s p)))"
    using sorted [OF assms(1)] .
  show "sorted_wrt (<) (map fst (filter (\<lambda>(k, _). P k) (iter t p)))"
    using sorted [OF assms(2)] .
qed

lemma iter_Nil_iff:
  assumes "wf s"
  shows "iter s p = [] \<longleftrightarrow> (\<forall>k. get s (p @ k) = None)"
proof
  assume nil: "iter s p = []"
  show "\<forall>k. get s (p @ k) = None"
  proof
    fix k show "get s (p @ k) = None"
      using iter_mem [OF assms, of k _ p] nil by (cases "get s (p @ k)") auto
  qed
next
  assume none: "\<forall>k. get s (p @ k) = None"
  have "kv \<notin> set (iter s p)" for kv
    using iter_mem [OF assms, of "fst kv" "snd kv" p] none by simp
  then show "iter s p = []" by (cases "iter s p") auto
qed

lemma iter_distinct: "wf s \<Longrightarrow> distinct (map fst (iter s p))"
  using iter_sorted strict_sorted_iff by blast

lemma iter_map_of:
  assumes "wf s"
  shows "map_of (iter s p) k = get s (p @ k)"
proof (cases "get s (p @ k)")
  case None
  then have "(k, v) \<notin> set (iter s p)" for v using iter_mem [OF assms] by simp
  then have "k \<notin> fst ` set (iter s p)" by auto
  then show ?thesis using None by (simp add: map_of_eq_None_iff)
next
  case (Some v)
  then have "(k, v) \<in> set (iter s p)" using iter_mem [OF assms] by simp
  then show ?thesis using Some iter_distinct [OF assms] by simp
qed

end

subsection \<open>The sorted list implements the interface\<close>

lemma kv_get_set [simp]: "kv_get (kv_set k v st) k' = (if k' = k then Some v else kv_get st k')"
  by (induction k v st rule: kv_set.induct) (auto simp: kv_get_def)

lemma kv_get_delete [simp]: "kv_get (kv_delete k st) k' = (if k' = k then None else kv_get st k')"
  by (induction st) (auto simp: kv_get_def kv_delete_def)

lemma kv_get_Nil [simp]: "kv_get [] k = None"
  by (simp add: kv_get_def)

lemma fst_set_kv_set: "fst ` set (kv_set k v st) = insert k (fst ` set st)"
  by (induction k v st rule: kv_set.induct) auto

lemma kv_wf_Nil [simp]: "kv_wf []"
  by (simp add: kv_wf_def)

lemma kv_wf_Cons: "kv_wf ((k, v) # st) \<longleftrightarrow> (\<forall>k' \<in> fst ` set st. k < k') \<and> kv_wf st"
  by (simp add: kv_wf_def)

lemma kv_wf_set [simp]: "kv_wf st \<Longrightarrow> kv_wf (kv_set k v st)"
proof (induction k v st rule: kv_set.induct)
  case (1 k v)
  then show ?case by (simp add: kv_wf_def)
next
  case (2 k v k' v' st)
  have tail: "kv_wf (kv_set k v st)" if "\<not> k < k'" "k \<noteq> k'"
    using 2 that by (simp add: kv_wf_Cons)
  show ?case
    using 2(2) tail by (auto simp: kv_wf_Cons fst_set_kv_set)
qed

lemma kv_wf_delete [simp]: "kv_wf st \<Longrightarrow> kv_wf (kv_delete k st)"
  by (simp add: kv_wf_def kv_delete_def sorted_wrt_map sorted_wrt_filter)

lemma kv_wf_distinct: "kv_wf st \<Longrightarrow> distinct (map fst st)"
  by (simp add: kv_wf_def strict_sorted_iff)

lemma kv_iter_mem:
  assumes "kv_wf st"
  shows "(k, v) \<in> set (kv_iter st p) \<longleftrightarrow> kv_get st (p @ k) = Some v"
proof -
  have "(k, v) \<in> set (kv_iter st p) \<longleftrightarrow> (p @ k, v) \<in> set st"
    by (force simp: kv_iter_def prefix_def)
  then show ?thesis
    using kv_wf_distinct [OF assms] by (simp add: kv_get_def)
qed

lemma kv_iter_sorted:
  assumes "kv_wf st"
  shows "sorted_wrt (<) (map fst (kv_iter st p))"
  using assms
proof (induction st)
  case Nil
  then show ?case by (simp add: kv_iter_def)
next
  case (Cons kv' st)
  obtain k v where kv': "kv' = (k, v)" by fastforce
  have IH: "sorted_wrt (<) (map fst (kv_iter st p))" and less: "\<forall>k' \<in> fst ` set st. k < k'"
    using Cons by (auto simp: kv' kv_wf_Cons)
  have "drop (length p) k < drop (length p) k'"
    if "prefix p k" "prefix p k'" "(k', w) \<in> set st" for k' w
  proof -
    have "k < k'" using less that(3) by force
    then show ?thesis using that(1,2) by (auto simp: prefix_def)
  qed
  then show ?case using IH by (auto simp: kv_iter_def kv')
qed

interpretation kv: kv_store kv_get kv_set kv_delete kv_iter kv_wf
  by unfold_locales (simp_all add: kv_iter_mem kv_iter_sorted)

lemma kv_riter_hd: "kv_wf st \<Longrightarrow> kv_iter st p = xs @ [x] \<Longrightarrow> hd (kv_riter st p) = x"
  by (simp add: kv_riter_def)

lemma kv_has_set [simp]: "kv_has (kv_set k v st) k' = (k' = k \<or> kv_has st k')"
  by (simp add: kv_has_def)

lemma kv_has_delete [simp]: "kv_has (kv_delete k st) k' = (k' \<noteq> k \<and> kv_has st k')"
  by (simp add: kv_has_def)

end
