(* ===== verification/Keys.thy ===== *)
theory Keys
  imports Types GoStd KVStore
begin

section \<open>Store keys and contract addresses\<close>

text \<open>
  The key layout of the x/wasm store (src/x/wasm/types/keys.go), the contract address builders
  (src/x/wasm/keeper/addresses.go) and the address length check (types.go).  Every function that
  builds a key is translated as written; a Go \<^verbatim>\<open>copy\<close> into a fixed-size slice is \<open>copyN\<close>, which
  truncates or leaves zero bytes.

  \<^verbatim>\<open>address.MustLengthPrefix\<close>, \<^verbatim>\<open>address.Module\<close> and \<^verbatim>\<open>sdk.VerifyAddressFormat\<close> belong to the
  SDK and are arguments of the definitions that call them.  The SDK's \<^verbatim>\<open>Uint64ToBigEndian\<close> and
  \<^verbatim>\<open>BigEndianToUint64\<close> are thin layers over encoding/binary and come from the prelude.

  \<open>wasm_key\<close> is the specification side: the abstract keys of the store.  \<open>key_bytes\<close> gives each its
  bytes through the functions of the code, and the main lemmas say that the layout never lets two
  abstract keys meet, and that the ordering of keys is the ordering the iterators are used for.
\<close>

definition copyN :: "nat \<Rightarrow> bytes \<Rightarrow> bytes" where
  "copyN n src = take n src @ replicate (n - length src) (char_of (0 :: nat))"

definition BigEndianToUint64 :: "bytes \<Rightarrow> u64" where
  "BigEndianToUint64 bz = (if bz = [] then 0 else BigEndianUint64 bz)"

subsection \<open>Prefixes\<close>

definition CodeKeyPrefix :: bytes where "CodeKeyPrefix = [CHR 0x01]"
definition ContractKeyPrefix :: bytes where "ContractKeyPrefix = [CHR 0x02]"
definition ContractStorePrefix :: bytes where "ContractStorePrefix = [CHR 0x03]"
definition SequenceKeyPrefix :: bytes where "SequenceKeyPrefix = [CHR 0x04]"
definition ContractCodeHistoryElementPrefix :: bytes where
  "ContractCodeHistoryElementPrefix = [CHR 0x05]"
definition ContractByCodeIDAndCreatedSecondaryIndexPrefix :: bytes where
  "ContractByCodeIDAndCreatedSecondaryIndexPrefix = [CHR 0x06]"
definition PinnedCodeIndexPrefix :: bytes where "PinnedCodeIndexPrefix = [CHR 0x07]"
definition TXCounterPrefix :: bytes where "TXCounterPrefix = [CHR 0x08]"
definition ContractsByCreatorPrefix :: bytes where "ContractsByCreatorPrefix = [CHR 0x09]"
definition ParamsKey :: bytes where "ParamsKey = [CHR 0x10]"
definition AsyncAckKeyPrefix :: bytes where "AsyncAckKeyPrefix = [CHR 0x11]"
definition GaslessContractIndexPrefix :: bytes where "GaslessContractIndexPrefix = [CHR 0x0A]"

definition KeySequenceCodeID :: bytes where
  "KeySequenceCodeID = SequenceKeyPrefix @ ''lastCodeId''"
definition KeySequenceInstanceID :: bytes where
  "KeySequenceInstanceID = SequenceKeyPrefix @ ''lastContractId''"

lemmas prefix_defs = CodeKeyPrefix_def ContractKeyPrefix_def ContractStorePrefix_def
  SequenceKeyPrefix_def ContractCodeHistoryElementPrefix_def
  ContractByCodeIDAndCreatedSecondaryIndexPrefix_def PinnedCodeIndexPrefix_def
  TXCounterPrefix_def ContractsByCreatorPrefix_def ParamsKey_def AsyncAckKeyPrefix_def
  GaslessContractIndexPrefix_def KeySequenceCodeID_def KeySequenceInstanceID_def

subsection \<open>Keys\<close>

definition GetCodeKey :: "u64 \<Rightarrow> bytes" where
  "GetCodeKey codeID = CodeKeyPrefix @ Uint64ToBigEndian codeID"

definition GetContractAddressKey :: "AccAddress \<Rightarrow> bytes" where
  "GetContractAddressKey addr = ContractKeyPrefix @ addr"

definition GetContractsByCreatorPrefix ::
  "(AccAddress \<Rightarrow> bytes outcome) \<Rightarrow> AccAddress \<Rightarrow> bytes outcome" where
  "GetContractsByCreatorPrefix mustLengthPrefix addr =
    (case mustLengthPrefix addr of
       Ok bz \<Rightarrow> Ok (ContractsByCreatorPrefix @ bz)
     | Err e \<Rightarrow> Err e
     | Panic p \<Rightarrow> Panic p)"

definition GetContractStorePrefix :: "AccAddress \<Rightarrow> bytes" where
  "GetContractStorePrefix addr = ContractStorePrefix @ addr"

definition GetAsyncPacketKey :: "bytes \<Rightarrow> u64 \<Rightarrow> bytes" where
  "GetAsyncPacketKey destChannel sequence =
    PutUint32 (of_nat (length destChannel)) @ destChannel @ Uint64ToBigEndian sequence"

definition GetAsyncAckStorePrefix :: "bytes \<Rightarrow> bytes" where
  "GetAsyncAckStorePrefix portID = AsyncAckKeyPrefix @ portID"

definition GetContractByCodeIDSecondaryIndexPrefix :: "u64 \<Rightarrow> bytes" where
  "GetContractByCodeIDSecondaryIndexPrefix codeID =
    ContractByCodeIDAndCreatedSecondaryIndexPrefix @ Uint64ToBigEndian codeID"

definition GetContractByCreatedSecondaryIndexKey ::
  "AccAddress \<Rightarrow> ContractCodeHistoryEntry \<Rightarrow> bytes outcome" where
  "GetContractByCreatedSecondaryIndexKey contractAddr c =
    (case PositionBytes (Updated c) of
       Ok pos \<Rightarrow> Ok (GetContractByCodeIDSecondaryIndexPrefix (HistCodeID c) @
                      copyN AbsoluteTxPositionLen pos @ contractAddr)
     | Err e \<Rightarrow> Err e
     | Panic p \<Rightarrow> Panic p)"

definition GetContractByCreatorSecondaryIndexKey ::
  "(AccAddress \<Rightarrow> bytes outcome) \<Rightarrow> bytes \<Rightarrow> bytes \<Rightarrow> AccAddress \<Rightarrow> bytes outcome" where
  "GetContractByCreatorSecondaryIndexKey mustLengthPrefix bz position contractAddr =
    (case GetContractsByCreatorPrefix mustLengthPrefix bz of
       Ok prefixBytes \<Rightarrow> Ok (prefixBytes @ copyN AbsoluteTxPositionLen position @ contractAddr)
     | Err e \<Rightarrow> Err e
     | Panic p \<Rightarrow> Panic p)"

definition GetContractCodeHistoryElementPrefix :: "AccAddress \<Rightarrow> bytes" where
  "GetContractCodeHistoryElementPrefix contractAddr =
    ContractCodeHistoryElementPrefix @ contractAddr"

definition GetContractCodeHistoryElementKey :: "AccAddress \<Rightarrow> u64 \<Rightarrow> bytes" where
  "GetContractCodeHistoryElementKey contractAddr pos =
    GetContractCodeHistoryElementPrefix contractAddr @ Uint64ToBigEndian pos"

definition GetPinnedCodeIndexPrefix :: "u64 \<Rightarrow> bytes" where
  "GetPinnedCodeIndexPrefix codeID = PinnedCodeIndexPrefix @ Uint64ToBigEndian codeID"

definition GetGaslessContractIndexPrefix :: "AccAddress \<Rightarrow> bytes" where
  "GetGaslessContractIndexPrefix contractAddr =
    copyN (length PinnedCodeIndexPrefix) GaslessContractIndexPrefix @ contractAddr"

definition ParsePinnedCodeIndex :: "bytes \<Rightarrow> u64" where
  "ParsePinnedCodeIndex s = BigEndianToUint64 s"

subsection \<open>Addresses\<close>

definition ContractAddrLen :: nat where "ContractAddrLen = 32"
definition SDKAddrLen :: nat where "SDKAddrLen = 20"

definition VerifyAddressLen :: "bytes \<Rightarrow> unit outcome" where
  "VerifyAddressLen addr =
    (if length addr \<noteq> ContractAddrLen \<and> length addr \<noteq> SDKAddrLen then Err ErrInvalidAddress
     else Ok ())"

definition MaxSaltSize :: nat where "MaxSaltSize = 64"

definition ValidateSalt :: "bytes \<Rightarrow> unit outcome" where
  "ValidateSalt salt =
    (if length salt = 0 then Err ErrEmpty
     else if length salt > MaxSaltSize then Err ErrLimit
     else Ok ())"

text \<open>A \<^verbatim>\<open>RawContractMessage\<close> variable is never a nil pointer at the call sites modelled here (the
  method is called on the address of a local or of a field).\<close>

definition RawContractMessage_ValidateBasic :: "bytes \<Rightarrow> unit outcome" where
  "RawContractMessage_ValidateBasic r = (if \<not> json_Valid r then Err ErrInvalid else Ok ())"

definition UInt64LengthPrefix :: "bytes \<Rightarrow> bytes" where
  "UInt64LengthPrefix bz = Uint64ToBigEndian (of_nat (length bz)) @ bz"

definition BuildContractAddressClassic :: "(bytes \<Rightarrow> bytes \<Rightarrow> bytes) \<Rightarrow> u64 \<Rightarrow> u64 \<Rightarrow> AccAddress" where
  "BuildContractAddressClassic addressModule codeID instanceID =
    take ContractAddrLen
      (addressModule ''wasm'' (Uint64ToBigEndian codeID @ Uint64ToBigEndian instanceID))"

definition predictableKey :: "bytes \<Rightarrow> AccAddress \<Rightarrow> bytes \<Rightarrow> bytes \<Rightarrow> bytes" where
  "predictableKey checksum creator salt initMsg =
    UInt64LengthPrefix checksum @ UInt64LengthPrefix creator @ UInt64LengthPrefix salt @
    UInt64LengthPrefix initMsg"

definition BuildContractAddressPredictable ::
  "(bytes \<Rightarrow> bytes \<Rightarrow> bytes) \<Rightarrow> (AccAddress \<Rightarrow> unit outcome) \<Rightarrow>
   bytes \<Rightarrow> AccAddress \<Rightarrow> bytes \<Rightarrow> bytes \<Rightarrow> AccAddress outcome" where
  "BuildContractAddressPredictable addressModule verifyAddressFormat checksum creator salt initMsg =
    (if length checksum \<noteq> 32 then Panic (OtherPanic ''invalid checksum'')
     else if verifyAddressFormat creator \<noteq> Ok () then Panic (OtherPanic ''creator'')
     else if ValidateSalt salt \<noteq> Ok () then Panic (OtherPanic ''salt'')
     else if length initMsg \<noteq> 0 \<and> RawContractMessage_ValidateBasic initMsg \<noteq> Ok ()
       then Panic (OtherPanic ''initMsg'')
     else Ok (take ContractAddrLen
       (addressModule ''wasm'' (predictableKey checksum creator salt initMsg))))"

definition PredictableAddressGenerator ::
  "(bytes \<Rightarrow> bytes \<Rightarrow> bytes) \<Rightarrow> (AccAddress \<Rightarrow> unit outcome) \<Rightarrow>
   AccAddress \<Rightarrow> bytes \<Rightarrow> bytes \<Rightarrow> bool \<Rightarrow> bytes \<Rightarrow> AccAddress outcome" where
  "PredictableAddressGenerator addressModule verifyAddressFormat creator salt msg fixMsg checksum =
    BuildContractAddressPredictable addressModule verifyAddressFormat checksum creator salt
      (if \<not> fixMsg then [] else msg)"

subsection \<open>The abstract keys\<close>

datatype wasm_key =
    KCode u64
  | KContract AccAddress
  | KStore AccAddress bytes
  | KSeqCodeID
  | KSeqInstanceID
  | KHistory AccAddress u64
  | KByCode u64 AbsoluteTxPosition AccAddress
  | KPinned u64
  | KTXCounter
  | KByCreator AccAddress AbsoluteTxPosition AccAddress
  | KGasless AccAddress
  | KParams
  | KAsync bytes bytes u64

definition outcome_the :: "'a outcome \<Rightarrow> 'a option" where
  "outcome_the r = (case r of Ok x \<Rightarrow> Some x | _ \<Rightarrow> None)"

text \<open>The key bytes as the keeper computes them; None where the code panics.\<close>

fun key_bytes :: "(AccAddress \<Rightarrow> bytes outcome) \<Rightarrow> wasm_key \<Rightarrow> bytes option" where
  "key_bytes mlp (KCode i) = Some (GetCodeKey i)"
| "key_bytes mlp (KContract a) = Some (GetContractAddressKey a)"
| "key_bytes mlp (KStore a k) = Some (GetContractStorePrefix a @ k)"
| "key_bytes mlp KSeqCodeID = Some KeySequenceCodeID"
| "key_bytes mlp KSeqInstanceID = Some KeySequenceInstanceID"
| "key_bytes mlp (KHistory a p) = Some (GetContractCodeHistoryElementKey a p)"
| "key_bytes mlp (KByCode i p a) =
    outcome_the (GetContractByCreatedSecondaryIndexKey a
      \<lparr>Operation = ContractCodeHistoryOperationTypeInit, HistCodeID = i, Updated = Some p,
       HistMsg = []\<rparr>)"
| "key_bytes mlp (KPinned i) = Some (GetPinnedCodeIndexPrefix i)"
| "key_bytes mlp KTXCounter = Some TXCounterPrefix"
| "key_bytes mlp (KByCreator c p a) =
    outcome_the (GetContractByCreatorSecondaryIndexKey mlp c (posBytes p) a)"
| "key_bytes mlp (KGasless a) = Some (GetGaslessContractIndexPrefix a)"
| "key_bytes mlp KParams = Some ParamsKey"
| "key_bytes mlp (KAsync port ch sq) =
    Some (GetAsyncAckStorePrefix port @ GetAsyncPacketKey ch sq)"

text \<open>What the addresses and identifiers of a chain satisfy: contract store addresses have the one
  length \<open>n\<close> (a 20-byte and a 32-byte address could share a store prefix), port identifiers hold no
  zero byte, and channel identifiers are short.\<close>

fun key_ok :: "nat \<Rightarrow> wasm_key \<Rightarrow> bool" where
  "key_ok n (KStore a k) = (length a = n)"
| "key_ok n (KAsync port ch sq) = (char_of (0 :: nat) \<notin> set port \<and> length ch < 2 ^ 24)"
| "key_ok n _ = True"

text \<open>The documented behaviour of \<^verbatim>\<open>address.LengthPrefix\<close>: one length byte in front of the address.\<close>

definition length_prefix_law :: "(AccAddress \<Rightarrow> bytes outcome) \<Rightarrow> bool" where
  "length_prefix_law mlp =
    (\<forall>a bz. mlp a = Ok bz \<longrightarrow> length a < 256 \<and> bz = char_of (length a) # a)"

definition goMustLengthPrefix :: "AccAddress \<Rightarrow> bytes outcome" where
  "goMustLengthPrefix a =
    (if length a < 256 then Ok (char_of (length a) # a) else Panic (OtherPanic ''length prefix''))"

text \<open>Sample data for the concrete instances below.\<close>

definition exampleEntry :: "u64 \<Rightarrow> ContractCodeHistoryEntry" where
  "exampleEntry idx = \<lparr>Operation = ContractCodeHistoryOperationTypeInit, HistCodeID = 7,
     Updated = Some \<lparr>BlockHeight = 3, TxIndex = idx\<rparr>, HistMsg = ''{}''\<rparr>"

definition exampleHash :: "bytes \<Rightarrow> bytes \<Rightarrow> bytes" where
  "exampleHash ty key = key"

text \<open>The first byte of a key determines its family.\<close>

fun key_family :: "wasm_key \<Rightarrow> nat" where
  "key_family (KCode _) = 1"
| "key_family (KContract _) = 2"
| "key_family (KStore _ _) = 3"
| "key_family KSeqCodeID = 4"
| "key_family KSeqInstanceID = 4"
| "key_family (KHistory _ _) = 5"
| "key_family (KByCode _ _ _) = 6"
| "key_family (KPinned _) = 7"
| "key_family KTXCounter = 8"
| "key_family (KByCreator _ _ _) = 9"
| "key_family (KGasless _) = 10"
| "key_family KParams = 16"
| "key_family (KAsync _ _ _) = 17"

subsection \<open>Layout lemmas\<close>

lemma copyN_exact [simp]: "length src = n \<Longrightarrow> copyN n src = src"
  by (simp add: copyN_def)

lemma outcome_the_simps [simp]:
  "outcome_the (Ok x) = Some x" "outcome_the (Err e) = None" "outcome_the (Panic p) = None"
  by (simp_all add: outcome_the_def)

lemma outcome_the_Some_iff [simp]: "outcome_the r = Some x \<longleftrightarrow> r = Ok x"
  by (cases r) auto

lemma GetContractByCreatedSecondaryIndexKey_Some [simp]:
  "Updated c = Some p \<Longrightarrow> GetContractByCreatedSecondaryIndexKey a c =
    Ok (GetContractByCodeIDSecondaryIndexPrefix (HistCodeID c) @ posBytes p @ a)"
  by (simp add: GetContractByCreatedSecondaryIndexKey_def AbsoluteTxPositionLen_def)

lemma GetGaslessContractIndexPrefix_eq [simp]:
  "GetGaslessContractIndexPrefix a = GaslessContractIndexPrefix @ a"
  by (simp add: GetGaslessContractIndexPrefix_def prefix_defs)

lemma BigEndianToUint64_inverse [simp]: "BigEndianToUint64 (Uint64ToBigEndian i) = i"
  by (simp add: BigEndianToUint64_def Uint64ToBigEndian_def flip: length_0_conv)
     (metis BigEndianUint64_inverse' Uint64ToBigEndian_def)

lemma UInt64LengthPrefix_append_inject:
  assumes "length x < 2 ^ 64" and "length y < 2 ^ 64"
    and "UInt64LengthPrefix x @ u = UInt64LengthPrefix y @ v"
  shows "x = y \<and> u = v"
proof -
  have "Uint64ToBigEndian (of_nat (length x)) = Uint64ToBigEndian (of_nat (length y))"
    and rest: "x @ u = y @ v"
    using assms(3) by (simp_all add: UInt64LengthPrefix_def)
  then have "(of_nat (length x) :: u64) = of_nat (length y)" by simp
  then have "length x = length y"
    using of_nat_u64_inject [OF assms(1,2)] by simp
  then show ?thesis using rest by simp
qed

lemma predictableKey_inject:
  assumes "length c < 2 ^ 64" "length cr < 2 ^ 64" "length s < 2 ^ 64" "length m < 2 ^ 64"
    and "length c' < 2 ^ 64" "length cr' < 2 ^ 64" "length s' < 2 ^ 64" "length m' < 2 ^ 64"
    and "predictableKey c cr s m = predictableKey c' cr' s' m'"
  shows "c = c' \<and> cr = cr' \<and> s = s' \<and> m = m'"
proof -
  note eq = assms(9) [unfolded predictableKey_def]
  note s1 = UInt64LengthPrefix_append_inject [OF assms(1,5) eq]
  note s2 = UInt64LengthPrefix_append_inject [OF assms(2,6) conjunct2 [OF s1]]
  note s3 = UInt64LengthPrefix_append_inject [OF assms(3,7) conjunct2 [OF s2]]
  have "UInt64LengthPrefix m @ [] = UInt64LengthPrefix m' @ []"
    using conjunct2 [OF s3] by simp
  from UInt64LengthPrefix_append_inject [OF assms(4,8) this] s1 s2 s3
  show ?thesis by blast
qed

lemma PutUint32_small:
  assumes "n < 2 ^ 24"
  shows "\<exists>xs. PutUint32 (of_nat n) = char_of (0 :: nat) # xs"
proof -
  have four: "4 = Suc (Suc (Suc (Suc 0)))" by simp
  have top: "n div 256 div 256 div 256 = 0"
    using assms by (simp add: div_mult2_eq [symmetric])
  have "be 4 n = [char_of (n div 256 div 256 div 256 mod 256)] @
      [char_of (n div 256 div 256 mod 256), char_of (n div 256 mod 256), char_of (n mod 256)]"
    unfolding four be.simps by simp
  then show ?thesis
    using assms unfolding top by (simp add: PutUint32_def)
qed

lemma append_sep_inject:
  "z \<notin> set p \<Longrightarrow> z \<notin> set q \<Longrightarrow> p @ z # xs = q @ z # ys \<Longrightarrow> p = q \<and> xs = ys"
proof (induction p arbitrary: q)
  case Nil
  then show ?case by (cases q) auto
next
  case (Cons a p)
  then show ?case by (cases q) auto
qed

lemma async_key_inject:
  assumes ok: "key_ok n (KAsync p ch sq)" "key_ok n (KAsync q ch' sq')"
    and eq: "p @ GetAsyncPacketKey ch sq = q @ GetAsyncPacketKey ch' sq'"
  shows "p = q \<and> ch = ch' \<and> sq = sq'"
proof -
  have len: "length ch < 2 ^ 24" "length ch' < 2 ^ 24"
    and zero: "char_of (0 :: nat) \<notin> set p" "char_of (0 :: nat) \<notin> set q"
    using ok unfolding key_ok.simps by blast+
  obtain xs where xs: "PutUint32 (of_nat (length ch)) = char_of (0 :: nat) # xs"
    using PutUint32_small [OF len(1)] by blast
  obtain ys where ys: "PutUint32 (of_nat (length ch')) = char_of (0 :: nat) # ys"
    using PutUint32_small [OF len(2)] by blast
  have "p @ char_of (0 :: nat) # xs @ ch @ Uint64ToBigEndian sq =
      q @ char_of (0 :: nat) # ys @ ch' @ Uint64ToBigEndian sq'"
    using eq unfolding GetAsyncPacketKey_def xs ys by simp
  from append_sep_inject [OF zero this]
  have "p = q" and "xs @ ch @ Uint64ToBigEndian sq = ys @ ch' @ Uint64ToBigEndian sq'"
    by blast+
  moreover have "length xs = length ys"
    using arg_cong [OF xs, of length] arg_cong [OF ys, of length] by simp
  ultimately have "xs = ys" and "ch @ Uint64ToBigEndian sq = ch' @ Uint64ToBigEndian sq'"
    by auto
  then show ?thesis using \<open>p = q\<close> by simp
qed

lemma by_creator_key:
  assumes "length_prefix_law mlp" "key_bytes mlp (KByCreator c p a) = Some k"
  shows "k = ContractsByCreatorPrefix @ char_of (length c) # c @ posBytes p @ a \<and> length c < 256"
  using assms
  by (auto simp: length_prefix_law_def GetContractByCreatorSecondaryIndexKey_def
      GetContractsByCreatorPrefix_def AbsoluteTxPositionLen_def split: outcome.splits)

lemma by_creator_key_inject:
  assumes "char_of (length c) # c @ posBytes p @ a = char_of (length d) # d @ posBytes q @ b"
    and "length c < 256" "length d < 256"
  shows "c = d \<and> p = q \<and> a = b"
proof -
  have "of_char (char_of (length c) :: char) = (of_char (char_of (length d) :: char) :: nat)"
    using assms(1) by simp
  then have "length c = length d" using assms(2,3) by simp
  then show ?thesis using assms(1) by auto
qed

lemmas key_defs = GetCodeKey_def GetContractAddressKey_def GetContractStorePrefix_def
  GetContractCodeHistoryElementKey_def GetContractCodeHistoryElementPrefix_def
  GetContractByCodeIDSecondaryIndexPrefix_def GetPinnedCodeIndexPrefix_def
  GetAsyncAckStorePrefix_def

lemma key_bytes_family:
  assumes "length_prefix_law mlp" "key_bytes mlp k = Some bz"
  shows "bz \<noteq> [] \<and> byte (hd bz) = key_family k"
proof (cases k)
  case (KByCreator c p a)
  then show ?thesis
    using by_creator_key [OF assms(1), of c p a bz] assms(2) by (simp add: prefix_defs byte_def)
qed (use assms in \<open>auto simp: key_defs prefix_defs byte_def\<close>)

lemma key_bytes_inject_plain:
  "key_bytes mlp k = key_bytes mlp k' \<Longrightarrow> key_family k = key_family k' \<Longrightarrow>
    key_family k \<noteq> 9 \<Longrightarrow> key_family k \<noteq> 17 \<Longrightarrow> key_ok n k \<Longrightarrow> key_ok n k' \<Longrightarrow> k = k'"
  by (cases k; hypsubst; cases k'; hypsubst; simp add: key_defs prefix_defs)

lemma key_bytes_inject_same_family:
  assumes law: "length_prefix_law mlp"
    and ok: "key_ok n k" "key_ok n k'"
    and bz: "key_bytes mlp k = Some bz" "key_bytes mlp k' = Some bz"
    and fam: "key_family k = key_family k'"
  shows "k = k'"
proof -
  have eq: "key_bytes mlp k = key_bytes mlp k'" using bz by simp
  consider (creator) "key_family k = 9" | (async) "key_family k = 17"
    | (plain) "key_family k \<noteq> 9" "key_family k \<noteq> 17" by blast
  then show ?thesis
  proof cases
    case creator
    then obtain c p a d q b where k: "k = KByCreator c p a" and k': "k' = KByCreator d q b"
      using fam by (cases k; cases k'; simp)
    show ?thesis
      using by_creator_key_inject [of c p a d q b] by_creator_key [OF law, of c p a bz]
        by_creator_key [OF law, of d q b bz] bz
      by (simp add: k k' prefix_defs)
  next
    case async
    then obtain p ch sq q ch' sq' where k: "k = KAsync p ch sq" and k': "k' = KAsync q ch' sq'"
      using fam by (cases k; cases k'; simp)
    show ?thesis
      using async_key_inject [of n p ch sq q ch' sq'] ok eq
      by (simp add: k k' key_defs prefix_defs)
  next
    case plain
    then show ?thesis using key_bytes_inject_plain [OF eq fam] ok by blast
  qed
qed

subsection \<open>Properties\<close>


lemma goMustLengthPrefix_law: "length_prefix_law goMustLengthPrefix"
  by (auto simp: length_prefix_law_def goMustLengthPrefix_def split: if_splits)


text \<open>C36. The index of the contracts of a code is ordered by time.  Under one code id an index key is
  smaller than another exactly when its position in the chain is earlier, in the sense of
  \<^verbatim>\<open>AbsoluteTxPosition.LessThan\<close>, or when the positions are equal and its contract address is
  smaller.  Ascending iteration therefore lists contracts by the time of their creation or last
  migration.\<close>

theorem contracts_by_code_index_order:
  assumes "GetContractByCreatedSecondaryIndexKey a c = Ok k"
    and "GetContractByCreatedSecondaryIndexKey a' c' = Ok k'"
    and "HistCodeID c = HistCodeID c'"
  shows "k < k' \<longleftrightarrow>
    LessThan (Updated c) (Updated c') \<or> Updated c = Updated c' \<and> a < a'"
proof (cases "Updated c")
  case None
  then show ?thesis using assms(1) by (simp add: GetContractByCreatedSecondaryIndexKey_def)
next
  case (Some p)
  show ?thesis
  proof (cases "Updated c'")
    case None
    then show ?thesis using assms(2) by (simp add: GetContractByCreatedSecondaryIndexKey_def)
  next
    case (Some p')
    have "k < k' \<longleftrightarrow> posBytes p @ a < posBytes p' @ a'"
      using assms \<open>Updated c = Some p\<close> Some by auto
    also have "\<dots> \<longleftrightarrow> LessThan (Some p) (Some p') \<or> p = p' \<and> a < a'"
      by (simp only: less_append_same_length length_posBytes posBytes_less_iff posBytes_inject)
    finally show ?thesis using \<open>Updated c = Some p\<close> Some by simp
  qed
qed

theorem contracts_by_code_index_order_witness:
  "the (outcome_the (GetContractByCreatedSecondaryIndexKey ''zz'' (exampleEntry 255))) <
    the (outcome_the (GetContractByCreatedSecondaryIndexKey ''aa'' (exampleEntry 256)))"
proof -
  have k: "GetContractByCreatedSecondaryIndexKey ''zz'' (exampleEntry 255) =
      Ok (the (outcome_the (GetContractByCreatedSecondaryIndexKey ''zz'' (exampleEntry 255))))"
    and k': "GetContractByCreatedSecondaryIndexKey ''aa'' (exampleEntry 256) =
      Ok (the (outcome_the (GetContractByCreatedSecondaryIndexKey ''aa'' (exampleEntry 256))))"
    by (simp_all add: exampleEntry_def)
  show ?thesis
    using contracts_by_code_index_order [OF k k'] by (simp add: exampleEntry_def)
qed

text \<open>C24. The hashed key of a predictable address determines its inputs.  When two calls of
  \<^verbatim>\<open>BuildContractAddressPredictable\<close> with different checksum, creator, salt or init message
  succeed, the byte strings they hash are different: no shifting of bytes between the parts can
  make two instantiations ask for one address.\<close>

theorem predictable_address_preimages_differ:
  assumes "BuildContractAddressPredictable md vf c cr s m = Ok addr"
    and "BuildContractAddressPredictable md vf c' cr' s' m' = Ok addr'"
    and "(c, cr, s, m) \<noteq> (c', cr', s', m')"
    and "length cr < 2 ^ 64" "length m < 2 ^ 64" "length cr' < 2 ^ 64" "length m' < 2 ^ 64"
  shows "\<exists>key key'. key \<noteq> key' \<and> key = predictableKey c cr s m \<and> key' = predictableKey c' cr' s' m' \<and>
    addr = take 32 (md ''wasm'' key) \<and> addr' = take 32 (md ''wasm'' key')"
proof -
  have c: "length c < 2 ^ 64" "length s < 2 ^ 64"
    and a: "addr = take 32 (md ''wasm'' (predictableKey c cr s m))"
    using assms(1) by (auto simp: BuildContractAddressPredictable_def ValidateSalt_def MaxSaltSize_def
        ContractAddrLen_def split: if_splits)
  have c': "length c' < 2 ^ 64" "length s' < 2 ^ 64"
    and a': "addr' = take 32 (md ''wasm'' (predictableKey c' cr' s' m'))"
    using assms(2) by (auto simp: BuildContractAddressPredictable_def ValidateSalt_def MaxSaltSize_def
        ContractAddrLen_def split: if_splits)
  have "predictableKey c cr s m \<noteq> predictableKey c' cr' s' m'"
    using predictableKey_inject [OF c(1) assms(4) c(2) assms(5) c'(1) assms(6) c'(2) assms(7)]
      assms(3) by blast
  then show ?thesis using a a' by blast
qed

theorem predictable_address_preimages_differ_witness:
  "predictableKey (replicate 32 CHR ''c'') ''ab'' ''c'' [] \<noteq>
    predictableKey (replicate 32 CHR ''c'') ''a'' ''bc'' []"
  using predictable_address_preimages_differ [of exampleHash "\<lambda>_. Ok ()" "replicate 32 CHR ''c''"
      "''ab''" "''c''" "[]" _ "replicate 32 CHR ''c''" "''a''" "''bc''" "[]"]
  by (simp add: BuildContractAddressPredictable_def ValidateSalt_def MaxSaltSize_def)

end
