(* ===== verification/AccessPolicy.thy ===== *)
theory AccessPolicy
  imports Types GoStd
begin

section \<open>Access configurations and authorization policies\<close>

text \<open>
  Who may upload, instantiate, migrate and reconfigure: the access configurations
  (src/x/wasm/types/params.go, types.go, validation.go) and the three implementations of the
  \<^verbatim>\<open>AuthorizationPolicy\<close> interface (src/x/wasm/keeper/authz_policy.go).

  \<open>accString\<close> is \<^verbatim>\<open>AccAddress.String\<close> and \<open>fromBech32\<close> is \<^verbatim>\<open>sdk.AccAddressFromBech32\<close>; both are
  arguments.  A nil address is None where the code compares with nil.

  The interface locale \<open>authorization_policy\<close> states what the keeper relies on when it hands a policy
  down to submessages: the policy for submessages allows nothing the policy itself refuses, and it
  is stable from then on.  Its lemmas speak about whole call chains.
\<close>

subsection \<open>Access configurations\<close>

definition AllAccessTypes :: "AccessType list" where
  "AllAccessTypes = [AccessTypeNobody, AccessTypeAnyOfAddresses, AccessTypeEverybody]"

definition AllowEverybody :: AccessConfig where
  "AllowEverybody = \<lparr>Permission = AccessTypeEverybody, Addresses = []\<rparr>"

definition AllowNobody :: AccessConfig where
  "AllowNobody = \<lparr>Permission = AccessTypeNobody, Addresses = []\<rparr>"

definition DefaultParams :: Params where
  "DefaultParams = \<lparr>CodeUploadAccess = AllowEverybody,
     InstantiateDefaultPermission = AccessTypeEverybody\<rparr>"

definition MaxAddressCount :: nat where
  "MaxAddressCount = 50"

text \<open>The loop over the addresses with the index of upper-case forms seen so far.\<close>

fun validateBech32Loop :: "(bytes \<Rightarrow> AccAddress outcome) \<Rightarrow> bytes list \<Rightarrow> bytes list \<Rightarrow> unit outcome" where
  "validateBech32Loop fromBech32 index [] = Ok ()"
| "validateBech32Loop fromBech32 index (addr # addrs) =
    (case fromBech32 addr of
       Err e \<Rightarrow> Err (errWrap e)
     | Panic p \<Rightarrow> Panic p
     | Ok _ \<Rightarrow>
        (let up = ToUpperASCII addr in
         if up \<in> set index then Err ErrDuplicate
         else validateBech32Loop fromBech32 (up # index) addrs))"

definition validateBech32Addresses :: "(bytes \<Rightarrow> AccAddress outcome) \<Rightarrow> bytes list \<Rightarrow> unit outcome" where
  "validateBech32Addresses fromBech32 addresses =
    (if length addresses = 0 then Err ErrEmpty
     else if length addresses > MaxAddressCount then Err ErrInvalidRequest
     else validateBech32Loop fromBech32 [] addresses)"

definition AccessType_With ::
  "(bytes \<Rightarrow> AccAddress outcome) \<Rightarrow> (AccAddress \<Rightarrow> bytes) \<Rightarrow> AccessType \<Rightarrow> AccAddress list
    \<Rightarrow> AccessConfig outcome" where
  "AccessType_With fromBech32 accString a addrs =
    (case a of
       AccessTypeNobody \<Rightarrow> Ok AllowNobody
     | AccessTypeEverybody \<Rightarrow> Ok AllowEverybody
     | AccessTypeAnyOfAddresses \<Rightarrow>
        (let bech32Addrs = map accString addrs in
         case validateBech32Addresses fromBech32 bech32Addrs of
           Ok _ \<Rightarrow> Ok \<lparr>Permission = AccessTypeAnyOfAddresses, Addresses = bech32Addrs\<rparr>
         | Err _ \<Rightarrow> Panic (OtherPanic ''addresses'')
         | Panic p \<Rightarrow> Panic p)
     | _ \<Rightarrow> Panic (OtherPanic ''unsupported access type''))"

fun AccessType_String :: "AccessType \<Rightarrow> bytes" where
  "AccessType_String AccessTypeNobody = ''Nobody''"
| "AccessType_String AccessTypeEverybody = ''Everybody''"
| "AccessType_String AccessTypeAnyOfAddresses = ''AnyOfAddresses''"
| "AccessType_String _ = ''Unspecified''"

definition AccessType_UnmarshalText :: "bytes \<Rightarrow> AccessType" where
  "AccessType_UnmarshalText txt =
    (case find (\<lambda>v. AccessType_String v = txt) AllAccessTypes of
       Some v \<Rightarrow> v
     | None \<Rightarrow> AccessTypeUnspecified)"

definition AccessConfig_Equals :: "AccessConfig \<Rightarrow> AccessConfig \<Rightarrow> bool" where
  "AccessConfig_Equals a b = (Permission a = Permission b)"

definition validateAccessType :: "AccessType \<Rightarrow> unit outcome" where
  "validateAccessType a =
    (if a = AccessTypeUnspecified then Err ErrEmpty
     else if a \<in> set AllAccessTypes then Ok ()
     else Err ErrInvalid)"

definition AccessConfig_ValidateBasic ::
  "(bytes \<Rightarrow> AccAddress outcome) \<Rightarrow> AccessConfig \<Rightarrow> unit outcome" where
  "AccessConfig_ValidateBasic fromBech32 a =
    (case Permission a of
       AccessTypeUnspecified \<Rightarrow> Err ErrEmpty
     | AccessTypeNobody \<Rightarrow> Ok ()
     | AccessTypeEverybody \<Rightarrow> Ok ()
     | AccessTypeAnyOfAddresses \<Rightarrow> validateBech32Addresses fromBech32 (Addresses a)
     | AccessTypeUnknown _ \<Rightarrow> Err ErrInvalid)"

definition Params_ValidateBasic :: "(bytes \<Rightarrow> AccAddress outcome) \<Rightarrow> Params \<Rightarrow> unit outcome" where
  "Params_ValidateBasic fromBech32 p =
    (case validateAccessType (InstantiateDefaultPermission p) of
       Ok _ \<Rightarrow> AccessConfig_ValidateBasic fromBech32 (CodeUploadAccess p)
     | r \<Rightarrow> r)"

definition Allowed :: "(AccAddress \<Rightarrow> bytes) \<Rightarrow> AccessConfig \<Rightarrow> AccAddress \<Rightarrow> bool outcome" where
  "Allowed accString a actor =
    (case Permission a of
       AccessTypeNobody \<Rightarrow> Ok False
     | AccessTypeEverybody \<Rightarrow> Ok True
     | AccessTypeAnyOfAddresses \<Rightarrow> Ok (list_ex (\<lambda>v. v = accString actor) (Addresses a))
     | _ \<Rightarrow> Panic (OtherPanic ''unknown type''))"

definition AccessType_IsSubset :: "AccessType \<Rightarrow> AccessType \<Rightarrow> bool" where
  "AccessType_IsSubset a superSet =
    (case superSet of
       AccessTypeEverybody \<Rightarrow> a \<noteq> AccessTypeUnspecified
     | AccessTypeNobody \<Rightarrow> a = AccessTypeNobody
     | AccessTypeAnyOfAddresses \<Rightarrow> a = AccessTypeNobody \<or> a = AccessTypeAnyOfAddresses
     | _ \<Rightarrow> False)"

text \<open>The counting loop: one match per element of \<open>sub\<close> found in \<open>super\<close>.\<close>

fun countMatches :: "bytes list \<Rightarrow> bytes list \<Rightarrow> nat" where
  "countMatches super [] = 0"
| "countMatches super (x # sub) =
    (if list_ex (\<lambda>s. x = s) super then 1 else 0) + countMatches super sub"

definition isSubset :: "bytes list \<Rightarrow> bytes list \<Rightarrow> bool" where
  "isSubset super sub = (if length sub = 0 then True else countMatches super sub = length sub)"

definition AccessConfig_IsSubset :: "AccessConfig \<Rightarrow> AccessConfig \<Rightarrow> bool" where
  "AccessConfig_IsSubset a superSet =
    (case Permission superSet of
       AccessTypeAnyOfAddresses \<Rightarrow>
         Permission a = AccessTypeNobody \<or>
         Permission a = AccessTypeAnyOfAddresses \<and> isSubset (Addresses superSet) (Addresses a)
     | AccessTypeUnspecified \<Rightarrow> False
     | _ \<Rightarrow> AccessType_IsSubset (Permission a) (Permission superSet))"

definition AllAuthorizedAddresses :: "AccessConfig \<Rightarrow> bytes list" where
  "AllAuthorizedAddresses a =
    (if Permission a = AccessTypeAnyOfAddresses then Addresses a else [])"

subsection \<open>Authorization policies\<close>

record ChainAccessConfigs =
  Upload :: AccessConfig
  Instantiate :: AccessConfig

datatype AuthorizationPolicyAction = AuthZActionInstantiate | AuthZActionMigrateContract
  | AuthZActionOther u64

text \<open>The implementations of the interface; the methods dispatch on them.  The propagate map of the
  governance policy is the list of its actions.\<close>

datatype AuthorizationPolicy =
    DefaultAuthorizationPolicy
  | GovAuthorizationPolicy "AuthorizationPolicyAction list"
  | PartialGovAuthorizationPolicy AuthorizationPolicyAction AuthorizationPolicy

definition NewGovAuthorizationPolicy :: "AuthorizationPolicyAction list \<Rightarrow> AuthorizationPolicy" where
  "NewGovAuthorizationPolicy actions = GovAuthorizationPolicy (remdups actions)"

fun CanCreateCode ::
  "(AccAddress \<Rightarrow> bytes) \<Rightarrow> AuthorizationPolicy \<Rightarrow> ChainAccessConfigs \<Rightarrow> AccAddress \<Rightarrow> AccessConfig
    \<Rightarrow> bool outcome" where
  "CanCreateCode accString DefaultAuthorizationPolicy chainConfigs actor contractConfig =
    (case Allowed accString (Upload chainConfigs) actor of
       Ok True \<Rightarrow> Ok (AccessConfig_IsSubset contractConfig (Instantiate chainConfigs))
     | r \<Rightarrow> r)"
| "CanCreateCode accString (GovAuthorizationPolicy _) chainConfigs actor contractConfig = Ok True"
| "CanCreateCode accString (PartialGovAuthorizationPolicy _ p) chainConfigs actor contractConfig =
    CanCreateCode accString p chainConfigs actor contractConfig"

fun CanInstantiateContract ::
  "(AccAddress \<Rightarrow> bytes) \<Rightarrow> AuthorizationPolicy \<Rightarrow> AccessConfig \<Rightarrow> AccAddress \<Rightarrow> bool outcome" where
  "CanInstantiateContract accString DefaultAuthorizationPolicy config actor =
    Allowed accString config actor"
| "CanInstantiateContract accString (GovAuthorizationPolicy _) config actor = Ok True"
| "CanInstantiateContract accString (PartialGovAuthorizationPolicy action p) config actor =
    (if action = AuthZActionInstantiate then Ok True
     else CanInstantiateContract accString p config actor)"

fun CanModifyContract :: "AuthorizationPolicy \<Rightarrow> AccAddress option \<Rightarrow> AccAddress \<Rightarrow> bool" where
  "CanModifyContract DefaultAuthorizationPolicy admin actor = (admin = Some actor)"
| "CanModifyContract (GovAuthorizationPolicy _) admin actor = True"
| "CanModifyContract (PartialGovAuthorizationPolicy action p) admin actor =
    (if action = AuthZActionMigrateContract then True else CanModifyContract p admin actor)"

fun CanModifyCodeAccessConfig ::
  "AuthorizationPolicy \<Rightarrow> AccAddress option \<Rightarrow> AccAddress \<Rightarrow> bool \<Rightarrow> bool" where
  "CanModifyCodeAccessConfig DefaultAuthorizationPolicy creator actor sub =
    (creator = Some actor \<and> sub)"
| "CanModifyCodeAccessConfig (GovAuthorizationPolicy _) creator actor sub = True"
| "CanModifyCodeAccessConfig (PartialGovAuthorizationPolicy _ p) creator actor sub =
    CanModifyCodeAccessConfig p creator actor sub"

fun SubMessageAuthorizationPolicy ::
  "AuthorizationPolicy \<Rightarrow> AuthorizationPolicyAction \<Rightarrow> AuthorizationPolicy" where
  "SubMessageAuthorizationPolicy DefaultAuthorizationPolicy _ = DefaultAuthorizationPolicy"
| "SubMessageAuthorizationPolicy (GovAuthorizationPolicy propagate) action =
    (if propagate \<noteq> [] \<and> action \<in> set propagate
     then PartialGovAuthorizationPolicy action DefaultAuthorizationPolicy
     else DefaultAuthorizationPolicy)"
| "SubMessageAuthorizationPolicy (PartialGovAuthorizationPolicy a p) _ =
    PartialGovAuthorizationPolicy a p"

text \<open>A question put to a policy, and whether the policy answers it with yes.\<close>

datatype policy_request =
    AskCreateCode ChainAccessConfigs AccAddress AccessConfig
  | AskInstantiate AccessConfig AccAddress
  | AskModifyContract "AccAddress option" AccAddress
  | AskModifyAccess "AccAddress option" AccAddress bool

fun grants :: "(AccAddress \<Rightarrow> bytes) \<Rightarrow> AuthorizationPolicy \<Rightarrow> policy_request \<Rightarrow> bool" where
  "grants accString p (AskCreateCode cc actor c) = (CanCreateCode accString p cc actor c = Ok True)"
| "grants accString p (AskInstantiate c actor) = (CanInstantiateContract accString p c actor = Ok True)"
| "grants accString p (AskModifyContract adm actor) = CanModifyContract p adm actor"
| "grants accString p (AskModifyAccess cr actor sub) = CanModifyCodeAccessConfig p cr actor sub"

text \<open>The policy in force after descending through a chain of nested entry points.\<close>

definition policyChain ::
  "('p \<Rightarrow> AuthorizationPolicyAction \<Rightarrow> 'p) \<Rightarrow> 'p \<Rightarrow> AuthorizationPolicyAction list \<Rightarrow> 'p" where
  "policyChain sub p actions = foldl sub p actions"

subsection \<open>The policy interface\<close>

locale authorization_policy =
  fixes ask :: "'p \<Rightarrow> 'r \<Rightarrow> bool"
    and sub :: "'p \<Rightarrow> AuthorizationPolicyAction \<Rightarrow> 'p"
  assumes sub_no_escalation: "ask (sub p a) r \<Longrightarrow> ask p r"
    and sub_stable: "sub (sub p a) b = sub p a"
begin

lemma chain_no_escalation: "ask (policyChain sub p as) r \<Longrightarrow> ask p r"
  unfolding policyChain_def
  by (induction as arbitrary: p) (auto dest: sub_no_escalation)

lemma chain_fixed_by_first: "policyChain sub p (a # as) = sub p a"
  unfolding policyChain_def
proof (induction as rule: rev_induct)
  case Nil
  then show ?case by simp
next
  case (snoc b as)
  then show ?case by (simp add: sub_stable)
qed

end

interpretation pol: authorization_policy "grants accString" SubMessageAuthorizationPolicy
  for accString :: "AccAddress \<Rightarrow> bytes"
proof
  fix p a r
  show "grants accString (SubMessageAuthorizationPolicy p a) r \<Longrightarrow> grants accString p r"
    by (cases p; cases r) (simp_all split: if_splits)
next
  fix p a b
  show "SubMessageAuthorizationPolicy (SubMessageAuthorizationPolicy p a) b =
      SubMessageAuthorizationPolicy p a"
    by (cases p) simp_all
qed

subsection \<open>Facts about access configurations\<close>

lemma countMatches_le: "countMatches super sub \<le> length sub"
  by (induction sub) auto

lemma countMatches_full_iff: "countMatches super sub = length sub \<longleftrightarrow> set sub \<subseteq> set super"
proof (induction sub)
  case Nil
  then show ?case by simp
next
  case (Cons x sub)
  then show ?case using countMatches_le [of super sub] by (auto simp: list_ex_iff)
qed

lemma isSubset_iff: "isSubset super sub \<longleftrightarrow> set sub \<subseteq> set super"
  by (simp add: isSubset_def countMatches_full_iff)

lemma validateBech32Loop_Ok:
  "validateBech32Loop f index as = Ok () \<Longrightarrow>
    (\<forall>a \<in> set as. \<exists>x. f a = Ok x) \<and> distinct (map ToUpperASCII as) \<and>
    set index \<inter> set (map ToUpperASCII as) = {}"
proof (induction f index as rule: validateBech32Loop.induct)
  case (1 f index)
  then show ?case by simp
next
  case (2 f index a as)
  then show ?case by (auto simp: Let_def split: outcome.splits if_splits)
qed

lemma Allowed_AnyOf:
  "Permission a = AccessTypeAnyOfAddresses \<Longrightarrow>
    Allowed accString a actor = Ok (accString actor \<in> set (Addresses a))"
  by (simp add: Allowed_def list_ex_iff)

subsection \<open>Properties\<close>

text \<open>C32. A configuration accepted as a subset never lets anybody in whom the larger one keeps out.
  Whenever \<^verbatim>\<open>IsSubset\<close> holds and the smaller configuration allows an actor, the larger one
  allows the actor too, and it does not panic.\<close>

theorem IsSubset_sound:
  assumes "AccessConfig_IsSubset a super"
    and "Allowed accString a actor = Ok True"
  shows "Allowed accString super actor = Ok True"
  using assms
  by (auto simp: AccessConfig_IsSubset_def AccessType_IsSubset_def Allowed_def isSubset_iff
      list_ex_iff split: AccessType.splits)

theorem IsSubset_sound_witness:
  "Allowed (\<lambda>a. a) \<lparr>Permission = AccessTypeAnyOfAddresses, Addresses = [''x'', ''y'']\<rparr> ''y'' = Ok True"
  by (rule IsSubset_sound [of "\<lparr>Permission = AccessTypeAnyOfAddresses, Addresses = [''y'']\<rparr>"])
     (simp_all add: AccessConfig_IsSubset_def isSubset_iff Allowed_def)

text \<open>C19. Submessages never gain rights.  After any chain of nested entry points the policy in force
  grants only what the policy at the top grants, and code upload and access reconfiguration below a
  governance call are decided exactly as the default policy decides them.\<close>

theorem submessage_policy_never_escalates:
  "(grants accString (policyChain SubMessageAuthorizationPolicy p as) r \<longrightarrow> grants accString p r) \<and>
   CanCreateCode accString
     (policyChain SubMessageAuthorizationPolicy (GovAuthorizationPolicy prop) (a # as)) =
     CanCreateCode accString DefaultAuthorizationPolicy \<and>
   CanModifyCodeAccessConfig
     (policyChain SubMessageAuthorizationPolicy (GovAuthorizationPolicy prop) (a # as)) =
     CanModifyCodeAccessConfig DefaultAuthorizationPolicy"
proof (intro conjI)
  show "grants accString (policyChain SubMessageAuthorizationPolicy p as) r \<longrightarrow> grants accString p r"
    using pol.chain_no_escalation by blast
qed (auto simp: pol.chain_fixed_by_first fun_eq_iff)

theorem submessage_policy_never_escalates_witness:
  "\<not> grants (\<lambda>a. a) (policyChain SubMessageAuthorizationPolicy DefaultAuthorizationPolicy
      [AuthZActionInstantiate, AuthZActionMigrateContract]) (AskModifyContract (Some ''adm'') ''eve'')"
  using submessage_policy_never_escalates [of "\<lambda>a. a" DefaultAuthorizationPolicy
      "[AuthZActionInstantiate, AuthZActionMigrateContract]" "AskModifyContract (Some ''adm'') ''eve''"]
  by simp

text \<open>Accepted address lists are usable.  When \<^verbatim>\<open>validateBech32Addresses\<close> succeeds the list has
  between one and fifty entries, every entry decodes, and no two entries are equal up to case.\<close>

lemma validateBech32Addresses_sound:
  assumes "validateBech32Addresses fromBech32 addrs = Ok ()"
  shows "addrs \<noteq> [] \<and> length addrs \<le> 50 \<and> (\<forall>a \<in> set addrs. \<exists>x. fromBech32 a = Ok x) \<and>
    distinct (map ToUpperASCII addrs)"
  using assms validateBech32Loop_Ok [of fromBech32 "[]" addrs]
  by (auto simp: validateBech32Addresses_def MaxAddressCount_def split: if_splits)

end
