(* ===== verification/VMTypes.thy ===== *)
theory VMTypes
  imports Types
begin

section \<open>Messages exchanged with the contract runtime\<close>

text \<open>
  The data types of the wasmvm package that the code takes apart or builds: coins, events, the
  submessage results and replies, the environment.  Only their shape is taken from wasmvm; no
  function of that package is defined here.  A nil-able pointer or slice whose nil-ness the code
  observes is an option.
\<close>

record Coin =
  Denom :: bytes
  Amount :: int

type_synonym Coins = "Coin list"

record EventAttribute =
  AttrKey :: bytes
  AttrValue :: bytes

record Event =
  EventType :: bytes
  Attributes :: "EventAttribute list"

record SubMsgResponse =
  RespEvents :: "Event list"
  RespData :: "bytes option"
  RespMsgResponses :: "(bytes \<times> bytes) list"

record SubMsgResult =
  ResOk :: "SubMsgResponse option"
  ResErr :: bytes

record Reply =
  ReplyID :: u64
  ReplyResult :: SubMsgResult
  ReplyPayload :: bytes
  ReplyGasUsed :: u64

datatype ReplyOn = ReplyAlways | ReplySuccess | ReplyError | ReplyNever | ReplyOther bytes

record 'msg SubMsg =
  SubID :: u64
  SubMsgMsg :: 'msg
  SubGasLimit :: "u64 option"
  SubReplyOn :: ReplyOn
  SubPayload :: bytes

record 'msg Response =
  RespMessages :: "'msg SubMsg list"
  RespRData :: "bytes option"
  RespAttributes :: "EventAttribute list"
  RespREvents :: "Event list"

record 'msg ContractResult =
  CrOk :: "'msg Response option"
  CrErr :: bytes

record QueryResult =
  QrOk :: bytes
  QrErr :: bytes

record AnalysisReport =
  HasIBCEntryPoints :: bool
  RequiredCapabilities :: bytes
  ContractMigrateVersion :: "u64 option"

record Env =
  EnvHeight :: u64
  EnvTime :: u64
  EnvChainID :: bytes
  EnvContract :: bytes
  EnvTxIndex :: "u32 option"

record MessageInfo =
  InfoSender :: bytes
  InfoFunds :: "(bytes \<times> bytes) list"

datatype vm_entry =
    VmInstantiate MessageInfo bytes
  | VmExecute MessageInfo bytes
  | VmMigrate bytes
  | VmSudo bytes
  | VmReply Reply

text \<open>Packets of the IBC channel module (the fields of \<^verbatim>\<open>channeltypes.Packet\<close>).\<close>

record Height =
  RevisionNumber :: u64
  RevisionHeight :: u64

record Packet =
  Sequence :: u64
  SourcePort :: bytes
  SourceChannel :: bytes
  DestinationPort :: bytes
  DestinationChannel :: bytes
  PacketData :: bytes
  TimeoutHeight :: Height
  TimeoutTimestamp :: u64

end
