(* ===== verification/GasRegister.thy ===== *)
theory GasRegister
  imports VMTypes
begin

section \<open>The gas register\<close>

text \<open>
  src/x/wasm/types/gas_register.go.  Gas is an unsigned 64-bit number and wraps; the explicit
  overflow checks of the code are kept.  \<^verbatim>\<open>sdkmath.Int\<close> is a mathematical integer.  The
  multiplication of a \<^verbatim>\<open>UFraction\<close> followed by \<^verbatim>\<open>Floor\<close> belongs to wasmvm and is the argument
  \<open>mulFloor\<close>.

  The locale \<open>gas_register\<close> is what the keeper needs of the two unit conversions: gas the runtime
  uses within the limit it was given never costs more than the gas the limit stood for.
\<close>

record UFraction =
  Numerator :: u64
  Denominator :: u64

record WasmGasRegisterConfig =
  InstanceCost :: u64
  InstanceCostDiscount :: u64
  CompileCost :: u64
  UncompressCost :: UFraction
  GasMultiplier :: u64
  EventPerAttributeCost :: u64
  EventAttributeDataCost :: u64
  EventAttributeDataFreeTier :: u64
  ContractMessageDataCost :: u64
  CustomEventCost :: u64

definition DefaultPerByteUncompressCost :: UFraction where
  "DefaultPerByteUncompressCost = \<lparr>Numerator = 15, Denominator = 100\<rparr>"

definition DefaultGasRegisterConfig :: WasmGasRegisterConfig where
  "DefaultGasRegisterConfig =
    \<lparr>InstanceCost = 60000, InstanceCostDiscount = 2000, CompileCost = 3,
     UncompressCost = DefaultPerByteUncompressCost, GasMultiplier = 140000,
     EventPerAttributeCost = 10, EventAttributeDataCost = 1, EventAttributeDataFreeTier = 100,
     ContractMessageDataCost = 0, CustomEventCost = 20\<rparr>"

definition NewWasmGasRegister :: "WasmGasRegisterConfig \<Rightarrow> WasmGasRegisterConfig outcome" where
  "NewWasmGasRegister c =
    (if GasMultiplier c = 0 then Panic (OtherPanic ''GasMultiplier can not be 0'') else Ok c)"

definition UncompressCosts ::
  "(UFraction \<Rightarrow> u64 \<Rightarrow> u64) \<Rightarrow> WasmGasRegisterConfig \<Rightarrow> int \<Rightarrow> u64 outcome" where
  "UncompressCosts mulFloor g byteLength =
    (if byteLength < 0 then Panic (OtherPanic ''negative length'')
     else Ok (mulFloor (UncompressCost g) (word_of_int byteLength)))"

definition SetupContractCost :: "WasmGasRegisterConfig \<Rightarrow> bool \<Rightarrow> int \<Rightarrow> u64 outcome" where
  "SetupContractCost g discount msgLen =
    (if msgLen < 0 then Panic (OtherPanic ''negative length'')
     else
      (let dataCost = word_of_int msgLen * ContractMessageDataCost g in
       if discount then Ok (InstanceCostDiscount g + dataCost)
       else Ok (InstanceCost g + dataCost)))"

definition calcWithFreeTier :: "u64 \<Rightarrow> u64 \<Rightarrow> u64 \<times> u64" where
  "calcWithFreeTier storedBytes freeTier =
    (if storedBytes \<le> freeTier then (0, freeTier - storedBytes)
     else (storedBytes - freeTier, 0))"

definition attrBytes :: "EventAttribute list \<Rightarrow> u64" where
  "attrBytes attrs =
    foldl (\<lambda>n l. n + (of_nat (length (AttrKey l)) + of_nat (length (AttrValue l)))) 0 attrs"

definition eventAttributeCosts ::
  "WasmGasRegisterConfig \<Rightarrow> EventAttribute list \<Rightarrow> u64 \<Rightarrow> (u64 \<times> u64) outcome" where
  "eventAttributeCosts g attrs freeTier =
    (if length attrs = 0 then Ok (0, freeTier)
     else
      (let (storedBytes, freeTier') = calcWithFreeTier (attrBytes attrs) freeTier;
           r = uint (EventAttributeDataCost g) * uint storedBytes +
               uint (EventPerAttributeCost g) * uint (of_nat (length attrs) :: u64)
       in if \<not> r < 2 ^ 64 then Panic (OutOfGasPanic ''overflow'')
          else Ok (word_of_int r, freeTier')))"

fun eventCostsLoop :: "WasmGasRegisterConfig \<Rightarrow> Event list \<Rightarrow> u64 \<Rightarrow> u64 \<Rightarrow> u64 outcome" where
  "eventCostsLoop g [] gas free = Ok gas"
| "eventCostsLoop g (e # es) gas free =
    (let gas1 = gas + CustomEventCost g;
         gas2 = gas1 + of_nat (length (EventType e)) * EventAttributeDataCost g
     in case eventAttributeCosts g (Attributes e) free of
          Ok (attrCost, free') \<Rightarrow> eventCostsLoop g es (gas2 + attrCost) free'
        | Err x \<Rightarrow> Err x
        | Panic p \<Rightarrow> Panic p)"

definition EventCosts ::
  "WasmGasRegisterConfig \<Rightarrow> EventAttribute list \<Rightarrow> Event list \<Rightarrow> u64 outcome" where
  "EventCosts g attrs events =
    (case eventAttributeCosts g attrs (EventAttributeDataFreeTier g) of
       Ok (gas, remainingFreeTier) \<Rightarrow> eventCostsLoop g events gas remainingFreeTier
     | Err x \<Rightarrow> Err x
     | Panic p \<Rightarrow> Panic p)"

definition replyEventTypeGas :: "WasmGasRegisterConfig \<Rightarrow> Event list \<Rightarrow> u64" where
  "replyEventTypeGas g events =
    foldl (\<lambda>gas e. gas + of_nat (length (EventType e)) * EventAttributeDataCost g) 0 events"

definition ReplyCosts :: "WasmGasRegisterConfig \<Rightarrow> bool \<Rightarrow> Reply \<Rightarrow> u64 outcome" where
  "ReplyCosts g discount reply =
    (let errLen = int (length (ResErr (ReplyResult reply))) in
     case ResOk (ReplyResult reply) of
       None \<Rightarrow> SetupContractCost g discount errLen
     | Some ok \<Rightarrow>
        (let msgLen = errLen + (case RespData ok of None \<Rightarrow> 0 | Some d \<Rightarrow> int (length d));
             attrs = concat (map Attributes (RespEvents ok)) in
         case EventCosts g attrs [] of
           Ok c \<Rightarrow>
            (case SetupContractCost g discount msgLen of
               Ok s \<Rightarrow> Ok (replyEventTypeGas g (RespEvents ok) + c + s)
             | r \<Rightarrow> r)
         | r \<Rightarrow> r))"

definition ToWasmVMGas :: "WasmGasRegisterConfig \<Rightarrow> u64 \<Rightarrow> u64 outcome" where
  "ToWasmVMGas g source =
    (let x = source * GasMultiplier g in
     if x < source then Panic (OutOfGasPanic ''overflow'') else Ok x)"

definition FromWasmVMGas :: "WasmGasRegisterConfig \<Rightarrow> u64 \<Rightarrow> u64" where
  "FromWasmVMGas g source = source div GasMultiplier g"

text \<open>Reference costs in unbounded arithmetic: the free tier is taken once from all attribute bytes.\<close>

definition attr_len :: "EventAttribute list \<Rightarrow> nat" where
  "attr_len attrs = sum_list (map (\<lambda>l. length (AttrKey l) + length (AttrValue l)) attrs)"

definition event_cost_spec :: "WasmGasRegisterConfig \<Rightarrow> EventAttribute list \<Rightarrow> Event list \<Rightarrow> nat" where
  "event_cost_spec g attrs events =
    (let all = attrs @ concat (map Attributes events) in
     unat (EventPerAttributeCost g) * length all +
     unat (CustomEventCost g) * length events +
     unat (EventAttributeDataCost g) * sum_list (map (\<lambda>e. length (EventType e)) events) +
     unat (EventAttributeDataCost g) * (attr_len all - unat (EventAttributeDataFreeTier g)))"

subsection \<open>The conversion interface\<close>

locale gas_register =
  fixes toVM :: "u64 \<Rightarrow> u64 outcome"
    and fromVM :: "u64 \<Rightarrow> u64"
  assumes from_within: "toVM s = Ok v \<Longrightarrow> fromVM v \<le> s"
    and from_mono: "u \<le> v \<Longrightarrow> fromVM u \<le> fromVM v"
begin

lemma charge_within_limit: "toVM s = Ok v \<Longrightarrow> u \<le> v \<Longrightarrow> fromVM u \<le> s"
  using from_within from_mono order_trans by blast

end

subsection \<open>Word arithmetic\<close>

lemma u64_add_nat: "unat a + unat b < 2 ^ 64 \<Longrightarrow> unat (a + b :: u64) = unat a + unat b"
  by (simp add: unat_word_ariths)

lemma u64_mult_nat: "unat a * unat b < 2 ^ 64 \<Longrightarrow> unat (a * b :: u64) = unat a * unat b"
  by (simp add: unat_word_ariths)

lemma mult_div_wrap_le: "unat (a * m :: u64) div unat m \<le> unat a"
proof -
  have "unat (a * m) \<le> unat a * unat m" by (simp add: unat_word_ariths)
  then have "unat (a * m) div unat m \<le> unat a * unat m div unat m" by (rule div_le_mono)
  also have "\<dots> \<le> unat a" by simp
  finally show ?thesis .
qed

lemma ToWasmVMGas_Ok: "ToWasmVMGas g s = Ok v \<Longrightarrow> v = s * GasMultiplier g"
  by (simp add: ToWasmVMGas_def Let_def split: if_splits)

interpretation gr: gas_register "ToWasmVMGas g" "FromWasmVMGas g" for g
proof
  fix s v
  assume "ToWasmVMGas g s = Ok v"
  then have v: "v = s * GasMultiplier g" by (rule ToWasmVMGas_Ok)
  show "FromWasmVMGas g v \<le> s"
    using mult_div_wrap_le [of s "GasMultiplier g"]
    by (simp add: v FromWasmVMGas_def word_le_nat_alt unat_div_distrib)
next
  fix u v :: u64
  assume "u \<le> v"
  then show "FromWasmVMGas g u \<le> FromWasmVMGas g v"
    by (simp add: FromWasmVMGas_def word_le_nat_alt unat_div_distrib div_le_mono)
qed

subsection \<open>Event costs against the reference\<close>

lemma attr_len_simps [simp]:
  "attr_len [] = 0"
  "attr_len (a # as) = length (AttrKey a) + length (AttrValue a) + attr_len as"
  "attr_len (as @ bs) = attr_len as + attr_len bs"
  by (simp_all add: attr_len_def)

lemma attrBytes_acc:
  "foldl (\<lambda>n l. n + (of_nat (length (AttrKey l)) + of_nat (length (AttrValue l)))) (acc :: u64) attrs =
    acc + of_nat (attr_len attrs)"
  by (induction attrs arbitrary: acc) (simp_all add: algebra_simps)

lemma attrBytes_eq: "attrBytes attrs = of_nat (attr_len attrs)"
  by (simp add: attrBytes_def attrBytes_acc)

lemma calcWithFreeTier_nat:
  assumes "calcWithFreeTier stored free = (b, f)"
  shows "unat b = unat stored - unat free \<and> unat f = unat free - unat stored"
  using assms
  by (auto simp: calcWithFreeTier_def word_le_nat_alt unat_sub split: if_splits)

lemma attr_len_pos_length: "length attrs = 0 \<Longrightarrow> attr_len attrs = 0"
  by simp

lemma eventAttributeCosts_nat:
  assumes "attr_len attrs < 2 ^ 64" and "length attrs < 2 ^ 64"
    and "unat (EventAttributeDataCost g) * (attr_len attrs - unat free) +
         unat (EventPerAttributeCost g) * length attrs < 2 ^ 64"
  shows "\<exists>c f. eventAttributeCosts g attrs free = Ok (c, f) \<and>
    unat c = unat (EventAttributeDataCost g) * (attr_len attrs - unat free) +
             unat (EventPerAttributeCost g) * length attrs \<and>
    unat f = unat free - attr_len attrs"
proof (cases "length attrs = 0")
  case True
  then show ?thesis by (simp add: eventAttributeCosts_def)
next
  case False
  obtain b f where bf: "calcWithFreeTier (attrBytes attrs) free = (b, f)" by fastforce
  have b: "unat b = attr_len attrs - unat free" and f: "unat f = unat free - attr_len attrs"
    using calcWithFreeTier_nat [OF bf] assms(1) by (simp_all add: attrBytes_eq)
  define n where "n = unat (EventAttributeDataCost g) * unat b +
    unat (EventPerAttributeCost g) * length attrs"
  have n: "n < 2 ^ 64" using assms(3) by (simp add: n_def b)
  have len: "uint (of_nat (length attrs) :: u64) = int (length attrs)"
    using unat_of_nat_u64 [OF assms(2)] by (simp only: uint_nat)
  have r: "uint (EventAttributeDataCost g) * uint b +
      uint (EventPerAttributeCost g) * uint (of_nat (length attrs) :: u64) = int n"
    by (simp add: n_def len)
  have lt: "int n < 2 ^ 64" using n by simp
  have "eventAttributeCosts g attrs free = Ok (word_of_int (int n), f)"
    using False lt unfolding eventAttributeCosts_def Let_def bf prod.case r by simp
  moreover have "unat (word_of_int (int n) :: u64) = n" using n by simp
  ultimately show ?thesis using f by (auto simp: n_def b)
qed

lemma eventCostsLoop_nat:
  fixes g :: WasmGasRegisterConfig
  defines "pa \<equiv> unat (EventPerAttributeCost g)" and "dc \<equiv> unat (EventAttributeDataCost g)"
    and "ce \<equiv> unat (CustomEventCost g)"
  shows "attr_len (concat (map Attributes es)) < 2 ^ 64 \<Longrightarrow>
    length (concat (map Attributes es)) < 2 ^ 64 \<Longrightarrow>
    sum_list (map (\<lambda>e. length (EventType e)) es) < 2 ^ 64 \<Longrightarrow>
    unat gas + pa * length (concat (map Attributes es)) + ce * length es +
      dc * sum_list (map (\<lambda>e. length (EventType e)) es) +
      dc * (attr_len (concat (map Attributes es)) - unat free) < 2 ^ 64 \<Longrightarrow>
    \<exists>c. eventCostsLoop g es gas free = Ok c \<and>
      unat c = unat gas + pa * length (concat (map Attributes es)) + ce * length es +
        dc * sum_list (map (\<lambda>e. length (EventType e)) es) +
        dc * (attr_len (concat (map Attributes es)) - unat free)"
proof (induction es arbitrary: gas free)
  case Nil
  then show ?case by simp
next
  case (Cons e es)
  define A where "A = attr_len (Attributes e)"
  define B where "B = attr_len (concat (map Attributes es))"
  define T where "T = sum_list (map (\<lambda>e. length (EventType e)) es)"
  define L where "L = length (concat (map Attributes es))"
  define t where "t = length (EventType e)"
  define l where "l = length (Attributes e)"
  have split: "A + B - unat free = (A - unat free) + (B - (unat free - A))" by linarith
  have total: "unat gas + pa * (l + L) + ce * Suc (length es) + dc * (t + T) +
      dc * ((A - unat free) + (B - (unat free - A))) < 2 ^ 64"
    unfolding split [symmetric]
    using Cons.prems(4) by (simp add: A_def B_def T_def L_def t_def l_def)
  then have total': "unat gas + ce + dc * t + (dc * (A - unat free) + pa * l) +
      (pa * L + ce * length es + dc * T + dc * (B - (unat free - A))) < 2 ^ 64"
    by (simp add: algebra_simps)
  obtain c f where cf: "eventAttributeCosts g (Attributes e) free = Ok (c, f)"
    and c: "unat c = dc * (A - unat free) + pa * l" and f: "unat f = unat free - A"
    using eventAttributeCosts_nat [of "Attributes e" g free] Cons.prems(1,2) total'
    by (auto simp: A_def l_def pa_def dc_def)
  define gas3 where "gas3 = gas + CustomEventCost g +
    of_nat (length (EventType e)) * EventAttributeDataCost g + c"
  have tn: "unat (of_nat (length (EventType e)) * EventAttributeDataCost g :: u64) = dc * t"
    using u64_mult_nat [of "of_nat t" "EventAttributeDataCost g"] total' Cons.prems(3)
    by (simp add: t_def dc_def mult.commute)
  have g1: "unat (gas + CustomEventCost g) = unat gas + ce"
    using total' by (simp add: u64_add_nat ce_def)
  have g2: "unat (gas + CustomEventCost g + of_nat (length (EventType e)) * EventAttributeDataCost g) =
      unat gas + ce + dc * t"
    using total' by (subst u64_add_nat) (simp_all add: g1 tn)
  have g3: "unat gas3 = unat gas + ce + dc * t + (dc * (A - unat free) + pa * l)"
    unfolding gas3_def using total' by (subst u64_add_nat) (simp_all add: g2 c)
  have bound: "unat gas3 + pa * L + ce * length es + dc * T + dc * (B - unat f) < 2 ^ 64"
    using total' by (simp add: g3 f)
  obtain r where "eventCostsLoop g es gas3 f = Ok r"
    and "unat r = unat gas3 + pa * L + ce * length es + dc * T + dc * (B - unat f)"
    using Cons.IH [of gas3 f] Cons.prems(1-3) bound by (auto simp: B_def T_def L_def)
  moreover have "eventCostsLoop g (e # es) gas free = eventCostsLoop g es gas3 f"
    using cf by (simp add: gas3_def Let_def)
  moreover have "unat gas3 + pa * L + ce * length es + dc * T + dc * (B - unat f) =
      unat gas + pa * (l + L) + ce * Suc (length es) + dc * (t + T) + dc * (A + B - unat free)"
    unfolding split by (simp add: g3 f algebra_simps)
  ultimately show ?case
    by (simp add: A_def B_def T_def L_def t_def l_def)
qed

subsection \<open>Properties\<close>

text \<open>C26. A contract call never costs more gas than the caller had.  When the remaining gas \<open>s\<close> is
  handed to the runtime as a limit and the runtime uses at most that limit, converting the use back
  charges at most \<open>s\<close>, also where the conversion wraps around.\<close>

theorem runtime_charge_within_remaining:
  assumes "ToWasmVMGas g s = Ok limit" and "used \<le> limit"
  shows "FromWasmVMGas g used \<le> s"
  using gr.charge_within_limit [OF assms] .

theorem runtime_charge_within_remaining_witness:
  "FromWasmVMGas DefaultGasRegisterConfig 139999 \<le> 1"
  by (rule runtime_charge_within_remaining [of DefaultGasRegisterConfig 1 140000])
     (simp_all add: ToWasmVMGas_def DefaultGasRegisterConfig_def)

text \<open>C37. The conversions are exact on amounts that fit: if gas times multiplier is below 2 to the 64
  (and the multiplier is not zero, which the constructor enforces) then converting to runtime gas
  succeeds without wrapping and converting back returns the same gas.\<close>

theorem wasmvm_gas_roundtrip:
  assumes "NewWasmGasRegister c = Ok g" and "unat s * unat (GasMultiplier g) < 2 ^ 64"
  shows "\<exists>v. ToWasmVMGas g s = Ok v \<and> unat v = unat s * unat (GasMultiplier g) \<and>
    FromWasmVMGas g v = s"
proof -
  have "GasMultiplier g \<noteq> 0" using assms(1) by (auto simp: NewWasmGasRegister_def split: if_splits)
  then have m: "unat (GasMultiplier g) > 0" by (simp add: unat_gt_0)
  have v: "unat (s * GasMultiplier g) = unat s * unat (GasMultiplier g)"
    using assms(2) by (rule u64_mult_nat)
  have "\<not> s * GasMultiplier g < s" using m by (simp add: word_less_nat_alt v)
  moreover have "FromWasmVMGas g (s * GasMultiplier g) = s"
    using m by (intro word_unat_eq_iff [THEN iffD2])
      (simp add: FromWasmVMGas_def unat_div_distrib v)
  ultimately show ?thesis using v by (auto simp: ToWasmVMGas_def Let_def)
qed

theorem wasmvm_gas_roundtrip_witness:
  "\<exists>v. ToWasmVMGas DefaultGasRegisterConfig 100 = Ok v \<and> FromWasmVMGas DefaultGasRegisterConfig v = 100"
  using wasmvm_gas_roundtrip [of DefaultGasRegisterConfig DefaultGasRegisterConfig 100]
  by (auto simp: NewWasmGasRegister_def DefaultGasRegisterConfig_def)

text \<open>C25. Events cost what the price list says.  As long as the total fits into 64 bits the gas for a
  response is the price per attribute times all attributes, plus the price per custom event, plus
  the price per byte of all event types, plus the price per byte of all attribute data beyond the
  free tier; the free tier is granted once for the whole response, however the data is spread
  over its events.\<close>

theorem EventCosts_matches_price_list:
  assumes "event_cost_spec g attrs events < 2 ^ 64"
    and "attr_len (attrs @ concat (map Attributes events)) < 2 ^ 64"
    and "length (attrs @ concat (map Attributes events)) < 2 ^ 64"
    and "sum_list (map (\<lambda>e. length (EventType e)) events) < 2 ^ 64"
  shows "EventCosts g attrs events = Ok (of_nat (event_cost_spec g attrs events))"
proof -
  define F where "F = unat (EventAttributeDataFreeTier g)"
  define A where "A = attr_len attrs"
  define B where "B = attr_len (concat (map Attributes events))"
  define dc where "dc = unat (EventAttributeDataCost g)"
  define pa where "pa = unat (EventPerAttributeCost g)"
  define rest where "rest = pa * length (concat (map Attributes events)) +
    unat (CustomEventCost g) * length events + dc * sum_list (map (\<lambda>e. length (EventType e)) events)"
  have split: "A + B - F = (A - F) + (B - (F - A))" by linarith
  have spec: "event_cost_spec g attrs events =
      dc * (A - F) + pa * length attrs + (rest + dc * (B - (F - A)))"
    using arg_cong [OF split, of "\<lambda>x. dc * x"]
    by (simp add: event_cost_spec_def Let_def rest_def A_def B_def F_def dc_def pa_def algebra_simps)
  obtain c f where cf: "eventAttributeCosts g attrs (EventAttributeDataFreeTier g) = Ok (c, f)"
    and c: "unat c = dc * (A - F) + pa * length attrs" and f: "unat f = F - A"
    using eventAttributeCosts_nat [of attrs g "EventAttributeDataFreeTier g"] assms spec
    by (auto simp: A_def F_def dc_def pa_def)
  obtain r where r: "eventCostsLoop g events c f = Ok r" "unat r = event_cost_spec g attrs events"
    using eventCostsLoop_nat [of events c g f] assms spec
    by (auto simp: c f A_def B_def dc_def pa_def rest_def)
  have "r = of_nat (unat r)" by simp
  then show ?thesis using r cf by (simp add: EventCosts_def)
qed

theorem EventCosts_matches_price_list_witness:
  "EventCosts DefaultGasRegisterConfig
     [\<lparr>AttrKey = replicate 60 CHR ''k'', AttrValue = ''v''\<rparr>]
     [\<lparr>EventType = ''foo'', Attributes = [\<lparr>AttrKey = replicate 50 CHR ''k'', AttrValue = ''''\<rparr>]\<rparr>] =
   Ok 54"
  using EventCosts_matches_price_list [of DefaultGasRegisterConfig
      "[\<lparr>AttrKey = replicate 60 CHR ''k'', AttrValue = ''v''\<rparr>]"
      "[\<lparr>EventType = ''foo'', Attributes = [\<lparr>AttrKey = replicate 50 CHR ''k'', AttrValue = ''''\<rparr>]\<rparr>]"]
  by (simp add: event_cost_spec_def DefaultGasRegisterConfig_def)

text \<open>C40. The overflow check of \<^verbatim>\<open>ToWasmVMGas\<close> is incomplete: with the default multiplier there
  is an amount whose product exceeds 64 bits and for which the function returns the wrapped
  product instead of panicking.\<close>

theorem ToWasmVMGas_overflow_undetected:
  "\<exists>s v. unat s * unat (GasMultiplier DefaultGasRegisterConfig) \<ge> 2 ^ 64 \<and>
     ToWasmVMGas DefaultGasRegisterConfig s = Ok v \<and>
     unat v \<noteq> unat s * unat (GasMultiplier DefaultGasRegisterConfig)"
proof -
  have "ToWasmVMGas DefaultGasRegisterConfig 197639000000000 = Ok 9222715926290448384"
    by (simp add: ToWasmVMGas_def DefaultGasRegisterConfig_def)
  moreover have "unat (197639000000000 :: u64) * unat (GasMultiplier DefaultGasRegisterConfig) \<ge> 2 ^ 64"
    by (simp add: DefaultGasRegisterConfig_def)
  moreover have "unat (9222715926290448384 :: u64) \<noteq>
      unat (197639000000000 :: u64) * unat (GasMultiplier DefaultGasRegisterConfig)"
    by (simp add: DefaultGasRegisterConfig_def)
  ultimately show ?thesis by blast
qed

end
