(* ===== verification/KeeperBase.thy ===== *)
theory KeeperBase
  imports Keys AccessPolicy GasRegister
begin

section \<open>The state and the environment of the x/wasm keeper\<close>

text \<open>
  \<open>st\<close> is what a keeper call can change: the module's store, the gas meter of the context, the event
  manager of the context, the set of contracts already loaded in the transaction (a Go map shared by
  reference) and the state of all other modules (\<open>world\<close>).  \<open>ctx\<close> holds the values a context carries
  downwards; deriving a context is passing a changed record.

  \<open>keeper\<close> is the Go struct \<^verbatim>\<open>Keeper\<close> together with the code behind its interfaces: functions of
  the SDK (addresses, gas meters), the wasm engine, the account, bank, port and capability keepers,
  and the response handler.  None of them is defined here.  A call into another module can use gas,
  change the world and emit events but has no access to the x/wasm store; the engine gets the
  whole state to read (contracts can query) and writes through a prefix store of the called contract.

  The gas the SDK charges inside each store access is not modelled; the gas the code consumes
  explicitly is.  A stored value keeps its message type, so the protobuf codec is the identity and
  decoding a value of another type panics.
\<close>

datatype stored =
    SCodeInfo CodeInfo
  | SContractInfo ContractInfo
  | SHistory ContractCodeHistoryEntry
  | SBytes bytes
  | SParams Params
  | SPacket Packet

record ('m, 'x) st =
  store :: "stored kv"
  meter :: 'm
  events :: "Event list"
  txContracts :: "bytes list option"
  world :: 'x

record ctx =
  ctxBlockHeight :: int
  ctxBlockTimeNano :: int
  ctxChainID :: bytes
  ctxBlockGas :: "u64 option"
  ctxTXCounter :: "u32 option"
  ctxQueryStackSize :: "u32 option"
  ctxCallDepth :: "u32 option"
  ctxSubMsgAuthzPolicy :: "AuthorizationPolicy option"

type_synonym ('m, 'x, 'a) ext = "'m \<times> 'x \<Rightarrow> 'a outcome \<times> Event list \<times> 'm \<times> 'x"

record sdk_fns =
  accString :: "AccAddress \<Rightarrow> bytes"
  fromBech32 :: "bytes \<Rightarrow> AccAddress outcome"
  mustLengthPrefix :: "AccAddress \<Rightarrow> bytes outcome"
  addressModule :: "bytes \<Rightarrow> bytes \<Rightarrow> bytes"
  verifyAddressFormat :: "AccAddress \<Rightarrow> unit outcome"
  coinsIsZero :: "Coins \<Rightarrow> bool"

text \<open>A gas meter consumes first and then panics when it is exceeded, so consumption returns a meter
  and possibly a panic.\<close>

record 'm meter_fns =
  ConsumeGas :: "u64 \<Rightarrow> 'm \<Rightarrow> gpanic option \<times> 'm"
  IsOutOfGas :: "'m \<Rightarrow> bool"
  MeterLimit :: "'m \<Rightarrow> u64"
  GasConsumed :: "'m \<Rightarrow> u64"
  GasConsumedToLimit :: "'m \<Rightarrow> u64"
  NewGasMeter :: "u64 \<Rightarrow> 'm"
  NewInfiniteGasMeter :: 'm

datatype kvop = OpSet bytes bytes | OpDelete bytes

text \<open>The outcome of an engine call: result pointer, error, runtime gas used, writes to the prefix
  store, and what queries made on the way did to the meter and to the loaded contracts.\<close>

record ('m, 'r) vm_out =
  VmRes :: "'r option"
  VmErr :: "gerror option"
  VmGasUsed :: u64
  VmOps :: "kvop list"
  VmMeter :: 'm
  VmTxContracts :: "bytes list option"

record ('m, 'x, 'msg) vm_fns =
  vmStoreCode :: "bytes \<Rightarrow> u64 \<Rightarrow> bytes \<times> u64 \<times> gerror option"
  vmStoreCodeUnchecked :: "bytes \<Rightarrow> bytes outcome"
  vmAnalyzeCode :: "bytes \<Rightarrow> AnalysisReport outcome"
  vmPin :: "bytes \<Rightarrow> 'x \<Rightarrow> unit outcome \<times> 'x"
  vmUnpin :: "bytes \<Rightarrow> 'x \<Rightarrow> unit outcome \<times> 'x"
  vmGetCode :: "bytes \<Rightarrow> bytes outcome"
  vmCall :: "vm_entry \<Rightarrow> bytes \<Rightarrow> Env \<Rightarrow> AccAddress \<Rightarrow> u64 \<Rightarrow> ctx \<Rightarrow> ('m, 'x) st
    \<Rightarrow> ('m, 'msg ContractResult) vm_out"
  vmQuery :: "bytes \<Rightarrow> bytes \<Rightarrow> Env \<Rightarrow> AccAddress \<Rightarrow> u64 \<Rightarrow> ctx \<Rightarrow> ('m, 'x) st
    \<Rightarrow> ('m, QueryResult) vm_out"

record Account =
  accAddr :: AccAddress
  accSequence :: u64
  accPubKey :: "bytes option"
  accType :: bytes
  accOriginalVesting :: "Coins option"

record ('m, 'x) ext_fns =
  GetAccount :: "'x \<Rightarrow> AccAddress \<Rightarrow> Account option"
  NewAccountWithAddress :: "AccAddress \<Rightarrow> ('m, 'x, Account) ext"
  SetAccount :: "Account \<Rightarrow> ('m, 'x, unit) ext"
  GetCapability :: "'x \<Rightarrow> bytes \<Rightarrow> bool"
  BindPort :: "bytes \<Rightarrow> ('m, 'x, bytes) ext"
  ClaimCapabilityExt :: "bytes \<Rightarrow> bytes \<Rightarrow> ('m, 'x, unit) ext"
  PortPath :: "bytes \<Rightarrow> bytes"

text \<open>The interfaces with implementations in this repository (coin transferrer, account pruner,
  response handler) are fields over the keeper state.\<close>

record ('m, 'x, 'msg) keeper =
  kSdk :: sdk_fns
  kMeter :: "'m meter_fns"
  kVm :: "('m, 'x, 'msg) vm_fns"
  kExt :: "('m, 'x) ext_fns"
  kGasRegister :: WasmGasRegisterConfig
  kMulFloor :: "UFraction \<Rightarrow> u64 \<Rightarrow> u64"
  kGunzip :: "bytes \<Rightarrow> nat option \<Rightarrow> bytes outcome"
  kMaxQueryStackSize :: u32
  kMaxCallDepth :: u32
  kQueryGasLimit :: u64
  kAcceptedAccountTypes :: "bytes list"
  kAuthority :: bytes
  kPropagateGov :: "AuthorizationPolicyAction list"
  kTransferCoins :: "AccAddress \<Rightarrow> AccAddress \<Rightarrow> Coins \<Rightarrow> ('m, 'x, unit) ext"
  kCleanupExistingAccount :: "Account \<Rightarrow> ('m, 'x, bool) ext"
  kHandle :: "ctx \<Rightarrow> AccAddress \<Rightarrow> bytes \<Rightarrow> 'msg SubMsg list \<Rightarrow> bytes option
    \<Rightarrow> (('m, 'x) st, bytes option) go"

subsection \<open>Primitive steps\<close>

definition emitEvents :: "Event list \<Rightarrow> (('m, 'x) st, unit) go" where
  "emitEvents es = modifyM (\<lambda>s. s\<lparr>events := events s @ es\<rparr>)"

definition emitEvent :: "Event \<Rightarrow> (('m, 'x) st, unit) go" where
  "emitEvent e = emitEvents [e]"

definition extM :: "('m, 'x, 'a) ext \<Rightarrow> (('m, 'x) st, 'a) go" where
  "extM f = (\<lambda>s. case f (meter s, world s) of
     (r, es, m, x) \<Rightarrow> (r, s\<lparr>events := events s @ es, meter := m, world := x\<rparr>))"

definition vmWorldM :: "('x \<Rightarrow> unit outcome \<times> 'x) \<Rightarrow> (('m, 'x) st, unit) go" where
  "vmWorldM f = (\<lambda>s. case f (world s) of (r, x) \<Rightarrow> (r, s\<lparr>world := x\<rparr>))"

definition consumeGas :: "'m meter_fns \<Rightarrow> u64 \<Rightarrow> (('m, 'x) st, unit) go" where
  "consumeGas M g = (\<lambda>s. case ConsumeGas M g (meter s) of
     (None, m) \<Rightarrow> (Ok (), s\<lparr>meter := m\<rparr>)
   | (Some p, m) \<Rightarrow> (Panic p, s\<lparr>meter := m\<rparr>))"

text \<open>\<^verbatim>\<open>ctx.WithGasMeter\<close>: the body runs on the other meter, the caller keeps its own.\<close>

definition withGasMeter :: "'m \<Rightarrow> (('m, 'x) st, 'a) go \<Rightarrow> (('m, 'x) st, 'a) go" where
  "withGasMeter m body = (\<lambda>s. case body (s\<lparr>meter := m\<rparr>) of (r, t) \<Rightarrow> (r, t\<lparr>meter := meter s\<rparr>))"

definition storeGet :: "bytes \<Rightarrow> (('m, 'x) st, stored option) go" where
  "storeGet k = getsM (\<lambda>s. kv_get (store s) k)"

definition storeHas :: "bytes \<Rightarrow> (('m, 'x) st, bool) go" where
  "storeHas k = getsM (\<lambda>s. kv_has (store s) k)"

definition storeSet :: "bytes \<Rightarrow> stored \<Rightarrow> (('m, 'x) st, unit) go" where
  "storeSet k v = modifyM (\<lambda>s. s\<lparr>store := kv_set k v (store s)\<rparr>)"

definition storeDelete :: "bytes \<Rightarrow> (('m, 'x) st, unit) go" where
  "storeDelete k = modifyM (\<lambda>s. s\<lparr>store := kv_delete k (store s)\<rparr>)"

fun applyOp :: "bytes \<Rightarrow> kvop \<Rightarrow> stored kv \<Rightarrow> stored kv" where
  "applyOp p (OpSet k v) st = kv_set (p @ k) (SBytes v) st"
| "applyOp p (OpDelete k) st = kv_delete (p @ k) st"

definition applyOps :: "bytes \<Rightarrow> kvop list \<Rightarrow> stored kv \<Rightarrow> stored kv" where
  "applyOps p ops st = fold (applyOp p) ops st"

text \<open>Run the engine: the writes land under the contract's prefix.\<close>

definition runVM :: "(('m, 'x) st \<Rightarrow> ('m, 'r) vm_out) \<Rightarrow> AccAddress \<Rightarrow> (('m, 'x) st, ('m, 'r) vm_out) go" where
  "runVM call addr = (\<lambda>s. let out = call s in
     (Ok out, s\<lparr>store := applyOps (GetContractStorePrefix addr) (VmOps out) (store s),
                meter := VmMeter out, txContracts := VmTxContracts out\<rparr>))"

fun asCodeInfo :: "stored \<Rightarrow> CodeInfo outcome" where
  "asCodeInfo (SCodeInfo c) = Ok c"
| "asCodeInfo _ = Panic (OtherPanic ''unmarshal code info'')"

fun asContractInfo :: "stored \<Rightarrow> ContractInfo outcome" where
  "asContractInfo (SContractInfo c) = Ok c"
| "asContractInfo _ = Panic (OtherPanic ''unmarshal contract info'')"

fun asHistory :: "stored \<Rightarrow> ContractCodeHistoryEntry outcome" where
  "asHistory (SHistory e) = Ok e"
| "asHistory _ = Panic (OtherPanic ''unmarshal history entry'')"

fun asBytes :: "stored \<Rightarrow> bytes outcome" where
  "asBytes (SBytes bz) = Ok bz"
| "asBytes _ = Panic (OtherPanic ''unmarshal bytes'')"

fun asParams :: "stored \<Rightarrow> Params outcome" where
  "asParams (SParams p) = Ok p"
| "asParams _ = Panic (OtherPanic ''unmarshal params'')"

subsection \<open>Facts\<close>

lemma applyOp_frame: "\<not> prefix p k \<Longrightarrow> kv_get (applyOp p op st) k = kv_get st k"
  by (cases op) auto

lemma applyOps_frame: "\<not> prefix p k \<Longrightarrow> kv_get (applyOps p ops st) k = kv_get st k"
  unfolding applyOps_def by (induction ops arbitrary: st) (auto simp: applyOp_frame)

lemma applyOp_wf: "kv_wf st \<Longrightarrow> kv_wf (applyOp p op st)"
  by (cases op) auto

lemma applyOps_wf: "kv_wf st \<Longrightarrow> kv_wf (applyOps p ops st)"
  unfolding applyOps_def by (induction ops arbitrary: st) (auto simp: applyOp_wf)

lemma storeGet_Ok_iff [simp]: "storeGet k s = (Ok v, t) \<longleftrightarrow> v = kv_get (store s) k \<and> t = s"
  by (simp add: storeGet_def)

lemma storeHas_Ok_iff [simp]: "storeHas k s = (Ok v, t) \<longleftrightarrow> v = kv_has (store s) k \<and> t = s"
  by (simp add: storeHas_def)

lemma storeSet_Ok_iff [simp]:
  "storeSet k v s = (Ok u, t) \<longleftrightarrow> t = s\<lparr>store := kv_set k v (store s)\<rparr>"
  by (simp add: storeSet_def)

lemma storeDelete_Ok_iff [simp]:
  "storeDelete k s = (Ok u, t) \<longleftrightarrow> t = s\<lparr>store := kv_delete k (store s)\<rparr>"
  by (simp add: storeDelete_def)

lemma emitEvents_Ok_iff [simp]:
  "emitEvents es s = (Ok u, t) \<longleftrightarrow> t = s\<lparr>events := events s @ es\<rparr>"
  by (simp add: emitEvents_def)

lemma emitEvent_Ok_iff [simp]:
  "emitEvent e s = (Ok u, t) \<longleftrightarrow> t = s\<lparr>events := events s @ [e]\<rparr>"
  by (simp add: emitEvent_def)

text \<open>Predicates on the store alone are kept by every step that is not a store write.\<close>

lemma preserves_emitEvents [pres]: "preserves (\<lambda>s. P (store s)) (emitEvents es)"
  by (auto simp: emitEvents_def intro!: preserves_modifyM)

lemma preserves_emitEvent [pres]: "preserves (\<lambda>s. P (store s)) (emitEvent e)"
  by (simp add: emitEvent_def preserves_emitEvents)

lemma preserves_extM [pres]: "preserves (\<lambda>s. P (store s)) (extM f)"
  by (auto simp: preserves_def extM_def split: prod.splits)

lemma preserves_vmWorldM [pres]: "preserves (\<lambda>s. P (store s)) (vmWorldM f)"
  by (auto simp: preserves_def vmWorldM_def split: prod.splits)

lemma preserves_consumeGas [pres]: "preserves (\<lambda>s. P (store s)) (consumeGas M g)"
  by (auto simp: preserves_def consumeGas_def split: prod.splits option.splits)

lemma preserves_withGasMeter [pres]:
  "preserves (\<lambda>s. P (store s)) body \<Longrightarrow> preserves (\<lambda>s. P (store s)) (withGasMeter m body)"
proof (rule preservesI)
  fix s :: "('a, 'b) st"
  assume body: "preserves (\<lambda>s. P (store s)) body" and P: "P (store s)"
  obtain r t where run: "body (s\<lparr>meter := m\<rparr>) = (r, t)" by fastforce
  have "P (store t)" using preservesD [OF body run] P by simp
  then show "P (store (snd (withGasMeter m body s)))" by (simp add: withGasMeter_def run)
qed

lemma preserves_storeGet [pres]: "preserves P (storeGet k)"
  by (simp add: storeGet_def preserves_getsM)

lemma preserves_storeHas [pres]: "preserves P (storeHas k)"
  by (simp add: storeHas_def preserves_getsM)

lemma preserves_storeSet:
  "(\<And>st. P st \<Longrightarrow> P (kv_set k v st)) \<Longrightarrow> preserves (\<lambda>s. P (store s)) (storeSet k v)"
  by (auto simp: storeSet_def intro!: preserves_modifyM)

lemma preserves_storeDelete:
  "(\<And>st. P st \<Longrightarrow> P (kv_delete k st)) \<Longrightarrow> preserves (\<lambda>s. P (store s)) (storeDelete k)"
  by (auto simp: storeDelete_def intro!: preserves_modifyM)

lemma preserves_runVM:
  "(\<And>st ops. P st \<Longrightarrow> P (applyOps (GetContractStorePrefix addr) ops st)) \<Longrightarrow>
    preserves (\<lambda>s. P (store s)) (runVM call addr)"
  by (auto simp: preserves_def runVM_def Let_def)

end
