(* ===== verification/Keeper.thy ===== *)
theory Keeper
  imports KeeperBase
begin

section \<open>The x/wasm keeper\<close>

text \<open>
  The operations of src/x/wasm/keeper/keeper.go, events.go and the port functions of ibc.go, one
  definition per Go function, in the order of the code.  Store reads and writes return errors in Go
  only for misused keys and are modelled as total.  Logging and telemetry are left out.  An address
  that is nil in Go is the empty byte string.
\<close>

subsection \<open>Events\<close>

definition attr :: "bytes \<Rightarrow> bytes \<Rightarrow> EventAttribute" where
  "attr k v = \<lparr>AttrKey = k, AttrValue = v\<rparr>"

definition newEvent :: "bytes \<Rightarrow> EventAttribute list \<Rightarrow> Event" where
  "newEvent ty attrs = \<lparr>EventType = ty, Attributes = attrs\<rparr>"

definition AttributeKeyContractAddr :: bytes where
  "AttributeKeyContractAddr = ''_contract_address''"

fun customAttributes :: "EventAttribute list \<Rightarrow> EventAttribute list outcome" where
  "customAttributes [] = Ok []"
| "customAttributes (l # ls) =
    (let key = TrimSpace (AttrKey l) in
     if length key = 0 then Err ErrInvalidEvent
     else
      (let val = TrimSpace (AttrValue l) in
       if prefix ''_'' key then Err ErrInvalidEvent
       else case customAttributes ls of
           Ok as \<Rightarrow> Ok (attr key val # as)
         | r \<Rightarrow> r))"

definition contractSDKEventAttributes ::
  "sdk_fns \<Rightarrow> EventAttribute list \<Rightarrow> AccAddress \<Rightarrow> EventAttribute list outcome" where
  "contractSDKEventAttributes S custom contractAddr =
    (case customAttributes custom of
       Ok as \<Rightarrow> Ok (attr AttributeKeyContractAddr (accString S contractAddr) # as)
     | r \<Rightarrow> r)"

definition newWasmModuleEvent ::
  "sdk_fns \<Rightarrow> EventAttribute list \<Rightarrow> AccAddress \<Rightarrow> Event list outcome" where
  "newWasmModuleEvent S custom contractAddr =
    (case contractSDKEventAttributes S custom contractAddr of
       Ok attrs \<Rightarrow> Ok [newEvent ''wasm'' attrs]
     | Err e \<Rightarrow> Err e
     | Panic p \<Rightarrow> Panic p)"

definition eventTypeMinLength :: nat where
  "eventTypeMinLength = 2"

fun newCustomEvents :: "sdk_fns \<Rightarrow> Event list \<Rightarrow> AccAddress \<Rightarrow> Event list outcome" where
  "newCustomEvents S [] contractAddr = Ok []"
| "newCustomEvents S (e # evts) contractAddr =
    (let typ = TrimSpace (EventType e) in
     if length typ \<le> eventTypeMinLength then Err ErrInvalidEvent
     else case contractSDKEventAttributes S (Attributes e) contractAddr of
         Ok attrs \<Rightarrow>
          (case newCustomEvents S evts contractAddr of
             Ok es \<Rightarrow> Ok (newEvent (''wasm-'' @ typ) attrs # es)
           | r \<Rightarrow> r)
       | Err x \<Rightarrow> Err x
       | Panic p \<Rightarrow> Panic p)"

subsection \<open>Parameters and sequences\<close>

definition GetParams :: "(('m, 'x) st, Params) go" where
  "GetParams = bindM (storeGet ParamsKey) (\<lambda>v. case v of
     None \<Rightarrow> panicM (OtherPanic ''params not found'')
   | Some x \<Rightarrow> liftO (asParams x))"

definition SetParams :: "Params \<Rightarrow> (('m, 'x) st, unit) go" where
  "SetParams ps = storeSet ParamsKey (SParams ps)"

definition getUploadAccessConfig :: "(('m, 'x) st, AccessConfig) go" where
  "getUploadAccessConfig = bindM GetParams (\<lambda>p. retM (CodeUploadAccess p))"

definition getInstantiateAccessConfig :: "(('m, 'x) st, AccessType) go" where
  "getInstantiateAccessConfig = bindM GetParams (\<lambda>p. retM (InstantiateDefaultPermission p))"

text \<open>\<^verbatim>\<open>binary.BigEndian.Uint64\<close> panics on a short slice.\<close>

definition readUint64 :: "bytes \<Rightarrow> u64 outcome" where
  "readUint64 bz =
    (if length bz < 8 then Panic (OtherPanic ''index out of range'') else Ok (BigEndianUint64 bz))"

definition PeekAutoIncrementID :: "bytes \<Rightarrow> (('m, 'x) st, u64) go" where
  "PeekAutoIncrementID sequenceKey = bindM (storeGet sequenceKey) (\<lambda>v. case v of
     None \<Rightarrow> retM 1
   | Some x \<Rightarrow> bindM (liftO (asBytes x)) (\<lambda>bz. liftO (readUint64 bz)))"

definition mustAutoIncrementID :: "bytes \<Rightarrow> (('m, 'x) st, u64) go" where
  "mustAutoIncrementID sequenceKey =
    bindM (storeGet sequenceKey) (\<lambda>v.
    bindM (case v of
        None \<Rightarrow> retM 1
      | Some x \<Rightarrow> bindM (liftO (asBytes x)) (\<lambda>bz. liftO (readUint64 bz))) (\<lambda>i.
    thenM (storeSet sequenceKey (SBytes (Uint64ToBigEndian (i + 1))))
    (retM i)))"

definition importAutoIncrementID :: "bytes \<Rightarrow> u64 \<Rightarrow> (('m, 'x) st, unit) go" where
  "importAutoIncrementID sequenceKey val =
    bindM (storeHas sequenceKey) (\<lambda>ok.
    if ok then failM ErrDuplicate
    else storeSet sequenceKey (SBytes (Uint64ToBigEndian val)))"

subsection \<open>Reading contracts and codes\<close>

definition GetContractInfo :: "AccAddress \<Rightarrow> (('m, 'x) st, ContractInfo option) go" where
  "GetContractInfo contractAddress =
    bindM (storeGet (GetContractAddressKey contractAddress)) (\<lambda>v. case v of
      None \<Rightarrow> retM None
    | Some x \<Rightarrow> bindM (liftO (asContractInfo x)) (\<lambda>c. retM (Some c)))"

definition HasContractInfo :: "AccAddress \<Rightarrow> (('m, 'x) st, bool) go" where
  "HasContractInfo contractAddress = storeHas (GetContractAddressKey contractAddress)"

definition mustStoreContractInfo :: "AccAddress \<Rightarrow> ContractInfo \<Rightarrow> (('m, 'x) st, unit) go" where
  "mustStoreContractInfo contractAddress contract =
    storeSet (GetContractAddressKey contractAddress) (SContractInfo contract)"

definition GetCodeInfo :: "u64 \<Rightarrow> (('m, 'x) st, CodeInfo option) go" where
  "GetCodeInfo codeID = bindM (storeGet (GetCodeKey codeID)) (\<lambda>v. case v of
      None \<Rightarrow> retM None
    | Some x \<Rightarrow> bindM (liftO (asCodeInfo x)) (\<lambda>c. retM (Some c)))"

definition containsCodeInfo :: "u64 \<Rightarrow> (('m, 'x) st, bool) go" where
  "containsCodeInfo codeID = storeHas (GetCodeKey codeID)"

definition mustStoreCodeInfo :: "u64 \<Rightarrow> CodeInfo \<Rightarrow> (('m, 'x) st, unit) go" where
  "mustStoreCodeInfo codeID codeInfo = storeSet (GetCodeKey codeID) (SCodeInfo codeInfo)"

definition GetByteCode :: "('m, 'x, 'msg) keeper \<Rightarrow> u64 \<Rightarrow> (('m, 'x) st, bytes option) go" where
  "GetByteCode K codeID = bindM (storeGet (GetCodeKey codeID)) (\<lambda>v. case v of
      None \<Rightarrow> retM None
    | Some x \<Rightarrow> bindM (liftO (asCodeInfo x)) (\<lambda>c.
        bindM (liftO (vmGetCode (kVm K) (CodeHash c))) (\<lambda>bz. retM (Some bz))))"

definition contractInstance ::
  "('m, 'x, 'msg) keeper \<Rightarrow> AccAddress \<Rightarrow> (('m, 'x) st, ContractInfo \<times> CodeInfo) go" where
  "contractInstance K contractAddress =
    bindM (storeGet (GetContractAddressKey contractAddress)) (\<lambda>v. case v of
      None \<Rightarrow> failM (errWrap (ErrNoSuchContractFn (accString (kSdk K) contractAddress)))
    | Some x \<Rightarrow> bindM (liftO (asContractInfo x)) (\<lambda>contractInfo.
        bindM (storeGet (GetCodeKey (CodeID contractInfo))) (\<lambda>w. case w of
          None \<Rightarrow> failM (errWrap (ErrNoSuchCodeFn (CodeID contractInfo)))
        | Some y \<Rightarrow> bindM (liftO (asCodeInfo y)) (\<lambda>codeInfo. retM (contractInfo, codeInfo)))))"

definition QueryRaw :: "AccAddress \<Rightarrow> bytes option \<Rightarrow> (('m, 'x) st, bytes option) go" where
  "QueryRaw contractAddress key = (case key of
     None \<Rightarrow> retM None
   | Some k \<Rightarrow> bindM (storeGet (GetContractStorePrefix contractAddress @ k)) (\<lambda>v. case v of
        None \<Rightarrow> retM None
      | Some x \<Rightarrow> bindM (liftO (asBytes x)) (\<lambda>bz. retM (Some bz))))"

subsection \<open>Gas\<close>

definition runtimeGasForContract :: "('m, 'x, 'msg) keeper \<Rightarrow> (('m, 'x) st, u64) go" where
  "runtimeGasForContract K = (\<lambda>s.
    let M = kMeter K; m = meter s in
    if IsOutOfGas M m then (Ok 0, s)
    else if MeterLimit M m = - 1 then (Ok (- 1), s)
    else (ToWasmVMGas (kGasRegister K) (MeterLimit M m - GasConsumedToLimit M m), s))"

definition consumeRuntimeGas :: "('m, 'x, 'msg) keeper \<Rightarrow> u64 \<Rightarrow> (('m, 'x) st, unit) go" where
  "consumeRuntimeGas K gas =
    thenM (consumeGas (kMeter K) (FromWasmVMGas (kGasRegister K) gas))
    (bindM (getsM (\<lambda>s. IsOutOfGas (kMeter K) (meter s))) (\<lambda>oog.
     if oog then panicM (OutOfGasPanic ''Wasm engine function execution'') else retM ()))"

definition IsPinnedCode :: "u64 \<Rightarrow> (('m, 'x) st, bool) go" where
  "IsPinnedCode codeID = storeHas (GetPinnedCodeIndexPrefix codeID)"

text \<open>\<^verbatim>\<open>TxContracts\<close> of types.go: the hex checksums of the contracts loaded so far.\<close>

definition TxContracts_AddContract :: "bytes list \<Rightarrow> bytes \<Rightarrow> bytes list" where
  "TxContracts_AddContract tc checksum =
    (if length checksum = 0 then tc else List.insert (hexEncode checksum) tc)"

definition TxContracts_Exists :: "bytes list \<Rightarrow> bytes \<Rightarrow> bool" where
  "TxContracts_Exists tc checksum = (hexEncode checksum \<in> set tc)"

definition checkDiscountEligibility :: "bytes \<Rightarrow> bool \<Rightarrow> (('m, 'x) st, bool) go" where
  "checkDiscountEligibility checksum isPinned = (\<lambda>s.
    if isPinned then (Ok True, s)
    else case txContracts s of
        None \<Rightarrow> (Ok False, s)
      | Some tc \<Rightarrow>
          if TxContracts_Exists tc checksum then (Ok True, s)
          else (Ok False, s\<lparr>txContracts := Some (TxContracts_AddContract tc checksum)\<rparr>))"

text \<open>The setup cost every entry point charges first.\<close>

definition chargeSetup ::
  "('m, 'x, 'msg) keeper \<Rightarrow> bytes \<Rightarrow> u64 \<Rightarrow> bytes \<Rightarrow> (('m, 'x) st, unit) go" where
  "chargeSetup K checksum codeID msg =
    bindM (IsPinnedCode codeID) (\<lambda>pinned.
    bindM (checkDiscountEligibility checksum pinned) (\<lambda>discount.
    bindM (liftO (SetupContractCost (kGasRegister K) discount (int (length msg)))) (\<lambda>setupCost.
    consumeGas (kMeter K) setupCost)))"

subsection \<open>Calling a contract\<close>

definition NewEnv :: "sdk_fns \<Rightarrow> ctx \<Rightarrow> AccAddress \<Rightarrow> Env outcome" where
  "NewEnv S c contractAddr =
    (if ctxBlockHeight c < 0 then Panic (OtherPanic ''Block height must never be negative'')
     else if ctxBlockTimeNano c < 1 then
       Panic (OtherPanic ''Block (unix) time must never be empty or negative '')
     else Ok \<lparr>EnvHeight = word_of_int (ctxBlockHeight c),
              EnvTime = word_of_int (ctxBlockTimeNano c),
              EnvChainID = ctxChainID c,
              EnvContract = accString S contractAddr,
              EnvTxIndex = ctxTXCounter c\<rparr>)"

definition NewWasmCoins :: "Coins \<Rightarrow> (bytes \<times> bytes) list" where
  "NewWasmCoins cosmosCoins = map (\<lambda>coin. (Denom coin, formatInt (Amount coin))) cosmosCoins"

definition NewInfo :: "sdk_fns \<Rightarrow> AccAddress \<Rightarrow> Coins \<Rightarrow> MessageInfo" where
  "NewInfo S creator deposit =
    \<lparr>InfoSender = accString S creator, InfoFunds = NewWasmCoins deposit\<rparr>"

definition wrappedText :: "bytes \<Rightarrow> bytes \<Rightarrow> bytes" where
  "wrappedText desc root = desc @ '': '' @ root"

text \<open>The code every entry point shares: build the environment, run the engine with the remaining
  gas, charge the gas used, and turn an engine error, a missing result or a contract error into an
  error.  \<open>failed\<close> is the registered code and text of the contract error.\<close>

definition callContract ::
  "('m, 'x, 'msg) keeper \<Rightarrow> ctx \<Rightarrow> vm_entry \<Rightarrow> bytes \<Rightarrow> AccAddress \<Rightarrow> nat \<times> bytes
    \<Rightarrow> (('m, 'x) st, 'msg Response option) go" where
  "callContract K c entry checksum contractAddress failed =
    bindM (liftO (NewEnv (kSdk K) c contractAddress)) (\<lambda>env.
    bindM (runtimeGasForContract K) (\<lambda>gasLeft.
    bindM (runVM (vmCall (kVm K) entry checksum env contractAddress gasLeft c) contractAddress) (\<lambda>out.
    thenM (consumeRuntimeGas K (VmGasUsed out))
    (case VmErr out of
       Some _ \<Rightarrow> failM ErrVMError
     | None \<Rightarrow> (case VmRes out of
          None \<Rightarrow> failM ErrVMError
        | Some res \<Rightarrow>
            if CrErr res \<noteq> '''' then
              failM (DeterministicError ''wasm'' (fst failed) (wrappedText (CrErr res) (snd failed)))
            else retM (CrOk res))))))"

text \<open>Reading through a nil pointer panics.\<close>

definition derefM :: "'a option \<Rightarrow> ('s, 'a) go" where
  "derefM p = (case p of None \<Rightarrow> panicM (OtherPanic ''nil pointer dereference'') | Some x \<Rightarrow> retM x)"

definition handleContractResponse ::
  "('m, 'x, 'msg) keeper \<Rightarrow> ctx \<Rightarrow> AccAddress \<Rightarrow> bytes \<Rightarrow> 'msg Response option
    \<Rightarrow> (('m, 'x) st, bytes option) go" where
  "handleContractResponse K c contractAddr ibcPort resOk =
    bindM (derefM resOk) (\<lambda>r.
    bindM (liftO (EventCosts (kGasRegister K) (RespAttributes r) (RespREvents r))) (\<lambda>cost.
    thenM (consumeGas (kMeter K) cost)
    (thenM (if length (RespAttributes r) \<noteq> 0 then
              bindM (liftO (newWasmModuleEvent (kSdk K) (RespAttributes r) contractAddr)) emitEvents
            else retM ())
    (thenM (if length (RespREvents r) > 0 then
              bindM (liftO (newCustomEvents (kSdk K) (RespREvents r) contractAddr)) emitEvents
            else retM ())
    (kHandle K c contractAddr ibcPort (RespMessages r) (RespRData r))))))"

subsection \<open>History and secondary indexes\<close>

definition historyPos :: "(bytes \<times> stored) list \<Rightarrow> u64" where
  "historyPos riter =
    (case find (\<lambda>(k, _). length k = 8) riter of None \<Rightarrow> 0 | Some (k, _) \<Rightarrow> BigEndianToUint64 k)"

fun storeHistory :: "AccAddress \<Rightarrow> u64 \<Rightarrow> ContractCodeHistoryEntry list \<Rightarrow> (('m, 'x) st, unit) go" where
  "storeHistory contractAddr pos [] = retM ()"
| "storeHistory contractAddr pos (e # es) =
    thenM (storeSet (GetContractCodeHistoryElementKey contractAddr (pos + 1)) (SHistory e))
      (storeHistory contractAddr (pos + 1) es)"

definition appendToContractHistory ::
  "AccAddress \<Rightarrow> ContractCodeHistoryEntry list \<Rightarrow> (('m, 'x) st, unit) go" where
  "appendToContractHistory contractAddr newEntries =
    bindM (getsM (\<lambda>s. historyPos (kv_riter (store s) (GetContractCodeHistoryElementPrefix contractAddr))))
      (\<lambda>pos. storeHistory contractAddr pos newEntries)"

fun decodeHistory :: "(bytes \<times> stored) list \<Rightarrow> ContractCodeHistoryEntry list outcome" where
  "decodeHistory [] = Ok []"
| "decodeHistory ((k, v) # kvs) =
    (if length k \<noteq> 8 then decodeHistory kvs
     else case asHistory v of
         Ok e \<Rightarrow> (case decodeHistory kvs of Ok es \<Rightarrow> Ok (e # es) | r \<Rightarrow> r)
       | Err x \<Rightarrow> Err x
       | Panic p \<Rightarrow> Panic p)"

definition GetContractHistory :: "AccAddress \<Rightarrow> (('m, 'x) st, ContractCodeHistoryEntry list) go" where
  "GetContractHistory contractAddr = (\<lambda>s.
    (decodeHistory (kv_iter (store s) (GetContractCodeHistoryElementPrefix contractAddr)), s))"

definition mustGetLastContractHistoryEntry ::
  "AccAddress \<Rightarrow> (('m, 'x) st, ContractCodeHistoryEntry) go" where
  "mustGetLastContractHistoryEntry contractAddr = (\<lambda>s.
    (case find (\<lambda>(k, _). length k = 8)
        (kv_riter (store s) (GetContractCodeHistoryElementPrefix contractAddr)) of
       None \<Rightarrow> (Panic (OtherPanic ''no history''), s)
     | Some (_, v) \<Rightarrow> (asHistory v, s)))"

definition addToContractCodeSecondaryIndex ::
  "AccAddress \<Rightarrow> ContractCodeHistoryEntry \<Rightarrow> (('m, 'x) st, unit) go" where
  "addToContractCodeSecondaryIndex contractAddress entry =
    bindM (liftO (GetContractByCreatedSecondaryIndexKey contractAddress entry)) (\<lambda>k.
    storeSet k (SBytes []))"

definition removeFromContractCodeSecondaryIndex ::
  "AccAddress \<Rightarrow> ContractCodeHistoryEntry \<Rightarrow> (('m, 'x) st, unit) go" where
  "removeFromContractCodeSecondaryIndex contractAddress entry =
    bindM (liftO (GetContractByCreatedSecondaryIndexKey contractAddress entry)) storeDelete"

definition addToContractCreatorSecondaryIndex ::
  "('m, 'x, 'msg) keeper \<Rightarrow> AccAddress \<Rightarrow> AbsoluteTxPosition option \<Rightarrow> AccAddress
    \<Rightarrow> (('m, 'x) st, unit) go" where
  "addToContractCreatorSecondaryIndex K creatorAddress position contractAddress =
    bindM (liftO (PositionBytes position)) (\<lambda>pos.
    bindM (liftO (GetContractByCreatorSecondaryIndexKey (mustLengthPrefix (kSdk K)) creatorAddress pos
        contractAddress)) (\<lambda>k.
    storeSet k (SBytes [])))"

text \<open>An iteration with a callback that can stop it.\<close>

fun iterCb :: "('a \<Rightarrow> ('s, bool) go) \<Rightarrow> 'a list \<Rightarrow> ('s, unit) go" where
  "iterCb cb [] = retM ()"
| "iterCb cb (x # xs) = bindM (cb x) (\<lambda>stop. if stop then retM () else iterCb cb xs)"

definition indexedAddress :: "bytes \<Rightarrow> AccAddress outcome" where
  "indexedAddress key =
    (if length key < AbsoluteTxPositionLen then Panic (OtherPanic ''slice bounds out of range'')
     else Ok (drop AbsoluteTxPositionLen key))"

definition IterateContractsByCreator ::
  "('m, 'x, 'msg) keeper \<Rightarrow> AccAddress \<Rightarrow> (AccAddress \<Rightarrow> (('m, 'x) st, bool) go) \<Rightarrow> (('m, 'x) st, unit) go"
  where
  "IterateContractsByCreator K creator cb =
    bindM (liftO (GetContractsByCreatorPrefix (mustLengthPrefix (kSdk K)) creator)) (\<lambda>p.
    bindM (getsM (\<lambda>s. map fst (kv_iter (store s) p)))
      (iterCb (\<lambda>key. bindM (liftO (indexedAddress key)) cb)))"

definition IterateContractsByCode ::
  "u64 \<Rightarrow> (AccAddress \<Rightarrow> (('m, 'x) st, bool) go) \<Rightarrow> (('m, 'x) st, unit) go" where
  "IterateContractsByCode codeID cb =
    bindM (getsM (\<lambda>s. map fst (kv_iter (store s) (GetContractByCodeIDSecondaryIndexPrefix codeID))))
      (iterCb (\<lambda>key. bindM (liftO (indexedAddress key)) cb))"

definition IterateContractInfo ::
  "(AccAddress \<Rightarrow> ContractInfo \<Rightarrow> (('m, 'x) st, bool) go) \<Rightarrow> (('m, 'x) st, unit) go" where
  "IterateContractInfo cb =
    bindM (getsM (\<lambda>s. kv_iter (store s) ContractKeyPrefix))
      (iterCb (\<lambda>(key, v). bindM (liftO (asContractInfo v)) (cb key)))"

definition IterateContractState ::
  "AccAddress \<Rightarrow> (bytes \<Rightarrow> bytes \<Rightarrow> (('m, 'x) st, bool) go) \<Rightarrow> (('m, 'x) st, unit) go" where
  "IterateContractState contractAddress cb =
    bindM (getsM (\<lambda>s. kv_iter (store s) (GetContractStorePrefix contractAddress)))
      (iterCb (\<lambda>(key, v). bindM (liftO (asBytes v)) (cb key)))"

definition IterateCodeInfos ::
  "(u64 \<Rightarrow> CodeInfo \<Rightarrow> (('m, 'x) st, bool) go) \<Rightarrow> (('m, 'x) st, unit) go" where
  "IterateCodeInfos cb =
    bindM (getsM (\<lambda>s. kv_iter (store s) CodeKeyPrefix))
      (iterCb (\<lambda>(key, v). bindM (liftO (asCodeInfo v)) (\<lambda>c.
         bindM (liftO (readUint64 key)) (\<lambda>i. cb i c))))"

subsection \<open>IBC ports\<close>

definition PortIDForContract :: "sdk_fns \<Rightarrow> AccAddress \<Rightarrow> bytes" where
  "PortIDForContract S addr = ''wasm.'' @ accString S addr"

definition ContractFromPortID :: "sdk_fns \<Rightarrow> bytes \<Rightarrow> AccAddress outcome" where
  "ContractFromPortID S portID =
    (if \<not> prefix ''wasm.'' portID then Err ErrInvalid
     else fromBech32 S (drop (length ''wasm.'') portID))"

definition bindIbcPort :: "('m, 'x, 'msg) keeper \<Rightarrow> bytes \<Rightarrow> (('m, 'x) st, unit) go" where
  "bindIbcPort K portID =
    bindM (extM (BindPort (kExt K) portID)) (\<lambda>portCap.
    extM (ClaimCapabilityExt (kExt K) portCap (PortPath (kExt K) portID)))"

definition ensureIbcPort :: "('m, 'x, 'msg) keeper \<Rightarrow> AccAddress \<Rightarrow> (('m, 'x) st, bytes) go" where
  "ensureIbcPort K contractAddr =
    (let portID = PortIDForContract (kSdk K) contractAddr in
     bindM (getsM (\<lambda>s. GetCapability (kExt K) (world s) (PortPath (kExt K) portID))) (\<lambda>ok.
     if ok then retM portID else thenM (bindIbcPort K portID) (retM portID)))"

subsection \<open>Uploading code\<close>

definition gzipIdent :: bytes where
  "gzipIdent = [CHR 0x1F, CHR 0x8B, CHR 0x08]"

definition IsGzip :: "bytes \<Rightarrow> bool" where
  "IsGzip input = (length input \<ge> 3 \<and> gzipIdent = take 3 input)"

definition errLimit :: gerror where
  "errLimit = PlainErr ''exceeds limit''"

text \<open>\<open>gunzip\<close> is the gzip reader read to its end under the limit; no limit is None.\<close>

definition Uncompress ::
  "(bytes \<Rightarrow> nat option \<Rightarrow> bytes outcome) \<Rightarrow> bytes \<Rightarrow> nat option \<Rightarrow> bytes outcome" where
  "Uncompress gunzip gzipSrc limit =
    (case limit of
       Some n \<Rightarrow> if length gzipSrc > n then Err errLimit else gunzip gzipSrc limit
     | None \<Rightarrow> gunzip gzipSrc limit)"

definition MaxWasmSize :: nat where
  "MaxWasmSize = 800 * 1024"

definition storeCodeEvent :: "bytes \<Rightarrow> u64 \<Rightarrow> AnalysisReport \<Rightarrow> Event" where
  "storeCodeEvent checksum codeID report =
    newEvent ''store_code''
      ([attr ''code_checksum'' (hexEncode checksum), attr ''code_id'' (formatNat (unat codeID))] @
       map (\<lambda>f. attr ''required_capability'' (TrimSpace f))
         (splitOn (CHR '','') (RequiredCapabilities report)))"

definition create ::
  "('m, 'x, 'msg) keeper \<Rightarrow> AccAddress \<Rightarrow> bytes \<Rightarrow> AccessConfig option \<Rightarrow> AuthorizationPolicy
    \<Rightarrow> (('m, 'x) st, u64 \<times> bytes) go" where
  "create K creator wasmCode instantiateAccess authZ =
    (if creator = [] then failM ErrInvalidAddress
     else
      bindM getInstantiateAccessConfig (\<lambda>accessType.
      bindM (liftO (AccessType_With (fromBech32 (kSdk K)) (accString (kSdk K)) accessType [creator]))
        (\<lambda>defaultAccessConfig.
      let access = (case instantiateAccess of None \<Rightarrow> defaultAccessConfig | Some a \<Rightarrow> a) in
      bindM getUploadAccessConfig (\<lambda>upload.
      bindM (liftO (CanCreateCode (accString (kSdk K)) authZ
          \<lparr>Upload = upload, Instantiate = defaultAccessConfig\<rparr> creator access)) (\<lambda>allowed.
      if \<not> allowed then failM ErrUnauthorized
      else
       bindM (if IsGzip wasmCode then
           bindM (liftO (UncompressCosts (kMulFloor K) (kGasRegister K) (int (length wasmCode)))) (\<lambda>cost.
           thenM (consumeGas (kMeter K) cost)
           (wrapM (\<lambda>_. ErrCreateFailed)
             (liftO (Uncompress (kGunzip K) wasmCode (Some MaxWasmSize)))))
         else retM wasmCode) (\<lambda>code.
       bindM (runtimeGasForContract K) (\<lambda>gasLeft.
       (case vmStoreCode (kVm K) code gasLeft of (checksum, gasUsed, err) \<Rightarrow>
        thenM (consumeRuntimeGas K gasUsed)
        (if err \<noteq> None then failM ErrCreateFailed
         else
          bindM (wrapM (\<lambda>_. ErrCreateFailed) (liftO (vmAnalyzeCode (kVm K) checksum))) (\<lambda>report.
          bindM (mustAutoIncrementID KeySequenceCodeID) (\<lambda>codeID.
          thenM (mustStoreCodeInfo codeID (NewCodeInfo (accString (kSdk K)) checksum creator access))
          (thenM (emitEvent (storeCodeEvent checksum codeID report))
          (retM (codeID, checksum))))))))))))))"

definition importCode ::
  "('m, 'x, 'msg) keeper \<Rightarrow> u64 \<Rightarrow> CodeInfo \<Rightarrow> bytes \<Rightarrow> (('m, 'x) st, unit) go" where
  "importCode K codeID codeInfo wasmCode =
    bindM (if IsGzip wasmCode
       then wrapM (\<lambda>_. ErrCreateFailed) (liftO (Uncompress (kGunzip K) wasmCode None))
       else retM wasmCode) (\<lambda>code.
    bindM (wrapM (\<lambda>_. ErrCreateFailed) (liftO (vmStoreCodeUnchecked (kVm K) code))) (\<lambda>newCodeHash.
    if CodeHash codeInfo \<noteq> newCodeHash then failM ErrInvalid
    else bindM (storeHas (GetCodeKey codeID)) (\<lambda>ok.
      if ok then failM ErrDuplicate
      else storeSet (GetCodeKey codeID) (SCodeInfo codeInfo))))"

subsection \<open>Instantiating\<close>

text \<open>An address generator gets the code id and the checksum.\<close>

type_synonym ('m, 'x) addrgen = "u64 \<Rightarrow> bytes \<Rightarrow> (('m, 'x) st, AccAddress) go"

definition ClassicAddressGenerator :: "('m, 'x, 'msg) keeper \<Rightarrow> ('m, 'x) addrgen" where
  "ClassicAddressGenerator K codeID checksum =
    bindM (mustAutoIncrementID KeySequenceInstanceID) (\<lambda>instanceID.
    retM (BuildContractAddressClassic (addressModule (kSdk K)) codeID instanceID))"

definition Predictable ::
  "('m, 'x, 'msg) keeper \<Rightarrow> AccAddress \<Rightarrow> bytes \<Rightarrow> bytes \<Rightarrow> bool \<Rightarrow> ('m, 'x) addrgen" where
  "Predictable K creator salt msg fixMsg codeID checksum =
    liftO (PredictableAddressGenerator (addressModule (kSdk K)) (verifyAddressFormat (kSdk K))
      creator salt msg fixMsg checksum)"

definition newContractAccount :: "('m, 'x, 'msg) keeper \<Rightarrow> AccAddress \<Rightarrow> (('m, 'x) st, unit) go" where
  "newContractAccount K contractAddress =
    bindM (extM (NewAccountWithAddress (kExt K) contractAddress)) (\<lambda>a. extM (SetAccount (kExt K) a))"

definition checkAccount :: "('m, 'x, 'msg) keeper \<Rightarrow> AccAddress \<Rightarrow> (('m, 'x) st, unit) go" where
  "checkAccount K contractAddress =
    bindM (getsM (\<lambda>s. GetAccount (kExt K) (world s) contractAddress)) (\<lambda>existing. case existing of
      None \<Rightarrow> newContractAccount K contractAddress
    | Some existingAcct \<Rightarrow>
        if accSequence existingAcct \<noteq> 0 \<or> accPubKey existingAcct \<noteq> None then failM ErrAccountExists
        else if accType existingAcct \<in> set (kAcceptedAccountTypes K) then retM ()
        else
          thenM (newContractAccount K contractAddress)
          (bindM (wrapM errWrap (extM (kCleanupExistingAccount K existingAcct))) (\<lambda>handled.
           guardM handled ErrAccountExists)))"

definition transferDeposit ::
  "('m, 'x, 'msg) keeper \<Rightarrow> AccAddress \<Rightarrow> AccAddress \<Rightarrow> Coins \<Rightarrow> (('m, 'x) st, unit) go" where
  "transferDeposit K fromAddr toAddr coins =
    (if \<not> coinsIsZero (kSdk K) coins then extM (kTransferCoins K fromAddr toAddr coins) else retM ())"

definition ctxPosition :: "ctx \<Rightarrow> AbsoluteTxPosition outcome" where
  "ctxPosition c = NewAbsoluteTxPosition (ctxBlockHeight c) (ctxBlockGas c)"

definition codeIDAttr :: "u64 \<Rightarrow> EventAttribute" where
  "codeIDAttr codeID = attr ''code_id'' (formatNat (unat codeID))"

definition contractAttr :: "('m, 'x, 'msg) keeper \<Rightarrow> AccAddress \<Rightarrow> EventAttribute" where
  "contractAttr K contractAddress =
    attr AttributeKeyContractAddr (accString (kSdk K) contractAddress)"

text \<open>The bookkeeping of a new contract: both indexes, the history, the contract info.\<close>

definition persistNewContract ::
  "('m, 'x, 'msg) keeper \<Rightarrow> AccAddress \<Rightarrow> AccAddress \<Rightarrow> bytes \<Rightarrow> ContractInfo \<Rightarrow> (('m, 'x) st, unit) go"
  where
  "persistNewContract K contractAddress creator initMsg contractInfo =
    (let historyEntry = InitialHistory contractInfo initMsg in
     thenM (addToContractCodeSecondaryIndex contractAddress historyEntry)
     (thenM (addToContractCreatorSecondaryIndex K creator (Updated historyEntry) contractAddress)
     (thenM (appendToContractHistory contractAddress [historyEntry])
     (mustStoreContractInfo contractAddress contractInfo))))"

definition instantiate ::
  "('m, 'x, 'msg) keeper \<Rightarrow> ctx \<Rightarrow> u64 \<Rightarrow> AccAddress \<Rightarrow> AccAddress \<Rightarrow> bytes \<Rightarrow> bytes \<Rightarrow> Coins
    \<Rightarrow> ('m, 'x) addrgen \<Rightarrow> AuthorizationPolicy \<Rightarrow> (('m, 'x) st, AccAddress \<times> bytes option) go" where
  "instantiate K c codeID creator admin initMsg label deposit addressGenerator authPolicy =
    (if creator = [] then failM ErrEmpty
     else bindM (GetCodeInfo codeID) (\<lambda>ci. case ci of
       None \<Rightarrow> failM (errWrap (ErrNoSuchCodeFn codeID))
     | Some codeInfo \<Rightarrow>
        thenM (chargeSetup K (CodeHash codeInfo) codeID initMsg)
        (bindM (liftO (CanInstantiateContract (accString (kSdk K)) authPolicy
            (InstantiateConfig codeInfo) creator)) (\<lambda>allowed.
        if \<not> allowed then failM ErrUnauthorized
        else
         bindM (addressGenerator codeID (CodeHash codeInfo)) (\<lambda>contractAddress.
         bindM (HasContractInfo contractAddress) (\<lambda>exists.
         if exists then failM ErrDuplicate
         else
          thenM (checkAccount K contractAddress)
          (thenM (transferDeposit K creator contractAddress deposit)
          (bindM (callContract K c (VmInstantiate (NewInfo (kSdk K) creator deposit) initMsg)
              (CodeHash codeInfo) contractAddress (4, ''instantiate wasm contract failed'')) (\<lambda>res.
          bindM (liftO (ctxPosition c)) (\<lambda>createdAt.
          let contractInfo0 = NewContractInfo (accString (kSdk K)) codeID creator admin label
                (Some createdAt) in
          bindM (wrapM (\<lambda>_. ErrVMError) (liftO (vmAnalyzeCode (kVm K) (CodeHash codeInfo)))) (\<lambda>report.
          bindM (if HasIBCEntryPoints report
                 then bindM (ensureIbcPort K contractAddress) (\<lambda>ibcPort.
                   retM (contractInfo0\<lparr>IBCPortID := ibcPort\<rparr>))
                 else retM contractInfo0) (\<lambda>contractInfo.
          thenM (persistNewContract K contractAddress creator initMsg contractInfo)
          (thenM (emitEvent (newEvent ''instantiate'' [contractAttr K contractAddress, codeIDAttr codeID]))
          (bindM (wrapM errWrap (handleContractResponse K
              (c\<lparr>ctxSubMsgAuthzPolicy :=
                Some (SubMessageAuthorizationPolicy authPolicy AuthZActionInstantiate)\<rparr>)
              contractAddress (IBCPortID contractInfo) res)) (\<lambda>data.
          retM (contractAddress, data))))))))))))))))"

subsection \<open>Executing\<close>

definition IsGasless :: "AccAddress \<Rightarrow> (('m, 'x) st, bool) go" where
  "IsGasless contractAddr = storeHas (GetGaslessContractIndexPrefix contractAddr)"

definition executeBody ::
  "('m, 'x, 'msg) keeper \<Rightarrow> ctx \<Rightarrow> AccAddress \<Rightarrow> AccAddress \<Rightarrow> bytes \<Rightarrow> Coins
    \<Rightarrow> (('m, 'x) st, bytes option) go" where
  "executeBody K c contractAddress caller msg coins =
    bindM (contractInstance K contractAddress) (\<lambda>(contractInfo, codeInfo).
    thenM (chargeSetup K (CodeHash codeInfo) (CodeID contractInfo) msg)
    (thenM (transferDeposit K caller contractAddress coins)
    (bindM (callContract K c (VmExecute (NewInfo (kSdk K) caller coins) msg) (CodeHash codeInfo)
        contractAddress (5, ''execute wasm contract failed'')) (\<lambda>res.
    thenM (emitEvent (newEvent ''execute'' [contractAttr K contractAddress]))
    (handleContractResponse K c contractAddress (IBCPortID contractInfo) res)))))"

definition execute ::
  "('m, 'x, 'msg) keeper \<Rightarrow> ctx \<Rightarrow> AccAddress \<Rightarrow> AccAddress \<Rightarrow> bytes \<Rightarrow> Coins
    \<Rightarrow> (('m, 'x) st, bytes option) go" where
  "execute K c contractAddress caller msg coins =
    bindM (IsGasless contractAddress) (\<lambda>isGasLess.
    if isGasLess then
      withGasMeter (NewInfiniteGasMeter (kMeter K)) (executeBody K c contractAddress caller msg coins)
    else executeBody K c contractAddress caller msg coins)"

subsection \<open>Migrating\<close>

definition callMigrateEntrypoint ::
  "('m, 'x, 'msg) keeper \<Rightarrow> ctx \<Rightarrow> AccAddress \<Rightarrow> bytes \<Rightarrow> bytes \<Rightarrow> u64
    \<Rightarrow> (('m, 'x) st, 'msg Response option) go" where
  "callMigrateEntrypoint K c contractAddress newChecksum msg newCodeID =
    thenM (chargeSetup K newChecksum newCodeID msg)
    (callContract K c (VmMigrate msg) newChecksum contractAddress (11, ''migrate wasm contract failed''))"

definition migratePort ::
  "('m, 'x, 'msg) keeper \<Rightarrow> AccAddress \<Rightarrow> AnalysisReport \<Rightarrow> ContractInfo \<Rightarrow> (('m, 'x) st, ContractInfo) go"
  where
  "migratePort K contractAddress report contractInfo =
    (if \<not> HasIBCEntryPoints report \<and> IBCPortID contractInfo \<noteq> '''' then failM ErrMigrationFailed
     else if HasIBCEntryPoints report \<and> IBCPortID contractInfo = '''' then
       bindM (ensureIbcPort K contractAddress) (\<lambda>ibcPort. retM (contractInfo\<lparr>IBCPortID := ibcPort\<rparr>))
     else retM contractInfo)"

definition persistMigration ::
  "ctx \<Rightarrow> AccAddress \<Rightarrow> u64 \<Rightarrow> bytes \<Rightarrow> ContractInfo \<Rightarrow> (('m, 'x) st, ContractInfo) go" where
  "persistMigration c contractAddress newCodeID msg contractInfo =
    bindM (mustGetLastContractHistoryEntry contractAddress) (\<lambda>lastEntry.
    thenM (removeFromContractCodeSecondaryIndex contractAddress lastEntry)
    (bindM (liftO (ctxPosition c)) (\<lambda>pos.
    case AddMigration pos newCodeID msg contractInfo of (historyEntry, contractInfo') \<Rightarrow>
      thenM (appendToContractHistory contractAddress [historyEntry])
      (thenM (addToContractCodeSecondaryIndex contractAddress historyEntry)
      (thenM (mustStoreContractInfo contractAddress contractInfo')
      (retM contractInfo'))))))"

definition sameMigrateVersion :: "AnalysisReport \<Rightarrow> AnalysisReport \<Rightarrow> bool" where
  "sameMigrateVersion report oldReport =
    (case (ContractMigrateVersion report, ContractMigrateVersion oldReport) of
       (Some v, Some w) \<Rightarrow> v = w
     | _ \<Rightarrow> False)"

definition migrate ::
  "('m, 'x, 'msg) keeper \<Rightarrow> ctx \<Rightarrow> AccAddress \<Rightarrow> AccAddress \<Rightarrow> u64 \<Rightarrow> bytes \<Rightarrow> AuthorizationPolicy
    \<Rightarrow> (('m, 'x) st, bytes option) go" where
  "migrate K c contractAddress caller newCodeID msg authZ =
    bindM (GetContractInfo contractAddress) (\<lambda>ci. case ci of
      None \<Rightarrow> failM ErrInvalidRequest
    | Some contractInfo0 \<Rightarrow>
       bindM (liftO (AdminAddr (fromBech32 (kSdk K)) contractInfo0)) (\<lambda>admin.
       if \<not> CanModifyContract authZ admin caller then failM ErrUnauthorized
       else bindM (GetCodeInfo newCodeID) (\<lambda>nci. case nci of
         None \<Rightarrow> failM ErrInvalidRequest
       | Some newCodeInfo \<Rightarrow>
          bindM (liftO (CanInstantiateContract (accString (kSdk K)) authZ
              (InstantiateConfig newCodeInfo) caller)) (\<lambda>allowed.
          if \<not> allowed then failM ErrUnauthorized
          else
           bindM (wrapM (\<lambda>_. ErrVMError) (liftO (vmAnalyzeCode (kVm K) (CodeHash newCodeInfo)))) (\<lambda>report.
           bindM (migratePort K contractAddress report contractInfo0) (\<lambda>contractInfo1.
           bindM (GetCodeInfo (CodeID contractInfo1)) (\<lambda>oci. case oci of
             None \<Rightarrow> panicM (OtherPanic ''nil pointer dereference'')
           | Some oldCodeInfo \<Rightarrow>
              bindM (wrapM (\<lambda>_. ErrVMError) (liftO (vmAnalyzeCode (kVm K) (CodeHash oldCodeInfo)))) (\<lambda>oldReport.
              bindM (if sameMigrateVersion report oldReport then retM None
                     else callMigrateEntrypoint K c contractAddress (CodeHash newCodeInfo) msg
                         newCodeID) (\<lambda>response.
              bindM (persistMigration c contractAddress newCodeID msg contractInfo1) (\<lambda>contractInfo.
              thenM (emitEvent (newEvent ''migrate'' [codeIDAttr newCodeID, contractAttr K contractAddress]))
              (case response of
                 None \<Rightarrow> retM None
               | Some r \<Rightarrow> wrapM errWrap (handleContractResponse K
                   (c\<lparr>ctxSubMsgAuthzPolicy :=
                     Some (SubMessageAuthorizationPolicy authZ AuthZActionMigrateContract)\<rparr>)
                   contractAddress (IBCPortID contractInfo) (Some r)))))))))))))"

subsection \<open>Sudo and reply\<close>

definition Sudo ::
  "('m, 'x, 'msg) keeper \<Rightarrow> ctx \<Rightarrow> AccAddress \<Rightarrow> bytes \<Rightarrow> (('m, 'x) st, bytes option) go" where
  "Sudo K c contractAddress msg =
    bindM (contractInstance K contractAddress) (\<lambda>(contractInfo, codeInfo).
    thenM (chargeSetup K (CodeHash codeInfo) (CodeID contractInfo) msg)
    (bindM (callContract K c (VmSudo msg) (CodeHash codeInfo) contractAddress
        (5, ''execute wasm contract failed'')) (\<lambda>res.
    thenM (emitEvent (newEvent ''sudo'' [contractAttr K contractAddress]))
    (wrapM errWrap (handleContractResponse K c contractAddress (IBCPortID contractInfo) res)))))"

definition reply ::
  "('m, 'x, 'msg) keeper \<Rightarrow> ctx \<Rightarrow> AccAddress \<Rightarrow> Reply \<Rightarrow> (('m, 'x) st, bytes option) go" where
  "reply K c contractAddress rep =
    bindM (contractInstance K contractAddress) (\<lambda>(contractInfo, codeInfo).
    bindM (liftO (ReplyCosts (kGasRegister K) True rep)) (\<lambda>replyCosts.
    thenM (consumeGas (kMeter K) replyCosts)
    (bindM (callContract K c (VmReply rep) (CodeHash codeInfo) contractAddress
        (5, ''execute wasm contract failed'')) (\<lambda>res.
    thenM (emitEvent (newEvent ''reply'' [contractAttr K contractAddress]))
    (wrapM errWrap (handleContractResponse K c contractAddress (IBCPortID contractInfo) res))))))"

subsection \<open>Administration\<close>

definition authorizedContract ::
  "('m, 'x, 'msg) keeper \<Rightarrow> AccAddress \<Rightarrow> AccAddress \<Rightarrow> AuthorizationPolicy \<Rightarrow> (('m, 'x) st, ContractInfo) go"
  where
  "authorizedContract K contractAddress caller authZ =
    bindM (GetContractInfo contractAddress) (\<lambda>ci. case ci of
      None \<Rightarrow> failM ErrInvalidRequest
    | Some contractInfo \<Rightarrow>
       bindM (liftO (AdminAddr (fromBech32 (kSdk K)) contractInfo)) (\<lambda>admin.
       if \<not> CanModifyContract authZ admin caller then failM ErrUnauthorized else retM contractInfo))"

definition setContractAdmin ::
  "('m, 'x, 'msg) keeper \<Rightarrow> AccAddress \<Rightarrow> AccAddress \<Rightarrow> AccAddress \<Rightarrow> AuthorizationPolicy
    \<Rightarrow> (('m, 'x) st, unit) go" where
  "setContractAdmin K contractAddress caller newAdmin authZ =
    bindM (authorizedContract K contractAddress caller authZ) (\<lambda>contractInfo.
    let newAdminStr = accString (kSdk K) newAdmin in
    thenM (mustStoreContractInfo contractAddress (contractInfo\<lparr>Admin := newAdminStr\<rparr>))
    (emitEvent (newEvent ''update_contract_admin''
      [contractAttr K contractAddress, attr ''new_admin_address'' newAdminStr])))"

definition setContractLabel ::
  "('m, 'x, 'msg) keeper \<Rightarrow> AccAddress \<Rightarrow> AccAddress \<Rightarrow> bytes \<Rightarrow> AuthorizationPolicy
    \<Rightarrow> (('m, 'x) st, unit) go" where
  "setContractLabel K contractAddress caller newLabel authZ =
    bindM (authorizedContract K contractAddress caller authZ) (\<lambda>contractInfo.
    thenM (mustStoreContractInfo contractAddress (contractInfo\<lparr>Label := newLabel\<rparr>))
    (emitEvent (newEvent ''update_contract_label''
      [contractAttr K contractAddress, attr ''new_label'' newLabel])))"

text \<open>\<open>validate\<close> is the optional \<^verbatim>\<open>ValidateBasic\<close> of the extension type and \<open>pack\<close> its packing into an
  Any; both belong to the extension's type.\<close>

definition SetExtension ::
  "('e \<Rightarrow> unit outcome) \<Rightarrow> ('e \<Rightarrow> bytes outcome) \<Rightarrow> 'e option \<Rightarrow> ContractInfo \<Rightarrow> ContractInfo outcome" where
  "SetExtension validate pack ext c = (case ext of
     None \<Rightarrow> Ok (c\<lparr>Extension := None\<rparr>)
   | Some e \<Rightarrow> (case validate e of
       Ok _ \<Rightarrow> (case pack e of
          Ok a \<Rightarrow> Ok (c\<lparr>Extension := Some a\<rparr>)
        | Err _ \<Rightarrow> Err ErrPackAny
        | Panic p \<Rightarrow> Panic p)
     | Err x \<Rightarrow> Err x
     | Panic p \<Rightarrow> Panic p))"

definition setContractInfoExtension ::
  "('m, 'x, 'msg) keeper \<Rightarrow> ('e \<Rightarrow> unit outcome) \<Rightarrow> ('e \<Rightarrow> bytes outcome) \<Rightarrow> AccAddress \<Rightarrow> 'e option
    \<Rightarrow> (('m, 'x) st, unit) go" where
  "setContractInfoExtension K validate pack contractAddr ext =
    bindM (GetContractInfo contractAddr) (\<lambda>ci. case ci of
      None \<Rightarrow> failM (errWrap (ErrNoSuchContractFn (accString (kSdk K) contractAddr)))
    | Some info \<Rightarrow> bindM (liftO (SetExtension validate pack ext info)) (\<lambda>info'.
        mustStoreContractInfo contractAddr info'))"

definition mustAccAddressFromBech32 :: "sdk_fns \<Rightarrow> bytes \<Rightarrow> AccAddress outcome" where
  "mustAccAddressFromBech32 S a = (case fromBech32 S a of
     Ok x \<Rightarrow> Ok x
   | Err _ \<Rightarrow> Panic (OtherPanic ''invalid bech32 address'')
   | Panic p \<Rightarrow> Panic p)"

definition accessConfigEvent :: "u64 \<Rightarrow> AccessConfig \<Rightarrow> Event" where
  "accessConfigEvent codeID newConfig =
    newEvent ''update_code_access_config''
      ([attr ''code_permission'' (AccessType_String (Permission newConfig)), codeIDAttr codeID] @
       (let addrs = AllAuthorizedAddresses newConfig in
        if length addrs \<noteq> 0 then [attr ''authorized_addresses'' (joinWith '','' addrs)] else []))"

definition setAccessConfig ::
  "('m, 'x, 'msg) keeper \<Rightarrow> u64 \<Rightarrow> AccAddress \<Rightarrow> AccessConfig \<Rightarrow> AuthorizationPolicy
    \<Rightarrow> (('m, 'x) st, unit) go" where
  "setAccessConfig K codeID caller newConfig authz =
    bindM (GetCodeInfo codeID) (\<lambda>ci. case ci of
      None \<Rightarrow> failM (errWrap (ErrNoSuchCodeFn codeID))
    | Some info \<Rightarrow>
       bindM getInstantiateAccessConfig (\<lambda>chainAccess.
       bindM (liftO (mustAccAddressFromBech32 (kSdk K) (CodeCreator info))) (\<lambda>creator.
       if \<not> CanModifyCodeAccessConfig authz (Some creator) caller
            (AccessType_IsSubset (Permission newConfig) chainAccess)
       then failM ErrUnauthorized
       else thenM (mustStoreCodeInfo codeID (info\<lparr>InstantiateConfig := newConfig\<rparr>))
         (emitEvent (accessConfigEvent codeID newConfig)))))"

subsection \<open>Pinned codes and gasless contracts\<close>

definition pinCode :: "('m, 'x, 'msg) keeper \<Rightarrow> u64 \<Rightarrow> (('m, 'x) st, unit) go" where
  "pinCode K codeID = bindM (GetCodeInfo codeID) (\<lambda>ci. case ci of
     None \<Rightarrow> failM (errWrap (ErrNoSuchCodeFn codeID))
   | Some codeInfo \<Rightarrow>
      thenM (wrapM (\<lambda>_. ErrPinContractFailed) (vmWorldM (vmPin (kVm K) (CodeHash codeInfo))))
      (thenM (storeSet (GetPinnedCodeIndexPrefix codeID) (SBytes [CHR 0x01]))
      (emitEvent (newEvent ''pin_code'' [codeIDAttr codeID]))))"

definition unpinCode :: "('m, 'x, 'msg) keeper \<Rightarrow> u64 \<Rightarrow> (('m, 'x) st, unit) go" where
  "unpinCode K codeID = bindM (GetCodeInfo codeID) (\<lambda>ci. case ci of
     None \<Rightarrow> failM (errWrap (ErrNoSuchCodeFn codeID))
   | Some codeInfo \<Rightarrow>
      thenM (wrapM (\<lambda>_. ErrUnpinContractFailed) (vmWorldM (vmUnpin (kVm K) (CodeHash codeInfo))))
      (thenM (storeDelete (GetPinnedCodeIndexPrefix codeID))
      (emitEvent (newEvent ''unpin_code'' [codeIDAttr codeID]))))"

definition InitializePinnedCodes :: "('m, 'x, 'msg) keeper \<Rightarrow> (('m, 'x) st, unit) go" where
  "InitializePinnedCodes K =
    bindM (getsM (\<lambda>s. map fst (kv_iter (store s) PinnedCodeIndexPrefix))) (\<lambda>keys.
    forM keys (\<lambda>key.
      let codeID = ParsePinnedCodeIndex key in
      bindM (GetCodeInfo codeID) (\<lambda>ci. case ci of
        None \<Rightarrow> failM (errWrap (ErrNoSuchCodeFn codeID))
      | Some codeInfo \<Rightarrow>
          wrapM (\<lambda>_. ErrPinContractFailed) (vmWorldM (vmPin (kVm K) (CodeHash codeInfo))))))"

definition setGasless :: "AccAddress \<Rightarrow> (('m, 'x) st, unit) go" where
  "setGasless contractAddr = bindM (GetContractInfo contractAddr) (\<lambda>ci. case ci of
     None \<Rightarrow> failM ErrNotFound
   | Some _ \<Rightarrow> storeSet (GetGaslessContractIndexPrefix contractAddr) (SBytes [CHR 0x01]))"

definition unsetGasless :: "AccAddress \<Rightarrow> (('m, 'x) st, unit) go" where
  "unsetGasless contractAddr = bindM (GetContractInfo contractAddr) (\<lambda>ci. case ci of
     None \<Rightarrow> failM ErrNotFound
   | Some _ \<Rightarrow> storeDelete (GetGaslessContractIndexPrefix contractAddr))"

subsection \<open>Queries and nesting limits\<close>

definition checkAndIncreaseQueryStackSize :: "ctx \<Rightarrow> u32 \<Rightarrow> ctx outcome" where
  "checkAndIncreaseQueryStackSize c maxQueryStackSize =
    (let queryStackSize = (case ctxQueryStackSize c of None \<Rightarrow> 0 | Some n \<Rightarrow> n) + 1 in
     if queryStackSize > maxQueryStackSize then Err ErrExceedMaxQueryStackSize
     else Ok (c\<lparr>ctxQueryStackSize := Some queryStackSize\<rparr>))"

definition checkAndIncreaseCallDepth :: "ctx \<Rightarrow> u32 \<Rightarrow> ctx outcome" where
  "checkAndIncreaseCallDepth c maxCallDepth =
    (let callDepth = (case ctxCallDepth c of None \<Rightarrow> 0 | Some n \<Rightarrow> n) + 1 in
     if callDepth > maxCallDepth then Err ErrExceedMaxCallDepth
     else Ok (c\<lparr>ctxCallDepth := Some callDepth\<rparr>))"

definition QuerySmart ::
  "('m, 'x, 'msg) keeper \<Rightarrow> ctx \<Rightarrow> AccAddress \<Rightarrow> bytes \<Rightarrow> (('m, 'x) st, bytes) go" where
  "QuerySmart K c0 contractAddr req =
    bindM (liftO (checkAndIncreaseQueryStackSize c0 (kMaxQueryStackSize K))) (\<lambda>c.
    bindM (contractInstance K contractAddr) (\<lambda>(contractInfo, codeInfo).
    thenM (chargeSetup K (CodeHash codeInfo) (CodeID contractInfo) req)
    (bindM (liftO (NewEnv (kSdk K) c contractAddr)) (\<lambda>env.
    bindM (runtimeGasForContract K) (\<lambda>gasLeft.
    bindM (runVM (vmQuery (kVm K) req (CodeHash codeInfo) env contractAddr gasLeft c) contractAddr) (\<lambda>out.
    thenM (consumeRuntimeGas K (VmGasUsed out))
    (if VmErr out \<noteq> None then failM ErrVMError
     else bindM (derefM (VmRes out)) (\<lambda>queryResult.
       if QrErr queryResult \<noteq> '''' then
         failM (DeterministicError ''wasm'' 9
           (wrappedText (QrErr queryResult) ''query wasm contract failed''))
       else retM (QrOk queryResult)))))))))"

subsection \<open>Pending acknowledgements\<close>

definition asyncAckKey :: "bytes \<Rightarrow> bytes \<Rightarrow> u64 \<Rightarrow> bytes" where
  "asyncAckKey portID channelID sq = GetAsyncAckStorePrefix portID @ GetAsyncPacketKey channelID sq"

definition LoadAsyncAckPacket :: "bytes \<Rightarrow> bytes \<Rightarrow> u64 \<Rightarrow> (('m, 'x) st, Packet) go" where
  "LoadAsyncAckPacket portID channelID sq =
    bindM (storeGet (asyncAckKey portID channelID sq)) (\<lambda>v. case v of
      None \<Rightarrow> failM ErrNotFound
    | Some (SPacket p) \<Rightarrow> retM p
    | Some _ \<Rightarrow> failM (PlainErr ''unmarshal packet''))"

definition StoreAsyncAckPacket :: "Packet \<Rightarrow> (('m, 'x) st, unit) go" where
  "StoreAsyncAckPacket packet =
    storeSet (asyncAckKey (DestinationPort packet) (DestinationChannel packet) (Sequence packet))
      (SPacket packet)"

definition DeleteAsyncAckPacket :: "bytes \<Rightarrow> bytes \<Rightarrow> u64 \<Rightarrow> (('m, 'x) st, unit) go" where
  "DeleteAsyncAckPacket portID channelID sq = storeDelete (asyncAckKey portID channelID sq)"

subsection \<open>Import\<close>

definition importContractState :: "AccAddress \<Rightarrow> Model list \<Rightarrow> (('m, 'x) st, unit) go" where
  "importContractState contractAddress models =
    forM models (\<lambda>model.
      let key = GetContractStorePrefix contractAddress @ ModelKey model in
      bindM (storeHas key) (\<lambda>dup.
      if dup then failM ErrDuplicate else storeSet key (SBytes (ModelValue model))))"

definition importContract ::
  "('m, 'x, 'msg) keeper \<Rightarrow> AccAddress \<Rightarrow> ContractInfo \<Rightarrow> Model list \<Rightarrow> ContractCodeHistoryEntry list
    \<Rightarrow> (('m, 'x) st, unit) go" where
  "importContract K contractAddr c state historyEntries =
    bindM (containsCodeInfo (CodeID c)) (\<lambda>known.
    if \<not> known then failM (errWrap (ErrNoSuchCodeFn (CodeID c)))
    else bindM (HasContractInfo contractAddr) (\<lambda>dup.
    if dup then failM ErrDuplicate
    else if length historyEntries = 0 then failM ErrEmpty
    else bindM (liftO (fromBech32 (kSdk K) (Creator c))) (\<lambda>creatorAddress.
    thenM (appendToContractHistory contractAddr historyEntries)
    (thenM (mustStoreContractInfo contractAddr c)
    (thenM (addToContractCodeSecondaryIndex contractAddr (last historyEntries))
    (thenM (addToContractCreatorSecondaryIndex K creatorAddress (Updated (hd historyEntries)) contractAddr)
    (importContractState contractAddr state)))))))"

end
