(* ===== verification/Msgs.thy ===== *)
theory Msgs
  imports Keeper
begin

section \<open>Transaction messages and their stateless validation\<close>

text \<open>
  The messages of x/wasm (the struct declarations of src/x/wasm/types/tx.pb.go) with their
  \<^verbatim>\<open>ValidateBasic\<close> methods (src/x/wasm/types/tx.go) and the validators they share
  (src/x/wasm/types/validation.go).  A field \<^verbatim>\<open>F\<close> of message \<^verbatim>\<open>MsgStoreCode\<close> is \<open>scF\<close>, and so on.

  \<open>basic_fns\<close> holds what the validators call outside of this repository: address decoding and
  \<^verbatim>\<open>Coins.Validate\<close> of the SDK, the Docker reference parser, \<^verbatim>\<open>url.ParseRequestURI\<close>, and the Unicode
  data table behind \<^verbatim>\<open>unicode.IsPrint\<close> for runes above Latin-1.
\<close>

record basic_fns =
  bFromBech32 :: "bytes \<Rightarrow> AccAddress outcome"
  bCoinsValidate :: "Coins \<Rightarrow> unit outcome"
  bPrintTable :: "nat \<Rightarrow> bool"
  bParseRequestURI :: "bytes \<Rightarrow> unit outcome"
  bParseDockerRef :: "bytes \<Rightarrow> unit outcome"

subsection \<open>Checks in sequence\<close>

fun thenO :: "unit outcome \<Rightarrow> 'a outcome \<Rightarrow> 'a outcome" where
  "thenO (Ok _) r = r"
| "thenO (Err e) r = Err e"
| "thenO (Panic p) r = Panic p"

definition failIf :: "bool \<Rightarrow> gerror \<Rightarrow> unit outcome" where
  "failIf b e = (if b then Err e else Ok ())"

fun wrapO :: "(gerror \<Rightarrow> gerror) \<Rightarrow> 'a outcome \<Rightarrow> unit outcome" where
  "wrapO f (Ok _) = Ok ()"
| "wrapO f (Err e) = Err (f e)"
| "wrapO f (Panic p) = Panic p"

subsection \<open>Shared validators\<close>

definition MaxLabelSize :: nat where
  "MaxLabelSize = 128"

definition maxCodeIDCount :: nat where
  "maxCodeIDCount = 50"

definition validateWasmCode :: "bytes \<Rightarrow> nat \<Rightarrow> unit outcome" where
  "validateWasmCode s maxSize =
    (if length s = 0 then Err ErrEmpty
     else if length s > maxSize then Err ErrLimit
     else Ok ())"

text \<open>\<^verbatim>\<open>unicode.IsPrint\<close>: Latin-1 is decided by a fixed table (everything but controls, the no-break
  space and the soft hyphen), the rest by the Unicode categories.\<close>

definition IsPrint :: "(nat \<Rightarrow> bool) \<Rightarrow> nat \<Rightarrow> bool" where
  "IsPrint table r =
    (if r \<le> 255 then 32 \<le> r \<and> r \<le> 126 \<or> 161 \<le> r \<and> r \<noteq> 173 else table r)"

text \<open>\<^verbatim>\<open>strings.Map\<close> with a function that drops the runes that are not printable.  A byte that is not
  part of a valid encoding decodes to U+FFFD and is replaced by the encoding of U+FFFD.\<close>

lemma DecodeRune_width: "s \<noteq> [] \<Longrightarrow> 0 < snd (DecodeRune s)"
  by (cases s) (simp_all add: Let_def split: list.splits if_splits)

function printableOnly :: "(nat \<Rightarrow> bool) \<Rightarrow> bytes \<Rightarrow> bytes" where
  "printableOnly table s =
    (if s = [] then []
     else case DecodeRune s of (r, w) \<Rightarrow>
       (if \<not> IsPrint table r then []
        else if r = RuneError \<and> w = 1 then bytesOf [239, 191, 189]
        else take w s) @ printableOnly table (drop w s))"
  by pat_completeness auto
termination
proof (relation "measure (\<lambda>(_, s). length s)", goal_cases)
  case (2 table s r w)
  then show ?case using DecodeRune_width [of s] by (cases "DecodeRune s") auto
qed simp

declare printableOnly.simps [simp del]

definition ValidateLabel :: "(nat \<Rightarrow> bool) \<Rightarrow> bytes \<Rightarrow> unit outcome" where
  "ValidateLabel table label =
    (if label = '''' then Err ErrEmpty
     else if length label > MaxLabelSize then Err ErrLimit
     else if label \<noteq> TrimSpace label then Err ErrInvalid
     else if label \<noteq> printableOnly table label then Err ErrInvalid
     else Ok ())"

text \<open>The code hash is None when the slice is nil.\<close>

definition ValidateVerificationInfo ::
  "basic_fns \<Rightarrow> bytes \<Rightarrow> bytes \<Rightarrow> bytes option \<Rightarrow> unit outcome" where
  "ValidateVerificationInfo B source builder codeHash =
    (if length source \<noteq> 0 \<or> length builder \<noteq> 0 \<or>
        length (case codeHash of None \<Rightarrow> [] | Some h \<Rightarrow> h) \<noteq> 0 then
       thenO (failIf (source = '''') (PlainErr ''source is required''))
       (thenO (wrapO (\<lambda>_. PlainErr ''source'') (bParseRequestURI B source))
       (thenO (failIf (builder = '''') (PlainErr ''builder is required''))
       (thenO (wrapO (\<lambda>_. PlainErr ''builder'') (bParseDockerRef B builder))
       (failIf (codeHash = None) (PlainErr ''code hash is required'')))))
     else Ok ())"

text \<open>The index of the values seen so far is the list \<open>index\<close>.\<close>

fun hasDuplicatesLoop :: "'a list \<Rightarrow> 'a list \<Rightarrow> bool" where
  "hasDuplicatesLoop index [] = False"
| "hasDuplicatesLoop index (v # s) =
    (if v \<in> set index then True else hasDuplicatesLoop (v # index) s)"

definition hasDuplicates :: "'a list \<Rightarrow> bool" where
  "hasDuplicates s = hasDuplicatesLoop [] s"

definition validateCodeIDs :: "u64 list \<Rightarrow> unit outcome" where
  "validateCodeIDs codeIDs =
    (if length codeIDs = 0 then Err ErrInvalidRequest
     else if length codeIDs > maxCodeIDCount then Err ErrInvalidRequest
     else if hasDuplicates codeIDs then Err ErrInvalidRequest
     else Ok ())"

definition RawContractMessage_Equal :: "bytes \<Rightarrow> bytes \<Rightarrow> bool" where
  "RawContractMessage_Equal r o' = (r = o')"

text \<open>The check on a string address: decoded, the error wrapped.\<close>

definition checkAddr :: "basic_fns \<Rightarrow> bytes \<Rightarrow> unit outcome" where
  "checkAddr B a = wrapO errWrap (bFromBech32 B a)"

definition checkOptAddr :: "basic_fns \<Rightarrow> bytes \<Rightarrow> unit outcome" where
  "checkOptAddr B a = (if length a \<noteq> 0 then checkAddr B a else Ok ())"

definition checkPayload :: "bytes \<Rightarrow> unit outcome" where
  "checkPayload m = wrapO errWrap (RawContractMessage_ValidateBasic m)"

definition checkCode :: "bytes \<Rightarrow> unit outcome" where
  "checkCode code = wrapO (\<lambda>_. ErrInvalidRequest) (validateWasmCode code MaxWasmSize)"

definition checkPermission :: "basic_fns \<Rightarrow> AccessConfig option \<Rightarrow> unit outcome" where
  "checkPermission B p = (case p of
     None \<Rightarrow> Ok ()
   | Some a \<Rightarrow> wrapO errWrap (AccessConfig_ValidateBasic (bFromBech32 B) a))"

definition checkLabel :: "basic_fns \<Rightarrow> bytes \<Rightarrow> unit outcome" where
  "checkLabel B label = wrapO errWrap (ValidateLabel (bPrintTable B) label)"

definition checkFunds :: "basic_fns \<Rightarrow> Coins \<Rightarrow> unit outcome" where
  "checkFunds B funds = wrapO errWrap (bCoinsValidate B funds)"

subsection \<open>Messages of users\<close>

record MsgStoreCode =
  scSender :: bytes
  scWASMByteCode :: bytes
  scInstantiatePermission :: "AccessConfig option"

definition MsgStoreCode_ValidateBasic :: "basic_fns \<Rightarrow> MsgStoreCode \<Rightarrow> unit outcome" where
  "MsgStoreCode_ValidateBasic B msg =
    thenO (wrapO id (bFromBech32 B (scSender msg)))
    (thenO (checkCode (scWASMByteCode msg))
    (checkPermission B (scInstantiatePermission msg)))"

record MsgInstantiateContract =
  inSender :: bytes
  inAdmin :: bytes
  inCodeID :: u64
  inLabel :: bytes
  inMsg :: bytes
  inFunds :: Coins

definition MsgInstantiateContract_ValidateBasic ::
  "basic_fns \<Rightarrow> MsgInstantiateContract \<Rightarrow> unit outcome" where
  "MsgInstantiateContract_ValidateBasic B msg =
    thenO (checkAddr B (inSender msg))
    (thenO (failIf (inCodeID msg = 0) ErrInvalidRequest)
    (thenO (checkLabel B (inLabel msg))
    (thenO (checkFunds B (inFunds msg))
    (thenO (checkOptAddr B (inAdmin msg))
    (checkPayload (inMsg msg))))))"

record MsgInstantiateContract2 =
  i2Sender :: bytes
  i2Admin :: bytes
  i2CodeID :: u64
  i2Label :: bytes
  i2Msg :: bytes
  i2Funds :: Coins
  i2Salt :: bytes
  i2FixMsg :: bool

definition MsgInstantiateContract2_ValidateBasic ::
  "basic_fns \<Rightarrow> MsgInstantiateContract2 \<Rightarrow> unit outcome" where
  "MsgInstantiateContract2_ValidateBasic B msg =
    thenO (checkAddr B (i2Sender msg))
    (thenO (failIf (i2CodeID msg = 0) ErrInvalidRequest)
    (thenO (checkLabel B (i2Label msg))
    (thenO (checkFunds B (i2Funds msg))
    (thenO (checkOptAddr B (i2Admin msg))
    (thenO (checkPayload (i2Msg msg))
    (wrapO errWrap (ValidateSalt (i2Salt msg))))))))"

record MsgExecuteContract =
  exSender :: bytes
  exContract :: bytes
  exMsgBytes :: bytes
  exFunds :: Coins

definition MsgExecuteContract_ValidateBasic :: "basic_fns \<Rightarrow> MsgExecuteContract \<Rightarrow> unit outcome" where
  "MsgExecuteContract_ValidateBasic B msg =
    thenO (checkAddr B (exSender msg))
    (thenO (checkAddr B (exContract msg))
    (thenO (checkFunds B (exFunds msg))
    (checkPayload (exMsgBytes msg))))"

record MsgMigrateContract =
  miSender :: bytes
  miContract :: bytes
  miCodeID :: u64
  miMsg :: bytes

definition MsgMigrateContract_ValidateBasic :: "basic_fns \<Rightarrow> MsgMigrateContract \<Rightarrow> unit outcome" where
  "MsgMigrateContract_ValidateBasic B msg =
    thenO (failIf (miCodeID msg = 0) ErrInvalidRequest)
    (thenO (checkAddr B (miSender msg))
    (thenO (checkAddr B (miContract msg))
    (checkPayload (miMsg msg))))"

record MsgUpdateAdmin =
  uaSender :: bytes
  uaNewAdmin :: bytes
  uaContract :: bytes

text \<open>\<^verbatim>\<open>strings.EqualFold\<close> on two decodable, hence ASCII, addresses.\<close>

definition MsgUpdateAdmin_ValidateBasic :: "basic_fns \<Rightarrow> MsgUpdateAdmin \<Rightarrow> unit outcome" where
  "MsgUpdateAdmin_ValidateBasic B msg =
    thenO (checkAddr B (uaSender msg))
    (thenO (checkAddr B (uaContract msg))
    (thenO (checkAddr B (uaNewAdmin msg))
    (failIf (ToUpperASCII (uaSender msg) = ToUpperASCII (uaNewAdmin msg)) ErrInvalid)))"

record MsgClearAdmin =
  caSender :: bytes
  caContract :: bytes

definition MsgClearAdmin_ValidateBasic :: "basic_fns \<Rightarrow> MsgClearAdmin \<Rightarrow> unit outcome" where
  "MsgClearAdmin_ValidateBasic B msg =
    thenO (checkAddr B (caSender msg)) (checkAddr B (caContract msg))"

record MsgUpdateInstantiateConfig =
  uiSender :: bytes
  uiCodeID :: u64
  uiNewInstantiatePermission :: "AccessConfig option"

definition MsgUpdateInstantiateConfig_ValidateBasic ::
  "basic_fns \<Rightarrow> MsgUpdateInstantiateConfig \<Rightarrow> unit outcome" where
  "MsgUpdateInstantiateConfig_ValidateBasic B msg =
    thenO (checkAddr B (uiSender msg))
    (thenO (failIf (uiCodeID msg = 0) ErrInvalidRequest)
    (thenO (failIf (uiNewInstantiatePermission msg = None) ErrInvalidRequest)
    (checkPermission B (uiNewInstantiatePermission msg))))"

record MsgUpdateContractLabel =
  ulSender :: bytes
  ulNewLabel :: bytes
  ulContract :: bytes

definition MsgUpdateContractLabel_ValidateBasic ::
  "basic_fns \<Rightarrow> MsgUpdateContractLabel \<Rightarrow> unit outcome" where
  "MsgUpdateContractLabel_ValidateBasic B msg =
    thenO (checkAddr B (ulSender msg))
    (thenO (checkLabel B (ulNewLabel msg))
    (checkAddr B (ulContract msg)))"

subsection \<open>Messages of the chain authority\<close>

record MsgUpdateParams =
  upAuthority :: bytes
  upParams :: Params

definition MsgUpdateParams_ValidateBasic :: "basic_fns \<Rightarrow> MsgUpdateParams \<Rightarrow> unit outcome" where
  "MsgUpdateParams_ValidateBasic B msg =
    thenO (checkAddr B (upAuthority msg)) (Params_ValidateBasic (bFromBech32 B) (upParams msg))"

record MsgPinCodes =
  pcAuthority :: bytes
  pcCodeIDs :: "u64 list"

definition MsgPinCodes_ValidateBasic :: "basic_fns \<Rightarrow> MsgPinCodes \<Rightarrow> unit outcome" where
  "MsgPinCodes_ValidateBasic B msg =
    thenO (checkAddr B (pcAuthority msg)) (validateCodeIDs (pcCodeIDs msg))"

record MsgUnpinCodes =
  ucAuthority :: bytes
  ucCodeIDs :: "u64 list"

definition MsgUnpinCodes_ValidateBasic :: "basic_fns \<Rightarrow> MsgUnpinCodes \<Rightarrow> unit outcome" where
  "MsgUnpinCodes_ValidateBasic B msg =
    thenO (checkAddr B (ucAuthority msg)) (validateCodeIDs (ucCodeIDs msg))"

record MsgSudoContract =
  suAuthority :: bytes
  suContract :: bytes
  suMsg :: bytes

definition MsgSudoContract_ValidateBasic :: "basic_fns \<Rightarrow> MsgSudoContract \<Rightarrow> unit outcome" where
  "MsgSudoContract_ValidateBasic B msg =
    thenO (checkAddr B (suAuthority msg))
    (thenO (checkAddr B (suContract msg))
    (checkPayload (suMsg msg)))"

record MsgStoreAndInstantiateContract =
  siAuthority :: bytes
  siWASMByteCode :: bytes
  siInstantiatePermission :: "AccessConfig option"
  siAdmin :: bytes
  siLabel :: bytes
  siMsg :: bytes
  siFunds :: Coins
  siSource :: bytes
  siBuilder :: bytes
  siCodeHash :: "bytes option"

definition MsgStoreAndInstantiateContract_ValidateBasic ::
  "basic_fns \<Rightarrow> MsgStoreAndInstantiateContract \<Rightarrow> unit outcome" where
  "MsgStoreAndInstantiateContract_ValidateBasic B msg =
    thenO (checkAddr B (siAuthority msg))
    (thenO (checkLabel B (siLabel msg))
    (thenO (checkFunds B (siFunds msg))
    (thenO (checkOptAddr B (siAdmin msg))
    (thenO (wrapO errWrap (ValidateVerificationInfo B (siSource msg) (siBuilder msg) (siCodeHash msg)))
    (thenO (checkPayload (siMsg msg))
    (thenO (checkCode (siWASMByteCode msg))
    (checkPermission B (siInstantiatePermission msg))))))))"

record MsgAddCodeUploadParamsAddresses =
  acAuthority :: bytes
  acAddresses :: "bytes list"

definition MsgAddCodeUploadParamsAddresses_ValidateBasic ::
  "basic_fns \<Rightarrow> MsgAddCodeUploadParamsAddresses \<Rightarrow> unit outcome" where
  "MsgAddCodeUploadParamsAddresses_ValidateBasic B msg =
    thenO (checkAddr B (acAuthority msg)) (validateBech32Addresses (bFromBech32 B) (acAddresses msg))"

record MsgRemoveCodeUploadParamsAddresses =
  rcAuthority :: bytes
  rcAddresses :: "bytes list"

definition MsgRemoveCodeUploadParamsAddresses_ValidateBasic ::
  "basic_fns \<Rightarrow> MsgRemoveCodeUploadParamsAddresses \<Rightarrow> unit outcome" where
  "MsgRemoveCodeUploadParamsAddresses_ValidateBasic B msg =
    thenO (checkAddr B (rcAuthority msg)) (validateBech32Addresses (bFromBech32 B) (rcAddresses msg))"

record MsgStoreAndMigrateContract =
  smAuthority :: bytes
  smWASMByteCode :: bytes
  smInstantiatePermission :: "AccessConfig option"
  smContract :: bytes
  smMsg :: bytes

definition MsgStoreAndMigrateContract_ValidateBasic ::
  "basic_fns \<Rightarrow> MsgStoreAndMigrateContract \<Rightarrow> unit outcome" where
  "MsgStoreAndMigrateContract_ValidateBasic B msg =
    thenO (checkAddr B (smAuthority msg))
    (thenO (checkAddr B (smContract msg))
    (thenO (checkPayload (smMsg msg))
    (thenO (checkCode (smWASMByteCode msg))
    (checkPermission B (smInstantiatePermission msg)))))"

record MsgSetGaslessContracts =
  sgAuthority :: bytes
  sgContracts :: "bytes list"

fun checkAddrs :: "basic_fns \<Rightarrow> bytes list \<Rightarrow> unit outcome" where
  "checkAddrs B [] = Ok ()"
| "checkAddrs B (a # as) = thenO (checkAddr B a) (checkAddrs B as)"

definition MsgSetGaslessContracts_ValidateBasic ::
  "basic_fns \<Rightarrow> MsgSetGaslessContracts \<Rightarrow> unit outcome" where
  "MsgSetGaslessContracts_ValidateBasic B msg =
    thenO (checkAddr B (sgAuthority msg))
    (thenO (checkAddrs B (sgContracts msg))
    (failIf (hasDuplicates (sgContracts msg)) ErrInvalidRequest))"

subsection \<open>Facts\<close>

lemma thenO_Ok_iff [simp]: "thenO a b = Ok y \<longleftrightarrow> a = Ok () \<and> b = Ok y"
  by (cases a) auto

lemma failIf_Ok_iff [simp]: "failIf b e = Ok y \<longleftrightarrow> \<not> b"
  by (simp add: failIf_def)

lemma wrapO_Ok_iff [simp]: "wrapO f r = Ok y \<longleftrightarrow> (\<exists>x. r = Ok x)"
  by (cases r) auto

lemma hasDuplicatesLoop_iff: "hasDuplicatesLoop index s \<longleftrightarrow> \<not> distinct s \<or> set s \<inter> set index \<noteq> {}"
  by (induction index s rule: hasDuplicatesLoop.induct) auto

lemma hasDuplicates_iff [simp]: "hasDuplicates s \<longleftrightarrow> \<not> distinct s"
  by (simp add: hasDuplicates_def hasDuplicatesLoop_iff)

lemma checkAddr_Ok_iff [simp]: "checkAddr B a = Ok u \<longleftrightarrow> (\<exists>x. bFromBech32 B a = Ok x)"
  by (simp add: checkAddr_def)

text \<open>ASCII labels: a rune is a byte, and only the six ASCII spaces are trimmed.\<close>

lemma DecodeRune_ascii: "byte c < 128 \<Longrightarrow> DecodeRune (c # s) = (byte c, 1)"
  by (simp add: Let_def)

lemma printableOnly_ascii:
  "\<forall>c \<in> set s. byte c < 128 \<Longrightarrow> printableOnly table s = filter (\<lambda>c. 32 \<le> byte c \<and> byte c \<le> 126) s"
proof (induction s)
  case Nil
  then show ?case by (simp add: printableOnly.simps)
next
  case (Cons c s)
  then show ?case
    using DecodeRune_ascii [of c s]
    by (simp add: printableOnly.simps [of table "c # s"] IsPrint_def RuneError_def del: DecodeRune.simps)
qed

definition asciiSpace :: "char \<Rightarrow> bool" where
  "asciiSpace c = (byte c \<in> {9, 10, 11, 12, 13, 32})"

lemma byte_bytesOf [simp]: "n < 256 \<Longrightarrow> byte (char_of n) = n"
  by (simp add: byte_def)

lemma byte_inject: "byte c = byte d \<Longrightarrow> c = d"
  by (simp add: byte_def)

lemma byte_space: "byte (CHR '' '') = 32"
  by (simp add: byte_def)

lemma spaceEncodings_cases:
  "p \<in> set spaceEncodings \<Longrightarrow>
    (\<exists>c. p = [c] \<and> asciiSpace c) \<or> (p \<noteq> [] \<and> 128 \<le> byte (hd p) \<and> 128 \<le> byte (last p))"
  by (auto simp: spaceEncodings_def bytesOf_def asciiSpace_def)

lemma asciiSpace_encoded: "asciiSpace c \<Longrightarrow> [c] \<in> set spaceEncodings"
  by (auto simp: asciiSpace_def spaceEncodings_def bytesOf_def byte_def
      dest!: arg_cong [of "of_char c" _ "char_of :: nat \<Rightarrow> char"])

lemma stripWith_shrinks:
  assumes pats: "\<And>p. p \<in> set pats \<Longrightarrow> p \<noteq> []" and hit: "p \<in> set pats" "prefix p s"
  shows "length (stripWith (Suc n) pats s) < length s"
proof -
  from hit obtain q where q: "find (\<lambda>p. prefix p s) pats = Some q"
    by (cases "find (\<lambda>p. prefix p s) pats") (auto simp: find_None_iff)
  then have "q \<in> set pats" "prefix q s" by (auto simp: find_Some_iff)
  then have "length (drop (length q) s) < length s"
    using pats [of q] prefix_length_le [of q s] by (cases q; cases s) auto
  then show ?thesis
    using q stripWith_length [of n pats "drop (length q) s"] by simp
qed

lemma stripWith_id: "(\<And>p. p \<in> set pats \<Longrightarrow> \<not> prefix p s) \<Longrightarrow> stripWith n pats s = s"
  by (cases n) (auto simp: find_None_iff split: option.splits dest!: find_Some_iff [THEN iffD1])

lemma TrimSpace_id_iff:
  assumes "s \<noteq> []"
  shows "TrimSpace s = s \<longleftrightarrow> (\<forall>p \<in> set spaceEncodings. \<not> prefix p s \<and> \<not> suffix p s)"
proof -
  have pats: "p \<noteq> []" if "p \<in> set spaceEncodings" for p
    using spaceEncodings_cases [OF that] by auto
  let ?l = "stripWith (length s) spaceEncodings s"
  let ?r = "stripWith (length ?l) (map rev spaceEncodings) (rev ?l)"
  obtain n where n: "length s = Suc n" using assms by (cases s) auto
  have trim: "TrimSpace s = rev ?r" by (simp add: TrimSpace_def Let_def)
  show ?thesis
  proof
    assume "\<forall>p \<in> set spaceEncodings. \<not> prefix p s \<and> \<not> suffix p s"
    then have "?l = s" "stripWith (length s) (map rev spaceEncodings) (rev s) = rev s"
      by (auto intro!: stripWith_id simp: suffix_to_prefix)
    then show "TrimSpace s = s" by (simp add: trim)
  next
    assume id: "TrimSpace s = s"
    have len: "length s \<le> length ?l"
      using id stripWith_length [of "length ?l" "map rev spaceEncodings" "rev ?l"]
      by (metis trim length_rev)
    show "\<forall>p \<in> set spaceEncodings. \<not> prefix p s \<and> \<not> suffix p s"
    proof (intro ballI conjI notI)
      fix p assume p: "p \<in> set spaceEncodings" "prefix p s"
      show False using stripWith_shrinks [OF pats p, of n] len n by simp
    next
      fix p assume p: "p \<in> set spaceEncodings" "suffix p s"
      have "?l = s"
      proof (rule stripWith_id)
        fix q assume q: "q \<in> set spaceEncodings"
        show "\<not> prefix q s" using stripWith_shrinks [OF pats q, of s n] len n by auto
      qed
      then have "length ?r < length (rev s)"
        using stripWith_shrinks [of "map rev spaceEncodings" "rev p" "rev s" n] pats p n
        by (auto simp: suffix_to_prefix)
      then show False using id trim by (metis length_rev less_irrefl)
    qed
  qed
qed

lemma TrimSpace_ascii_id_iff:
  assumes ascii: "\<forall>c \<in> set s. byte c < 128" and "s \<noteq> []"
  shows "TrimSpace s = s \<longleftrightarrow> \<not> asciiSpace (hd s) \<and> \<not> asciiSpace (last s)"
proof -
  have "(\<exists>p \<in> set spaceEncodings. prefix p s) \<longleftrightarrow> asciiSpace (hd s)"
  proof
    assume "\<exists>p \<in> set spaceEncodings. prefix p s"
    then obtain p t where p: "p \<in> set spaceEncodings" "s = p @ t" by (auto simp: prefix_def)
    then have "p \<noteq> []" using spaceEncodings_cases [OF p(1)] by auto
    then have "hd p \<in> set s" "hd s = hd p" using p by auto
    then show "asciiSpace (hd s)"
      using spaceEncodings_cases [OF p(1)] ascii by fastforce
  next
    assume "asciiSpace (hd s)"
    then show "\<exists>p \<in> set spaceEncodings. prefix p s"
      using asciiSpace_encoded [of "hd s"] assms(2) by (cases s) (auto intro!: bexI [of _ "[hd s]"])
  qed
  moreover have "(\<exists>p \<in> set spaceEncodings. suffix p s) \<longleftrightarrow> asciiSpace (last s)"
  proof
    assume "\<exists>p \<in> set spaceEncodings. suffix p s"
    then obtain p t where p: "p \<in> set spaceEncodings" "s = t @ p" by (auto simp: suffix_def)
    then have "p \<noteq> []" using spaceEncodings_cases [OF p(1)] by auto
    then have "last p \<in> set s" "last s = last p" using p by auto
    then show "asciiSpace (last s)"
      using spaceEncodings_cases [OF p(1)] ascii by fastforce
  next
    assume "asciiSpace (last s)"
    then show "\<exists>p \<in> set spaceEncodings. suffix p s"
      using asciiSpace_encoded [of "last s"] append_butlast_last_id [OF assms(2)]
      by (metis suffix_def)
  qed
  ultimately show ?thesis using TrimSpace_id_iff [OF assms(2)] by blast
qed

text \<open>C39. Which labels are valid.  A label of ASCII characters is accepted exactly when it has between
  one and 128 characters, all of them printable, and neither the first nor the last is a space.\<close>

theorem ValidateLabel_ascii:
  assumes "\<forall>c \<in> set label. byte c < 128"
  shows "ValidateLabel table label = Ok () \<longleftrightarrow>
    1 \<le> length label \<and> length label \<le> 128 \<and> (\<forall>c \<in> set label. 32 \<le> byte c \<and> byte c \<le> 126) \<and>
    hd label \<noteq> CHR '' '' \<and> last label \<noteq> CHR '' ''"
proof (cases "label = []")
  case True
  then show ?thesis by (simp add: ValidateLabel_def)
next
  case False
  have space: "asciiSpace c \<longleftrightarrow> c = CHR '' ''" if "32 \<le> byte c" for c
    using that byte_inject [of c "CHR '' ''"] by (auto simp: asciiSpace_def byte_space)
  have printable: "(label = printableOnly table label) = (\<forall>c \<in> set label. 32 \<le> byte c \<and> byte c \<le> 126)"
    unfolding printableOnly_ascii [OF assms, of table]
    using filter_id_conv [of _ label] by (auto simp: eq_commute [of label])
  have trimmed: "(label = TrimSpace label) = (\<not> asciiSpace (hd label) \<and> \<not> asciiSpace (last label))"
    using TrimSpace_ascii_id_iff [OF assms False] by (simp add: eq_commute [of label])
  have ends: "hd label \<in> set label" "last label \<in> set label" using False by auto
  have "ValidateLabel table label = Ok () \<longleftrightarrow> length label \<le> 128 \<and>
      \<not> asciiSpace (hd label) \<and> \<not> asciiSpace (last label) \<and> (\<forall>c \<in> set label. 32 \<le> byte c \<and> byte c \<le> 126)"
    using False by (simp add: ValidateLabel_def MaxLabelSize_def printable trimmed)
  then show ?thesis using False ends space by (auto simp: Suc_le_eq asciiSpace_def [of "CHR '' ''"] byte_space)
qed

theorem ValidateLabel_ascii_witness:
  "ValidateLabel (\<lambda>_. False) ''my contract'' = Ok () \<and> ValidateLabel (\<lambda>_. False) '' x'' \<noteq> Ok ()"
  using ValidateLabel_ascii [of "''my contract''" "\<lambda>_. False"] ValidateLabel_ascii [of "'' x''" "\<lambda>_. False"]
  by (simp add: byte_def)

end
