(* ===== verification/KeeperInv.thy ===== *)
theory KeeperInv
  imports Keeper
begin

section \<open>The invariant of the keeper's store\<close>

text \<open>
  The abstract view of the store: the code at an id, the contract at an address, the history of a
  contract, the entries of the contracts-by-code index.  \<open>keeper_core\<close> relates them: the code of a
  contract exists, a contract has a history whose last entry names its code, and the index holds
  exactly one entry per contract, at the code and time of its last history entry.

  History positions are 64-bit counters; a contract whose history has reached the last position is
  \<open>saturated\<close> and exempt, so the invariant needs no assumption on the number of migrations.

  The lemmas say how each write of the keeper changes the view; the operations are composed
  from these writes.
\<close>

definition codeAt :: "stored kv \<Rightarrow> u64 \<Rightarrow> CodeInfo option" where
  "codeAt st i = (case kv_get st (GetCodeKey i) of Some (SCodeInfo c) \<Rightarrow> Some c | _ \<Rightarrow> None)"

definition contractAt :: "stored kv \<Rightarrow> AccAddress \<Rightarrow> ContractInfo option" where
  "contractAt st a =
    (case kv_get st (GetContractAddressKey a) of Some (SContractInfo c) \<Rightarrow> Some c | _ \<Rightarrow> None)"

definition histKV :: "stored kv \<Rightarrow> AccAddress \<Rightarrow> (bytes \<times> stored) list" where
  "histKV st a =
    filter (\<lambda>(k, _). length k = 8) (kv_iter st (GetContractCodeHistoryElementPrefix a))"

definition toHistory :: "stored \<Rightarrow> ContractCodeHistoryEntry option" where
  "toHistory v = (case v of SHistory e \<Rightarrow> Some e | _ \<Rightarrow> None)"

definition histAt :: "stored kv \<Rightarrow> AccAddress \<Rightarrow> ContractCodeHistoryEntry list" where
  "histAt st a = List.map_filter (\<lambda>(_, v). toHistory v) (histKV st a)"

definition indexed :: "stored kv \<Rightarrow> u64 \<Rightarrow> AbsoluteTxPosition \<Rightarrow> AccAddress \<Rightarrow> bool" where
  "indexed st i p a = kv_has st (GetContractByCodeIDSecondaryIndexPrefix i @ posBytes p @ a)"

definition typed :: "stored kv \<Rightarrow> bool" where
  "typed st =
    ((\<forall>i v. kv_get st (GetCodeKey i) = Some v \<longrightarrow> (\<exists>c. v = SCodeInfo c)) \<and>
     (\<forall>a v. kv_get st (GetContractAddressKey a) = Some v \<longrightarrow> (\<exists>c. v = SContractInfo c)) \<and>
     (\<forall>a p v. kv_get st (GetContractCodeHistoryElementKey a p) = Some v \<longrightarrow> (\<exists>e. v = SHistory e)) \<and>
     (\<forall>i x. kv_has st (GetContractByCodeIDSecondaryIndexPrefix i @ x) \<longrightarrow> 16 \<le> length x))"

definition saturated :: "stored kv \<Rightarrow> bool" where
  "saturated st = (\<exists>a. kv_has st (GetContractCodeHistoryElementKey a (- 1)))"

text \<open>The relation between the parts of the view.\<close>

definition keeper_core ::
  "(u64 \<Rightarrow> CodeInfo option) \<Rightarrow> (AccAddress \<Rightarrow> ContractInfo option) \<Rightarrow>
   (AccAddress \<Rightarrow> ContractCodeHistoryEntry list) \<Rightarrow> (u64 \<Rightarrow> AbsoluteTxPosition \<Rightarrow> AccAddress \<Rightarrow> bool) \<Rightarrow> bool"
  where
  "keeper_core codes contracts hist idx =
    ((\<forall>a ci. contracts a = Some ci \<longrightarrow>
        codes (CodeID ci) \<noteq> None \<and> hist a \<noteq> [] \<and>
        HistCodeID (last (hist a)) = CodeID ci \<and> Updated (last (hist a)) \<noteq> None) \<and>
     (\<forall>i p a. idx i p a \<longleftrightarrow>
        contracts a \<noteq> None \<and> HistCodeID (last (hist a)) = i \<and> Updated (last (hist a)) = Some p))"

definition keeper_inv :: "stored kv \<Rightarrow> bool" where
  "keeper_inv st =
    (kv_wf st \<and> typed st \<and>
     (saturated st \<or> keeper_core (codeAt st) (contractAt st) (histAt st) (indexed st)))"

text \<open>Writes outside the four families of the view.\<close>

definition neutral :: "bytes \<Rightarrow> bool" where
  "neutral k = (case k of [] \<Rightarrow> False | c # _ \<Rightarrow> c \<notin> {CHR 0x01, CHR 0x02, CHR 0x05, CHR 0x06})"

text \<open>Two stores that agree on the four families have the same view.\<close>

definition same_view :: "stored kv \<Rightarrow> stored kv \<Rightarrow> bool" where
  "same_view st st' =
    (kv_wf st \<and> kv_wf st' \<and>
     (\<forall>i. kv_get st' (GetCodeKey i) = kv_get st (GetCodeKey i)) \<and>
     (\<forall>a. kv_get st' (GetContractAddressKey a) = kv_get st (GetContractAddressKey a)) \<and>
     (\<forall>a x. kv_get st' (GetContractCodeHistoryElementPrefix a @ x) =
            kv_get st (GetContractCodeHistoryElementPrefix a @ x)) \<and>
     (\<forall>i x. kv_get st' (GetContractByCodeIDSecondaryIndexPrefix i @ x) =
            kv_get st (GetContractByCodeIDSecondaryIndexPrefix i @ x)))"

definition histPos :: "stored kv \<Rightarrow> AccAddress \<Rightarrow> u64" where
  "histPos st a = historyPos (kv_riter st (GetContractCodeHistoryElementPrefix a))"

lemmas view_defs = key_defs prefix_defs

subsection \<open>Neutral writes\<close>

lemma neutral_keys [simp]:
  "neutral ParamsKey" "neutral KeySequenceCodeID" "neutral KeySequenceInstanceID"
  "neutral (GetPinnedCodeIndexPrefix i)" "neutral (GaslessContractIndexPrefix @ a)"
  "neutral (GetContractStorePrefix a @ k)" "neutral TXCounterPrefix"
  "neutral (GetAsyncAckStorePrefix p @ k)" "neutral (ContractsByCreatorPrefix @ k)"
  by (simp_all add: neutral_def view_defs)

lemma neutral_neq [simp]:
  assumes "neutral k"
  shows "GetCodeKey i \<noteq> k" "GetContractAddressKey a \<noteq> k"
    "GetContractCodeHistoryElementKey a p \<noteq> k"
    "GetContractByCodeIDSecondaryIndexPrefix i @ x \<noteq> k"
    "GetContractCodeHistoryElementPrefix a @ x \<noteq> k"
  using assms by (auto simp: neutral_def view_defs split: list.splits)

lemma same_view_hist:
  "same_view st st' \<Longrightarrow> kv_iter st' (GetContractCodeHistoryElementPrefix a) =
    kv_iter st (GetContractCodeHistoryElementPrefix a)"
  by (rule kv.iter_cong) (simp_all add: same_view_def)

lemma same_view_inv: "same_view st st' \<Longrightarrow> keeper_inv st \<Longrightarrow> keeper_inv st'"
proof -
  assume sv: "same_view st st'" and inv: "keeper_inv st"
  have "codeAt st' = codeAt st" "contractAt st' = contractAt st" "indexed st' = indexed st"
    using sv by (auto simp: same_view_def fun_eq_iff codeAt_def contractAt_def indexed_def kv_has_def)
  moreover have "histAt st' = histAt st"
    using same_view_hist [OF sv] by (simp add: fun_eq_iff histAt_def histKV_def)
  moreover have "typed st' = typed st"
    using sv by (simp add: same_view_def typed_def kv_has_def GetContractCodeHistoryElementKey_def)
  moreover have "saturated st' = saturated st"
    using sv by (simp add: same_view_def saturated_def kv_has_def GetContractCodeHistoryElementKey_def)
  moreover have "kv_wf st'" using sv by (simp add: same_view_def)
  ultimately show "keeper_inv st'" using inv by (simp add: keeper_inv_def)
qed

lemma keeper_inv_wf: "keeper_inv st \<Longrightarrow> kv_wf st"
  by (simp add: keeper_inv_def)

lemma inv_set_neutral: "neutral k \<Longrightarrow> keeper_inv st \<Longrightarrow> keeper_inv (kv_set k v st)"
  by (rule same_view_inv [of st]) (auto simp: same_view_def keeper_inv_wf)

lemma inv_delete_neutral: "neutral k \<Longrightarrow> keeper_inv st \<Longrightarrow> keeper_inv (kv_delete k st)"
  by (rule same_view_inv [of st]) (auto simp: same_view_def keeper_inv_wf)

lemma inv_applyOps: "keeper_inv st \<Longrightarrow> keeper_inv (applyOps (GetContractStorePrefix a) ops st)"
proof (rule same_view_inv [of st])
  assume "keeper_inv st"
  then show "same_view st (applyOps (GetContractStorePrefix a) ops st)"
    by (simp add: same_view_def keeper_inv_wf applyOps_wf applyOps_frame view_defs)
qed

subsection \<open>How each write changes the view\<close>

lemma key_inj [simp]:
  "GetCodeKey i = GetCodeKey j \<longleftrightarrow> i = j"
  "GetContractAddressKey a = GetContractAddressKey b \<longleftrightarrow> a = b"
  "GetContractCodeHistoryElementKey a p = GetContractCodeHistoryElementKey b q \<longleftrightarrow> a = b \<and> p = q"
  by (auto simp: view_defs)

lemma index_key_inj [simp]:
  "GetContractByCodeIDSecondaryIndexPrefix i @ posBytes p @ a =
     GetContractByCodeIDSecondaryIndexPrefix j @ posBytes q @ b \<longleftrightarrow> i = j \<and> p = q \<and> a = b"
  by (auto simp: view_defs)

lemma index_prefix_inj:
  "GetContractByCodeIDSecondaryIndexPrefix i @ x = GetContractByCodeIDSecondaryIndexPrefix j @ y \<longleftrightarrow>
    i = j \<and> x = y"
  by (auto simp: view_defs)

lemma family_neq [simp]:
  "GetCodeKey i \<noteq> GetContractAddressKey a" "GetContractAddressKey a \<noteq> GetCodeKey i"
  "GetCodeKey i \<noteq> GetContractCodeHistoryElementKey a p"
  "GetContractCodeHistoryElementKey a p \<noteq> GetCodeKey i"
  "GetContractAddressKey a \<noteq> GetContractCodeHistoryElementKey b p"
  "GetContractCodeHistoryElementKey b p \<noteq> GetContractAddressKey a"
  "GetCodeKey i \<noteq> GetContractByCodeIDSecondaryIndexPrefix j @ x"
  "GetContractByCodeIDSecondaryIndexPrefix j @ x \<noteq> GetCodeKey i"
  "GetContractAddressKey a \<noteq> GetContractByCodeIDSecondaryIndexPrefix j @ x"
  "GetContractByCodeIDSecondaryIndexPrefix j @ x \<noteq> GetContractAddressKey a"
  "GetContractCodeHistoryElementKey b p \<noteq> GetContractByCodeIDSecondaryIndexPrefix j @ x"
  "GetContractByCodeIDSecondaryIndexPrefix j @ x \<noteq> GetContractCodeHistoryElementKey b p"
  by (simp_all add: view_defs)

lemma hist_prefix_neq [simp]:
  "\<not> prefix (GetContractCodeHistoryElementPrefix a) (GetCodeKey i)"
  "\<not> prefix (GetContractCodeHistoryElementPrefix a) (GetContractAddressKey b)"
  "\<not> prefix (GetContractCodeHistoryElementPrefix a) (GetContractByCodeIDSecondaryIndexPrefix j @ x)"
  by (simp_all add: view_defs)

lemma hist_prefix_neutral [simp]:
  "neutral k \<Longrightarrow> \<not> prefix (GetContractCodeHistoryElementPrefix a) k"
  by (auto simp: neutral_def view_defs split: list.splits)

lemma histKV_set_other [simp]:
  "kv_wf st \<Longrightarrow> \<not> prefix (GetContractCodeHistoryElementPrefix a) k \<Longrightarrow>
    histKV (kv_set k v st) a = histKV st a"
  by (simp add: histKV_def kv.iter_upd_other)

lemma histKV_delete_other [simp]:
  "kv_wf st \<Longrightarrow> \<not> prefix (GetContractCodeHistoryElementPrefix a) k \<Longrightarrow>
    histKV (kv_delete k st) a = histKV st a"
  by (simp add: histKV_def kv.iter_del_other)

lemma histAt_set_other [simp]:
  "kv_wf st \<Longrightarrow> \<not> prefix (GetContractCodeHistoryElementPrefix a) k \<Longrightarrow>
    histAt (kv_set k v st) a = histAt st a"
  by (simp add: histAt_def)

lemma histAt_delete_other [simp]:
  "kv_wf st \<Longrightarrow> \<not> prefix (GetContractCodeHistoryElementPrefix a) k \<Longrightarrow>
    histAt (kv_delete k st) a = histAt st a"
  by (simp add: histAt_def)

lemma codeAt_set [simp]:
  "codeAt (kv_set (GetCodeKey i) (SCodeInfo c) st) j = (if j = i then Some c else codeAt st j)"
  "codeAt (kv_set (GetContractAddressKey a) v st) j = codeAt st j"
  "codeAt (kv_set (GetContractCodeHistoryElementKey a p) v st) j = codeAt st j"
  "codeAt (kv_set (GetContractByCodeIDSecondaryIndexPrefix k @ x) v st) j = codeAt st j"
  "codeAt (kv_delete (GetContractByCodeIDSecondaryIndexPrefix k @ x) st) j = codeAt st j"
  by (auto simp: codeAt_def)

lemma contractAt_set [simp]:
  "contractAt (kv_set (GetContractAddressKey a) (SContractInfo c) st) b =
    (if b = a then Some c else contractAt st b)"
  "contractAt (kv_set (GetCodeKey i) v st) b = contractAt st b"
  "contractAt (kv_set (GetContractCodeHistoryElementKey a p) v st) b = contractAt st b"
  "contractAt (kv_set (GetContractByCodeIDSecondaryIndexPrefix k @ x) v st) b = contractAt st b"
  "contractAt (kv_delete (GetContractByCodeIDSecondaryIndexPrefix k @ x) st) b = contractAt st b"
  by (auto simp: contractAt_def)

lemma indexed_set [simp]:
  "indexed (kv_set (GetContractByCodeIDSecondaryIndexPrefix i @ posBytes p @ a) v st) j q b =
    (j = i \<and> q = p \<and> b = a \<or> indexed st j q b)"
  "indexed (kv_delete (GetContractByCodeIDSecondaryIndexPrefix i @ posBytes p @ a) st) j q b =
    (\<not> (j = i \<and> q = p \<and> b = a) \<and> indexed st j q b)"
  "indexed (kv_set (GetCodeKey i) v st) j q b = indexed st j q b"
  "indexed (kv_set (GetContractAddressKey a) v st) j q b = indexed st j q b"
  "indexed (kv_set (GetContractCodeHistoryElementKey a r) v st) j q b = indexed st j q b"
  by (auto simp: indexed_def)

lemma view_neutral [simp]:
  assumes "neutral k"
  shows "codeAt (kv_set k v st) = codeAt st" "contractAt (kv_set k v st) = contractAt st"
    "indexed (kv_set k v st) = indexed st"
  using assms by (auto simp: fun_eq_iff codeAt_def contractAt_def indexed_def kv_has_def)

lemma typed_set:
  "typed st \<Longrightarrow> typed (kv_set (GetCodeKey i) (SCodeInfo c) st)"
  "typed st \<Longrightarrow> typed (kv_set (GetContractAddressKey a) (SContractInfo ci) st)"
  "typed st \<Longrightarrow> typed (kv_set (GetContractCodeHistoryElementKey a p) (SHistory e) st)"
  "typed st \<Longrightarrow> typed (kv_set (GetContractByCodeIDSecondaryIndexPrefix i @ posBytes q @ a) v st)"
  "typed st \<Longrightarrow> typed (kv_delete (GetContractByCodeIDSecondaryIndexPrefix i @ x) st)"
  "typed st \<Longrightarrow> neutral k \<Longrightarrow> typed (kv_set k v st)"
  by (auto simp: typed_def index_prefix_inj)

lemma saturated_set:
  "saturated st \<Longrightarrow> saturated (kv_set k v st)"
  "saturated st \<Longrightarrow> saturated (kv_delete (GetContractByCodeIDSecondaryIndexPrefix i @ x) st)"
  by (auto simp: saturated_def)

subsection \<open>Histories\<close>

lemma find_rev_filter:
  "find P (rev xs) = (if filter P xs = [] then None else Some (last (filter P xs)))"
  by (induction xs rule: rev_induct) (auto simp: filter_empty_conv)

lemma find_hist:
  "find (\<lambda>(k, _). length k = 8) (kv_riter st (GetContractCodeHistoryElementPrefix a)) =
    (if histKV st a = [] then None else Some (last (histKV st a)))"
  by (simp add: kv_riter_def find_rev_filter histKV_def)

lemma histPos_eq:
  "histPos st a = (if histKV st a = [] then 0 else BigEndianToUint64 (fst (last (histKV st a))))"
  by (simp add: histPos_def historyPos_def find_hist split: prod.split)

lemma histKV_mem:
  "kv_wf st \<Longrightarrow> (k, v) \<in> set (histKV st a) \<longleftrightarrow>
    length k = 8 \<and> kv_get st (GetContractCodeHistoryElementPrefix a @ k) = Some v"
  by (auto simp: histKV_def kv_iter_mem)

lemma histKV_sorted: "kv_wf st \<Longrightarrow> sorted_wrt (<) (map fst (histKV st a))"
  using kv_iter_sorted [of st "GetContractCodeHistoryElementPrefix a"]
  by (simp add: histKV_def sorted_wrt_map sorted_wrt_filter)

lemma histKV_le_last:
  assumes "kv_wf st" and "(k, v) \<in> set (histKV st a)"
  shows "k \<le> fst (last (histKV st a))"
proof -
  obtain ys l where h: "histKV st a = ys @ [l]"
    using assms(2) by (cases "histKV st a" rule: rev_cases) auto
  have "\<forall>x \<in> set ys. fst x < fst l"
    using histKV_sorted [OF assms(1), of a] by (simp add: h sorted_wrt_append)
  then show ?thesis using assms(2) by (auto simp: h less_imp_le)
qed

lemma histKV_last_key:
  assumes "kv_wf st" and "histKV st a \<noteq> []"
  shows "fst (last (histKV st a)) = Uint64ToBigEndian (histPos st a)"
proof -
  have "last (histKV st a) \<in> set (histKV st a)" using assms(2) by simp
  then have "length (fst (last (histKV st a))) = 8"
    using histKV_mem [OF assms(1), of "fst (last (histKV st a))" "snd (last (histKV st a))"] by simp
  then show ?thesis using assms(2) by (auto simp: histPos_eq BigEndianToUint64_def)
qed

text \<open>Appending below the last position extends the history at its end.\<close>

lemma histKV_append:
  assumes wf: "kv_wf st" and pos: "histPos st a \<noteq> - 1"
  shows "histKV (kv_set (GetContractCodeHistoryElementKey a (histPos st a + 1)) v st) a =
    histKV st a @ [(Uint64ToBigEndian (histPos st a + 1), v)]"
proof -
  have less: "k < Uint64ToBigEndian (histPos st a + 1)" if "(k, w) \<in> set (histKV st a)" for k w
  proof -
    have ne: "histKV st a \<noteq> []" using that by auto
    have "k \<le> Uint64ToBigEndian (histPos st a)"
      using histKV_le_last [OF wf that] histKV_last_key [OF wf ne] by simp
    moreover have "histPos st a < histPos st a + 1"
      using pos by (rule u64_less_succ)
    then have "Uint64ToBigEndian (histPos st a) < Uint64ToBigEndian (histPos st a + 1)"
      by (simp add: Uint64ToBigEndian_less_iff)
    ultimately show ?thesis by (rule order.strict_trans1)
  qed
  show ?thesis
    unfolding histKV_def GetContractCodeHistoryElementKey_def
    by (rule kv.filter_iter_upd_last [where P = "\<lambda>k. length k = 8"])
       (use wf less in \<open>auto simp: histKV_def\<close>)
qed

lemma histAt_append:
  assumes wf: "kv_wf st" and pos: "histPos st a \<noteq> - 1"
  shows "histAt (kv_set (GetContractCodeHistoryElementKey a (histPos st a + 1)) (SHistory e) st) b =
    (if b = a then histAt st a @ [e] else histAt st b)"
proof (cases "b = a")
  case True
  then show ?thesis
    by (simp add: histAt_def histKV_append [OF wf pos] map_filter_def toHistory_def)
next
  case False
  have "histKV (kv_set (GetContractCodeHistoryElementKey a (histPos st a + 1)) (SHistory e) st) b =
      histKV st b"
    unfolding histKV_def
    by (rule kv.filter_iter_cong [where P = "\<lambda>k. length k = 8"])
       (use wf False in \<open>auto simp: view_defs\<close>)
  then show ?thesis using False by (simp add: histAt_def)
qed

lemma histPos_saturated:
  assumes "kv_wf st" and "histPos st a = - 1"
  shows "saturated st"
proof -
  have ne: "histKV st a \<noteq> []" using assms(2) by (auto simp: histPos_eq)
  have "last (histKV st a) \<in> set (histKV st a)" using ne by simp
  then obtain v where "(Uint64ToBigEndian (- 1), v) \<in> set (histKV st a)"
    using histKV_last_key [OF assms(1) ne] assms(2) by (metis prod.collapse)
  then have "kv_get st (GetContractCodeHistoryElementKey a (- 1)) = Some v"
    by (simp add: histKV_mem [OF assms(1)] GetContractCodeHistoryElementKey_def)
  then show ?thesis unfolding saturated_def kv_has_def by (metis option.distinct(1))
qed

lemma histPos_set_other [simp]:
  "kv_wf st \<Longrightarrow> \<not> prefix (GetContractCodeHistoryElementPrefix a) k \<Longrightarrow>
    histPos (kv_set k v st) a = histPos st a"
  "kv_wf st \<Longrightarrow> \<not> prefix (GetContractCodeHistoryElementPrefix a) k \<Longrightarrow>
    histPos (kv_delete k st) a = histPos st a"
  by (simp_all add: histPos_eq)

end
