(* ===== verification/KeeperSafety.thy ===== *)
theory KeeperSafety
  imports KeeperInv
begin

section \<open>The keeper operations keep the invariant\<close>

text \<open>
  Every operation of the keeper that writes the store keeps \<open>keeper_inv\<close> when it succeeds.  The
  response handler, which can run arbitrary nested messages, is assumed to keep it
  (\<open>handler_ok\<close>).  Up to the point where an operation stores its result, the steps of an operation
  touch no entry the invariant speaks about: they keep \<open>SV\<close>, equality of views with the
  starting store.
\<close>

abbreviation SV :: "stored kv \<Rightarrow> ('m, 'x) st \<Rightarrow> bool" where
  "SV st0 \<equiv> (\<lambda>s. same_view st0 (store s))"

definition handler_ok :: "('m, 'x, 'msg) keeper \<Rightarrow> bool" where
  "handler_ok K = (\<forall>c a p ms d. keeps (\<lambda>s. keeper_inv (store s)) (kHandle K c a p ms d))"

definition gen_frame :: "('m, 'x) addrgen \<Rightarrow> bool" where
  "gen_frame gen = (\<forall>st0 i cs. preserves (SV st0) (gen i cs))"

subsection \<open>Views\<close>

lemma same_view_refl: "kv_wf st \<Longrightarrow> same_view st st"
  by (simp add: same_view_def)

lemma same_view_set: "neutral k \<Longrightarrow> same_view st0 st \<Longrightarrow> same_view st0 (kv_set k v st)"
  by (simp add: same_view_def)

lemma same_view_delete: "neutral k \<Longrightarrow> same_view st0 st \<Longrightarrow> same_view st0 (kv_delete k st)"
  by (simp add: same_view_def)

lemma same_view_applyOps:
  "same_view st0 st \<Longrightarrow> same_view st0 (applyOps (GetContractStorePrefix a) ops st)"
  by (simp add: same_view_def applyOps_wf applyOps_frame view_defs)

lemma same_view_views:
  assumes "same_view st0 st"
  shows "codeAt st = codeAt st0" "contractAt st = contractAt st0" "indexed st = indexed st0"
    "histAt st = histAt st0" "histPos st = histPos st0"
  using assms same_view_hist [OF assms]
  by (auto simp: same_view_def fun_eq_iff codeAt_def contractAt_def indexed_def kv_has_def
      histAt_def histKV_def histPos_def kv_riter_def)

lemma SV_refl: "keeper_inv (store s) \<Longrightarrow> SV (store s) s"
  by (simp add: same_view_refl keeper_inv_wf)

text \<open>Steps that keep both the view and the invariant.  A predicate \<open>good\<close> on stores is closed under
  neutral writes and contract writes.\<close>

definition closed :: "(stored kv \<Rightarrow> bool) \<Rightarrow> bool" where
  "closed G = ((\<forall>k v st. neutral k \<longrightarrow> G st \<longrightarrow> G (kv_set k v st)) \<and>
    (\<forall>k st. neutral k \<longrightarrow> G st \<longrightarrow> G (kv_delete k st)) \<and>
    (\<forall>a ops st. G st \<longrightarrow> G (applyOps (GetContractStorePrefix a) ops st)))"

lemma closed_same_view: "closed (same_view st0)"
  by (simp add: closed_def same_view_set same_view_delete same_view_applyOps)

lemma closed_inv: "closed keeper_inv"
  by (simp add: closed_def inv_set_neutral inv_delete_neutral inv_applyOps)

lemma pres_storeSet_neutral [pres]:
  "closed G \<Longrightarrow> neutral k \<Longrightarrow> preserves (\<lambda>s. G (store s)) (storeSet k v)"
  by (rule preserves_storeSet) (simp add: closed_def)

lemma pres_storeDelete_neutral [pres]:
  "closed G \<Longrightarrow> neutral k \<Longrightarrow> preserves (\<lambda>s. G (store s)) (storeDelete k)"
  by (rule preserves_storeDelete) (simp add: closed_def)

lemma pres_runVM [pres]: "closed G \<Longrightarrow> preserves (\<lambda>s. G (store s)) (runVM call addr)"
  by (rule preserves_runVM) (simp add: closed_def)

lemma pres_runtimeGas [pres]: "preserves P (runtimeGasForContract K)"
  by (simp add: preserves_def runtimeGasForContract_def Let_def)

lemma pres_consumeRuntimeGas [pres]: "preserves (\<lambda>s. G (store s)) (consumeRuntimeGas K g)"
  unfolding consumeRuntimeGas_def by (intro pres)

lemma pres_GetCodeInfo [pres]: "preserves P (GetCodeInfo i)"
  unfolding GetCodeInfo_def by (intro pres)

lemma pres_GetContractInfo [pres]: "preserves P (GetContractInfo a)"
  unfolding GetContractInfo_def by (intro pres)

lemma pres_GetParams [pres]: "preserves P GetParams"
  unfolding GetParams_def by (intro pres)

lemma pres_access [pres]: "preserves P getInstantiateAccessConfig" "preserves P getUploadAccessConfig"
  unfolding getInstantiateAccessConfig_def getUploadAccessConfig_def by (intro pres)+

lemma pres_IsPinned [pres]: "preserves P (IsPinnedCode i)"
  unfolding IsPinnedCode_def by (intro pres)

lemma pres_HasContractInfo [pres]: "preserves P (HasContractInfo a)"
  unfolding HasContractInfo_def by (intro pres)

lemma pres_discount [pres]: "preserves (\<lambda>s. G (store s)) (checkDiscountEligibility cs b)"
  by (auto simp: preserves_def checkDiscountEligibility_def split: option.splits)

lemma pres_chargeSetup [pres]: "preserves (\<lambda>s. G (store s)) (chargeSetup K cs i m)"
  unfolding chargeSetup_def by (intro pres)

lemma pres_derefM [pres]: "preserves P (derefM p)"
  unfolding derefM_def by (intro pres)

lemma pres_callContract [pres]:
  "closed G \<Longrightarrow> preserves (\<lambda>s. G (store s)) (callContract K c e cs a f)"
  unfolding callContract_def by (intro pres) simp_all

lemma pres_contractInstance [pres]: "preserves P (contractInstance K a)"
  unfolding contractInstance_def by (intro pres)

lemma pres_mustAutoIncrementID [pres]:
  "closed G \<Longrightarrow> neutral k \<Longrightarrow> preserves (\<lambda>s. G (store s)) (mustAutoIncrementID k)"
  unfolding mustAutoIncrementID_def by (intro pres)

lemma pres_checkAccount [pres]: "preserves (\<lambda>s. G (store s)) (checkAccount K a)"
  unfolding checkAccount_def newContractAccount_def by (intro pres)

lemma pres_transferDeposit [pres]: "preserves (\<lambda>s. G (store s)) (transferDeposit K f t cs)"
  unfolding transferDeposit_def by (intro pres)

lemma pres_ensureIbcPort [pres]: "preserves (\<lambda>s. G (store s)) (ensureIbcPort K a)"
  unfolding ensureIbcPort_def bindIbcPort_def Let_def by (intro pres)

lemma pres_migratePort [pres]: "preserves (\<lambda>s. G (store s)) (migratePort K a r ci)"
  unfolding migratePort_def by (intro pres)

lemma pres_callMigrate [pres]:
  "closed G \<Longrightarrow> preserves (\<lambda>s. G (store s)) (callMigrateEntrypoint K c a cs m i)"
  unfolding callMigrateEntrypoint_def by (intro pres)

lemma gen_frame_classic: "gen_frame (ClassicAddressGenerator K)"
  unfolding gen_frame_def ClassicAddressGenerator_def
  by (intro allI pres closed_same_view) simp

lemma gen_frame_predictable: "gen_frame (Predictable K cr salt m fx)"
  unfolding gen_frame_def Predictable_def by (intro allI pres)

subsection \<open>Single writes and the invariant\<close>

lemma inv_set_code: "keeper_inv st \<Longrightarrow> keeper_inv (kv_set (GetCodeKey i) (SCodeInfo c) st)"
  by (auto simp: keeper_inv_def typed_set saturated_set keeper_core_def)

lemma inv_update_contract:
  assumes "keeper_inv st" and "contractAt st a = Some ci" and "CodeID ci' = CodeID ci"
  shows "keeper_inv (kv_set (GetContractAddressKey a) (SContractInfo ci') st)" (is "keeper_inv ?st'")
proof -
  have wf: "kv_wf st" and ty: "typed st" using assms(1) by (simp_all add: keeper_inv_def)
  have views: "histAt ?st' = histAt st" "codeAt ?st' = codeAt st" "indexed ?st' = indexed st"
    "contractAt ?st' = (contractAt st)(a \<mapsto> ci')"
    using wf by (simp_all add: fun_eq_iff)
  have "keeper_core (codeAt st) ((contractAt st)(a \<mapsto> ci')) (histAt st) (indexed st)"
    if "keeper_core (codeAt st) (contractAt st) (histAt st) (indexed st)"
    using that assms(2,3) by (auto simp: keeper_core_def)
  then show ?thesis
    using assms(1) wf ty typed_set(2) saturated_set(1) unfolding keeper_inv_def views by auto
qed

text \<open>Recording a code for a contract: one more history entry, the contract info, and an index that
  has exactly the new entry for this contract and the old entries for the others.\<close>

lemma inv_record:
  assumes inv: "keeper_inv st" and wf': "kv_wf st'" and ty': "typed st'"
    and sat: "saturated st \<or> histPos st a = - 1 \<Longrightarrow> saturated st'"
    and codes: "codeAt st' = codeAt st"
    and contracts: "contractAt st' = (contractAt st)(a \<mapsto> ci)"
    and hist: "histPos st a \<noteq> - 1 \<Longrightarrow> histAt st' = (histAt st)(a := histAt st a @ [e])"
    and idx: "\<not> saturated st \<Longrightarrow>
      indexed st' = (\<lambda>i p b. if b = a then i = CodeID ci \<and> p = q else indexed st i p b)"
    and code: "codeAt st (CodeID ci) \<noteq> None"
    and e: "HistCodeID e = CodeID ci" "Updated e = Some q"
  shows "keeper_inv st'"
proof (cases "saturated st \<or> histPos st a = - 1")
  case True
  then show ?thesis using sat wf' ty' by (simp add: keeper_inv_def)
next
  case False
  then have core: "keeper_core (codeAt st) (contractAt st) (histAt st) (indexed st)"
    and hist': "histAt st' = (histAt st)(a := histAt st a @ [e])"
    and idx': "indexed st' = (\<lambda>i p b. if b = a then i = CodeID ci \<and> p = q else indexed st i p b)"
    using inv hist idx by (simp_all add: keeper_inv_def)
  have "keeper_core (codeAt st') (contractAt st') (histAt st') (indexed st')"
    unfolding keeper_core_def codes contracts hist' idx'
    using core code e by (auto simp: keeper_core_def)
  then show ?thesis using wf' ty' by (simp add: keeper_inv_def)
qed

lemma histAt_append':
  "kv_wf st \<Longrightarrow> p = histPos st a \<Longrightarrow> p \<noteq> - 1 \<Longrightarrow>
    histAt (kv_set (GetContractCodeHistoryElementKey a (p + 1)) (SHistory e) st) b =
    (if b = a then histAt st a @ [e] else histAt st b)"
  using histAt_append by blast

lemma index_none_if_no_contract:
  "keeper_inv st \<Longrightarrow> \<not> saturated st \<Longrightarrow> contractAt st a = None \<Longrightarrow> \<not> indexed st i p a"
  by (auto simp: keeper_inv_def keeper_core_def)

subsection \<open>New contracts\<close>

lemma creator_key_neutral:
  "GetContractByCreatorSecondaryIndexKey mlp cr pos a = Ok k \<Longrightarrow> neutral k"
  by (auto simp: GetContractByCreatorSecondaryIndexKey_def GetContractsByCreatorPrefix_def
      split: outcome.splits)

lemma appendToContractHistory_single:
  "appendToContractHistory a [e] s = (Ok u, t) \<longleftrightarrow>
    t = s\<lparr>store := kv_set (GetContractCodeHistoryElementKey a (histPos (store s) a + 1)) (SHistory e)
      (store s)\<rparr>"
  by (auto simp: appendToContractHistory_def histPos_def go_Ok_iff)

lemma addToCode_Ok:
  "addToContractCodeSecondaryIndex a e s = (Ok u, t) \<longleftrightarrow>
    (\<exists>q. Updated e = Some q \<and> t = s\<lparr>store :=
      kv_set (GetContractByCodeIDSecondaryIndexPrefix (HistCodeID e) @ posBytes q @ a) (SBytes [])
        (store s)\<rparr>)"
  by (cases "Updated e")
     (auto simp: addToContractCodeSecondaryIndex_def go_Ok_iff GetContractByCreatedSecondaryIndexKey_def
       AbsoluteTxPositionLen_def)

lemma removeFromCode_Ok:
  "removeFromContractCodeSecondaryIndex a e s = (Ok u, t) \<longleftrightarrow>
    (\<exists>q. Updated e = Some q \<and> t = s\<lparr>store :=
      kv_delete (GetContractByCodeIDSecondaryIndexPrefix (HistCodeID e) @ posBytes q @ a) (store s)\<rparr>)"
  by (cases "Updated e")
     (auto simp: removeFromContractCodeSecondaryIndex_def go_Ok_iff
       GetContractByCreatedSecondaryIndexKey_def AbsoluteTxPositionLen_def)

lemma addToCreator_Ok:
  "addToContractCreatorSecondaryIndex K cr p a s = (Ok u, t) \<Longrightarrow>
    \<exists>k. neutral k \<and> t = s\<lparr>store := kv_set k (SBytes []) (store s)\<rparr>"
  using creator_key_neutral by (fastforce simp: addToContractCreatorSecondaryIndex_def go_Ok_iff)

lemma persistNewContract_inv:
  assumes inv: "keeper_inv (store s)" and fresh: "contractAt (store s) a = None"
    and code: "codeAt (store s) (CodeID ci) \<noteq> None"
    and run: "persistNewContract K a cr m ci s = (Ok u, t)"
  shows "keeper_inv (store t)"
proof -
  have wf: "kv_wf (store s)" and ty: "typed (store s)" using inv by (simp_all add: keeper_inv_def)
  obtain q ck where q: "Created ci = Some q" and ck: "neutral ck"
    and t: "store t = kv_set (GetContractAddressKey a) (SContractInfo ci)
      (kv_set (GetContractCodeHistoryElementKey a (histPos (store s) a + 1)) (SHistory (InitialHistory ci m))
        (kv_set ck (SBytes [])
          (kv_set (GetContractByCodeIDSecondaryIndexPrefix (CodeID ci) @ posBytes q @ a) (SBytes [])
            (store s))))"
    using run wf
    by (auto simp: persistNewContract_def Let_def thenM_Ok_iff addToCode_Ok appendToContractHistory_single
        mustStoreContractInfo_def InitialHistory_def dest!: addToCreator_Ok)
  show ?thesis
  proof (rule inv_record [OF inv, of _ a ci "InitialHistory ci m" q])
    show "kv_wf (store t)" using wf by (simp add: t)
    show "typed (store t)" using ty ck by (simp add: t typed_set)
    show "saturated (store s) \<or> histPos (store s) a = - 1 \<Longrightarrow> saturated (store t)"
      using histPos_saturated [OF wf] by (auto simp: t saturated_set)
    show "codeAt (store t) = codeAt (store s)" using ck by (simp add: t fun_eq_iff)
    show "contractAt (store t) = (contractAt (store s))(a \<mapsto> ci)" using ck by (simp add: t fun_eq_iff)
    show "histPos (store s) a \<noteq> - 1 \<Longrightarrow>
        histAt (store t) = (histAt (store s))(a := histAt (store s) a @ [InitialHistory ci m])"
      using wf ck by (simp add: t fun_eq_iff histAt_append')
    show "\<not> saturated (store s) \<Longrightarrow> indexed (store t) =
        (\<lambda>i p b. if b = a then i = CodeID ci \<and> p = q else indexed (store s) i p b)"
      using index_none_if_no_contract [OF inv _ fresh] ck by (auto simp: t fun_eq_iff)
  qed (use code q in \<open>simp_all add: InitialHistory_def\<close>)
qed

lemma persistNewContract_triple:
  assumes inv: "keeper_inv st0" and fresh: "contractAt st0 a = None"
    and code: "codeAt st0 (CodeID ci) \<noteq> None"
  shows "triple (SV st0) (persistNewContract K a cr m ci) (\<lambda>_ s. keeper_inv (store s))"
proof (rule tripleI)
  fix s :: "('a, 'b) st" and u t
  assume "SV st0 s" and run: "persistNewContract K a cr m ci s = (Ok u, t)"
  then have sv: "same_view st0 (store s)" by simp
  show "keeper_inv (store t)"
    using persistNewContract_inv [OF same_view_inv [OF sv inv] _ _ run] same_view_views [OF sv]
      fresh code by simp
qed

text \<open>What reads tell about the starting view.\<close>

lemma triple_GetCodeInfo:
  assumes "\<And>ci. (\<And>c. ci = Some c \<Longrightarrow> codeAt st0 i = Some c) \<Longrightarrow> triple (SV st0) (f ci) Q"
  shows "triple (SV st0) (bindM (GetCodeInfo i) f) Q"
proof (rule tripleI)
  fix s x t
  assume sv: "SV st0 s" and "bindM (GetCodeInfo i) f s = (Ok x, t)"
  then obtain ci where run: "GetCodeInfo i s = (Ok ci, s)" "f ci s = (Ok x, t)"
    by (auto simp: bindM_Ok_iff GetCodeInfo_def go_Ok_iff split: option.splits)
  have "codeAt st0 i = Some c" if "ci = Some c" for c
    using run(1) sv that
    by (auto simp: GetCodeInfo_def go_Ok_iff codeAt_def same_view_def
        elim!: asCodeInfo.elims split: option.splits)
  then show "Q x t" using tripleD [OF assms run(2) sv] by blast
qed

lemma triple_GetContractInfo:
  assumes "\<And>ci. (\<And>c. ci = Some c \<Longrightarrow> contractAt st0 a = Some c) \<Longrightarrow> triple (SV st0) (f ci) Q"
  shows "triple (SV st0) (bindM (GetContractInfo a) f) Q"
proof (rule tripleI)
  fix s x t
  assume sv: "SV st0 s" and "bindM (GetContractInfo a) f s = (Ok x, t)"
  then obtain ci where run: "GetContractInfo a s = (Ok ci, s)" "f ci s = (Ok x, t)"
    by (auto simp: bindM_Ok_iff GetContractInfo_def go_Ok_iff split: option.splits)
  have "contractAt st0 a = Some c" if "ci = Some c" for c
    using run(1) sv that
    by (auto simp: GetContractInfo_def go_Ok_iff contractAt_def same_view_def
        elim!: asContractInfo.elims split: option.splits)
  then show "Q x t" using tripleD [OF assms run(2) sv] by blast
qed

lemma triple_HasContractInfo:
  assumes "\<And>b. (\<not> b \<Longrightarrow> contractAt st0 a = None) \<Longrightarrow> triple (SV st0) (f b) Q"
  shows "triple (SV st0) (bindM (HasContractInfo a) f) Q"
proof (rule tripleI)
  fix s x t
  assume sv: "SV st0 s" and "bindM (HasContractInfo a) f s = (Ok x, t)"
  then obtain b where run: "HasContractInfo a s = (Ok b, s)" "f b s = (Ok x, t)"
    by (auto simp: bindM_Ok_iff HasContractInfo_def)
  have "contractAt st0 a = None" if "\<not> b"
    using run(1) sv that
    by (auto simp: HasContractInfo_def contractAt_def same_view_def kv_has_def)
  then show "Q x t" using tripleD [OF assms run(2) sv] by blast
qed

lemma keeps_handleContractResponse:
  "handler_ok K \<Longrightarrow> keeps (\<lambda>s. keeper_inv (store s)) (handleContractResponse K c a p r)"
  unfolding handleContractResponse_def handler_ok_def derefM_def
  by (intro kept preserves_keeps [OF preserves_consumeGas] preserves_keeps [OF preserves_emitEvents]) blast+

lemma keepsI_SV:
  "(\<And>st0. keeper_inv st0 \<Longrightarrow> triple (SV st0) m (\<lambda>_ s. keeper_inv (store s))) \<Longrightarrow>
    keeps (\<lambda>s. keeper_inv (store s)) m"
proof (rule keepsI)
  fix s x t
  assume tr: "\<And>st0. keeper_inv st0 \<Longrightarrow> triple (SV st0) m (\<lambda>_ s. keeper_inv (store s))"
    and inv: "keeper_inv (store s)" and run: "m s = (Ok x, t)"
  show "keeper_inv (store t)" using tripleD [OF tr [OF inv] run] SV_refl [OF inv] by blast
qed

lemma triple_inv_tail:
  "keeps (\<lambda>s. keeper_inv (store s)) m \<Longrightarrow> triple (\<lambda>s. keeper_inv (store s)) m (\<lambda>_ s. keeper_inv (store s))"
  by (simp add: keeps_triple)

lemma record_new_tail:
  assumes h: "handler_ok K" and inv: "keeper_inv st0" and fresh: "contractAt st0 a = None"
    and code: "codeAt st0 (CodeID ci0) \<noteq> None"
  shows "triple (SV st0)
    (bindM (if ibc then bindM (ensureIbcPort K a) (\<lambda>ibcPort. retM (ci0\<lparr>IBCPortID := ibcPort\<rparr>))
            else retM ci0) (\<lambda>ci.
     thenM (persistNewContract K a cr m ci)
     (thenM (emitEvent e)
     (bindM (wrapM errWrap (handleContractResponse K c a (IBCPortID ci) res)) (\<lambda>data.
      retM (a, data))))))
    (\<lambda>_ s. keeper_inv (store s))"
proof (rule triple_bindM [where R = "\<lambda>ci s. SV st0 s \<and> CodeID ci = CodeID ci0"])
  show "triple (SV st0)
      (if ibc then bindM (ensureIbcPort K a) (\<lambda>ibcPort. retM (ci0\<lparr>IBCPortID := ibcPort\<rparr>)) else retM ci0)
      (\<lambda>ci s. SV st0 s \<and> CodeID ci = CodeID ci0)"
    by (intro triple_If triple_bind_keep [OF pres_ensureIbcPort] triple_retM) simp_all
next
  fix ci
  have persist: "triple (SV st0) (persistNewContract K a cr m ci) (\<lambda>_ s. keeper_inv (store s))"
    if "CodeID ci = CodeID ci0"
    by (rule persistNewContract_triple [OF inv fresh]) (use code that in simp)
  show "triple (\<lambda>s. SV st0 s \<and> CodeID ci = CodeID ci0)
      (thenM (persistNewContract K a cr m ci) (thenM (emitEvent e)
        (bindM (wrapM errWrap (handleContractResponse K c a (IBCPortID ci) res)) (\<lambda>data. retM (a, data)))))
      (\<lambda>_ s. keeper_inv (store s))"
    by (intro triple_pure triple_thenM [OF persist] triple_inv_tail kept
        preserves_keeps [OF preserves_emitEvent] keeps_handleContractResponse [OF h])
qed

lemma instantiate_keeps_inv:
  assumes h: "handler_ok K" and g: "gen_frame gen"
  shows "keeps (\<lambda>s. keeper_inv (store s)) (instantiate K c i cr adm m l d gen pol)"
proof (rule keepsI_SV)
  fix st0 :: "stored kv"
  assume inv: "keeper_inv st0"
  note cl = closed_same_view [of st0]
  have gen: "preserves (SV st0) (gen i cs)" for cs using g by (simp add: gen_frame_def)
  show "triple (SV st0) (instantiate K c i cr adm m l d gen pol) (\<lambda>_ s. keeper_inv (store s))"
    unfolding instantiate_def Let_def
    by (intro triple_If triple_fail triple_GetCodeInfo triple_case_option
        triple_then_keep [OF pres_chargeSetup] triple_bind_keep [OF gen] triple_HasContractInfo
        triple_then_keep [OF pres_checkAccount] triple_then_keep [OF pres_transferDeposit]
        triple_bind_keep [OF pres_callContract [OF cl]] triple_bind_keep [OF preserves_liftO]
        triple_bind_keep [OF preserves_wrapM [OF preserves_liftO]] record_new_tail [OF h inv])
       (simp_all add: NewContractInfo_def)
qed

subsection \<open>Migration\<close>

lemma mustGetLast_Ok:
  assumes "kv_wf (store s)" "typed (store s)"
    and "mustGetLastContractHistoryEntry a s = (Ok e, t)"
  shows "t = s \<and> histAt (store s) a \<noteq> [] \<and> e = last (histAt (store s) a)"
proof -
  have ne: "histKV (store s) a \<noteq> []" and t: "t = s"
    and e: "asHistory (snd (last (histKV (store s) a))) = Ok e"
    using assms(3)
    by (auto simp: mustGetLastContractHistoryEntry_def find_hist split: if_splits prod.splits)
  obtain xs k v where h: "histKV (store s) a = xs @ [(k, v)]"
    using ne by (metis append_butlast_last_id prod.collapse)
  have "v = SHistory e" using e by (cases v) (auto simp: h)
  then show ?thesis using t by (simp add: histAt_def h map_filter_def toHistory_def)
qed

lemma index_of_contract:
  "keeper_inv st \<Longrightarrow> \<not> saturated st \<Longrightarrow> contractAt st a = Some ci \<Longrightarrow>
    indexed st i p a \<longleftrightarrow> HistCodeID (last (histAt st a)) = i \<and> Updated (last (histAt st a)) = Some p"
  by (auto simp: keeper_inv_def keeper_core_def)

lemma persistMigration_inv:
  assumes inv: "keeper_inv (store s)" and known: "contractAt (store s) a = Some ci0"
    and code: "codeAt (store s) i \<noteq> None"
    and run: "persistMigration c a i m ci s = (Ok ci', t)"
  shows "keeper_inv (store t)"
proof -
  have wf: "kv_wf (store s)" and ty: "typed (store s)" using inv by (simp_all add: keeper_inv_def)
  define l where "l = last (histAt (store s) a)"
  define e where "e q = \<lparr>Operation = ContractCodeHistoryOperationTypeMigrate, HistCodeID = i,
    Updated = Some q, HistMsg = m\<rparr>" for q
  obtain p q where p: "Updated l = Some p"
    and t: "store t = kv_set (GetContractAddressKey a) (SContractInfo (ci\<lparr>CodeID := i\<rparr>))
      (kv_set (GetContractByCodeIDSecondaryIndexPrefix i @ posBytes q @ a) (SBytes [])
      (kv_set (GetContractCodeHistoryElementKey a (histPos (store s) a + 1)) (SHistory (e q))
      (kv_delete (GetContractByCodeIDSecondaryIndexPrefix (HistCodeID l) @ posBytes p @ a) (store s))))"
    using run wf
    by (auto simp: persistMigration_def bindM_Ok_iff thenM_Ok_iff removeFromCode_Ok addToCode_Ok
        appendToContractHistory_single mustStoreContractInfo_def AddMigration_def l_def e_def
        dest!: mustGetLast_Ok [OF wf ty])
  show ?thesis
  proof (rule inv_record [OF inv, of _ a "ci\<lparr>CodeID := i\<rparr>" "e q" q])
    show "kv_wf (store t)" using wf by (simp add: t)
    show "typed (store t)" using ty by (simp add: t typed_set)
    show "saturated (store s) \<or> histPos (store s) a = - 1 \<Longrightarrow> saturated (store t)"
      using histPos_saturated [OF wf] by (auto simp: t saturated_set)
    show "codeAt (store t) = codeAt (store s)" by (simp add: t fun_eq_iff)
    show "contractAt (store t) = (contractAt (store s))(a \<mapsto> ci\<lparr>CodeID := i\<rparr>)"
      by (simp add: t fun_eq_iff)
    show "histPos (store s) a \<noteq> - 1 \<Longrightarrow>
        histAt (store t) = (histAt (store s))(a := histAt (store s) a @ [e q])"
      using wf by (simp add: t fun_eq_iff histAt_append')
    show "\<not> saturated (store s) \<Longrightarrow> indexed (store t) =
        (\<lambda>j r b. if b = a then j = CodeID (ci\<lparr>CodeID := i\<rparr>) \<and> r = q else indexed (store s) j r b)"
      using index_of_contract [OF inv _ known] p by (auto simp: t fun_eq_iff l_def)
  qed (use code in \<open>simp_all add: e_def\<close>)
qed

lemma persistMigration_triple:
  assumes inv: "keeper_inv st0" and known: "contractAt st0 a = Some ci0"
    and code: "codeAt st0 i \<noteq> None"
  shows "triple (SV st0) (persistMigration c a i m ci) (\<lambda>_ s. keeper_inv (store s))"
proof (rule tripleI)
  fix s :: "('a, 'b) st" and u t
  assume sv: "same_view st0 (store s)" and run: "persistMigration c a i m ci s = (Ok u, t)"
  show "keeper_inv (store t)"
    using persistMigration_inv [OF same_view_inv [OF sv inv] _ _ run] same_view_views [OF sv]
      known code by simp
qed

lemma migrate_keeps_inv:
  assumes h: "handler_ok K"
  shows "keeps (\<lambda>s. keeper_inv (store s)) (migrate K c a caller i m pol)"
proof (rule keepsI_SV)
  fix st0 :: "stored kv"
  assume inv: "keeper_inv st0"
  note cl = closed_same_view [of st0]
  have tail: "triple (\<lambda>s. keeper_inv (store s)) (thenM (emitEvent e) (case response of
      None \<Rightarrow> retM None | Some r \<Rightarrow> wrapM errWrap (handleContractResponse K c' a p (Some r))))
      (\<lambda>_ s. keeper_inv (store s))" for e response c' p
    by (intro triple_inv_tail kept preserves_keeps [OF preserves_emitEvent]
        keeps_handleContractResponse [OF h])
  show "triple (SV st0) (migrate K c a caller i m pol) (\<lambda>_ s. keeper_inv (store s))"
    unfolding migrate_def
    by (intro triple_GetContractInfo triple_GetCodeInfo triple_case_option triple_fail triple_If
        triple_bind_keep [OF preserves_liftO] triple_bind_keep [OF preserves_wrapM [OF preserves_liftO]]
        triple_bind_keep [OF pres_migratePort]
        triple_bind_keep [OF preserves_If [OF preserves_retM pres_callMigrate [OF cl]]]
        triple_bindM [OF persistMigration_triple [OF inv]] tail) auto
qed

subsection \<open>The other operations\<close>

lemma pres_inv_set_code [pres]: "preserves (\<lambda>s. keeper_inv (store s)) (storeSet (GetCodeKey i) (SCodeInfo c))"
  by (rule preserves_storeSet) (rule inv_set_code)

lemma create_keeps_inv: "keeps (\<lambda>s. keeper_inv (store s)) (create K cr code acc pol)"
  unfolding create_def mustStoreCodeInfo_def Let_def
  by (rule preserves_keeps, intro pres closed_inv neutral_keys)

lemma importCode_keeps_inv: "keeps (\<lambda>s. keeper_inv (store s)) (importCode K i ci code)"
  unfolding importCode_def by (rule preserves_keeps, intro pres)

lemma executeBody_keeps_inv:
  "handler_ok K \<Longrightarrow> keeps (\<lambda>s. keeper_inv (store s)) (executeBody K c a caller m coins)"
  unfolding executeBody_def
  by (intro kept preserves_keeps [OF pres_contractInstance] preserves_keeps [OF pres_chargeSetup]
      preserves_keeps [OF pres_transferDeposit] preserves_keeps [OF pres_callContract [OF closed_inv]]
      preserves_keeps [OF preserves_emitEvent] keeps_handleContractResponse)

lemma keeps_withGasMeter:
  assumes "keeps (\<lambda>s. P (store s)) body"
  shows "keeps (\<lambda>s. P (store s)) (withGasMeter m body)"
proof (rule keepsI)
  fix s x t
  assume P: "P (store s)" and "withGasMeter m body s = (Ok x, t)"
  then obtain t' where "body (s\<lparr>meter := m\<rparr>) = (Ok x, t')" and t: "t = t'\<lparr>meter := meter s\<rparr>"
    by (auto simp: withGasMeter_def split: prod.splits)
  then show "P (store t)" using keepsD [OF assms] P by simp
qed

lemma execute_keeps_inv:
  "handler_ok K \<Longrightarrow> keeps (\<lambda>s. keeper_inv (store s)) (execute K c a caller m coins)"
  unfolding execute_def IsGasless_def
  by (intro kept preserves_keeps [OF preserves_storeHas] keeps_withGasMeter executeBody_keeps_inv)

lemma Sudo_keeps_inv: "handler_ok K \<Longrightarrow> keeps (\<lambda>s. keeper_inv (store s)) (Sudo K c a m)"
  unfolding Sudo_def
  by (intro kept preserves_keeps [OF pres_contractInstance] preserves_keeps [OF pres_chargeSetup]
      preserves_keeps [OF pres_callContract [OF closed_inv]]
      preserves_keeps [OF preserves_emitEvent] keeps_handleContractResponse)

lemma reply_keeps_inv: "handler_ok K \<Longrightarrow> keeps (\<lambda>s. keeper_inv (store s)) (reply K c a r)"
  unfolding reply_def
  by (intro kept preserves_keeps [OF pres_contractInstance] preserves_keeps [OF preserves_consumeGas]
      preserves_keeps [OF pres_callContract [OF closed_inv]]
      preserves_keeps [OF preserves_emitEvent] keeps_handleContractResponse)

text \<open>Rewriting a contract's info without changing its code.\<close>

lemma update_info_triple:
  assumes inv: "keeper_inv st0" and known: "contractAt st0 a = Some ci" and "CodeID ci' = CodeID ci"
  shows "triple (SV st0) (mustStoreContractInfo a ci') (\<lambda>_ s. keeper_inv (store s))"
proof (rule tripleI)
  fix s :: "('a, 'b) st" and u t
  assume sv: "same_view st0 (store s)" and run: "mustStoreContractInfo a ci' s = (Ok u, t)"
  have "contractAt (store s) a = Some ci" using known same_view_views [OF sv] by simp
  from inv_update_contract [OF same_view_inv [OF sv inv] this assms(3)]
  show "keeper_inv (store t)" using run by (simp add: mustStoreContractInfo_def)
qed

lemma authorizedContract_triple:
  assumes "\<And>ci. contractAt st0 a = Some ci \<Longrightarrow> triple (SV st0) (f ci) Q"
  shows "triple (SV st0) (bindM (authorizedContract K a caller pol) f) Q"
  unfolding authorizedContract_def bindM_assoc
proof (rule triple_GetContractInfo)
  fix ci
  assume "\<And>c. ci = Some c \<Longrightarrow> contractAt st0 a = Some c"
  then have f: "triple (SV st0) (f c) Q" if "ci = Some c" for c using assms that by blast
  show "triple (SV st0) (bindM (case ci of None \<Rightarrow> failM ErrInvalidRequest
      | Some contractInfo \<Rightarrow> bindM (liftO (AdminAddr (fromBech32 (kSdk K)) contractInfo)) (\<lambda>admin.
          if \<not> CanModifyContract pol admin caller then failM ErrUnauthorized else retM contractInfo)) f) Q"
  proof (cases ci)
    case None
    then show ?thesis by (simp add: triple_fail)
  next
    case (Some c)
    have "triple (SV st0) (bindM (if \<not> b then failM ErrUnauthorized else retM c) f) Q" for b
      using f [OF Some] by (simp add: triple_fail)
    then show ?thesis
      unfolding Some option.case bindM_assoc by (intro triple_bind_keep [OF preserves_liftO])
  qed
qed

lemma setContractAdmin_keeps_inv:
  "keeps (\<lambda>s. keeper_inv (store s)) (setContractAdmin K a caller adm pol)"
  unfolding setContractAdmin_def Let_def
  by (intro keepsI_SV authorizedContract_triple triple_thenM [OF update_info_triple] triple_inv_tail
      preserves_keeps [OF preserves_emitEvent]) simp_all

lemma setContractLabel_keeps_inv:
  "keeps (\<lambda>s. keeper_inv (store s)) (setContractLabel K a caller l pol)"
  unfolding setContractLabel_def
  by (intro keepsI_SV authorizedContract_triple triple_thenM [OF update_info_triple] triple_inv_tail
      preserves_keeps [OF preserves_emitEvent]) simp_all

lemma SetExtension_CodeID: "SetExtension v p ext ci = Ok ci' \<Longrightarrow> CodeID ci' = CodeID ci"
  by (auto simp: SetExtension_def split: option.splits outcome.splits)

lemma setContractInfoExtension_keeps_inv:
  "keeps (\<lambda>s. keeper_inv (store s)) (setContractInfoExtension K v p a ext)"
  unfolding setContractInfoExtension_def
proof (intro keepsI_SV triple_GetContractInfo triple_case_option triple_fail)
  fix st0 ci info
  assume inv: "keeper_inv st0" and known: "\<And>c. ci = Some c \<Longrightarrow> contractAt st0 a = Some c" and "ci = Some info"
  then have info: "contractAt st0 a = Some info" by blast
  show "triple (SV st0) (bindM (liftO (SetExtension v p ext info)) (mustStoreContractInfo a))
      (\<lambda>_ s. keeper_inv (store s))"
  proof (rule triple_bindM [where R = "\<lambda>info' s. SV st0 s \<and> CodeID info' = CodeID info"])
    show "triple (SV st0) (liftO (SetExtension v p ext info)) (\<lambda>info' s. SV st0 s \<and> CodeID info' = CodeID info)"
      by (auto intro!: tripleI SetExtension_CodeID)
    show "triple (\<lambda>s. SV st0 s \<and> CodeID info' = CodeID info) (mustStoreContractInfo a info')
        (\<lambda>_ s. keeper_inv (store s))" for info'
      by (intro triple_pure update_info_triple [OF inv info])
  qed
qed

lemma setAccessConfig_keeps_inv:
  "keeps (\<lambda>s. keeper_inv (store s)) (setAccessConfig K i caller cfg pol)"
  unfolding setAccessConfig_def mustStoreCodeInfo_def by (rule preserves_keeps, intro pres)

lemma pinCode_keeps_inv:
  "keeps (\<lambda>s. keeper_inv (store s)) (pinCode K i)" "keeps (\<lambda>s. keeper_inv (store s)) (unpinCode K i)"
  unfolding pinCode_def unpinCode_def
  by (rule preserves_keeps, intro pres closed_inv neutral_keys)+

lemma gasless_keeps_inv:
  "keeps (\<lambda>s. keeper_inv (store s)) (setGasless a)" "keeps (\<lambda>s. keeper_inv (store s)) (unsetGasless a)"
  unfolding setGasless_def unsetGasless_def GetGaslessContractIndexPrefix_eq
  by (rule preserves_keeps, intro pres closed_inv neutral_keys)+

lemma SetParams_keeps_inv: "keeps (\<lambda>s. keeper_inv (store s)) (SetParams p)"
  unfolding SetParams_def by (rule preserves_keeps, intro pres closed_inv neutral_keys)

end
