(* ===== verification/KeeperExample.thy ===== *)
theory KeeperExample
  imports Keeper
begin

section \<open>A concrete environment for the keeper\<close>

text \<open>
  \<open>exKeeper\<close> instantiates everything the keeper calls but does not define: bech32 is the identity, a
  gas meter is a limit and a counter, and every contract writes one key and answers with an empty
  response.  The hypotheses of the properties are discharged on it.  \<open>keeper_eval\<close> are the defining
  equations that let the simplifier run an operation on a concrete state.
\<close>

subsection \<open>An example environment\<close>

definition exSdk :: sdk_fns where
  "exSdk = \<lparr>accString = (\<lambda>a. a), fromBech32 = (\<lambda>b. if b = [] then Err (PlainErr ''empty'') else Ok b),
     mustLengthPrefix = (\<lambda>a. Ok (char_of (length a) # a)),
     addressModule = (\<lambda>typ k. k @ k), verifyAddressFormat = (\<lambda>_. Ok ()),
     coinsIsZero = (\<lambda>cs. list_all (\<lambda>c. Amount c = 0) cs)\<rparr>"

definition exMeter :: "(u64 \<times> u64) meter_fns" where
  "exMeter = \<lparr>ConsumeGas = (\<lambda>g (l, c). (if l < c + g then Some (OutOfGasPanic ''gas'') else None, (l, c + g))),
     IsOutOfGas = (\<lambda>(l, c). l \<le> c), MeterLimit = fst, GasConsumed = snd, GasConsumedToLimit = snd,
     NewGasMeter = (\<lambda>l. (l, 0)), NewInfiniteGasMeter = (- 1, 0)\<rparr>"

definition exVmOut :: "'m \<Rightarrow> bytes list option \<Rightarrow> 'r \<Rightarrow> ('m, 'r) vm_out" where
  "exVmOut m tc r = \<lparr>VmRes = Some r, VmErr = None, VmGasUsed = 140000, VmOps = [OpSet ''k'' ''v''],
     VmMeter = m, VmTxContracts = tc\<rparr>"

definition exVm :: "('m, 'x, 'msg) vm_fns" where
  "exVm = \<lparr>vmStoreCode = (\<lambda>code g. (take 4 code, 140000, None)), vmStoreCodeUnchecked = Ok,
     vmAnalyzeCode = (\<lambda>_. Ok \<lparr>HasIBCEntryPoints = False, RequiredCapabilities = '''', ContractMigrateVersion = None\<rparr>),
     vmPin = (\<lambda>_ x. (Ok (), x)), vmUnpin = (\<lambda>_ x. (Ok (), x)), vmGetCode = Ok,
     vmCall = (\<lambda>e cs env a g c s. exVmOut (meter s) (txContracts s)
        \<lparr>CrOk = Some \<lparr>RespMessages = [], RespRData = None, RespAttributes = [], RespREvents = []\<rparr>, CrErr = ''''\<rparr>),
     vmQuery = (\<lambda>q cs env a g c s. exVmOut (meter s) (txContracts s) \<lparr>QrOk = ''42'', QrErr = ''''\<rparr>)\<rparr>"

definition exExt :: "('m, 'x) ext_fns" where
  "exExt = \<lparr>GetAccount = (\<lambda>_ _. None),
     NewAccountWithAddress = (\<lambda>a (m, x). (Ok \<lparr>accAddr = a, accSequence = 0, accPubKey = None, accType = ''base'',
        accOriginalVesting = None\<rparr>, [], m, x)),
     SetAccount = (\<lambda>_ (m, x). (Ok (), [], m, x)), GetCapability = (\<lambda>_ _. True),
     BindPort = (\<lambda>p (m, x). (Ok p, [], m, x)), ClaimCapabilityExt = (\<lambda>_ _ (m, x). (Ok (), [], m, x)),
     PortPath = (\<lambda>p. ''ports/'' @ p)\<rparr>"

definition exKeeper :: "(u64 \<times> u64, unit, unit) keeper" where
  "exKeeper = \<lparr>kSdk = exSdk, kMeter = exMeter, kVm = exVm, kExt = exExt,
     kGasRegister = DefaultGasRegisterConfig, kMulFloor = (\<lambda>f n. n * Numerator f div Denominator f),
     kGunzip = (\<lambda>_ _. Err errLimit), kMaxQueryStackSize = 10, kMaxCallDepth = 500,
     kQueryGasLimit = 3000000, kAcceptedAccountTypes = [''base''], kAuthority = ''gov'', kPropagateGov = [],
     kTransferCoins = (\<lambda>_ _ _ (m, x). (Ok (), [], m, x)),
     kCleanupExistingAccount = (\<lambda>_ (m, x). (Ok True, [], m, x)),
     kHandle = (\<lambda>c a p ms d. retM d)\<rparr>"

definition exSt :: "stored kv \<Rightarrow> (u64 \<times> u64, unit) st" where
  "exSt kv = \<lparr>store = kv, meter = (10000000, 0), events = [], txContracts = None, world = ()\<rparr>"

definition exCtx :: ctx where
  "exCtx = \<lparr>ctxBlockHeight = 7, ctxBlockTimeNano = 1000, ctxChainID = ''orai'', ctxBlockGas = Some 5,
     ctxTXCounter = Some 0, ctxQueryStackSize = None, ctxCallDepth = None, ctxSubMsgAuthzPolicy = None\<rparr>"

subsection \<open>Evaluation\<close>

lemma exKeeper_fields:
  "kSdk exKeeper = exSdk" "kMeter exKeeper = exMeter" "kVm exKeeper = exVm" "kExt exKeeper = exExt"
  "kGasRegister exKeeper = DefaultGasRegisterConfig" "kMaxQueryStackSize exKeeper = 10"
  "kAcceptedAccountTypes exKeeper = [''base'']" "kHandle exKeeper = (\<lambda>c a p ms d. retM d)"
  "kMulFloor exKeeper = (\<lambda>f n. n * Numerator f div Denominator f)" "kMaxCallDepth exKeeper = 500"
  "kGunzip exKeeper = (\<lambda>_ _. Err errLimit)" "kQueryGasLimit exKeeper = 3000000"
  "kAuthority exKeeper = ''gov''" "kPropagateGov exKeeper = []"
  "kTransferCoins exKeeper = (\<lambda>_ _ _ (m, x). (Ok (), [], m, x))"
  by (simp_all add: exKeeper_def)

lemmas ex_defs = exKeeper_fields exSdk_def exMeter_def exVm_def exExt_def exSt_def exCtx_def exVmOut_def

lemmas keeper_eval =
  emitEvents_def emitEvent_def extM_def vmWorldM_def consumeGas_def withGasMeter_def storeGet_def
  storeHas_def storeSet_def storeDelete_def applyOps_def runVM_def attr_def newEvent_def
  AttributeKeyContractAddr_def contractSDKEventAttributes_def newWasmModuleEvent_def
  eventTypeMinLength_def GetParams_def SetParams_def getUploadAccessConfig_def
  getInstantiateAccessConfig_def readUint64_def PeekAutoIncrementID_def mustAutoIncrementID_def
  importAutoIncrementID_def GetContractInfo_def HasContractInfo_def mustStoreContractInfo_def
  GetCodeInfo_def containsCodeInfo_def mustStoreCodeInfo_def GetByteCode_def contractInstance_def
  QueryRaw_def runtimeGasForContract_def consumeRuntimeGas_def IsPinnedCode_def
  TxContracts_AddContract_def TxContracts_Exists_def checkDiscountEligibility_def chargeSetup_def
  NewEnv_def NewWasmCoins_def NewInfo_def wrappedText_def callContract_def derefM_def
  handleContractResponse_def historyPos_def appendToContractHistory_def GetContractHistory_def
  mustGetLastContractHistoryEntry_def addToContractCodeSecondaryIndex_def
  removeFromContractCodeSecondaryIndex_def addToContractCreatorSecondaryIndex_def indexedAddress_def
  IterateContractsByCreator_def IterateContractsByCode_def IterateContractInfo_def
  IterateContractState_def IterateCodeInfos_def PortIDForContract_def ContractFromPortID_def
  bindIbcPort_def ensureIbcPort_def gzipIdent_def IsGzip_def errLimit_def Uncompress_def
  MaxWasmSize_def storeCodeEvent_def create_def importCode_def ClassicAddressGenerator_def
  Predictable_def newContractAccount_def checkAccount_def transferDeposit_def ctxPosition_def
  codeIDAttr_def contractAttr_def persistNewContract_def instantiate_def IsGasless_def
  executeBody_def execute_def callMigrateEntrypoint_def migratePort_def persistMigration_def
  sameMigrateVersion_def migrate_def Sudo_def reply_def authorizedContract_def setContractAdmin_def
  setContractLabel_def SetExtension_def setContractInfoExtension_def mustAccAddressFromBech32_def
  accessConfigEvent_def setAccessConfig_def pinCode_def unpinCode_def InitializePinnedCodes_def
  setGasless_def unsetGasless_def checkAndIncreaseQueryStackSize_def checkAndIncreaseCallDepth_def
  QuerySmart_def asyncAckKey_def LoadAsyncAckPacket_def StoreAsyncAckPacket_def
  DeleteAsyncAckPacket_def importContractState_def importContract_def
  DefaultPerByteUncompressCost_def DefaultGasRegisterConfig_def UncompressCosts_def
  SetupContractCost_def calcWithFreeTier_def attrBytes_def eventAttributeCosts_def EventCosts_def
  replyEventTypeGas_def ReplyCosts_def ToWasmVMGas_def FromWasmVMGas_def AllAccessTypes_def
  AllowEverybody_def AllowNobody_def DefaultParams_def MaxAddressCount_def
  validateBech32Addresses_def AccessType_With_def AccessType_UnmarshalText_def
  AccessConfig_Equals_def validateAccessType_def AccessConfig_ValidateBasic_def
  Params_ValidateBasic_def Allowed_def AccessType_IsSubset_def isSubset_def
  AccessConfig_IsSubset_def AllAuthorizedAddresses_def NewGovAuthorizationPolicy_def wasmErr_def
  sdkErr_def ErrNoSuchContractFn_def ErrNoSuchCodeFn_def AbsoluteTxPositionLen_def posBytes_def
  NewAbsoluteTxPosition_def NewCodeInfo_def NewContractInfo_def InitialHistory_def AddMigration_def
  AdminAddr_def BigEndianToUint64_def CodeKeyPrefix_def ContractKeyPrefix_def
  ContractStorePrefix_def SequenceKeyPrefix_def ContractCodeHistoryElementPrefix_def
  ContractByCodeIDAndCreatedSecondaryIndexPrefix_def PinnedCodeIndexPrefix_def TXCounterPrefix_def
  ContractsByCreatorPrefix_def ParamsKey_def AsyncAckKeyPrefix_def GaslessContractIndexPrefix_def
  KeySequenceCodeID_def KeySequenceInstanceID_def GetCodeKey_def GetContractAddressKey_def
  GetContractsByCreatorPrefix_def GetContractStorePrefix_def GetAsyncPacketKey_def
  GetAsyncAckStorePrefix_def GetContractByCodeIDSecondaryIndexPrefix_def
  GetContractByCreatedSecondaryIndexKey_def GetContractByCreatorSecondaryIndexKey_def
  GetContractCodeHistoryElementPrefix_def GetContractCodeHistoryElementKey_def
  GetPinnedCodeIndexPrefix_def GetGaslessContractIndexPrefix_def ParsePinnedCodeIndex_def
  ContractAddrLen_def SDKAddrLen_def VerifyAddressLen_def MaxSaltSize_def ValidateSalt_def
  RawContractMessage_ValidateBasic_def UInt64LengthPrefix_def BuildContractAddressClassic_def
  predictableKey_def BuildContractAddressPredictable_def PredictableAddressGenerator_def
  Uint64ToBigEndian_def BigEndianUint64_def of_be_def hexEncode_def hexDigit_def formatInt_def
  kv_get_def kv_has_def kv_delete_def kv_iter_def kv_riter_def byte_def TrimSpace_def
  spaceEncodings_def bytesOf_def formatNat.simps Let_def copyN_def

lemma be_numeral: "be (numeral k) n = be (pred_numeral k) (n div 256) @ [char_of (n mod 256)]"
  using be.simps(2) [of "pred_numeral k" n] by (simp only: numeral_eq_Suc [of k])

lemmas word_eval = word_le_nat_alt word_less_nat_alt numeral_2_eq_2 [symmetric]

lemmas run_eval = go_step keeper_eval word_eval ex_defs

end
