(* ===== verification/KeeperProps.thy ===== *)
theory KeeperProps
  imports KeeperSafety KeeperExample
begin

section \<open>What the keeper promises\<close>

text \<open>
  Properties of single keeper operations: the contracts-by-code index lists exactly the contracts of
  a code, uploads get fresh ids, only the admin changes a contract, the engine writes nothing outside
  the prefix of the called contract, nesting is bounded.
\<close>

subsection \<open>Sequences of operations\<close>

text \<open>The state-changing entry points of the keeper, and the states they reach from an empty store.
  A failed transaction, or anything outside the module, leaves the module's store as it was.\<close>

datatype keeper_op =
    OpSetParams Params
  | OpCreate AccAddress bytes "AccessConfig option" AuthorizationPolicy
  | OpInstantiate u64 AccAddress AccAddress bytes bytes Coins AuthorizationPolicy
  | OpInstantiate2 u64 AccAddress AccAddress bytes bytes Coins bytes bool AuthorizationPolicy
  | OpExecute AccAddress AccAddress bytes Coins
  | OpMigrate AccAddress AccAddress u64 bytes AuthorizationPolicy
  | OpSudo AccAddress bytes
  | OpReply AccAddress Reply
  | OpSetAdmin AccAddress AccAddress AccAddress AuthorizationPolicy
  | OpSetLabel AccAddress AccAddress bytes AuthorizationPolicy
  | OpSetAccess u64 AccAddress AccessConfig AuthorizationPolicy
  | OpPin u64
  | OpUnpin u64
  | OpSetGasless AccAddress
  | OpUnsetGasless AccAddress

definition ignore :: "('s, 'a) go \<Rightarrow> ('s, unit) go" where
  "ignore m = bindM m (\<lambda>_. retM ())"

fun runOp :: "('m, 'x, 'msg) keeper \<Rightarrow> ctx \<Rightarrow> keeper_op \<Rightarrow> (('m, 'x) st, unit) go" where
  "runOp K c (OpSetParams p) = SetParams p"
| "runOp K c (OpCreate cr code acc pol) = ignore (create K cr code acc pol)"
| "runOp K c (OpInstantiate i cr adm m l d pol) =
    ignore (instantiate K c i cr adm m l d (ClassicAddressGenerator K) pol)"
| "runOp K c (OpInstantiate2 i cr adm m l d salt fx pol) =
    ignore (instantiate K c i cr adm m l d (Predictable K cr salt m fx) pol)"
| "runOp K c (OpExecute a caller m coins) = ignore (execute K c a caller m coins)"
| "runOp K c (OpMigrate a caller i m pol) = ignore (migrate K c a caller i m pol)"
| "runOp K c (OpSudo a m) = ignore (Sudo K c a m)"
| "runOp K c (OpReply a r) = ignore (reply K c a r)"
| "runOp K c (OpSetAdmin a caller adm pol) = setContractAdmin K a caller adm pol"
| "runOp K c (OpSetLabel a caller l pol) = setContractLabel K a caller l pol"
| "runOp K c (OpSetAccess i caller cfg pol) = setAccessConfig K i caller cfg pol"
| "runOp K c (OpPin i) = pinCode K i"
| "runOp K c (OpUnpin i) = unpinCode K i"
| "runOp K c (OpSetGasless a) = setGasless a"
| "runOp K c (OpUnsetGasless a) = unsetGasless a"

inductive reach :: "('m, 'x, 'msg) keeper \<Rightarrow> ('m, 'x) st \<Rightarrow> bool" for K where
  reach_empty: "store s = [] \<Longrightarrow> reach K s"
| reach_op: "reach K s \<Longrightarrow> runOp K c op s = (Ok (), t) \<Longrightarrow> reach K t"
| reach_other: "reach K s \<Longrightarrow> store t = store s \<Longrightarrow> reach K t"

fun runOps :: "('m, 'x, 'msg) keeper \<Rightarrow> ctx \<Rightarrow> keeper_op list \<Rightarrow> (('m, 'x) st, unit) go" where
  "runOps K c [] = retM ()"
| "runOps K c (op # ops) = thenM (runOp K c op) (runOps K c ops)"

definition exOps :: "keeper_op list" where
  "exOps =
    [OpSetParams DefaultParams,
     OpCreate ''alice'' ''code1'' None DefaultAuthorizationPolicy,
     OpInstantiate 1 ''alice'' ''bob'' ''{}'' ''label'' [] DefaultAuthorizationPolicy]"

definition exState :: "(u64 \<times> u64, unit) st" where
  "exState = snd (runOps exKeeper exCtx exOps (exSt []))"

definition exUpload :: "(u64 \<times> u64, unit) st" where
  "exUpload = exSt [(ParamsKey, SParams DefaultParams)]"

text \<open>The ids in use lie below the next id of the code sequence.\<close>

definition nextCodeID :: "stored kv \<Rightarrow> u64" where
  "nextCodeID st = (case kv_get st KeySequenceCodeID of Some (SBytes bz) \<Rightarrow> BigEndianUint64 bz | _ \<Rightarrow> 1)"

definition codes_below :: "stored kv \<Rightarrow> bool" where
  "codes_below st = (\<forall>i. kv_has st (GetCodeKey i) \<longrightarrow> i < nextCodeID st)"

definition exAddr :: AccAddress where
  "exAddr = Uint64ToBigEndian 1 @ Uint64ToBigEndian 1 @ Uint64ToBigEndian 1 @ Uint64ToBigEndian 1"

definition exInfo :: ContractInfo where
  "exInfo = \<lparr>CodeID = 1, Creator = ''alice'', Admin = ''bob'', Label = ''label'',
      Created = Some \<lparr>BlockHeight = 7, TxIndex = 5\<rparr>, IBCPortID = '''', Extension = None\<rparr>"

text \<open>The contract exists and its admin field decodes to the caller.\<close>

definition adminIs :: "('m, 'x, 'msg) keeper \<Rightarrow> stored kv \<Rightarrow> AccAddress \<Rightarrow> AccAddress \<Rightarrow> bool" where
  "adminIs K st a caller = (case contractAt st a of
     None \<Rightarrow> False
   | Some ci \<Rightarrow> Admin ci \<noteq> '''' \<and> fromBech32 (kSdk K) (Admin ci) = Ok caller)"

text \<open>\<open>n\<close> nested calls through a depth check.\<close>

fun nest :: "nat \<Rightarrow> (ctx \<Rightarrow> ctx outcome) \<Rightarrow> ctx \<Rightarrow> ctx outcome" where
  "nest 0 f c = Ok c"
| "nest (Suc n) f c = (case f c of Ok c' \<Rightarrow> nest n f c' | r \<Rightarrow> r)"

subsection \<open>Sequences keep the invariant\<close>

lemma keeps_ignore [kept]: "keeps P m \<Longrightarrow> keeps P (ignore m)"
  unfolding ignore_def by (intro kept)

lemmas op_inv = create_keeps_inv instantiate_keeps_inv execute_keeps_inv migrate_keeps_inv
  Sudo_keeps_inv reply_keeps_inv setContractAdmin_keeps_inv setContractLabel_keeps_inv
  setAccessConfig_keeps_inv pinCode_keeps_inv gasless_keeps_inv SetParams_keeps_inv
  gen_frame_classic gen_frame_predictable

lemma runOp_keeps_inv: "handler_ok K \<Longrightarrow> keeps (\<lambda>s. keeper_inv (store s)) (runOp K c op)"
  by (cases op) (auto intro!: keeps_ignore op_inv)

lemma keeper_inv_Nil: "keeper_inv []"
  by (simp add: keeper_inv_def typed_def kv_has_def keeper_core_def codeAt_def contractAt_def indexed_def)

lemma reach_inv:
  assumes "handler_ok K" and "reach K s"
  shows "keeper_inv (store s)"
  using assms(2)
proof induction
  case (reach_op s c op t)
  then show ?case using keepsD [OF runOp_keeps_inv [OF assms(1)]] by blast
qed (simp_all add: keeper_inv_Nil)

subsection \<open>The contracts-by-code index\<close>

lemma iterCb_indexed:
  "\<forall>k \<in> set keys. 16 \<le> length k \<Longrightarrow>
    iterCb (\<lambda>key. bindM (liftO (indexedAddress key)) cb) keys = iterCb cb (map (drop 16) keys)"
proof (induction keys)
  case (Cons k keys)
  then have "bindM (liftO (indexedAddress k)) cb = cb (drop 16 k)"
    by (simp add: indexedAddress_def AbsoluteTxPositionLen_def fun_eq_iff liftO_def bindM_def)
  moreover have "iterCb (\<lambda>key. bindM (liftO (indexedAddress key)) cb) keys = iterCb cb (map (drop 16) keys)"
    using Cons by simp
  ultimately show ?case by (simp only: iterCb.simps list.map)
qed simp

lemma posBytes_surj:
  assumes "16 \<le> length x"
  shows "\<exists>p. x = posBytes p @ drop 16 x"
proof -
  define p where "p = \<lparr>BlockHeight = BigEndianUint64 (take 8 x), TxIndex = BigEndianUint64 (take 8 (drop 8 x))\<rparr>"
  have "posBytes p = take 8 x @ take 8 (drop 8 x)"
    using assms by (simp add: p_def posBytes_def byte_enc)
  also have "\<dots> = take 16 x" by (simp add: take_add [symmetric])
  finally show ?thesis by (intro exI [of _ p]) simp
qed

lemma index_keys:
  assumes inv: "keeper_inv st"
  shows "\<forall>k \<in> set (map fst (kv_iter st (GetContractByCodeIDSecondaryIndexPrefix i))). 16 \<le> length k"
    and "a \<in> drop 16 ` set (map fst (kv_iter st (GetContractByCodeIDSecondaryIndexPrefix i))) \<longleftrightarrow>
      (\<exists>p. indexed st i p a)"
proof -
  have mem: "k \<in> set (map fst (kv_iter st (GetContractByCodeIDSecondaryIndexPrefix i))) \<longleftrightarrow>
      kv_has st (GetContractByCodeIDSecondaryIndexPrefix i @ k)" for k
    using kv.iter_mem [OF keeper_inv_wf [OF inv]] by (force simp: kv_has_def)
  have long: "16 \<le> length k" if "kv_has st (GetContractByCodeIDSecondaryIndexPrefix i @ k)" for k
    using inv that by (auto simp: keeper_inv_def typed_def)
  show "\<forall>k \<in> set (map fst (kv_iter st (GetContractByCodeIDSecondaryIndexPrefix i))). 16 \<le> length k"
    using mem long by blast
  show "a \<in> drop 16 ` set (map fst (kv_iter st (GetContractByCodeIDSecondaryIndexPrefix i))) \<longleftrightarrow>
      (\<exists>p. indexed st i p a)"
  proof
    assume "a \<in> drop 16 ` set (map fst (kv_iter st (GetContractByCodeIDSecondaryIndexPrefix i)))"
    then obtain k where k: "kv_has st (GetContractByCodeIDSecondaryIndexPrefix i @ k)" "a = drop 16 k"
      using mem by blast
    then obtain p where "k = posBytes p @ a" using posBytes_surj [OF long] by blast
    then have "indexed st i p a" using k(1) by (simp only: indexed_def)
    then show "\<exists>p. indexed st i p a" ..
  next
    assume "\<exists>p. indexed st i p a"
    then obtain p where "kv_has st (GetContractByCodeIDSecondaryIndexPrefix i @ posBytes p @ a)"
      by (auto simp: indexed_def)
    then show "a \<in> drop 16 ` set (map fst (kv_iter st (GetContractByCodeIDSecondaryIndexPrefix i)))"
      using mem by (intro image_eqI [of _ _ "posBytes p @ a"]) simp_all
  qed
qed

lemma index_keys_distinct:
  assumes inv: "keeper_inv st" and "\<not> saturated st"
  shows "distinct (map (drop 16) (map fst (kv_iter st (GetContractByCodeIDSecondaryIndexPrefix i))))"
proof -
  let ?keys = "map fst (kv_iter st (GetContractByCodeIDSecondaryIndexPrefix i))"
  have "inj_on (drop 16) (set ?keys)"
  proof (rule inj_onI)
    fix k k' :: bytes
    assume k: "k \<in> set ?keys" "k' \<in> set ?keys" and eq: "drop 16 k = drop 16 k'"
    obtain p p' where p: "k = posBytes p @ drop 16 k" "k' = posBytes p' @ drop 16 k"
      using posBytes_surj index_keys(1) [OF inv] k eq by metis
    have "indexed st i p (drop 16 k)" "indexed st i p' (drop 16 k)"
      using k p kv.iter_mem [OF keeper_inv_wf [OF inv]] by (force simp: indexed_def kv_has_def)+
    then have "p = p'" using assms by (auto simp: keeper_inv_def keeper_core_def)
    then show "k = k'" using p by simp
  qed
  then show ?thesis using kv.iter_distinct [OF keeper_inv_wf [OF inv], of "GetContractByCodeIDSecondaryIndexPrefix i"]
    unfolding distinct_map [of "drop 16"] by blast
qed

lemma index_of_code:
  "keeper_inv st \<Longrightarrow> \<not> saturated st \<Longrightarrow>
    (\<exists>p. indexed st i p a) \<longleftrightarrow> (\<exists>ci. contractAt st a = Some ci \<and> CodeID ci = i)"
  by (force simp: keeper_inv_def keeper_core_def)

subsection \<open>The example states\<close>

lemma reach_runOps: "runOps K c ops s = (Ok (), t) \<Longrightarrow> reach K s \<Longrightarrow> reach K t"
  by (induction ops arbitrary: s) (auto simp: go_Ok_iff intro: reach_op)

lemma handler_ok_exKeeper: "handler_ok exKeeper"
  by (simp add: handler_ok_def exKeeper_def preserves_keeps preserves_retM)

lemma exOps_run: "runOps exKeeper exCtx exOps (exSt []) = (Ok (), exState)"
proof -
  have "fst (runOps exKeeper exCtx exOps (exSt [])) = Ok ()"
    by (simp add: run_eval exOps_def ignore_def cong: go_frozen)
  then show ?thesis by (metis exState_def prod.collapse)
qed

lemma exState_inv: "keeper_inv (store exState)"
proof (rule reach_inv [OF handler_ok_exKeeper])
  show "reach exKeeper exState"
    by (rule reach_runOps [OF exOps_run]) (rule reach_empty, simp add: exSt_def)
qed

lemma last_position: "last (Uint64ToBigEndian (- 1)) = CHR 0xFF" "char_of (Suc 0) = CHR 0x01"
  by (simp_all add: Uint64ToBigEndian_def be_numeral unsigned_minus_1_eq_mask mask_eq_exp_minus_1 char_of_def bit_0)

lemma not_saturatedI:
  assumes "list_all (\<lambda>(k, _). last k \<noteq> CHR 0xFF) st"
  shows "\<not> saturated st"
proof
  assume "saturated st"
  then obtain a v where "(GetContractCodeHistoryElementKey a (- 1), v) \<in> set st"
    unfolding saturated_def kv_has_def kv_get_def by (auto dest: map_of_SomeD)
  then show False using assms
    by (auto simp: list_all_iff GetContractCodeHistoryElementKey_def last_position)
qed

lemma exState_not_saturated: "\<not> saturated (store exState)"
  by (rule not_saturatedI)
     (simp add: exState_def run_eval be_numeral exOps_def ignore_def last_position(2) cong: go_frozen)

lemma exState_contract:
  "contractAt (store exState) exAddr =
    Some exInfo"
  by (simp add: exInfo_def exAddr_def exState_def contractAt_def run_eval exOps_def ignore_def cong: go_frozen)

lemma exInfo_code: "CodeID exInfo = 1"
  by (simp add: exInfo_def)

subsection \<open>Uploading\<close>

lemma triple_case_prod:
  "(\<And>a b. x = (a, b) \<Longrightarrow> triple P (f a b) Q) \<Longrightarrow> triple P (case x of (a, b) \<Rightarrow> f a b) Q"
  by (cases x) simp

lemma mustAutoIncrementID_Ok:
  assumes "mustAutoIncrementID KeySequenceCodeID s = (Ok i, t)"
  shows "i = nextCodeID (store s) \<and> store t = kv_set KeySequenceCodeID (SBytes (Uint64ToBigEndian (i + 1))) (store s)"
proof (cases "kv_get (store s) KeySequenceCodeID")
  case None
  then show ?thesis using assms
    by (auto simp: mustAutoIncrementID_def go_Ok_iff nextCodeID_def)
next
  case (Some v)
  then show ?thesis using assms
    by (cases v) (auto simp: mustAutoIncrementID_def go_Ok_iff nextCodeID_def readUint64_def split: if_splits)
qed

lemma store_new_code:
  "triple (\<lambda>s. store s = st0)
    (bindM (mustAutoIncrementID KeySequenceCodeID) (\<lambda>codeID.
     thenM (mustStoreCodeInfo codeID (NewCodeInfo S cs cr (case access of None \<Rightarrow> d | Some a \<Rightarrow> a)))
       (thenM (emitEvent (e codeID)) (retM (codeID, cs)))))
    (\<lambda>r t. \<exists>acc. fst r = nextCodeID st0 \<and> (\<forall>a. access = Some a \<longrightarrow> acc = a) \<and>
       store t = kv_set (GetCodeKey (fst r)) (SCodeInfo (NewCodeInfo S (snd r) cr acc))
        (kv_set KeySequenceCodeID (SBytes (Uint64ToBigEndian (fst r + 1))) st0))"
  by (rule tripleI, rule exI [of _ "case access of None \<Rightarrow> d | Some a \<Rightarrow> a"])
     (auto simp: go_Ok_iff mustStoreCodeInfo_def dest!: mustAutoIncrementID_Ok)

lemma pres_unzip:
  "preserves (\<lambda>s. G (store s)) (if IsGzip code then
      bindM (liftO (UncompressCosts f g n)) (\<lambda>cost. thenM (consumeGas M cost)
        (wrapM w (liftO (Uncompress u code l)))) else retM code)"
  by (intro pres)

lemma create_Ok:
  assumes "create K creator wasmCode access authZ s = (Ok (i, checksum), t)"
  shows "\<exists>acc. i = nextCodeID (store s) \<and> (\<forall>a. access = Some a \<longrightarrow> acc = a) \<and>
    store t = kv_set (GetCodeKey i) (SCodeInfo (NewCodeInfo (accString (kSdk K)) checksum creator acc))
      (kv_set KeySequenceCodeID (SBytes (Uint64ToBigEndian (i + 1))) (store s))"
proof -
  have "triple (\<lambda>s'. store s' = store s) (create K creator wasmCode access authZ)
    (\<lambda>r t. \<exists>acc. fst r = nextCodeID (store s) \<and> (\<forall>a. access = Some a \<longrightarrow> acc = a) \<and>
      store t = kv_set (GetCodeKey (fst r)) (SCodeInfo (NewCodeInfo (accString (kSdk K)) (snd r) creator acc))
      (kv_set KeySequenceCodeID (SBytes (Uint64ToBigEndian (fst r + 1))) (store s)))"
    unfolding create_def Let_def
    by (intro triple_If triple_fail triple_bind_keep [OF pres_access(1)] triple_bind_keep [OF pres_access(2)]
        triple_bind_keep [OF preserves_liftO] triple_bind_keep [OF pres_unzip] triple_bind_keep [OF pres_runtimeGas]
        triple_case_prod triple_then_keep [OF pres_consumeRuntimeGas]
        triple_bind_keep [OF preserves_wrapM [OF preserves_liftO]] store_new_code)
  from tripleD [OF this assms] show ?thesis by auto
qed

subsection \<open>Authorization\<close>

lemma GetContractInfo_Ok:
  "GetContractInfo a s = (Ok ci, t) \<Longrightarrow> t = s \<and> contractAt (store s) a = ci"
  by (auto simp: GetContractInfo_def contractAt_def go_Ok_iff split: option.splits stored.splits
      elim!: asContractInfo.elims)

lemma GetContractInfo_Some: "contractAt (store s) a = Some ci \<Longrightarrow> GetContractInfo a s = (Ok (Some ci), s)"
  by (auto simp: GetContractInfo_def contractAt_def bindM_step storeGet_def getsM_def liftO_def retM_def
      split: option.splits stored.splits)

lemma admin_is_caller:
  "AdminAddr fb ci = Ok adm \<Longrightarrow> CanModifyContract DefaultAuthorizationPolicy adm caller \<Longrightarrow>
    Admin ci \<noteq> '''' \<and> fb (Admin ci) = Ok caller"
  by (auto simp: AdminAddr_def split: if_splits outcome.splits)

lemma authorizedContract_Ok:
  assumes "authorizedContract K a caller DefaultAuthorizationPolicy s = (Ok ci, t)"
  shows "t = s \<and> contractAt (store s) a = Some ci \<and> Admin ci \<noteq> '''' \<and> fromBech32 (kSdk K) (Admin ci) = Ok caller"
  using assms admin_is_caller [of "fromBech32 (kSdk K)"]
  by (auto simp: authorizedContract_def go_Ok_iff dest!: GetContractInfo_Ok split: option.splits if_splits)

lemma migrate_authorized:
  assumes "migrate K c a caller i m DefaultAuthorizationPolicy s = (Ok d, t)"
  shows "\<exists>ci info. contractAt (store s) a = Some ci \<and> Admin ci \<noteq> '''' \<and>
    fromBech32 (kSdk K) (Admin ci) = Ok caller \<and>
    codeAt (store s) i = Some info \<and> Allowed (accString (kSdk K)) (InstantiateConfig info) caller = Ok True"
proof -
  obtain ci adm nci where ci: "contractAt (store s) a = Some ci" and adm: "AdminAddr (fromBech32 (kSdk K)) ci = Ok adm"
    and modify: "CanModifyContract DefaultAuthorizationPolicy adm caller"
    and rest: "GetCodeInfo i s = (Ok (Some nci), s)" "Allowed (accString (kSdk K)) (InstantiateConfig nci) caller = Ok True"
    using assms
    by (auto simp: migrate_def go_Ok_iff GetCodeInfo_def dest!: GetContractInfo_Ok
        split: option.splits if_splits)
  from rest(1) have "codeAt (store s) i = Some nci"
    by (auto simp: GetCodeInfo_def codeAt_def go_Ok_iff split: option.splits elim!: asCodeInfo.elims)
  then show ?thesis using ci admin_is_caller [OF adm modify] rest(2) by blast
qed

subsection \<open>Gasless contracts\<close>

lemma setGasless_Ok:
  "setGasless a s = (Ok u, t) \<Longrightarrow>
    (\<exists>ci. contractAt (store s) a = Some ci) \<and> kv_has (store t) (GetGaslessContractIndexPrefix a)"
  by (auto simp: setGasless_def go_Ok_iff split: option.splits dest!: GetContractInfo_Ok)

lemma unsetGasless_Ok:
  "unsetGasless a s = (Ok u, t) \<Longrightarrow> \<not> kv_has (store t) (GetGaslessContractIndexPrefix a)"
  by (auto simp: unsetGasless_def go_Ok_iff split: option.splits)

lemma execute_eq:
  "execute K c a caller m coins s =
    (if kv_has (store s) (GetGaslessContractIndexPrefix a)
     then withGasMeter (NewInfiniteGasMeter (kMeter K)) (executeBody K c a caller m coins) s
     else executeBody K c a caller m coins s)"
  by (simp add: execute_def IsGasless_def storeHas_def getsM_def bindM_step)

subsection \<open>Isolation of contracts\<close>

lemma callContract_frame:
  "\<not> prefix (GetContractStorePrefix a) k \<Longrightarrow>
    kv_get (store (snd (callContract K c e cs a f s))) k = kv_get (store s) k"
proof -
  assume k: "\<not> prefix (GetContractStorePrefix a) k"
  have "preserves (\<lambda>s'. kv_get (store s') k = kv_get (store s) k) (callContract K c e cs a f)"
    unfolding callContract_def
    by (intro pres pres_consumeRuntimeGas [where G = "\<lambda>st. kv_get st k = kv_get (store s) k"]
        preserves_runVM [where P = "\<lambda>st. kv_get st k = kv_get (store s) k"])
       (simp add: applyOps_frame k)
  then show ?thesis by (simp add: preserves_def)
qed

subsection \<open>Histories\<close>

lemma decodeHistory_Ok:
  "\<forall>(k, v) \<in> set kvs. length k = 8 \<longrightarrow> (\<exists>e. v = SHistory e) \<Longrightarrow>
    decodeHistory kvs = Ok (List.map_filter (\<lambda>(_, v). toHistory v) (filter (\<lambda>(k, _). length k = 8) kvs))"
  by (induction kvs rule: decodeHistory.induct) (auto simp: map_filter_def toHistory_def)

lemma GetContractHistory_eq:
  assumes "kv_wf (store s)" "typed (store s)"
  shows "GetContractHistory a s = (Ok (histAt (store s) a), s)"
proof -
  have "\<exists>e. v = SHistory e"
    if "(k, v) \<in> set (kv_iter (store s) (GetContractCodeHistoryElementPrefix a))" "length k = 8" for k v
  proof -
    have "kv_get (store s) (GetContractCodeHistoryElementPrefix a @ k) = Some v"
      using that(1) kv.iter_mem [OF assms(1)] by simp
    moreover have "k = Uint64ToBigEndian (BigEndianUint64 k)" using that(2) by (simp add: byte_enc)
    ultimately show ?thesis
      using assms(2) unfolding typed_def GetContractCodeHistoryElementKey_def by metis
  qed
  then have "\<forall>(k, v) \<in> set (kv_iter (store s) (GetContractCodeHistoryElementPrefix a)).
      length k = 8 \<longrightarrow> (\<exists>e. v = SHistory e)" by blast
  from decodeHistory_Ok [OF this] show ?thesis
    by (simp add: GetContractHistory_def histAt_def histKV_def)
qed

lemma histPos_append:
  assumes "kv_wf st" "histPos st a \<noteq> - 1"
  shows "histPos (kv_set (GetContractCodeHistoryElementKey a (histPos st a + 1)) v st) a = histPos st a + 1"
  unfolding histPos_eq [of "kv_set (GetContractCodeHistoryElementKey a (histPos st a + 1)) v st"]
    histKV_append [OF assms]
  by (simp add: byte_enc BigEndianToUint64_def)

lemma storeHistory_spec:
  "kv_wf (store s) \<Longrightarrow> typed (store s) \<Longrightarrow> pos = histPos (store s) a \<Longrightarrow> unat pos + length es < 2 ^ 64 \<Longrightarrow>
    \<exists>st'. storeHistory a pos es s = (Ok (), s\<lparr>store := st'\<rparr>) \<and> kv_wf st' \<and> typed st' \<and>
      (\<forall>b. histAt st' b = (if b = a then histAt (store s) a @ es else histAt (store s) b))"
proof (induction es arbitrary: pos s)
  case Nil
  then show ?case by (intro exI [of _ "store s"]) (simp add: retM_def)
next
  case (Cons e es)
  let ?st = "kv_set (GetContractCodeHistoryElementKey a (pos + 1)) (SHistory e) (store s)"
  have small: "unat pos + 1 < 2 ^ 64" using Cons.prems(4) by simp
  then have "pos \<noteq> - 1" by (auto simp: unsigned_minus_1_eq_mask mask_eq_exp_minus_1)
  then have hist: "histAt ?st b = (if b = a then histAt (store s) a @ [e] else histAt (store s) b)"
      and pos: "histPos ?st a = pos + 1" for b
    using Cons.prems histAt_append [of "store s" a e b] histPos_append [of "store s" a] by simp_all
  have "unat (pos + 1) = unat pos + 1" using small by (simp add: unat_word_ariths)
  then have "\<exists>st'. storeHistory a (pos + 1) es (s\<lparr>store := ?st\<rparr>) = (Ok (), s\<lparr>store := ?st\<rparr>\<lparr>store := st'\<rparr>) \<and>
      kv_wf st' \<and> typed st' \<and>
      (\<forall>b. histAt st' b = (if b = a then histAt ?st a @ es else histAt ?st b))"
    using Cons.IH [of "s\<lparr>store := ?st\<rparr>" "pos + 1"] Cons.prems(1,2,4) pos
    by (simp add: typed_set cong: if_cong)
  then show ?case using hist by (auto simp: storeSet_def modifyM_def thenM_step)
qed

subsection \<open>Nesting\<close>

text \<open>A check that counts in the context and refuses to go beyond a limit.\<close>

locale depth_check =
  fixes check :: "u32 \<Rightarrow> ctx \<Rightarrow> ctx outcome" and depth :: "ctx \<Rightarrow> u32"
  assumes check_Ok: "check lim c = Ok c' \<Longrightarrow> depth c + 1 \<le> lim \<and> depth c' = depth c + 1"
    and check_total: "depth c + 1 \<le> lim \<Longrightarrow> \<exists>c'. check lim c = Ok c'"
begin

lemma depth_step:
  assumes "lim \<noteq> - 1" and "depth c \<le> lim"
  shows "unat (depth c + 1) = unat (depth c) + 1"
proof -
  have "depth c \<noteq> - 1" using assms by (metis word_order.extremum_uniqueI)
  then have "1 + depth c \<noteq> 0" by (metis add.commute add_eq_0_iff)
  then show ?thesis using unatSuc [of "depth c"] by (simp add: add.commute)
qed

lemma nest_iff:
  assumes "lim \<noteq> - 1" and "depth c \<le> lim"
  shows "(\<exists>c'. nest n (check lim) c = Ok c') \<longleftrightarrow> unat (depth c) + n \<le> unat lim"
  using assms(2)
proof (induction n arbitrary: c)
  case 0
  then show ?case by (simp add: word_le_nat_alt)
next
  case (Suc n)
  note step = depth_step [OF assms(1) Suc.prems]
  show ?case
  proof (cases "check lim c")
    case (Ok c')
    then show ?thesis using Suc.IH [of c'] check_Ok [OF Ok] step by simp
  qed (use check_total [of c lim] step in \<open>auto simp: word_le_nat_alt\<close>)
qed

end

interpretation qs: depth_check "\<lambda>lim c. checkAndIncreaseQueryStackSize c lim"
  "\<lambda>c. case ctxQueryStackSize c of None \<Rightarrow> 0 | Some n \<Rightarrow> n"
  by unfold_locales (auto simp: checkAndIncreaseQueryStackSize_def Let_def not_less split: if_splits)

interpretation cd: depth_check "\<lambda>lim c. checkAndIncreaseCallDepth c lim"
  "\<lambda>c. case ctxCallDepth c of None \<Rightarrow> 0 | Some n \<Rightarrow> n"
  by unfold_locales (auto simp: checkAndIncreaseCallDepth_def Let_def not_less split: if_splits)

subsection \<open>Properties\<close>

text \<open>C12. The contracts-by-code index is exact.  In a store that satisfies the invariant,
  \<^verbatim>\<open>IterateContractsByCode\<close> calls back exactly the addresses of the contracts whose code is the
  given one, each once.\<close>

theorem contracts_by_code_exact:
  assumes "keeper_inv (store s)" and "\<not> saturated (store s)"
  shows "\<exists>addrs. distinct addrs \<and>
    set addrs = {a. \<exists>ci. contractAt (store s) a = Some ci \<and> CodeID ci = i} \<and>
    (\<forall>cb. IterateContractsByCode i cb s = iterCb cb addrs s)"
proof (intro exI conjI allI)
  let ?addrs = "map (drop 16) (map fst (kv_iter (store s) (GetContractByCodeIDSecondaryIndexPrefix i)))"
  show "distinct ?addrs" by (rule index_keys_distinct [OF assms])
  show "set ?addrs = {a. \<exists>ci. contractAt (store s) a = Some ci \<and> CodeID ci = i}"
    using index_keys(2) [OF assms(1)] index_of_code [OF assms]
    by (simp only: set_eq_iff set_map mem_Collect_eq) simp
  show "IterateContractsByCode i cb s = iterCb cb ?addrs s" for cb
    unfolding IterateContractsByCode_def iterCb_indexed [OF index_keys(1) [OF assms(1)], symmetric]
    by (simp add: getsM_def bindM_def)
qed

theorem contracts_by_code_exact_witness:
  "\<exists>addrs. exAddr \<in> set addrs \<and>
    distinct addrs \<and> IterateContractsByCode 1 (\<lambda>_. retM False) exState = iterCb (\<lambda>_. retM False) addrs exState"
  using contracts_by_code_exact [OF exState_inv exState_not_saturated, of 1] exState_contract exInfo_code by fastforce

text \<open>C20. Uploads never overwrite a code.  A successful \<^verbatim>\<open>create\<close> stores the code under the next
  id of the sequence, which no code uses yet, advances the sequence, and leaves every other entry of
  the store as it was.\<close>

theorem create_fresh:
  assumes "create K creator wasmCode access authZ s = (Ok (i, checksum), t)"
    and "codes_below (store s)" and "i \<noteq> - 1"
  shows "i = nextCodeID (store s) \<and> \<not> kv_has (store s) (GetCodeKey i) \<and>
    (\<exists>acc. codeAt (store t) i = Some (NewCodeInfo (accString (kSdk K)) checksum creator acc) \<and>
       (\<forall>a. access = Some a \<longrightarrow> acc = a)) \<and>
    nextCodeID (store t) = i + 1 \<and> codes_below (store t) \<and>
    (\<forall>k. k \<noteq> GetCodeKey i \<longrightarrow> k \<noteq> KeySequenceCodeID \<longrightarrow> kv_get (store t) k = kv_get (store s) k)"
proof -
  obtain acc where next_id: "i = nextCodeID (store s)"
    and st: "store t = kv_set (GetCodeKey i) (SCodeInfo (NewCodeInfo (accString (kSdk K)) checksum creator acc))
      (kv_set KeySequenceCodeID (SBytes (Uint64ToBigEndian (i + 1))) (store s))"
    and acc: "\<forall>a. access = Some a \<longrightarrow> acc = a"
    using create_Ok [OF assms(1)] by blast
  have fresh: "\<not> kv_has (store s) (GetCodeKey i)"
    using assms(2) next_id by (auto simp: codes_below_def)
  moreover have "codeAt (store t) i = Some (NewCodeInfo (accString (kSdk K)) checksum creator acc)"
    by (simp add: st)
  moreover have "nextCodeID (store t) = i + 1"
    by (simp add: st nextCodeID_def byte_enc view_defs)
  moreover from this have "codes_below (store t)"
    using assms(2,3) next_id u64_less_succ [of i]
    by (auto simp: codes_below_def st dest: order.strict_trans)
  moreover have "\<forall>k. k \<noteq> GetCodeKey i \<longrightarrow> k \<noteq> KeySequenceCodeID \<longrightarrow> kv_get (store t) k = kv_get (store s) k"
    by (simp add: st)
  ultimately show ?thesis using next_id acc by blast
qed

lemma exUpload_run:
  "create exKeeper ''alice'' ''code1'' None DefaultAuthorizationPolicy exUpload =
    (Ok (1, ''code''), snd (create exKeeper ''alice'' ''code1'' None DefaultAuthorizationPolicy exUpload))"
  by (simp add: run_eval exUpload_def cong: go_frozen)

theorem create_fresh_witness:
  "codes_below (store (snd (create exKeeper ''alice'' ''code1'' None DefaultAuthorizationPolicy exUpload)))"
proof -
  have "codes_below (store exUpload)"
    by (simp add: codes_below_def exUpload_def exSt_def kv_has_def kv_get_def view_defs)
  then show ?thesis using create_fresh [OF exUpload_run] by simp
qed

text \<open>C6. Only the admin changes a contract.  Under the default policy, setting the admin or the
  label, or migrating, succeeds only if the contract exists and its admin field decodes to the caller;
  a migration also needs the new code to exist and to allow the caller to instantiate it.  Admin and
  label changes write the one field and nothing else of the store.\<close>

theorem only_admin_changes_contract:
  "(setContractAdmin K a caller adm DefaultAuthorizationPolicy s = (Ok u, t) \<longrightarrow>
      adminIs K (store s) a caller \<and>
      store t = kv_set (GetContractAddressKey a)
        (SContractInfo ((the (contractAt (store s) a))\<lparr>Admin := accString (kSdk K) adm\<rparr>)) (store s)) \<and>
   (setContractLabel K a caller l DefaultAuthorizationPolicy s = (Ok u, t) \<longrightarrow>
      adminIs K (store s) a caller \<and>
      store t = kv_set (GetContractAddressKey a)
        (SContractInfo ((the (contractAt (store s) a))\<lparr>Label := l\<rparr>)) (store s)) \<and>
   (migrate K c a caller i m DefaultAuthorizationPolicy s = (Ok d, t) \<longrightarrow>
      adminIs K (store s) a caller \<and>
      (\<exists>info. codeAt (store s) i = Some info \<and>
        Allowed (accString (kSdk K)) (InstantiateConfig info) caller = Ok True))"
proof (intro conjI impI)
  assume "migrate K c a caller i m DefaultAuthorizationPolicy s = (Ok d, t)"
  from migrate_authorized [OF this] show "adminIs K (store s) a caller"
    and "\<exists>info. codeAt (store s) i = Some info \<and>
        Allowed (accString (kSdk K)) (InstantiateConfig info) caller = Ok True"
    by (auto simp: adminIs_def)
qed (auto simp: adminIs_def setContractAdmin_def setContractLabel_def go_Ok_iff mustStoreContractInfo_def
      Let_def dest!: authorizedContract_Ok)

theorem only_admin_changes_contract_witness:
  "fst (setContractLabel exKeeper exAddr
      ''eve'' ''x'' DefaultAuthorizationPolicy exState) \<noteq> Ok () \<and>
   adminIs exKeeper (store exState)
     exAddr ''bob''"
proof
  show "adminIs exKeeper (store exState) exAddr ''bob''"
    by (simp add: adminIs_def exState_contract exInfo_def ex_defs)
  have "\<not> adminIs exKeeper (store exState) exAddr ''eve''"
    by (simp add: adminIs_def exState_contract exInfo_def ex_defs)
  then show "fst (setContractLabel exKeeper exAddr ''eve'' ''x'' DefaultAuthorizationPolicy exState) \<noteq> Ok ()"
    using only_admin_changes_contract [of exKeeper exAddr "''eve''" _ exState "()" _ "''x''"]
    by (metis prod.collapse)
qed

text \<open>C11. Contracts are isolated.  Whatever a contract does when it is called, and whatever the
  outcome, the call changes no entry outside the contract's own prefix, so it changes no code, no
  contract info, no sequence, and no state of another contract with an address of the same length.\<close>

theorem contract_isolation:
  assumes "a' \<noteq> a" and "length a' = length a"
  shows "kv_get (store (snd (callContract K c entry cs a f s))) (GetContractStorePrefix a' @ k) =
      kv_get (store s) (GetContractStorePrefix a' @ k) \<and>
    (hd key \<noteq> CHR 0x03 \<longrightarrow> kv_get (store (snd (callContract K c entry cs a f s))) key = kv_get (store s) key)"
proof (intro conjI impI callContract_frame)
  show "\<not> prefix (GetContractStorePrefix a) (GetContractStorePrefix a' @ k)"
    using assms by (auto simp: GetContractStorePrefix_def ContractStorePrefix_def prefix_def)
  show "\<not> prefix (GetContractStorePrefix a) key" if "hd key \<noteq> CHR 0x03"
    using that by (auto simp: GetContractStorePrefix_def ContractStorePrefix_def prefix_def)
qed

theorem contract_isolation_witness:
  "kv_get (store (snd (callContract exKeeper exCtx (VmSudo ''{}'') ''code'' ''c1'' (5, ''e'') (exSt [])))) (GetContractStorePrefix ''c2'' @ ''k'') = None \<and>
   kv_get (store (snd (callContract exKeeper exCtx (VmSudo ''{}'') ''code'' ''c1'' (5, ''e'') (exSt [])))) (GetContractStorePrefix ''c1'' @ ''k'') =
     Some (SBytes ''v'')"
  using contract_isolation [of "''c2''" "''c1''" exKeeper exCtx "VmSudo ''{}''" "''code''" "(5, ''e'')" "exSt []" "''k''"]
  by (simp add: run_eval cong: go_frozen)

text \<open>C13. Appending to a contract's history extends it at the end.  Unless the 64-bit positions run
  out, \<^verbatim>\<open>appendToContractHistory\<close> succeeds, \<^verbatim>\<open>GetContractHistory\<close> then returns the old
  entries followed by the new ones in order, and the histories of all other contracts are unchanged.\<close>

theorem history_append:
  assumes "kv_wf (store s)" and "typed (store s)" and "unat (histPos (store s) a) + length es < 2 ^ 64"
  shows "\<exists>t old. appendToContractHistory a es s = (Ok (), t) \<and>
    GetContractHistory a s = (Ok old, s) \<and> GetContractHistory a t = (Ok (old @ es), t) \<and>
    (\<forall>b. b \<noteq> a \<longrightarrow> fst (GetContractHistory b t) = fst (GetContractHistory b s))"
proof -
  obtain st' where run: "appendToContractHistory a es s = (Ok (), s\<lparr>store := st'\<rparr>)"
    and st': "kv_wf st'" "typed st'"
      "\<forall>b. histAt st' b = (if b = a then histAt (store s) a @ es else histAt (store s) b)"
    using storeHistory_spec [OF assms(1,2) refl assms(3)]
    by (auto simp: appendToContractHistory_def histPos_def bindM_step getsM_def)
  then show ?thesis
    using GetContractHistory_eq [OF assms(1,2)] GetContractHistory_eq [of "s\<lparr>store := st'\<rparr>"]
    by (intro exI [of _ "s\<lparr>store := st'\<rparr>"] exI [of _ "histAt (store s) a"]) simp
qed

theorem history_append_witness:
  "\<exists>t. appendToContractHistory ''c'' [InitialHistory exInfo ''{}''] (exSt []) = (Ok (), t) \<and>
    GetContractHistory ''c'' t = (Ok [InitialHistory exInfo ''{}''], t)"
proof -
  have "kv_wf (store (exSt []))" "typed (store (exSt []))" "histPos (store (exSt [])) ''c'' = 0"
    and hist: "GetContractHistory ''c'' (exSt []) = (Ok [], exSt [])"
    by (simp_all add: exSt_def typed_def kv_has_def histPos_def kv_riter_def kv_iter_def historyPos_def
        GetContractHistory_def)
  with history_append [of "exSt []" "''c''" "[InitialHistory exInfo ''{}'']"] show ?thesis by fastforce
qed

text \<open>C22. Nesting is bounded.  Starting from a fresh context, \<open>n\<close> nested smart queries pass the check
  of the query stack size exactly when \<open>n\<close> is at most the configured maximum, and the same holds for
  nested contract calls and the call depth, for every limit below the largest 32-bit number.\<close>

theorem nesting_bounded:
  assumes "lim \<noteq> - 1" and "ctxQueryStackSize c = None" and "ctxCallDepth c = None"
  shows "((\<exists>c'. nest n (\<lambda>c. checkAndIncreaseQueryStackSize c lim) c = Ok c') \<longleftrightarrow> n \<le> unat lim) \<and>
    ((\<exists>c'. nest n (\<lambda>c. checkAndIncreaseCallDepth c lim) c = Ok c') \<longleftrightarrow> n \<le> unat lim)"
  using qs.nest_iff [OF assms(1), of c n] cd.nest_iff [OF assms(1), of c n] assms by simp

theorem nesting_bounded_witness:
  "(\<exists>c'. nest 10 (\<lambda>c. checkAndIncreaseQueryStackSize c (kMaxQueryStackSize exKeeper)) exCtx = Ok c') \<and>
   \<not> (\<exists>c'. nest 501 (\<lambda>c. checkAndIncreaseCallDepth c (kMaxCallDepth exKeeper)) exCtx = Ok c')"
  using nesting_bounded [of 10 exCtx 10] nesting_bounded [of 500 exCtx 501] by (simp add: ex_defs)



end
