(* ===== verification/MsgServer.thy ===== *)
theory MsgServer
  imports Msgs KeeperProps
begin

section \<open>The message server and the permissioned keeper\<close>

text \<open>
  src/x/wasm/keeper/msg_server.go: one definition per handler.  A handler validates the message,
  decodes its addresses, chooses the authorization policy and calls the keeper; the response is the
  tuple of its fields.  \<open>serve\<close> is the dispatch of the generated service description over all
  handlers.  The permissioned keeper of src/x/wasm/keeper/contract_keeper.go fixes the policy instead.
\<close>

record ('m, 'x, 'msg) msgServer =
  msKeeper :: "('m, 'x, 'msg) keeper"
  msBasic :: basic_fns

text \<open>Messages are validated with the address decoding of the keeper's SDK.\<close>

definition basicOf :: "('m, 'x, 'msg) msgServer \<Rightarrow> basic_fns" where
  "basicOf m = (msBasic m)\<lparr>bFromBech32 := fromBech32 (kSdk (msKeeper m))\<rparr>"

definition decodeAddr :: "('m, 'x, 'msg) msgServer \<Rightarrow> bytes \<Rightarrow> (('m, 'x) st, AccAddress) go" where
  "decodeAddr m a = wrapM errWrap (liftO (fromBech32 (kSdk (msKeeper m)) a))"

definition decodeOptAddr :: "('m, 'x, 'msg) msgServer \<Rightarrow> bytes \<Rightarrow> (('m, 'x) st, AccAddress) go" where
  "decodeOptAddr m a = (if a \<noteq> '''' then decodeAddr m a else retM [])"

definition selectAuthorizationPolicy ::
  "('m, 'x, 'msg) msgServer \<Rightarrow> ctx \<Rightarrow> bytes \<Rightarrow> AuthorizationPolicy" where
  "selectAuthorizationPolicy m c actor =
    (if actor = kAuthority (msKeeper m) then GovAuthorizationPolicy (kPropagateGov (msKeeper m))
     else case ctxSubMsgAuthzPolicy c of
         Some policy \<Rightarrow> policy
       | None \<Rightarrow> DefaultAuthorizationPolicy)"

definition requireAuthority :: "('m, 'x, 'msg) msgServer \<Rightarrow> bytes \<Rightarrow> (('m, 'x) st, unit) go" where
  "requireAuthority m authority = guardM (kAuthority (msKeeper m) = authority) ErrInvalid"

subsection \<open>Handlers for users\<close>

definition StoreCode ::
  "('m, 'x, 'msg) msgServer \<Rightarrow> ctx \<Rightarrow> MsgStoreCode \<Rightarrow> (('m, 'x) st, u64 \<times> bytes) go" where
  "StoreCode m c msg =
    thenM (liftO (MsgStoreCode_ValidateBasic (basicOf m) msg))
    (bindM (decodeAddr m (scSender msg)) (\<lambda>senderAddr.
    let policy = selectAuthorizationPolicy m c (scSender msg) in
    create (msKeeper m) senderAddr (scWASMByteCode msg) (scInstantiatePermission msg) policy))"

definition InstantiateContract ::
  "('m, 'x, 'msg) msgServer \<Rightarrow> ctx \<Rightarrow> MsgInstantiateContract \<Rightarrow> (('m, 'x) st, bytes \<times> bytes option) go" where
  "InstantiateContract m c msg =
    thenM (liftO (MsgInstantiateContract_ValidateBasic (basicOf m) msg))
    (bindM (decodeAddr m (inSender msg)) (\<lambda>senderAddr.
    bindM (decodeOptAddr m (inAdmin msg)) (\<lambda>adminAddr.
    let policy = selectAuthorizationPolicy m c (inSender msg) in
    bindM (instantiate (msKeeper m) c (inCodeID msg) senderAddr adminAddr (inMsg msg) (inLabel msg)
        (inFunds msg) (ClassicAddressGenerator (msKeeper m)) policy) (\<lambda>(contractAddr, data).
    retM (accString (kSdk (msKeeper m)) contractAddr, data)))))"

definition InstantiateContract2 ::
  "('m, 'x, 'msg) msgServer \<Rightarrow> ctx \<Rightarrow> MsgInstantiateContract2 \<Rightarrow> (('m, 'x) st, bytes \<times> bytes option) go" where
  "InstantiateContract2 m c msg =
    thenM (liftO (MsgInstantiateContract2_ValidateBasic (basicOf m) msg))
    (bindM (decodeAddr m (i2Sender msg)) (\<lambda>senderAddr.
    bindM (decodeOptAddr m (i2Admin msg)) (\<lambda>adminAddr.
    let policy = selectAuthorizationPolicy m c (i2Sender msg);
        addrGenerator = Predictable (msKeeper m) senderAddr (i2Salt msg) (i2Msg msg) (i2FixMsg msg) in
    bindM (instantiate (msKeeper m) c (i2CodeID msg) senderAddr adminAddr (i2Msg msg) (i2Label msg)
        (i2Funds msg) addrGenerator policy) (\<lambda>(contractAddr, data).
    retM (accString (kSdk (msKeeper m)) contractAddr, data)))))"

definition ExecuteContract ::
  "('m, 'x, 'msg) msgServer \<Rightarrow> ctx \<Rightarrow> MsgExecuteContract \<Rightarrow> (('m, 'x) st, bytes option) go" where
  "ExecuteContract m c msg =
    thenM (liftO (MsgExecuteContract_ValidateBasic (basicOf m) msg))
    (bindM (decodeAddr m (exSender msg)) (\<lambda>senderAddr.
    bindM (decodeAddr m (exContract msg)) (\<lambda>contractAddr.
    execute (msKeeper m) c contractAddr senderAddr (exMsgBytes msg) (exFunds msg))))"

definition MigrateContract ::
  "('m, 'x, 'msg) msgServer \<Rightarrow> ctx \<Rightarrow> MsgMigrateContract \<Rightarrow> (('m, 'x) st, bytes option) go" where
  "MigrateContract m c msg =
    thenM (liftO (MsgMigrateContract_ValidateBasic (basicOf m) msg))
    (bindM (decodeAddr m (miSender msg)) (\<lambda>senderAddr.
    bindM (decodeAddr m (miContract msg)) (\<lambda>contractAddr.
    let policy = selectAuthorizationPolicy m c (miSender msg) in
    migrate (msKeeper m) c contractAddr senderAddr (miCodeID msg) (miMsg msg) policy)))"

definition UpdateAdmin ::
  "('m, 'x, 'msg) msgServer \<Rightarrow> ctx \<Rightarrow> MsgUpdateAdmin \<Rightarrow> (('m, 'x) st, unit) go" where
  "UpdateAdmin m c msg =
    thenM (liftO (MsgUpdateAdmin_ValidateBasic (basicOf m) msg))
    (bindM (decodeAddr m (uaSender msg)) (\<lambda>senderAddr.
    bindM (decodeAddr m (uaContract msg)) (\<lambda>contractAddr.
    bindM (decodeAddr m (uaNewAdmin msg)) (\<lambda>newAdminAddr.
    let policy = selectAuthorizationPolicy m c (uaSender msg) in
    setContractAdmin (msKeeper m) contractAddr senderAddr newAdminAddr policy))))"

definition ClearAdmin ::
  "('m, 'x, 'msg) msgServer \<Rightarrow> ctx \<Rightarrow> MsgClearAdmin \<Rightarrow> (('m, 'x) st, unit) go" where
  "ClearAdmin m c msg =
    thenM (liftO (MsgClearAdmin_ValidateBasic (basicOf m) msg))
    (bindM (decodeAddr m (caSender msg)) (\<lambda>senderAddr.
    bindM (decodeAddr m (caContract msg)) (\<lambda>contractAddr.
    let policy = selectAuthorizationPolicy m c (caSender msg) in
    setContractAdmin (msKeeper m) contractAddr senderAddr [] policy)))"

definition UpdateInstantiateConfig ::
  "('m, 'x, 'msg) msgServer \<Rightarrow> ctx \<Rightarrow> MsgUpdateInstantiateConfig \<Rightarrow> (('m, 'x) st, unit) go" where
  "UpdateInstantiateConfig m c msg =
    thenM (liftO (MsgUpdateInstantiateConfig_ValidateBasic (basicOf m) msg))
    (bindM (decodeAddr m (uiSender msg)) (\<lambda>senderAddr.
    let policy = selectAuthorizationPolicy m c (uiSender msg) in
    bindM (derefM (uiNewInstantiatePermission msg)) (\<lambda>permission.
    setAccessConfig (msKeeper m) (uiCodeID msg) senderAddr permission policy)))"

definition UpdateContractLabel ::
  "('m, 'x, 'msg) msgServer \<Rightarrow> ctx \<Rightarrow> MsgUpdateContractLabel \<Rightarrow> (('m, 'x) st, unit) go" where
  "UpdateContractLabel m c msg =
    thenM (liftO (MsgUpdateContractLabel_ValidateBasic (basicOf m) msg))
    (bindM (decodeAddr m (ulSender msg)) (\<lambda>senderAddr.
    bindM (decodeAddr m (ulContract msg)) (\<lambda>contractAddr.
    let policy = selectAuthorizationPolicy m c (ulSender msg) in
    setContractLabel (msKeeper m) contractAddr senderAddr (ulNewLabel msg) policy)))"

subsection \<open>Handlers for the chain authority\<close>

definition UpdateParams ::
  "('m, 'x, 'msg) msgServer \<Rightarrow> MsgUpdateParams \<Rightarrow> (('m, 'x) st, unit) go" where
  "UpdateParams m req =
    thenM (liftO (MsgUpdateParams_ValidateBasic (basicOf m) req))
    (thenM (requireAuthority m (upAuthority req))
    (SetParams (upParams req)))"

definition PinCodes :: "('m, 'x, 'msg) msgServer \<Rightarrow> MsgPinCodes \<Rightarrow> (('m, 'x) st, unit) go" where
  "PinCodes m req =
    thenM (liftO (MsgPinCodes_ValidateBasic (basicOf m) req))
    (thenM (requireAuthority m (pcAuthority req))
    (forM (pcCodeIDs req) (pinCode (msKeeper m))))"

definition UnpinCodes :: "('m, 'x, 'msg) msgServer \<Rightarrow> MsgUnpinCodes \<Rightarrow> (('m, 'x) st, unit) go" where
  "UnpinCodes m req =
    thenM (liftO (MsgUnpinCodes_ValidateBasic (basicOf m) req))
    (thenM (requireAuthority m (ucAuthority req))
    (forM (ucCodeIDs req) (unpinCode (msKeeper m))))"

definition SudoContract ::
  "('m, 'x, 'msg) msgServer \<Rightarrow> ctx \<Rightarrow> MsgSudoContract \<Rightarrow> (('m, 'x) st, bytes option) go" where
  "SudoContract m c req =
    thenM (liftO (MsgSudoContract_ValidateBasic (basicOf m) req))
    (thenM (requireAuthority m (suAuthority req))
    (bindM (decodeAddr m (suContract req)) (\<lambda>contractAddr.
    Sudo (msKeeper m) c contractAddr (suMsg req))))"

definition StoreAndInstantiateContract ::
  "('m, 'x, 'msg) msgServer \<Rightarrow> ctx \<Rightarrow> MsgStoreAndInstantiateContract
    \<Rightarrow> (('m, 'x) st, bytes \<times> bytes option) go" where
  "StoreAndInstantiateContract m c req =
    thenM (liftO (MsgStoreAndInstantiateContract_ValidateBasic (basicOf m) req))
    (bindM (decodeAddr m (siAuthority req)) (\<lambda>authorityAddr.
    bindM (decodeOptAddr m (siAdmin req)) (\<lambda>adminAddr.
    let policy = selectAuthorizationPolicy m c (siAuthority req) in
    bindM (create (msKeeper m) authorityAddr (siWASMByteCode req) (siInstantiatePermission req) policy)
      (\<lambda>(codeID, _).
    bindM (instantiate (msKeeper m) c codeID authorityAddr adminAddr (siMsg req) (siLabel req)
        (siFunds req) (ClassicAddressGenerator (msKeeper m)) policy) (\<lambda>(contractAddr, data).
    retM (accString (kSdk (msKeeper m)) contractAddr, data))))))"

definition StoreAndMigrateContract ::
  "('m, 'x, 'msg) msgServer \<Rightarrow> ctx \<Rightarrow> MsgStoreAndMigrateContract
    \<Rightarrow> (('m, 'x) st, u64 \<times> bytes \<times> bytes option) go" where
  "StoreAndMigrateContract m c req =
    bindM (decodeAddr m (smAuthority req)) (\<lambda>authorityAddr.
    thenM (liftO (MsgStoreAndMigrateContract_ValidateBasic (basicOf m) req))
    (let policy = selectAuthorizationPolicy m c (smAuthority req) in
    bindM (create (msKeeper m) authorityAddr (smWASMByteCode req) (smInstantiatePermission req) policy)
      (\<lambda>(codeID, checksum).
    bindM (decodeAddr m (smContract req)) (\<lambda>contractAddr.
    bindM (migrate (msKeeper m) c contractAddr authorityAddr codeID (smMsg req) policy) (\<lambda>data.
    retM (codeID, checksum, data))))))"

fun contains :: "'a list \<Rightarrow> 'a \<Rightarrow> bool" where
  "contains [] x = False"
| "contains (v # src) x = (if v = x then True else contains src x)"

text \<open>The loops over the addresses of the two handlers for the upload permission.\<close>

fun appendMissing :: "bytes list \<Rightarrow> bytes list \<Rightarrow> bytes list" where
  "appendMissing addresses [] = addresses"
| "appendMissing addresses (newAddr # news) =
    appendMissing (if \<not> contains addresses newAddr then addresses @ [newAddr] else addresses) news"

fun dropListed :: "bytes list \<Rightarrow> bytes list \<Rightarrow> bytes list" where
  "dropListed listed [] = []"
| "dropListed listed (addr # addresses) =
    (if contains listed addr then dropListed listed addresses else addr # dropListed listed addresses)"

definition uploadAddresses :: "Params \<Rightarrow> (bytes list \<Rightarrow> bytes list) \<Rightarrow> (('m, 'x) st, unit) go" where
  "uploadAddresses params f =
    SetParams (params\<lparr>CodeUploadAccess := (CodeUploadAccess params)
      \<lparr>Addresses := f (Addresses (CodeUploadAccess params))\<rparr>\<rparr>)"

definition AddCodeUploadParamsAddresses ::
  "('m, 'x, 'msg) msgServer \<Rightarrow> MsgAddCodeUploadParamsAddresses \<Rightarrow> (('m, 'x) st, unit) go" where
  "AddCodeUploadParamsAddresses m req =
    thenM (liftO (MsgAddCodeUploadParamsAddresses_ValidateBasic (basicOf m) req))
    (thenM (requireAuthority m (acAuthority req))
    (bindM GetParams (\<lambda>params.
    if Permission (CodeUploadAccess params) \<noteq> AccessTypeAnyOfAddresses then failM ErrInvalid
    else uploadAddresses params (\<lambda>addresses. appendMissing addresses (acAddresses req)))))"

definition RemoveCodeUploadParamsAddresses ::
  "('m, 'x, 'msg) msgServer \<Rightarrow> MsgRemoveCodeUploadParamsAddresses \<Rightarrow> (('m, 'x) st, unit) go" where
  "RemoveCodeUploadParamsAddresses m req =
    thenM (liftO (MsgRemoveCodeUploadParamsAddresses_ValidateBasic (basicOf m) req))
    (thenM (requireAuthority m (rcAuthority req))
    (bindM GetParams (\<lambda>params.
    if Permission (CodeUploadAccess params) \<noteq> AccessTypeAnyOfAddresses then failM ErrInvalid
    else uploadAddresses params (dropListed (rcAddresses req)))))"

text \<open>The decoding error of a contract address is ignored: the address is then nil.\<close>

definition SetGaslessContracts ::
  "('m, 'x, 'msg) msgServer \<Rightarrow> MsgSetGaslessContracts \<Rightarrow> (('m, 'x) st, unit) go" where
  "SetGaslessContracts m msg =
    thenM (guardM (kAuthority (msKeeper m) = sgAuthority msg) (Registered ''gov'' 13))
    (thenM (liftO (MsgSetGaslessContracts_ValidateBasic (basicOf m) msg))
    (forM (sgContracts msg) (\<lambda>contract.
      bindM (liftO (case fromBech32 (kSdk (msKeeper m)) contract of Err _ \<Rightarrow> Ok [] | r \<Rightarrow> r)) setGasless)))"

subsection \<open>The service\<close>

datatype wasm_msg =
    WStoreCode MsgStoreCode
  | WInstantiate MsgInstantiateContract
  | WInstantiate2 MsgInstantiateContract2
  | WExecute MsgExecuteContract
  | WMigrate MsgMigrateContract
  | WUpdateAdmin MsgUpdateAdmin
  | WClearAdmin MsgClearAdmin
  | WUpdateInstantiateConfig MsgUpdateInstantiateConfig
  | WUpdateContractLabel MsgUpdateContractLabel
  | WUpdateParams MsgUpdateParams
  | WPinCodes MsgPinCodes
  | WUnpinCodes MsgUnpinCodes
  | WSudo MsgSudoContract
  | WStoreAndInstantiate MsgStoreAndInstantiateContract
  | WStoreAndMigrate MsgStoreAndMigrateContract
  | WAddCodeUpload MsgAddCodeUploadParamsAddresses
  | WRemoveCodeUpload MsgRemoveCodeUploadParamsAddresses
  | WSetGasless MsgSetGaslessContracts

datatype wasm_resp =
    RCode u64 bytes
  | RContract bytes "bytes option"
  | RData "bytes option"
  | RMigrated u64 bytes "bytes option"
  | REmpty

definition mapM :: "('a \<Rightarrow> 'b) \<Rightarrow> ('s, 'a) go \<Rightarrow> ('s, 'b) go" where
  "mapM f m = bindM m (\<lambda>x. retM (f x))"

fun serve :: "('m, 'x, 'msg) msgServer \<Rightarrow> ctx \<Rightarrow> wasm_msg \<Rightarrow> (('m, 'x) st, wasm_resp) go" where
  "serve m c (WStoreCode msg) = mapM (\<lambda>(i, cs). RCode i cs) (StoreCode m c msg)"
| "serve m c (WInstantiate msg) = mapM (\<lambda>(a, d). RContract a d) (InstantiateContract m c msg)"
| "serve m c (WInstantiate2 msg) = mapM (\<lambda>(a, d). RContract a d) (InstantiateContract2 m c msg)"
| "serve m c (WExecute msg) = mapM RData (ExecuteContract m c msg)"
| "serve m c (WMigrate msg) = mapM RData (MigrateContract m c msg)"
| "serve m c (WUpdateAdmin msg) = mapM (\<lambda>_. REmpty) (UpdateAdmin m c msg)"
| "serve m c (WClearAdmin msg) = mapM (\<lambda>_. REmpty) (ClearAdmin m c msg)"
| "serve m c (WUpdateInstantiateConfig msg) = mapM (\<lambda>_. REmpty) (UpdateInstantiateConfig m c msg)"
| "serve m c (WUpdateContractLabel msg) = mapM (\<lambda>_. REmpty) (UpdateContractLabel m c msg)"
| "serve m c (WUpdateParams msg) = mapM (\<lambda>_. REmpty) (UpdateParams m msg)"
| "serve m c (WPinCodes msg) = mapM (\<lambda>_. REmpty) (PinCodes m msg)"
| "serve m c (WUnpinCodes msg) = mapM (\<lambda>_. REmpty) (UnpinCodes m msg)"
| "serve m c (WSudo msg) = mapM RData (SudoContract m c msg)"
| "serve m c (WStoreAndInstantiate msg) =
    mapM (\<lambda>(a, d). RContract a d) (StoreAndInstantiateContract m c msg)"
| "serve m c (WStoreAndMigrate msg) =
    mapM (\<lambda>(i, cs, d). RMigrated i cs d) (StoreAndMigrateContract m c msg)"
| "serve m c (WAddCodeUpload msg) = mapM (\<lambda>_. REmpty) (AddCodeUploadParamsAddresses m msg)"
| "serve m c (WRemoveCodeUpload msg) = mapM (\<lambda>_. REmpty) (RemoveCodeUploadParamsAddresses m msg)"
| "serve m c (WSetGasless msg) = mapM (\<lambda>_. REmpty) (SetGaslessContracts m msg)"

fun wasm_ValidateBasic :: "basic_fns \<Rightarrow> wasm_msg \<Rightarrow> unit outcome" where
  "wasm_ValidateBasic B (WStoreCode msg) = MsgStoreCode_ValidateBasic B msg"
| "wasm_ValidateBasic B (WInstantiate msg) = MsgInstantiateContract_ValidateBasic B msg"
| "wasm_ValidateBasic B (WInstantiate2 msg) = MsgInstantiateContract2_ValidateBasic B msg"
| "wasm_ValidateBasic B (WExecute msg) = MsgExecuteContract_ValidateBasic B msg"
| "wasm_ValidateBasic B (WMigrate msg) = MsgMigrateContract_ValidateBasic B msg"
| "wasm_ValidateBasic B (WUpdateAdmin msg) = MsgUpdateAdmin_ValidateBasic B msg"
| "wasm_ValidateBasic B (WClearAdmin msg) = MsgClearAdmin_ValidateBasic B msg"
| "wasm_ValidateBasic B (WUpdateInstantiateConfig msg) = MsgUpdateInstantiateConfig_ValidateBasic B msg"
| "wasm_ValidateBasic B (WUpdateContractLabel msg) = MsgUpdateContractLabel_ValidateBasic B msg"
| "wasm_ValidateBasic B (WUpdateParams msg) = MsgUpdateParams_ValidateBasic B msg"
| "wasm_ValidateBasic B (WPinCodes msg) = MsgPinCodes_ValidateBasic B msg"
| "wasm_ValidateBasic B (WUnpinCodes msg) = MsgUnpinCodes_ValidateBasic B msg"
| "wasm_ValidateBasic B (WSudo msg) = MsgSudoContract_ValidateBasic B msg"
| "wasm_ValidateBasic B (WStoreAndInstantiate msg) = MsgStoreAndInstantiateContract_ValidateBasic B msg"
| "wasm_ValidateBasic B (WStoreAndMigrate msg) = MsgStoreAndMigrateContract_ValidateBasic B msg"
| "wasm_ValidateBasic B (WAddCodeUpload msg) = MsgAddCodeUploadParamsAddresses_ValidateBasic B msg"
| "wasm_ValidateBasic B (WRemoveCodeUpload msg) = MsgRemoveCodeUploadParamsAddresses_ValidateBasic B msg"
| "wasm_ValidateBasic B (WSetGasless msg) = MsgSetGaslessContracts_ValidateBasic B msg"

text \<open>The field of the message that names its signer (the option \<^verbatim>\<open>cosmos.msg.v1.signer\<close> in
  proto/cosmwasm/wasm/v1/tx.proto).\<close>

fun wasm_signer :: "wasm_msg \<Rightarrow> bytes" where
  "wasm_signer (WStoreCode msg) = scSender msg"
| "wasm_signer (WInstantiate msg) = inSender msg"
| "wasm_signer (WInstantiate2 msg) = i2Sender msg"
| "wasm_signer (WExecute msg) = exSender msg"
| "wasm_signer (WMigrate msg) = miSender msg"
| "wasm_signer (WUpdateAdmin msg) = uaSender msg"
| "wasm_signer (WClearAdmin msg) = caSender msg"
| "wasm_signer (WUpdateInstantiateConfig msg) = uiSender msg"
| "wasm_signer (WUpdateContractLabel msg) = ulSender msg"
| "wasm_signer (WUpdateParams msg) = upAuthority msg"
| "wasm_signer (WPinCodes msg) = pcAuthority msg"
| "wasm_signer (WUnpinCodes msg) = ucAuthority msg"
| "wasm_signer (WSudo msg) = suAuthority msg"
| "wasm_signer (WStoreAndInstantiate msg) = siAuthority msg"
| "wasm_signer (WStoreAndMigrate msg) = smAuthority msg"
| "wasm_signer (WAddCodeUpload msg) = acAuthority msg"
| "wasm_signer (WRemoveCodeUpload msg) = rcAuthority msg"
| "wasm_signer (WSetGasless msg) = sgAuthority msg"

subsection \<open>The permissioned keeper\<close>

record ('m, 'x, 'msg) PermissionedKeeper =
  pkPolicy :: AuthorizationPolicy
  pkNested :: "('m, 'x, 'msg) keeper"

definition NewGovPermissionKeeper :: "('m, 'x, 'msg) keeper \<Rightarrow> ('m, 'x, 'msg) PermissionedKeeper" where
  "NewGovPermissionKeeper nested = \<lparr>pkPolicy = GovAuthorizationPolicy [], pkNested = nested\<rparr>"

definition NewDefaultPermissionKeeper :: "('m, 'x, 'msg) keeper \<Rightarrow> ('m, 'x, 'msg) PermissionedKeeper" where
  "NewDefaultPermissionKeeper nested = \<lparr>pkPolicy = DefaultAuthorizationPolicy, pkNested = nested\<rparr>"

definition pk_Create ::
  "('m, 'x, 'msg) PermissionedKeeper \<Rightarrow> AccAddress \<Rightarrow> bytes \<Rightarrow> AccessConfig option
    \<Rightarrow> (('m, 'x) st, u64 \<times> bytes) go" where
  "pk_Create p creator wasmCode instantiateAccess =
    create (pkNested p) creator wasmCode instantiateAccess (pkPolicy p)"

definition pk_Instantiate ::
  "('m, 'x, 'msg) PermissionedKeeper \<Rightarrow> ctx \<Rightarrow> u64 \<Rightarrow> AccAddress \<Rightarrow> AccAddress \<Rightarrow> bytes \<Rightarrow> bytes \<Rightarrow> Coins
    \<Rightarrow> (('m, 'x) st, AccAddress \<times> bytes option) go" where
  "pk_Instantiate p c codeID creator admin initMsg label deposit =
    instantiate (pkNested p) c codeID creator admin initMsg label deposit
      (ClassicAddressGenerator (pkNested p)) (pkPolicy p)"

definition pk_Instantiate2 ::
  "('m, 'x, 'msg) PermissionedKeeper \<Rightarrow> ctx \<Rightarrow> u64 \<Rightarrow> AccAddress \<Rightarrow> AccAddress \<Rightarrow> bytes \<Rightarrow> bytes \<Rightarrow> Coins
    \<Rightarrow> bytes \<Rightarrow> bool \<Rightarrow> (('m, 'x) st, AccAddress \<times> bytes option) go" where
  "pk_Instantiate2 p c codeID creator admin initMsg label deposit salt fixMsg =
    instantiate (pkNested p) c codeID creator admin initMsg label deposit
      (Predictable (pkNested p) creator salt initMsg fixMsg) (pkPolicy p)"

definition pk_Execute ::
  "('m, 'x, 'msg) PermissionedKeeper \<Rightarrow> ctx \<Rightarrow> AccAddress \<Rightarrow> AccAddress \<Rightarrow> bytes \<Rightarrow> Coins
    \<Rightarrow> (('m, 'x) st, bytes option) go" where
  "pk_Execute p c contractAddress caller msg coins = execute (pkNested p) c contractAddress caller msg coins"

definition pk_Migrate ::
  "('m, 'x, 'msg) PermissionedKeeper \<Rightarrow> ctx \<Rightarrow> AccAddress \<Rightarrow> AccAddress \<Rightarrow> u64 \<Rightarrow> bytes
    \<Rightarrow> (('m, 'x) st, bytes option) go" where
  "pk_Migrate p c contractAddress caller newCodeID msg =
    migrate (pkNested p) c contractAddress caller newCodeID msg (pkPolicy p)"

definition pk_Sudo ::
  "('m, 'x, 'msg) PermissionedKeeper \<Rightarrow> ctx \<Rightarrow> AccAddress \<Rightarrow> bytes \<Rightarrow> (('m, 'x) st, bytes option) go" where
  "pk_Sudo p c contractAddress msg = Sudo (pkNested p) c contractAddress msg"

definition pk_UpdateContractAdmin ::
  "('m, 'x, 'msg) PermissionedKeeper \<Rightarrow> AccAddress \<Rightarrow> AccAddress \<Rightarrow> AccAddress \<Rightarrow> (('m, 'x) st, unit) go" where
  "pk_UpdateContractAdmin p contractAddress caller newAdmin =
    setContractAdmin (pkNested p) contractAddress caller newAdmin (pkPolicy p)"

definition pk_ClearContractAdmin ::
  "('m, 'x, 'msg) PermissionedKeeper \<Rightarrow> AccAddress \<Rightarrow> AccAddress \<Rightarrow> (('m, 'x) st, unit) go" where
  "pk_ClearContractAdmin p contractAddress caller =
    setContractAdmin (pkNested p) contractAddress caller [] (pkPolicy p)"

definition pk_PinCode :: "('m, 'x, 'msg) PermissionedKeeper \<Rightarrow> u64 \<Rightarrow> (('m, 'x) st, unit) go" where
  "pk_PinCode p codeID = pinCode (pkNested p) codeID"

definition pk_UnpinCode :: "('m, 'x, 'msg) PermissionedKeeper \<Rightarrow> u64 \<Rightarrow> (('m, 'x) st, unit) go" where
  "pk_UnpinCode p codeID = unpinCode (pkNested p) codeID"

definition pk_SetGasless :: "('m, 'x, 'msg) PermissionedKeeper \<Rightarrow> AccAddress \<Rightarrow> (('m, 'x) st, unit) go" where
  "pk_SetGasless p contractAddress = setGasless contractAddress"

definition pk_UnsetGasless :: "('m, 'x, 'msg) PermissionedKeeper \<Rightarrow> AccAddress \<Rightarrow> (('m, 'x) st, unit) go" where
  "pk_UnsetGasless p contractAddress = unsetGasless contractAddress"

definition pk_SetContractInfoExtension ::
  "('m, 'x, 'msg) PermissionedKeeper \<Rightarrow> ('e \<Rightarrow> unit outcome) \<Rightarrow> ('e \<Rightarrow> bytes outcome) \<Rightarrow> AccAddress
    \<Rightarrow> 'e option \<Rightarrow> (('m, 'x) st, unit) go" where
  "pk_SetContractInfoExtension p validate pack contract extra =
    setContractInfoExtension (pkNested p) validate pack contract extra"

definition pk_SetAccessConfig ::
  "('m, 'x, 'msg) PermissionedKeeper \<Rightarrow> u64 \<Rightarrow> AccAddress \<Rightarrow> AccessConfig \<Rightarrow> (('m, 'x) st, unit) go" where
  "pk_SetAccessConfig p codeID caller newConfig =
    setAccessConfig (pkNested p) codeID caller newConfig (pkPolicy p)"

subsection \<open>The service keeps the invariant of the store\<close>

lemma keeps_mapM [kept]: "keeps P m \<Longrightarrow> keeps P (mapM f m)"
  by (simp add: mapM_def kept)

lemma keeps_decode [kept]: "keeps P (decodeAddr m a)" "keeps P (decodeOptAddr m a)"
  by (auto simp: decodeAddr_def decodeOptAddr_def intro!: kept)

lemma keeps_requireAuthority [kept]: "keeps P (requireAuthority m a)"
  by (simp add: requireAuthority_def kept)

lemmas handler_defs =
  StoreCode_def InstantiateContract_def InstantiateContract2_def ExecuteContract_def
  MigrateContract_def UpdateAdmin_def ClearAdmin_def UpdateInstantiateConfig_def
  UpdateContractLabel_def UpdateParams_def PinCodes_def UnpinCodes_def SudoContract_def
  StoreAndInstantiateContract_def StoreAndMigrateContract_def AddCodeUploadParamsAddresses_def
  RemoveCodeUploadParamsAddresses_def SetGaslessContracts_def uploadAddresses_def

lemma keeps_derefM [kept]: "keeps P (derefM p)"
  by (rule preserves_keeps) (rule pres_derefM)

lemma keeps_GetParams [kept]: "keeps P GetParams"
  by (rule preserves_keeps) (rule pres_GetParams)

lemma serve_keeps_inv:
  "handler_ok (msKeeper m) \<Longrightarrow> keeps (\<lambda>s. keeper_inv (store s)) (serve m c msg)"
  by (cases msg)
    (auto simp: handler_defs Let_def intro!: kept op_inv gen_frame_classic gen_frame_predictable)

subsection \<open>Properties\<close>

text \<open>The messages that only the chain authority may send.\<close>

fun govOnly :: "wasm_msg \<Rightarrow> bool" where
  "govOnly (WUpdateParams _) = True"
| "govOnly (WPinCodes _) = True"
| "govOnly (WUnpinCodes _) = True"
| "govOnly (WSudo _) = True"
| "govOnly (WAddCodeUpload _) = True"
| "govOnly (WRemoveCodeUpload _) = True"
| "govOnly (WSetGasless _) = True"
| "govOnly _ = False"

text \<open>The messages through which somebody takes control of an existing contract, and that contract.\<close>

fun controls :: "wasm_msg \<Rightarrow> bytes option" where
  "controls (WMigrate msg) = Some (miContract msg)"
| "controls (WUpdateAdmin msg) = Some (uaContract msg)"
| "controls (WClearAdmin msg) = Some (caContract msg)"
| "controls (WUpdateContractLabel msg) = Some (ulContract msg)"
| "controls _ = None"

lemma contains_iff [simp]: "contains xs x \<longleftrightarrow> x \<in> set xs"
  by (induction xs) auto

lemma appendMissing_eq: "distinct news \<Longrightarrow> appendMissing as news = as @ [a \<leftarrow> news. a \<notin> set as]"
proof (induction as news rule: appendMissing.induct)
  case (2 addresses newAddr news)
  have "[a \<leftarrow> news. a \<noteq> newAddr \<and> a \<notin> set addresses] = [a \<leftarrow> news. a \<notin> set addresses]"
    using 2(2) by (auto intro: filter_cong)
  then show ?case using 2 by auto
qed simp

lemma dropListed_eq: "dropListed listed as = [a \<leftarrow> as. a \<notin> set listed]"
  by (induction listed as rule: dropListed.induct) auto

lemma validateBech32Loop_distinct:
  "validateBech32Loop fb index as = Ok u \<Longrightarrow> distinct as \<and> (\<forall>a \<in> set as. ToUpperASCII a \<notin> set index)"
  by (induction fb index as rule: validateBech32Loop.induct) (auto simp: Let_def split: outcome.splits if_splits)

lemma validateBech32Addresses_distinct: "validateBech32Addresses fb as = Ok u \<Longrightarrow> distinct as"
  using validateBech32Loop_distinct [of fb "[]" as] by (auto simp: validateBech32Addresses_def split: if_splits)

lemma GetParams_Ok: "GetParams s = (Ok p, t) \<longleftrightarrow> t = s \<and> kv_get (store s) ParamsKey = Some (SParams p)"
  by (auto simp: GetParams_def go_Ok_iff split: option.splits elim!: asParams.elims)

lemma decodeAddr_Ok [simp]: "decodeAddr m a s = (Ok x, t) \<longleftrightarrow> fromBech32 (kSdk (msKeeper m)) a = Ok x \<and> t = s"
  by (simp add: decodeAddr_def)

lemma mapM_Ok_iff [simp]: "mapM f m s = (Ok y, t) \<longleftrightarrow> (\<exists>x. m s = (Ok x, t) \<and> y = f x)"
  by (auto simp: mapM_def go_Ok_iff)

lemma user_policy:
  "signer \<noteq> kAuthority (msKeeper m) \<Longrightarrow> ctxSubMsgAuthzPolicy c = None \<Longrightarrow>
    selectAuthorizationPolicy m c signer = DefaultAuthorizationPolicy"
  by (simp add: selectAuthorizationPolicy_def)

lemma controls_admin:
  assumes "serve m c msg s = (Ok r, t)" and "controls msg = Some contract"
    and "selectAuthorizationPolicy m c (wasm_signer msg) = DefaultAuthorizationPolicy"
  shows "\<exists>a caller. fromBech32 (kSdk (msKeeper m)) contract = Ok a \<and>
    fromBech32 (kSdk (msKeeper m)) (wasm_signer msg) = Ok caller \<and> adminIs (msKeeper m) (store s) a caller"
  using assms
  by (cases msg)
    (auto simp: handler_defs go_Ok_iff Let_def setContractAdmin_def setContractLabel_def adminIs_def
      dest!: authorizedContract_Ok migrate_authorized)

text \<open>C7. Governance messages.  A message reserved for the chain authority never succeeds for another
  signer, and then leaves the whole state untouched.\<close>

theorem gov_messages_need_authority:
  assumes "govOnly msg" and "wasm_signer msg \<noteq> kAuthority (msKeeper m)"
  shows "snd (serve m c msg s) = s \<and> fst (serve m c msg s) \<noteq> Ok r"
  using assms
  by (cases msg)
    (auto simp: handler_defs mapM_def bindM_step thenM_step liftO_def guardM_def requireAuthority_def
      failM_def retM_def split: outcome.splits)

definition exBasic :: basic_fns where
  "exBasic = \<lparr>bFromBech32 = fromBech32 exSdk, bCoinsValidate = (\<lambda>_. Ok ()), bPrintTable = (\<lambda>_. False),
     bParseRequestURI = (\<lambda>_. Ok ()), bParseDockerRef = (\<lambda>_. Ok ())\<rparr>"

definition exServer :: "(u64 \<times> u64, unit, unit) msgServer" where
  "exServer = \<lparr>msKeeper = exKeeper, msBasic = exBasic\<rparr>"

theorem gov_messages_need_authority_witness:
  "\<forall>r. fst (serve exServer exCtx (WSudo \<lparr>suAuthority = ''eve'', suContract = exAddr, suMsg = ''{}''\<rparr>) exState) \<noteq> Ok r"
  using gov_messages_need_authority [of "WSudo \<lparr>suAuthority = ''eve'', suContract = exAddr, suMsg = ''{}''\<rparr>" exServer
      exCtx exState]
  by (simp add: exServer_def exKeeper_fields)


definition exServed :: "(u64 \<times> u64, unit) st" where
  "exServed = snd (serve exServer exCtx (WClearAdmin \<lparr>caSender = ''bob'', caContract = exAddr\<rparr>) exState)"

lemma exClear:
  "serve exServer exCtx (WClearAdmin \<lparr>caSender = ''bob'', caContract = exAddr\<rparr>) exState = (Ok REmpty, exServed)"
proof -
  have ne: "exAddr \<noteq> []" by (simp add: exAddr_def)
  have "fst (serve exServer exCtx (WClearAdmin \<lparr>caSender = ''bob'', caContract = exAddr\<rparr>) exState) = Ok REmpty"
    by (simp add: exServer_def ClearAdmin_def mapM_def go_step MsgClearAdmin_ValidateBasic_def basicOf_def
        checkAddr_def decodeAddr_def exKeeper_fields exSdk_def ne setContractAdmin_def authorizedContract_def
        GetContractInfo_Some [OF exState_contract] AdminAddr_def exInfo_def selectAuthorizationPolicy_def
        mustStoreContractInfo_def storeSet_def emitEvent_def emitEvents_def exCtx_def Let_def)
  then show ?thesis by (metis exServed_def prod.collapse)
qed


text \<open>C31. Upload permissions.  Adding addresses to the upload permission yields the old list followed by
  the new addresses not yet in it; the rest of the parameters is unchanged.  Removing them again afterwards
  restores the parameters when none of them was listed before.\<close>

theorem upload_addresses_roundtrip:
  assumes add: "AddCodeUploadParamsAddresses m \<lparr>acAuthority = auth, acAddresses = as\<rparr> s = (Ok (), t)"
    and params: "GetParams s = (Ok p, s)"
  shows "GetParams t = (Ok (p\<lparr>CodeUploadAccess := (CodeUploadAccess p)
      \<lparr>Addresses := Addresses (CodeUploadAccess p) @ [a \<leftarrow> as. a \<notin> set (Addresses (CodeUploadAccess p))]\<rparr>\<rparr>), t) \<and>
    (set as \<inter> set (Addresses (CodeUploadAccess p)) = {} \<longrightarrow>
      (\<exists>u. RemoveCodeUploadParamsAddresses m \<lparr>rcAuthority = auth, rcAddresses = as\<rparr> t = (Ok (), u) \<and>
        GetParams u = (Ok p, u)))"
proof -
  let ?p = "p\<lparr>CodeUploadAccess := (CodeUploadAccess p)
      \<lparr>Addresses := Addresses (CodeUploadAccess p) @ [a \<leftarrow> as. a \<notin> set (Addresses (CodeUploadAccess p))]\<rparr>\<rparr>"
  have valid: "validateBech32Addresses (bFromBech32 (basicOf m)) as = Ok ()"
      "\<exists>x. bFromBech32 (basicOf m) auth = Ok x" "kAuthority (msKeeper m) = auth"
      and perm: "Permission (CodeUploadAccess p) = AccessTypeAnyOfAddresses"
      and t: "t = s\<lparr>store := kv_set ParamsKey (SParams ?p) (store s)\<rparr>"
    using add params
    by (auto simp: AddCodeUploadParamsAddresses_def MsgAddCodeUploadParamsAddresses_ValidateBasic_def go_Ok_iff
        requireAuthority_def uploadAddresses_def SetParams_def appendMissing_eq validateBech32Addresses_distinct
        split: if_splits)
  have got: "GetParams t = (Ok ?p, t)" by (simp add: GetParams_Ok t)
  have "\<exists>u. RemoveCodeUploadParamsAddresses m \<lparr>rcAuthority = auth, rcAddresses = as\<rparr> t = (Ok (), u) \<and>
        GetParams u = (Ok p, u)" if fresh: "set as \<inter> set (Addresses (CodeUploadAccess p)) = {}"
  proof -
    have "dropListed as (Addresses (CodeUploadAccess ?p)) = Addresses (CodeUploadAccess p)"
      using fresh by (auto simp: dropListed_eq filter_id_conv filter_empty_conv)
    then have restored: "?p\<lparr>CodeUploadAccess := (CodeUploadAccess ?p)
        \<lparr>Addresses := dropListed as (Addresses (CodeUploadAccess ?p))\<rparr>\<rparr> = p"
      by simp
    show ?thesis
      using got valid perm restored
      by (intro exI [of _ "t\<lparr>store := kv_set ParamsKey (SParams p) (store t)\<rparr>"])
        (simp add: RemoveCodeUploadParamsAddresses_def MsgRemoveCodeUploadParamsAddresses_ValidateBasic_def
          go_Ok_iff requireAuthority_def uploadAddresses_def SetParams_def GetParams_Ok)
  qed
  then show ?thesis using got by blast
qed

definition exListed :: "bytes list \<Rightarrow> (u64 \<times> u64, unit) st" where
  "exListed as = exSt [(ParamsKey, SParams \<lparr>CodeUploadAccess = \<lparr>Permission = AccessTypeAnyOfAddresses,
    Addresses = as\<rparr>, InstantiateDefaultPermission = AccessTypeNobody\<rparr>)]"

theorem upload_addresses_roundtrip_witness:
  "\<exists>t u. AddCodeUploadParamsAddresses exServer \<lparr>acAuthority = ''gov'', acAddresses = [''dave'']\<rparr>
      (exListed [''carol'']) = (Ok (), t) \<and>
    RemoveCodeUploadParamsAddresses exServer \<lparr>rcAuthority = ''gov'', rcAddresses = [''dave'']\<rparr> t = (Ok (), u) \<and>
    kv_get (store u) ParamsKey = kv_get (store (exListed [''carol''])) ParamsKey"
proof -
  have add: "AddCodeUploadParamsAddresses exServer \<lparr>acAuthority = ''gov'', acAddresses = [''dave'']\<rparr>
      (exListed [''carol'']) = (Ok (), exListed [''carol'', ''dave''])"
    by (simp add: AddCodeUploadParamsAddresses_def MsgAddCodeUploadParamsAddresses_ValidateBasic_def go_step
        exServer_def basicOf_def checkAddr_def requireAuthority_def exKeeper_fields exSdk_def exListed_def exSt_def
        GetParams_def storeGet_def storeSet_def SetParams_def uploadAddresses_def kv_get_def ParamsKey_def
        validateBech32Addresses_def MaxAddressCount_def Let_def)
  have got: "GetParams (exListed [''carol'']) = (Ok \<lparr>CodeUploadAccess = \<lparr>Permission = AccessTypeAnyOfAddresses,
      Addresses = [''carol'']\<rparr>, InstantiateDefaultPermission = AccessTypeNobody\<rparr>, exListed [''carol''])"
    by (simp add: GetParams_Ok exListed_def exSt_def kv_get_def)
  show ?thesis
    using upload_addresses_roundtrip [OF add got] add by (auto simp: GetParams_Ok exListed_def exSt_def kv_get_def)
qed

end
