(* ===== verification/CoinTransfer.thy ===== *)
theory CoinTransfer
  imports KeeperSafety KeeperExample
begin

section \<open>Moving and burning coins for contracts\<close>

text \<open>
  The default implementations of the keeper's \<^verbatim>\<open>CoinTransferrer\<close> and \<^verbatim>\<open>AccountPruner\<close>
  interfaces, and the engine's view of the gas meter (end of src/x/wasm/keeper/keeper.go).  The bank
  keeper is a record of calls into another module: each can fail, use gas, emit events and change the
  world.  \<open>bindX\<close> composes such calls; an error keeps the events emitted so far.
\<close>

record ('m, 'x) bank_fns =
  IsSendEnabledCoins :: "Coins \<Rightarrow> ('m, 'x, unit) ext"
  BlockedAddr :: "AccAddress \<Rightarrow> bool"
  SendCoins :: "AccAddress \<Rightarrow> AccAddress \<Rightarrow> Coins \<Rightarrow> ('m, 'x, unit) ext"
  GetBalance :: "AccAddress \<Rightarrow> bytes \<Rightarrow> ('m, 'x, Coin) ext"
  SendCoinsFromAccountToModule :: "AccAddress \<Rightarrow> bytes \<Rightarrow> Coins \<Rightarrow> ('m, 'x, unit) ext"
  BurnCoins :: "bytes \<Rightarrow> Coins \<Rightarrow> ('m, 'x, unit) ext"

definition retX :: "'a \<Rightarrow> ('m, 'x, 'a) ext" where
  "retX a = (\<lambda>(m, x). (Ok a, [], m, x))"

definition failX :: "gerror \<Rightarrow> ('m, 'x, 'a) ext" where
  "failX e = (\<lambda>(m, x). (Err e, [], m, x))"

definition bindX :: "('m, 'x, 'a) ext \<Rightarrow> ('a \<Rightarrow> ('m, 'x, 'b) ext) \<Rightarrow> ('m, 'x, 'b) ext" where
  "bindX f g = (\<lambda>w. case f w of
      (Ok a, es, w') \<Rightarrow> (case g a w' of (r, es', w'') \<Rightarrow> (r, es @ es', w''))
    | (Err e, es, w') \<Rightarrow> (Err e, es, w')
    | (Panic p, es, w') \<Rightarrow> (Panic p, es, w'))"

definition wrapX :: "('m, 'x, 'a) ext \<Rightarrow> ('m, 'x, 'a) ext" where
  "wrapX f = (\<lambda>w. case f w of (Err e, es, w') \<Rightarrow> (Err (errWrap e), es, w') | r \<Rightarrow> r)"

text \<open>Run with a fresh event manager: the events of the inner call are handed over as a value.\<close>

definition withEventManager :: "('m, 'x, 'a) ext \<Rightarrow> ('m, 'x, 'a \<times> Event list) ext" where
  "withEventManager f = (\<lambda>w. case f w of
      (Ok a, es, w') \<Rightarrow> (Ok (a, es), [], w')
    | (Err e, es, w') \<Rightarrow> (Err e, [], w')
    | (Panic p, es, w') \<Rightarrow> (Panic p, [], w'))"

definition withMeterX :: "'m \<Rightarrow> ('m, 'x, 'a) ext \<Rightarrow> ('m, 'x, 'a) ext" where
  "withMeterX m' f = (\<lambda>(m, x). case f (m', x) of (r, es, _, x') \<Rightarrow> (r, es, m, x'))"

definition emitX :: "Event list \<Rightarrow> ('m, 'x, unit) ext" where
  "emitX es = (\<lambda>(m, x). (Ok (), es, m, x))"

definition EventTypeMessage :: bytes where
  "EventTypeMessage = ''message''"

definition TransferCoins ::
  "('m, 'x) bank_fns \<Rightarrow> AccAddress \<Rightarrow> AccAddress \<Rightarrow> Coins \<Rightarrow> ('m, 'x, unit) ext" where
  "TransferCoins B fromAddr toAddr amount =
    bindX (withEventManager (
      bindX (IsSendEnabledCoins B amount) (\<lambda>_.
      if BlockedAddr B toAddr then failX ErrUnauthorized
      else SendCoins B fromAddr toAddr amount))) (\<lambda>(_, em).
    emitX (filter (\<lambda>e. EventType e \<noteq> EventTypeMessage) em))"

fun balancesOf :: "('m, 'x) bank_fns \<Rightarrow> AccAddress \<Rightarrow> Coins \<Rightarrow> ('m, 'x, Coins) ext" where
  "balancesOf B addr [] = retX []"
| "balancesOf B addr (orig # origs) =
    bindX (GetBalance B addr (Denom orig)) (\<lambda>c.
    bindX (balancesOf B addr origs) (\<lambda>cs. retX (c # cs)))"

definition CleanupExistingAccount ::
  "'m meter_fns \<Rightarrow> ('m, 'x) bank_fns \<Rightarrow> Account \<Rightarrow> ('m, 'x, bool) ext" where
  "CleanupExistingAccount M B existingAcc =
    (case accOriginalVesting existingAcc of
       None \<Rightarrow> retX False
     | Some originalVesting \<Rightarrow>
        withMeterX (NewInfiniteGasMeter M)
          (bindX (balancesOf B (accAddr existingAcc) originalVesting) (\<lambda>coinsToBurn.
           bindX (wrapX (SendCoinsFromAccountToModule B (accAddr existingAcc) ''wasm'' coinsToBurn)) (\<lambda>_.
           bindX (wrapX (BurnCoins B ''wasm'' coinsToBurn)) (\<lambda>_.
           retX True)))))"

definition MultipliedGasMeter_GasConsumed :: "('m, 'x, 'msg) keeper \<Rightarrow> 'm \<Rightarrow> u64 outcome" where
  "MultipliedGasMeter_GasConsumed K m = ToWasmVMGas (kGasRegister K) (GasConsumed (kMeter K) m)"

text \<open>A bank over a balance function, for examples: every transfer moves the amounts.\<close>

definition exBank :: "AccAddress list \<Rightarrow> (u64 \<times> u64, AccAddress \<Rightarrow> int) bank_fns" where
  "exBank blocked =
    \<lparr>IsSendEnabledCoins = (\<lambda>_. retX ()), BlockedAddr = (\<lambda>a. a \<in> set blocked),
     SendCoins = (\<lambda>f t cs (m, x). let n = sum_list (map Amount cs) in
       if x f < n then (Err ErrInsufficientFunds, [], m, x)
       else (Ok (), [\<lparr>EventType = ''transfer'', Attributes = []\<rparr>, \<lparr>EventType = ''message'', Attributes = []\<rparr>],
             m, (let y = x(f := x f - n) in y(t := y t + n)))),
     GetBalance = (\<lambda>a d (m, x). (Ok \<lparr>Denom = d, Amount = x a\<rparr>, [], m, x)),
     SendCoinsFromAccountToModule = (\<lambda>a md cs (m, x). let n = sum_list (map Amount cs) in
       if x a < n then (Err ErrInsufficientFunds, [], m, x)
       else (Ok (), [], m, (let y = x(a := x a - n) in y(md := y md + n)))),
     BurnCoins = (\<lambda>md cs (m, x). (Ok (), [], m, x(md := x md - sum_list (map Amount cs))))\<rparr>"

subsection \<open>Facts\<close>

lemma bindX_Ok_iff:
  "bindX f g w = (Ok b, es, w'') \<longleftrightarrow>
    (\<exists>a es1 w' es2. f w = (Ok a, es1, w') \<and> g a w' = (Ok b, es2, w'') \<and> es = es1 @ es2)"
  by (auto simp: bindX_def split: prod.splits outcome.splits)

lemma withEventManager_Ok_iff:
  "withEventManager f w = (Ok r, es, w') \<longleftrightarrow> es = [] \<and> f w = (Ok (fst r), snd r, w')"
  by (cases r) (auto simp: withEventManager_def split: prod.splits outcome.splits)

lemma withEventManager_events: "fst (snd (withEventManager f w)) = []"
  by (auto simp: withEventManager_def split: prod.splits outcome.splits)

lemma emitX_eq [simp]: "emitX es w = (Ok (), es, w)"
  by (simp add: emitX_def split: prod.split)

lemma failX_not_Ok [simp]: "failX e w \<noteq> (Ok b, es, w')"
  by (simp add: failX_def split: prod.split)

lemma TransferCoins_events:
  "e \<in> set (fst (snd (TransferCoins B f t cs w))) \<Longrightarrow> EventType e \<noteq> ''message''"
  unfolding TransferCoins_def bindX_def
  using withEventManager_events [of "bindX (IsSendEnabledCoins B cs) (\<lambda>_. if BlockedAddr B t then failX ErrUnauthorized else SendCoins B f t cs)" w]
  by (auto simp: bindX_def EventTypeMessage_def split: prod.splits outcome.splits)

lemma wrapX_Ok_iff [simp]: "wrapX f w = (Ok a, es, w') \<longleftrightarrow> f w = (Ok a, es, w')"
  by (auto simp: wrapX_def split: prod.splits outcome.splits)

subsection \<open>Properties\<close>

text \<open>C33. Coins only move where the bank allows it.  A successful transfer means that sending was
  enabled for the coins, that the recipient is not blocked, and that the bank executed exactly this
  transfer; and whatever the outcome, no event of type \<^verbatim>\<open>message\<close> reaches the caller.\<close>

theorem TransferCoins_guarded:
  "(TransferCoins B fromAddr toAddr amount w = (Ok u, es, w') \<longrightarrow>
      \<not> BlockedAddr B toAddr \<and>
      (\<exists>es1 w1 es2. IsSendEnabledCoins B amount w = (Ok (), es1, w1) \<and>
        SendCoins B fromAddr toAddr amount w1 = (Ok (), es2, w') \<and>
        es = filter (\<lambda>e. EventType e \<noteq> ''message'') (es1 @ es2))) \<and>
   (\<forall>e \<in> set (fst (snd (TransferCoins B fromAddr toAddr amount w))). EventType e \<noteq> ''message'')"
  by (fastforce simp: TransferCoins_def bindX_Ok_iff withEventManager_Ok_iff EventTypeMessage_def
      dest: TransferCoins_events split: if_splits)

theorem TransferCoins_guarded_witness:
  "\<exists>w'. TransferCoins (exBank [''mod'']) ''a'' ''b'' [\<lparr>Denom = ''orai'', Amount = 3\<rparr>] ((9, 0), (\<lambda>_. 5)) =
      (Ok (), [\<lparr>EventType = ''transfer'', Attributes = []\<rparr>], w') \<and> snd w' ''b'' = 8 \<and>
    fst (TransferCoins (exBank [''b'']) ''a'' ''b'' [\<lparr>Denom = ''orai'', Amount = 3\<rparr>] ((9, 0), (\<lambda>_. 5))) \<noteq> Ok ()"
  using TransferCoins_guarded [of "exBank [''b'']" "''a''" "''b''" "[\<lparr>Denom = ''orai'', Amount = 3\<rparr>]" "((9, 0), (\<lambda>_. 5))"]
  by (auto simp: TransferCoins_def bindX_def withEventManager_def retX_def failX_def emitX_def exBank_def
      EventTypeMessage_def split: prod.splits)

text \<open>C34. Pruning an account burns the original vesting balances or nothing is reported as handled.
  A non-vesting account is left alone.  For a vesting account, success means that the balances of the
  originally vesting denominations were moved to the module account and burned there, and in every
  case the caller's gas meter is unchanged.\<close>

theorem CleanupExistingAccount_burns:
  "(accOriginalVesting acc = None \<longrightarrow> CleanupExistingAccount M B acc (m, x) = (Ok False, [], m, x)) \<and>
   (CleanupExistingAccount M B acc (m, x) = (Ok True, es, m', x') \<longrightarrow>
      (\<exists>orig coins es1 w1 es2 w2 es3 m3. accOriginalVesting acc = Some orig \<and>
        balancesOf B (accAddr acc) orig (NewInfiniteGasMeter M, x) = (Ok coins, es1, w1) \<and>
        SendCoinsFromAccountToModule B (accAddr acc) ''wasm'' coins w1 = (Ok (), es2, w2) \<and>
        BurnCoins B ''wasm'' coins w2 = (Ok (), es3, m3, x'))) \<and>
   fst (snd (snd (CleanupExistingAccount M B acc (m, x)))) = m"
proof (intro conjI impI)
  show "fst (snd (snd (CleanupExistingAccount M B acc (m, x)))) = m"
    by (auto simp: CleanupExistingAccount_def retX_def withMeterX_def split: option.splits prod.splits)
  assume "CleanupExistingAccount M B acc (m, x) = (Ok True, es, m', x')"
  then show "\<exists>orig coins es1 w1 es2 w2 es3 m3. accOriginalVesting acc = Some orig \<and>
      balancesOf B (accAddr acc) orig (NewInfiniteGasMeter M, x) = (Ok coins, es1, w1) \<and>
      SendCoinsFromAccountToModule B (accAddr acc) ''wasm'' coins w1 = (Ok (), es2, w2) \<and>
      BurnCoins B ''wasm'' coins w2 = (Ok (), es3, m3, x')"
    by (cases "accOriginalVesting acc")
       (fastforce simp: CleanupExistingAccount_def withMeterX_def bindX_Ok_iff wrapX_Ok_iff retX_def
        split: prod.splits)+
qed (simp add: CleanupExistingAccount_def retX_def)

theorem CleanupExistingAccount_burns_witness:
  "\<exists>x'. CleanupExistingAccount exMeter (exBank [])
      \<lparr>accAddr = ''c'', accSequence = 0, accPubKey = None, accType = ''vesting'',
       accOriginalVesting = Some [\<lparr>Denom = ''orai'', Amount = 9\<rparr>]\<rparr> ((1, 0), (\<lambda>_. 5)) = (Ok True, [], (1, 0), x') \<and>
    x' ''c'' = 0 \<and> x' ''wasm'' = 5"
  using CleanupExistingAccount_burns [of "\<lparr>accAddr = ''c'', accSequence = 0, accPubKey = None, accType = ''vesting'',
       accOriginalVesting = Some [\<lparr>Denom = ''orai'', Amount = 9\<rparr>]\<rparr>" exMeter "exBank []" "(1, 0)" "\<lambda>_. 5"]
  by (simp add: CleanupExistingAccount_def withMeterX_def bindX_def wrapX_def retX_def exBank_def Let_def)

end
