(* ===== verification/Dispatcher.thy ===== *)
theory Dispatcher
  imports CoinTransfer
begin

section \<open>Dispatching the messages of a contract\<close>

text \<open>
  src/x/wasm/keeper/msg_dispatcher.go, the response handler at the end of keeper.go and the
  combinators of handler_plugin.go.  A messenger takes a context, the sending contract, its IBC port
  and a message, and returns events, data and message responses.

  A submessage runs in a cache context: \<open>cacheM\<close> runs the body with a fresh event manager; on success
  the writes stay and the collected events are handed over, on an error or a panic the store and the
  world are as before.  Gas stays consumed, and the set of contracts loaded in the transaction, a Go
  map shared by reference, keeps its additions.

  When the message is a wasm message the attributes of its events are sorted in place after the events
  went to the parent's event manager; the slices are shared, so the parent's copies are sorted too.
  The text of a wasmvm system error belongs to wasmvm (\<open>dSysErrText\<close>), and so does the question whether
  a message is a wasm message (\<open>dIsWasm\<close>).
\<close>

type_synonym dispatched = "Event list \<times> bytes option list \<times> (bytes \<times> bytes) list list"

type_synonym ('m, 'x, 'msg) messenger =
  "ctx \<Rightarrow> AccAddress \<Rightarrow> bytes \<Rightarrow> 'msg \<Rightarrow> (('m, 'x) st, dispatched) go"

record ('m, 'x, 'msg) dispatcher =
  dMessenger :: "('m, 'x, 'msg) messenger"
  dReply :: "ctx \<Rightarrow> AccAddress \<Rightarrow> Reply \<Rightarrow> (('m, 'x) st, bytes option) go"
  dMeter :: "'m meter_fns"
  dIsWasm :: "'msg \<Rightarrow> bool"
  dSysErrText :: "vmerror \<Rightarrow> bytes"

definition cacheM :: "(('m, 'x) st, 'a) go \<Rightarrow> (('m, 'x) st, 'a \<times> Event list) go" where
  "cacheM body = (\<lambda>s. case body (s\<lparr>events := []\<rparr>) of
      (Ok a, t) \<Rightarrow> (Ok (a, events t), t\<lparr>events := events s\<rparr>)
    | (Err e, t) \<Rightarrow> (Err e, t\<lparr>store := store s, world := world s, events := events s\<rparr>)
    | (Panic p, t) \<Rightarrow> (Panic p, t\<lparr>store := store s, world := world s, events := events s\<rparr>))"

subsection \<open>Events and errors\<close>

definition filterEvents :: "Event list \<Rightarrow> Event list" where
  "filterEvents es = filter (\<lambda>ev. EventType ev \<noteq> ''message'') es"

definition sortAttributes :: "Event \<Rightarrow> Event" where
  "sortAttributes e = e\<lparr>Attributes := sort_key AttrKey (Attributes e)\<rparr>"

text \<open>\<^verbatim>\<open>errorsmod.ABCIInfo\<close> of an error.\<close>

fun abciInfo :: "gerror \<Rightarrow> bytes \<times> nat" where
  "abciInfo (Registered cs c) = (cs, c)"
| "abciInfo (WasmVMFlavouredError cs c _) = (cs, c)"
| "abciInfo (DeterministicError cs c _) = (cs, c)"
| "abciInfo (SystemError _) = (''undefined'', 1)"
| "abciInfo (PlainErr _) = (''undefined'', 1)"

definition redactError :: "(vmerror \<Rightarrow> bytes) \<Rightarrow> gerror \<Rightarrow> bytes" where
  "redactError sysErrText err = (case err of
     SystemError v \<Rightarrow> sysErrText v
   | DeterministicError _ _ txt \<Rightarrow> txt
   | _ \<Rightarrow> (case abciInfo err of (codespace, code) \<Rightarrow>
       ''codespace: '' @ codespace @ '', code: '' @ formatNat code))"

subsection \<open>Dispatching\<close>

fun DispatchMessages ::
  "('m, 'x, 'msg) messenger \<Rightarrow> ctx \<Rightarrow> AccAddress \<Rightarrow> bytes \<Rightarrow> 'msg list \<Rightarrow> (('m, 'x) st, unit) go" where
  "DispatchMessages messenger c contractAddr ibcPort [] = retM ()"
| "DispatchMessages messenger c contractAddr ibcPort (msg # msgs) =
    bindM (messenger c contractAddr ibcPort msg) (\<lambda>(evs, _, _).
    thenM (emitEvents evs) (DispatchMessages messenger c contractAddr ibcPort msgs))"

text \<open>The deferred function of \<^verbatim>\<open>dispatchMsgWithGasLimit\<close>: an out-of-gas panic becomes an error
  after the whole limit was charged; other panics go on.\<close>

definition recoverOutOfGas :: "'m meter_fns \<Rightarrow> u64 \<Rightarrow> gpanic \<Rightarrow> (('m, 'x) st, 'a) go" where
  "recoverOutOfGas M gasLimit p = (case p of
     OutOfGasPanic _ \<Rightarrow> thenM (consumeGas M gasLimit) (failM ErrOutOfGas)
   | OtherPanic _ \<Rightarrow> panicM p)"

definition dispatchMsgWithGasLimit ::
  "('m, 'x, 'msg) dispatcher \<Rightarrow> ctx \<Rightarrow> AccAddress \<Rightarrow> bytes \<Rightarrow> 'msg \<Rightarrow> u64 \<Rightarrow> (('m, 'x) st, dispatched) go" where
  "dispatchMsgWithGasLimit d c contractAddr ibcPort msg gasLimit = (\<lambda>s.
    case dMessenger d c contractAddr ibcPort msg (s\<lparr>meter := NewGasMeter (dMeter d) gasLimit\<rparr>) of
      (Panic p, t) \<Rightarrow> recoverOutOfGas (dMeter d) gasLimit p (t\<lparr>meter := meter s\<rparr>)
    | (r, t) \<Rightarrow>
       (case consumeGas (dMeter d) (GasConsumed (dMeter d) (meter t)) (t\<lparr>meter := meter s\<rparr>) of
          (Panic p, u) \<Rightarrow> recoverOutOfGas (dMeter d) gasLimit p u
        | (_, u) \<Rightarrow> (r, u)))"

definition limitedBy :: "('m, 'x, 'msg) dispatcher \<Rightarrow> 'm \<Rightarrow> 'msg SubMsg \<Rightarrow> u64 option" where
  "limitedBy d m msg =
    (let gasRemaining = MeterLimit (dMeter d) m - GasConsumed (dMeter d) m in
     case SubGasLimit msg of
       Some l \<Rightarrow> if l < gasRemaining then Some l else None
     | None \<Rightarrow> None)"

text \<open>The sandboxed run of one submessage.\<close>

definition runSubMsg ::
  "('m, 'x, 'msg) dispatcher \<Rightarrow> ctx \<Rightarrow> AccAddress \<Rightarrow> bytes \<Rightarrow> 'msg SubMsg
    \<Rightarrow> (('m, 'x) st, dispatched \<times> Event list) go" where
  "runSubMsg d c contractAddr ibcPort msg = (\<lambda>s. cacheM
    (case limitedBy d (meter s) msg of
       Some gasLimit \<Rightarrow> dispatchMsgWithGasLimit d c contractAddr ibcPort (SubMsgMsg msg) gasLimit
     | None \<Rightarrow> dMessenger d c contractAddr ibcPort (SubMsgMsg msg)) s)"

definition replyTo ::
  "('m, 'x, 'msg) dispatcher \<Rightarrow> ctx \<Rightarrow> AccAddress \<Rightarrow> 'msg SubMsg \<Rightarrow> SubMsgResult
    \<Rightarrow> (('m, 'x) st, bytes option) go" where
  "replyTo d c contractAddr msg result =
    wrapM errWrap (dReply d c contractAddr
      \<lparr>ReplyID = SubID msg, ReplyResult = result, ReplyPayload = SubPayload msg, ReplyGasUsed = 0\<rparr>)"

definition okResult :: "Event list \<Rightarrow> dispatched \<Rightarrow> SubMsgResult" where
  "okResult evs r = (case r of (_, data, msgResponses) \<Rightarrow>
    \<lparr>ResOk = Some \<lparr>RespEvents = evs,
       RespData = (case data of [] \<Rightarrow> None | d0 # _ \<Rightarrow> d0),
       RespMsgResponses = concat msgResponses\<rparr>, ResErr = ''''\<rparr>)"

definition errResult :: "bytes \<Rightarrow> SubMsgResult" where
  "errResult txt = \<lparr>ResOk = None, ResErr = txt\<rparr>"


definition dispatchSubmessage ::
  "('m, 'x, 'msg) dispatcher \<Rightarrow> ctx \<Rightarrow> AccAddress \<Rightarrow> bytes \<Rightarrow> 'msg SubMsg
    \<Rightarrow> (('m, 'x) st, bytes option) go" where
  "dispatchSubmessage d c contractAddr ibcPort msg =
    (case SubReplyOn msg of
       ReplyOther _ \<Rightarrow> failM ErrInvalid
     | replyOn \<Rightarrow>
        bindM (tryM (runSubMsg d c contractAddr ibcPort msg)) (\<lambda>r. case r of
          Inl err \<Rightarrow>
            if replyOn = ReplySuccess \<or> replyOn = ReplyNever then failM err
            else replyTo d c contractAddr msg (errResult (redactError (dSysErrText d) err))
        | Inr ((evs, data, msgResponses), em) \<Rightarrow>
            (let filtered = filterEvents (em @ evs);
                 shown = (if dIsWasm d (SubMsgMsg msg) then map sortAttributes filtered else filtered);
                 passed = (if dIsWasm d (SubMsgMsg msg) then shown else []) in
             thenM (emitEvents shown)
             (if replyOn = ReplyNever \<or> replyOn = ReplyError then retM None
              else replyTo d c contractAddr msg (okResult passed (evs, data, msgResponses))))))"

fun dispatchLoop ::
  "('m, 'x, 'msg) dispatcher \<Rightarrow> ctx \<Rightarrow> AccAddress \<Rightarrow> bytes \<Rightarrow> bytes option \<Rightarrow> 'msg SubMsg list
    \<Rightarrow> (('m, 'x) st, bytes option) go" where
  "dispatchLoop d c contractAddr ibcPort rsp [] = retM rsp"
| "dispatchLoop d c contractAddr ibcPort rsp (msg # msgs) =
    bindM (dispatchSubmessage d c contractAddr ibcPort msg) (\<lambda>rspData.
    dispatchLoop d c contractAddr ibcPort (case rspData of None \<Rightarrow> rsp | Some _ \<Rightarrow> rspData) msgs)"

definition DispatchSubmessages ::
  "('m, 'x, 'msg) dispatcher \<Rightarrow> ctx \<Rightarrow> AccAddress \<Rightarrow> bytes \<Rightarrow> 'msg SubMsg list
    \<Rightarrow> (('m, 'x) st, bytes option) go" where
  "DispatchSubmessages d c contractAddr ibcPort msgs = dispatchLoop d c contractAddr ibcPort None msgs"

definition Handle ::
  "('m, 'x, 'msg) dispatcher \<Rightarrow> ctx \<Rightarrow> AccAddress \<Rightarrow> bytes \<Rightarrow> 'msg SubMsg list \<Rightarrow> bytes option
    \<Rightarrow> (('m, 'x) st, bytes option) go" where
  "Handle d c contractAddr ibcPort messages origRspData =
    bindM (DispatchSubmessages d c contractAddr ibcPort messages) (\<lambda>rsp.
    retM (case rsp of None \<Rightarrow> origRspData | Some _ \<Rightarrow> rsp))"

subsection \<open>Message handlers\<close>

text \<open>A handler that does not know a message fails with \<^verbatim>\<open>ErrUnknownMsg\<close>; the state it has
  changed by then stays changed.\<close>

fun MessageHandlerChain :: "('m, 'x, 'msg) messenger list \<Rightarrow> ('m, 'x, 'msg) messenger" where
  "MessageHandlerChain [] c contractAddr port msg = failM ErrUnknownMsg"
| "MessageHandlerChain (h # hs) c contractAddr port msg =
    bindM (tryM (h c contractAddr port msg)) (\<lambda>r. case r of
      Inr x \<Rightarrow> retM x
    | Inl e \<Rightarrow> if abciInfo e = (''wasm'', 20) then MessageHandlerChain hs c contractAddr port msg else failM e)"

definition callDepthMessageHandler :: "u32 \<Rightarrow> ('m, 'x, 'msg) messenger \<Rightarrow> ('m, 'x, 'msg) messenger" where
  "callDepthMessageHandler maxCallDepth messenger c contractAddr port msg =
    bindM (liftO (checkAndIncreaseCallDepth c maxCallDepth)) (\<lambda>c'. messenger c' contractAddr port msg)"

subsection \<open>Reference definitions\<close>

text \<open>When a contract asks for a reply; what the parent's event manager gets of a successful
  submessage and what the contract is told; all replies in order.\<close>

definition wantsReply :: "ReplyOn \<Rightarrow> bool \<Rightarrow> bool" where
  "wantsReply on failed = (on = ReplyAlways \<or> on = (if failed then ReplyError else ReplySuccess))"

definition shownEvents :: "bool \<Rightarrow> Event list \<Rightarrow> Event list" where
  "shownEvents isWasm es =
    (let plain = [e \<leftarrow> es. EventType e \<noteq> ''message''] in if isWasm then map sortAttributes plain else plain)"

fun seqM :: "('a \<Rightarrow> ('s, 'b) go) \<Rightarrow> 'a list \<Rightarrow> ('s, 'b list) go" where
  "seqM f [] = retM []"
| "seqM f (x # xs) = bindM (f x) (\<lambda>y. bindM (seqM f xs) (\<lambda>ys. retM (y # ys)))"

fun lastSome :: "'a option \<Rightarrow> 'a option list \<Rightarrow> 'a option" where
  "lastSome d [] = d"
| "lastSome d (x # xs) = lastSome (case x of None \<Rightarrow> d | Some _ \<Rightarrow> x) xs"

text \<open>What the SDK's gas meters promise while the 64-bit counter does not overflow.\<close>

definition meter_law :: "'m meter_fns \<Rightarrow> bool" where
  "meter_law M =
    ((\<forall>g m. unat (GasConsumed M m) + unat g < 2 ^ 64 \<longrightarrow>
        GasConsumed M (snd (ConsumeGas M g m)) = GasConsumed M m + g \<and>
        MeterLimit M (snd (ConsumeGas M g m)) = MeterLimit M m \<and>
        (fst (ConsumeGas M g m) = None \<longleftrightarrow> GasConsumed M m + g \<le> MeterLimit M m) \<and>
        (\<forall>p. fst (ConsumeGas M g m) = Some p \<longrightarrow> (\<exists>t. p = OutOfGasPanic t))) \<and>
     (\<forall>l. GasConsumed M (NewGasMeter M l) = 0 \<and> MeterLimit M (NewGasMeter M l) = l))"

text \<open>An example dispatcher: each message writes one key and then succeeds or fails as it says; replies
  answer with data.\<close>

datatype exMsg = ExOk | ExFail | ExOutOfGas

definition exMessenger :: "(u64 \<times> u64, unit, exMsg) messenger" where
  "exMessenger c a p m =
    thenM (storeSet ''key'' (SBytes ''new'')) (case m of
      ExOk \<Rightarrow> retM ([newEvent ''transfer'' []], [Some ''data''], [])
    | ExFail \<Rightarrow> failM ErrInsufficientFunds
    | ExOutOfGas \<Rightarrow> panicM (OutOfGasPanic ''loop''))"

definition exDispatcher :: "(u64 \<times> u64, unit, exMsg) dispatcher" where
  "exDispatcher = \<lparr>dMessenger = exMessenger, dReply = (\<lambda>_ _ r. retM (Some (if ResOk (ReplyResult r) = None then ''failed'' else ''ok''))),
     dMeter = exMeter, dIsWasm = (\<lambda>_. False), dSysErrText = (\<lambda>_. ''system'')\<rparr>"

definition exSubMsg :: "ReplyOn \<Rightarrow> exMsg \<Rightarrow> exMsg SubMsg" where
  "exSubMsg on m = \<lparr>SubID = 1, SubMsgMsg = m, SubGasLimit = Some 50, SubReplyOn = on, SubPayload = []\<rparr>"

lemma exDispatcher_fields:
  "dMessenger exDispatcher = exMessenger" "dMeter exDispatcher = exMeter"
  "GasConsumed exMeter = snd" "MeterLimit exMeter = fst" "meter (exSt kv) = (10000000, 0)"
  "limitedBy exDispatcher (10000000, 0) (exSubMsg on m) = Some 50"
  by (simp_all add: exDispatcher_def exMeter_def exSt_def limitedBy_def exSubMsg_def)

subsection \<open>The sandbox\<close>

lemma cacheM_Err: "cacheM m s = (Err e, t) \<Longrightarrow> store t = store s \<and> world t = world s \<and> events t = events s"
  by (auto simp: cacheM_def split: prod.splits outcome.splits)

lemma cacheM_Panic: "cacheM m s = (Panic p, t) \<Longrightarrow> store t = store s \<and> world t = world s \<and> events t = events s"
  by (auto simp: cacheM_def split: prod.splits outcome.splits)

lemma keeps_try_cacheM:
  assumes "keeps (\<lambda>s. G (store s)) m"
  shows "keeps (\<lambda>s. G (store s)) (tryM (cacheM m))"
proof (rule keepsI)
  fix s r t
  assume G: "G (store s)" and run: "tryM (cacheM m) s = (Ok r, t)"
  show "G (store t)"
  proof (cases r)
    case (Inl e)
    then show ?thesis using run G cacheM_Err [of m s e t] by (auto simp: tryM_Ok_iff)
  next
    case (Inr x)
    then have "cacheM m s = (Ok x, t)" using run by (simp add: tryM_Ok_iff)
    then obtain a u where "m (s\<lparr>events := []\<rparr>) = (Ok a, u)" and "t = u\<lparr>events := events s\<rparr>"
      by (auto simp: cacheM_def split: prod.splits outcome.splits)
    then show ?thesis using keepsD [OF assms, of "s\<lparr>events := []\<rparr>" a u] G by simp
  qed
qed

lemma keeps_limited:
  assumes "keeps (\<lambda>s. G (store s)) (dMessenger d c a p msg)"
  shows "keeps (\<lambda>s. G (store s)) (dispatchMsgWithGasLimit d c a p msg l)"
proof (rule keepsI)
  fix s r t
  assume G: "G (store s)" and run: "dispatchMsgWithGasLimit d c a p msg l s = (Ok r, t)"
  obtain r' u where sub: "dMessenger d c a p msg (s\<lparr>meter := NewGasMeter (dMeter d) l\<rparr>) = (r', u)" by fastforce
  have no: "recoverOutOfGas M l q v \<noteq> (Ok r, t)" for M q and v :: "('a, 'b) st"
    by (cases q) (auto simp: recoverOutOfGas_def go_Ok_iff)
  have r': "r' = Ok r" and st: "store t = store u"
    using run sub no
    by (auto simp: dispatchMsgWithGasLimit_def consumeGas_def split: outcome.splits prod.splits option.splits)
  have "G (store u)" using keepsD [OF assms sub [unfolded r']] G by simp
  then show "G (store t)" by (simp add: st)
qed

lemma keeps_dispatchSubmessage:
  assumes "\<And>c a p msg. keeps (\<lambda>s. G (store s)) (dMessenger d c a p msg)"
    and "\<And>c a r. keeps (\<lambda>s. G (store s)) (dReply d c a r)"
  shows "keeps (\<lambda>s. G (store s)) (dispatchSubmessage d c a p msg)"
proof -
  have run: "keeps (\<lambda>s. G (store s)) (tryM (runSubMsg d c a p msg))"
  proof (rule keepsI)
    fix s r t
    assume "G (store s)" and "tryM (runSubMsg d c a p msg) s = (Ok r, t)"
    moreover have "keeps (\<lambda>s. G (store s)) (tryM (cacheM (case limitedBy d (meter s) msg of
         Some l \<Rightarrow> dispatchMsgWithGasLimit d c a p (SubMsgMsg msg) l | None \<Rightarrow> dMessenger d c a p (SubMsgMsg msg))))"
      by (intro keeps_try_cacheM) (auto split: option.split intro: keeps_limited assms)
    ultimately show "G (store t)" by (auto simp: runSubMsg_def tryM_def dest: keepsD)
  qed
  show ?thesis
    unfolding dispatchSubmessage_def Let_def replyTo_def
    by (auto split: ReplyOn.split sum.split intro!: kept run assms preserves_keeps [OF preserves_emitEvents])
qed

lemma keeps_Handle:
  assumes "\<And>c a p msg. keeps (\<lambda>s. G (store s)) (dMessenger d c a p msg)"
    and "\<And>c a r. keeps (\<lambda>s. G (store s)) (dReply d c a r)"
  shows "keeps (\<lambda>s. G (store s)) (Handle d c a p msgs data)"
proof -
  have "keeps (\<lambda>s. G (store s)) (dispatchLoop d c a p rsp msgs)" for rsp
    by (induction msgs arbitrary: rsp) (auto intro!: kept keeps_dispatchSubmessage assms)
  then show ?thesis unfolding Handle_def DispatchSubmessages_def by (intro kept)
qed

subsection \<open>Replies\<close>

lemma dispatchSubmessage_Err:
  assumes "\<forall>x. SubReplyOn msg \<noteq> ReplyOther x" and "runSubMsg d c a p msg s = (Err e, t)"
  shows "dispatchSubmessage d c a p msg s =
    (if wantsReply (SubReplyOn msg) True
     then replyTo d c a msg (errResult (redactError (dSysErrText d) e)) t else (Err e, t))"
proof -
  have "tryM (runSubMsg d c a p msg) s = (Ok (Inl e), t)" using assms(2) by (simp add: tryM_def)
  then show ?thesis using assms(1)
    by (cases "SubReplyOn msg") (simp_all add: dispatchSubmessage_def wantsReply_def failM_def)
qed

lemma dispatchSubmessage_Ok:
  assumes "\<forall>x. SubReplyOn msg \<noteq> ReplyOther x" and "runSubMsg d c a p msg s = (Ok ((evs, data, rs), em), t)"
  shows "dispatchSubmessage d c a p msg s =
    (let shown = shownEvents (dIsWasm d (SubMsgMsg msg)) (em @ evs);
         u = t\<lparr>events := events t @ shown\<rparr> in
     if wantsReply (SubReplyOn msg) False
     then replyTo d c a msg (okResult (if dIsWasm d (SubMsgMsg msg) then shown else []) (evs, data, rs)) u
     else (Ok None, u))"
proof -
  have "tryM (runSubMsg d c a p msg) s = (Ok (Inr ((evs, data, rs), em)), t)"
    using assms(2) by (simp add: tryM_def)
  then show ?thesis using assms(1)
    by (cases "SubReplyOn msg")
       (simp_all add: dispatchSubmessage_def wantsReply_def shownEvents_def filterEvents_def Let_def thenM_step
         emitEvents_def modifyM_def retM_def)
qed

lemma dispatchLoop_seqM:
  "dispatchLoop d c a p rsp msgs s =
    bindM (seqM (dispatchSubmessage d c a p) msgs) (\<lambda>rs. retM (lastSome rsp rs)) s"
  by (induction msgs arbitrary: rsp s) (auto simp: bindM_assoc bindM_step split: prod.splits outcome.splits)

lemma lastSome_default: "lastSome d rs = (case lastSome None rs of None \<Rightarrow> d | Some x \<Rightarrow> Some x)"
proof (induction rs arbitrary: d)
  case (Cons r rs)
  show ?case using Cons.IH [of "case r of None \<Rightarrow> d | Some _ \<Rightarrow> r"] Cons.IH [of "case r of None \<Rightarrow> None | Some _ \<Rightarrow> r"]
    by (cases r; cases "lastSome None rs") auto
qed simp

subsection \<open>Gas of limited submessages\<close>

lemma meter_lawD:
  assumes "meter_law M" and "unat (GasConsumed M m) + unat g < 2 ^ 64"
  shows "GasConsumed M (snd (ConsumeGas M g m)) = GasConsumed M m + g"
    and "MeterLimit M (snd (ConsumeGas M g m)) = MeterLimit M m"
    and "fst (ConsumeGas M g m) = None \<longleftrightarrow> GasConsumed M m + g \<le> MeterLimit M m"
  using assms by (simp_all add: meter_law_def)

lemma consumeGas_law:
  assumes "meter_law M" and "unat (GasConsumed M (meter s)) + unat g < 2 ^ 64"
  shows "consumeGas M g s = (if GasConsumed M (meter s) + g \<le> MeterLimit M (meter s)
     then (Ok (), s\<lparr>meter := snd (ConsumeGas M g (meter s))\<rparr>)
     else (Panic (the (fst (ConsumeGas M g (meter s)))), s\<lparr>meter := snd (ConsumeGas M g (meter s))\<rparr>))"
proof -
  obtain r m where "ConsumeGas M g (meter s) = (r, m)" by fastforce
  then show ?thesis using meter_lawD(3) [OF assms] by (auto simp: consumeGas_def split: option.splits)
qed

subsection \<open>Properties\<close>

text \<open>C3. Submessages are atomic and replies follow the requested rule.  When the sandboxed message
  fails, the store, the other modules and the emitted events are as before it ran; the contract gets a
  reply exactly if it asked for one on failure, otherwise the error aborts the parent.  When it
  succeeds, its events (those of type \<^verbatim>\<open>message\<close> dropped) are added once, and the contract gets a
  reply exactly if it asked for one on success.\<close>

theorem submessage_atomic_reply_matrix:
  assumes "\<forall>x. SubReplyOn msg \<noteq> ReplyOther x"
  shows "case runSubMsg d c a port msg s of
      (Err e, t) \<Rightarrow> store t = store s \<and> world t = world s \<and> events t = events s \<and>
        dispatchSubmessage d c a port msg s =
          (if wantsReply (SubReplyOn msg) True
           then replyTo d c a msg (errResult (redactError (dSysErrText d) e)) t else (Err e, t))
    | (Ok ((evs, data, rs), em), t) \<Rightarrow>
        (let shown = shownEvents (dIsWasm d (SubMsgMsg msg)) (em @ evs); u = t\<lparr>events := events s @ shown\<rparr> in
         dispatchSubmessage d c a port msg s =
          (if wantsReply (SubReplyOn msg) False
           then replyTo d c a msg (okResult (if dIsWasm d (SubMsgMsg msg) then shown else []) (evs, data, rs)) u
           else (Ok None, u)))
    | (Panic p, t) \<Rightarrow> store t = store s \<and> world t = world s \<and> events t = events s \<and>
        dispatchSubmessage d c a port msg s = (Panic p, t)"
proof (cases "runSubMsg d c a port msg s")
  case (Pair r t)
  note run = Pair
  show ?thesis
  proof (cases r)
    case (Ok x)
    obtain evs data rs em where x: "x = ((evs, data, rs), em)" by (metis prod.collapse)
    have "events t = events s"
      using run by (auto simp: Ok runSubMsg_def cacheM_def split: prod.splits outcome.splits)
    then show ?thesis
      using dispatchSubmessage_Ok [OF assms, of d c a port s evs data rs em t] run by (simp add: Ok x Let_def)
  next
    case (Err e)
    then show ?thesis
      using run dispatchSubmessage_Err [OF assms, of d c a port s e t] by (auto simp: runSubMsg_def dest: cacheM_Err)
  next
    case (Panic p)
    have "tryM (runSubMsg d c a port msg) s = (Panic p, t)" using run Panic by (simp add: tryM_def)
    then have "dispatchSubmessage d c a port msg s = (Panic p, t)"
      using assms by (cases "SubReplyOn msg") (simp_all add: dispatchSubmessage_def)
    then show ?thesis using run Panic by (auto simp: runSubMsg_def dest: cacheM_Panic)
  qed
qed

theorem submessage_atomic_reply_matrix_witness:
  "dispatchSubmessage exDispatcher exCtx ''c'' '''' (exSubMsg ReplyError ExFail) (exSt []) =
     (Ok (Some ''failed''), exSt [])"
  using submessage_atomic_reply_matrix [where msg = "exSubMsg ReplyError ExFail" and d = exDispatcher
      and c = exCtx and a = "''c''" and port = "''''" and s = "exSt []"]
  by (simp add: exSubMsg_def exDispatcher_def exMessenger_def runSubMsg_def limitedBy_def cacheM_def
      dispatchMsgWithGasLimit_def go_step storeSet_def consumeGas_def exMeter_def exSt_def Let_def
      wantsReply_def replyTo_def errResult_def redactError_def cong: go_frozen)

text \<open>C35. The data of a response is the data of the last reply that set some, and the original data
  when none did; the first failing submessage ends the dispatch with its error.\<close>

theorem Handle_last_reply_data:
  "Handle d c a port msgs origData s =
    (case seqM (dispatchSubmessage d c a port) msgs s of
       (Ok rs, t) \<Rightarrow> (Ok (lastSome origData rs), t)
     | (Err e, t) \<Rightarrow> (Err e, t)
     | (Panic p, t) \<Rightarrow> (Panic p, t))"
  using lastSome_default [of origData]
  by (simp add: Handle_def DispatchSubmessages_def bindM_step dispatchLoop_seqM retM_def
      split: prod.splits outcome.splits option.splits)

text \<open>C21. A gas limit contains a submessage.  With the SDK's gas meters, a submessage whose limit is
  below the gas left and which runs out of gas is turned into an error the parent can handle: the
  parent is charged exactly the limit and stays within its own limit.  If it does not run out of gas
  the parent is charged what was spent.\<close>

theorem limited_submessage_charge:
  assumes law: "meter_law (dMeter d)"
    and within: "GasConsumed (dMeter d) (meter s) \<le> MeterLimit (dMeter d) (meter s)"
    and lim: "limitedBy d (meter s) msg = Some l"
    and run: "dMessenger d c a port m (s\<lparr>meter := NewGasMeter (dMeter d) l\<rparr>) = (r, t)"
  shows "(\<forall>x. r = Panic (OutOfGasPanic x) \<longrightarrow>
      (\<exists>u. dispatchMsgWithGasLimit d c a port m l s = (Err ErrOutOfGas, u) \<and>
        GasConsumed (dMeter d) (meter u) = GasConsumed (dMeter d) (meter s) + l \<and>
        GasConsumed (dMeter d) (meter u) < MeterLimit (dMeter d) (meter u))) \<and>
    ((\<forall>p. r \<noteq> Panic p) \<longrightarrow> GasConsumed (dMeter d) (meter t) \<le> l \<longrightarrow>
      (\<exists>u. dispatchMsgWithGasLimit d c a port m l s = (r, u) \<and>
        GasConsumed (dMeter d) (meter u) = GasConsumed (dMeter d) (meter s) + GasConsumed (dMeter d) (meter t) \<and>
        store u = store t \<and> world u = world t))"
proof -
  let ?M = "dMeter d"
  have lt: "unat l < unat (MeterLimit ?M (meter s)) - unat (GasConsumed ?M (meter s))"
    using lim within by (auto simp: limitedBy_def Let_def word_less_nat_alt word_le_nat_alt unat_sub split: option.splits if_splits)
  have room: "unat (GasConsumed ?M (meter s)) + unat g < unat (MeterLimit ?M (meter s))" if "g \<le> l" for g
    using lt that by (simp add: word_le_nat_alt)
  have big: "unat (MeterLimit ?M (meter s)) < 2 ^ 64"
    using unsigned_less [of "MeterLimit ?M (meter s)"] by simp
  have fits: "unat (GasConsumed ?M (meter s)) + unat g < 2 ^ 64" if "g \<le> l" for g
    using room [OF that] big by simp
  have below: "GasConsumed ?M (meter s) + g < MeterLimit ?M (meter s)" if "g \<le> l" for g
    using room [OF that] fits [OF that] by (simp add: word_less_nat_alt u64_add_nat)
  have charge: "consumeGas ?M g (t\<lparr>meter := meter s\<rparr>) = (Ok (), t\<lparr>meter := snd (ConsumeGas ?M g (meter s))\<rparr>)"
    if "g \<le> l" for g
    using consumeGas_law [OF law, of "t\<lparr>meter := meter s\<rparr>" g] fits [OF that] below [OF that] by simp
  show ?thesis
    using charge meter_lawD [OF law] fits below
    by (auto simp: dispatchMsgWithGasLimit_def run recoverOutOfGas_def thenM_step failM_def split: outcome.splits)
qed

theorem limited_submessage_charge_witness:
  "\<exists>u. dispatchMsgWithGasLimit exDispatcher exCtx ''c'' '''' ExOutOfGas 50 (exSt []) = (Err ErrOutOfGas, u) \<and>
    GasConsumed exMeter (meter u) = 50"
proof -
  have "meter_law exMeter"
    by (auto simp: meter_law_def exMeter_def not_less split: if_splits)
  moreover have "exMessenger exCtx ''c'' '''' ExOutOfGas (exSt []\<lparr>meter := NewGasMeter exMeter 50\<rparr>) =
      (Panic (OutOfGasPanic ''loop''), exSt [(''key'', SBytes ''new'')]\<lparr>meter := (50, 0)\<rparr>)"
    by (simp add: exMessenger_def exMeter_def go_step storeSet_def exSt_def)
  ultimately show ?thesis
    using limited_submessage_charge [of exDispatcher "exSt []" "exSubMsg ReplyError ExOutOfGas" 50 exCtx "''c''" "''''" ExOutOfGas]
    by (fastforce simp: exDispatcher_fields)
qed

end
