(* ===== verification/Handlers.thy ===== *)
theory Handlers
  imports MsgServer Dispatcher
begin

section \<open>Encoding and handling the messages of contracts\<close>

text \<open>
  src/x/wasm/keeper/handler_plugin_encoders.go and handler_plugin.go: the encoders turn a message of
  the wasm engine into SDK messages in the name of the contract; the SDK message handler validates
  them, checks that the contract is their only signer and routes them; the raw packet handler sends IBC
  packets and acknowledgements; the burn handler burns coins of the contract.

  The message types of wasmvm are structs of optional pointers, exactly one of them set; the records
  below have the same optional fields.  \<open>enc_fns\<close> and \<open>route_fns\<close> hold the functions of the SDK and of
  ibc-go the code calls: numbers and coins, Any unpacking, the port of the transfer module, the signers
  of a message and the router.
\<close>

type_synonym WasmCoin = "bytes \<times> bytes"

subsection \<open>Messages of the engine\<close>

record SendMsg =
  sendToAddress :: bytes
  sendAmount :: "WasmCoin list"

record BankMsg =
  bankSend :: "SendMsg option"
  bankBurn :: "WasmCoin list option"

record DistributionMsg =
  dmSetWithdrawAddress :: "bytes option"
  dmWithdrawDelegatorReward :: "bytes option"
  dmFundCommunityPool :: "WasmCoin list option"

record StakingMsg =
  smDelegate :: "(bytes \<times> WasmCoin) option"
  smRedelegate :: "(bytes \<times> bytes \<times> WasmCoin) option"
  smUndelegate :: "(bytes \<times> WasmCoin) option"

record AnyMsg =
  anyTypeURL :: bytes
  anyValue :: bytes

record WExecuteMsg =
  weContractAddr :: bytes
  weMsg :: bytes
  weFunds :: "WasmCoin list"

record WInstantiateMsg =
  wiCodeID :: u64
  wiMsg :: bytes
  wiFunds :: "WasmCoin list"
  wiLabel :: bytes
  wiAdmin :: bytes

record WMigrateMsg =
  wmContractAddr :: bytes
  wmNewCodeID :: u64
  wmMsg :: bytes

record WasmMsg =
  wasmExecute :: "WExecuteMsg option"
  wasmInstantiate :: "WInstantiateMsg option"
  wasmInstantiate2 :: "(WInstantiateMsg \<times> bytes) option"
  wasmMigrate :: "WMigrateMsg option"
  wasmClearAdmin :: "bytes option"
  wasmUpdateAdmin :: "(bytes \<times> bytes) option"

record IBCTimeout =
  toBlock :: "(u64 \<times> u64) option"
  toTimestamp :: u64

record IBCTransferMsg =
  trChannelID :: bytes
  trToAddress :: bytes
  trAmount :: WasmCoin
  trTimeout :: IBCTimeout
  trMemo :: bytes

record IBCSendPacket =
  spChannelID :: bytes
  spData :: bytes
  spTimeout :: IBCTimeout

record IBCWriteAck =
  waChannelID :: bytes
  waPacketSequence :: u64
  waAck :: bytes

record IBCMsg =
  ibcTransfer :: "IBCTransferMsg option"
  ibcSendPacket :: "IBCSendPacket option"
  ibcWriteAcknowledgement :: "IBCWriteAck option"
  ibcCloseChannel :: "bytes option"

datatype WVoteOption = WYes | WNo | WAbstain | WNoWithVeto | WVoteOther

record GovMsg =
  govVote :: "(u64 \<times> WVoteOption) option"
  govVoteWeighted :: "(u64 \<times> (WVoteOption \<times> bytes) list) option"

record CosmosMsg =
  cmBank :: "BankMsg option"
  cmCustom :: "bytes option"
  cmDistribution :: "DistributionMsg option"
  cmGov :: "GovMsg option"
  cmIBC :: "IBCMsg option"
  cmStaking :: "StakingMsg option"
  cmAny :: "AnyMsg option"
  cmWasm :: "WasmMsg option"

subsection \<open>SDK messages\<close>

datatype VoteOption = OptionEmpty | OptionYes | OptionAbstain | OptionNo | OptionNoWithVeto

text \<open>The messages the encoders build; \<open>OtherMsg\<close> is any other registered message, by type URL and
  value.\<close>

datatype sdk_msg =
    BankMsgSend bytes bytes Coins
  | DistrSetWithdrawAddress bytes bytes
  | DistrWithdrawDelegatorReward bytes bytes
  | DistrFundCommunityPool bytes Coins
  | StakingDelegate bytes bytes Coin
  | StakingBeginRedelegate bytes bytes bytes Coin
  | StakingUndelegate bytes bytes Coin
  | WasmMsgOf wasm_msg
  | ChannelCloseInit bytes bytes bytes
  | TransferMsg bytes bytes Coin bytes bytes "u64 \<times> u64" u64 bytes
  | GovMsgVote bytes u64 VoteOption
  | GovMsgVoteWeighted bytes u64 "(VoteOption \<times> bytes) list"
  | OtherMsg bytes bytes

record 'x enc_fns =
  eAccString :: "AccAddress \<Rightarrow> bytes"
  eIntFromString :: "bytes \<Rightarrow> int option"
  eCoinValidate :: "Coin \<Rightarrow> unit outcome"
  eCoinsAdd :: "Coins \<Rightarrow> Coin \<Rightarrow> Coins"
  eCoinsSort :: "Coins \<Rightarrow> Coins"
  eDecFromStr :: "bytes \<Rightarrow> bytes outcome"
  eUnpackAny :: "bytes \<Rightarrow> bytes \<Rightarrow> sdk_msg outcome"
  eUnpackInterfaces :: "sdk_msg \<Rightarrow> unit outcome"
  eTransferPort :: "'x \<Rightarrow> bytes"

subsection \<open>Conversions\<close>

definition ConvertWasmCoinToSdkCoin :: "'x enc_fns \<Rightarrow> WasmCoin \<Rightarrow> Coin outcome" where
  "ConvertWasmCoinToSdkCoin E coin =
    (case eIntFromString E (snd coin) of
       None \<Rightarrow> Err ErrInvalidCoins
     | Some amount \<Rightarrow>
        (let r = \<lparr>Denom = fst coin, Amount = amount\<rparr> in
         case eCoinValidate E r of Ok _ \<Rightarrow> Ok r | Err e \<Rightarrow> Err e | Panic p \<Rightarrow> Panic p))"

fun addCoins :: "'x enc_fns \<Rightarrow> Coins \<Rightarrow> WasmCoin list \<Rightarrow> Coins outcome" where
  "addCoins E toSend [] = Ok toSend"
| "addCoins E toSend (coin # coins) =
    (case ConvertWasmCoinToSdkCoin E coin of
       Ok c \<Rightarrow> addCoins E (eCoinsAdd E toSend c) coins
     | Err e \<Rightarrow> Err e
     | Panic p \<Rightarrow> Panic p)"

definition ConvertWasmCoinsToSdkCoins :: "'x enc_fns \<Rightarrow> WasmCoin list \<Rightarrow> Coins outcome" where
  "ConvertWasmCoinsToSdkCoins E coins = (case addCoins E [] coins of
     Ok toSend \<Rightarrow> Ok (eCoinsSort E toSend)
   | r \<Rightarrow> r)"

definition ConvertWasmIBCTimeoutHeightToCosmosHeight :: "(u64 \<times> u64) option \<Rightarrow> u64 \<times> u64" where
  "ConvertWasmIBCTimeoutHeightToCosmosHeight ibcTimeoutBlock =
    (case ibcTimeoutBlock of None \<Rightarrow> (0, 0) | Some (revision, height) \<Rightarrow> (revision, height))"

definition convertVoteOption :: "WVoteOption \<Rightarrow> VoteOption outcome" where
  "convertVoteOption s = (case s of
     WYes \<Rightarrow> Ok OptionYes
   | WNo \<Rightarrow> Ok OptionNo
   | WNoWithVeto \<Rightarrow> Ok OptionNoWithVeto
   | WAbstain \<Rightarrow> Ok OptionAbstain
   | WVoteOther \<Rightarrow> Err ErrInvalid)"

definition withValue :: "'a outcome \<Rightarrow> ('a \<Rightarrow> 'b outcome) \<Rightarrow> 'b outcome" where
  "withValue r f = (case r of Ok x \<Rightarrow> f x | Err e \<Rightarrow> Err e | Panic p \<Rightarrow> Panic p)"

fun withWrap :: "'a outcome \<Rightarrow> 'a outcome" where
  "withWrap (Err e) = Err (errWrap e)"
| "withWrap r = r"

subsection \<open>Encoders\<close>

definition EncodeBankMsg :: "'x enc_fns \<Rightarrow> AccAddress \<Rightarrow> BankMsg \<Rightarrow> sdk_msg list outcome" where
  "EncodeBankMsg E sender msg = (case bankSend msg of
     None \<Rightarrow> Err ErrUnknownMsg
   | Some send \<Rightarrow>
      if length (sendAmount send) = 0 then Ok []
      else withValue (ConvertWasmCoinsToSdkCoins E (sendAmount send)) (\<lambda>toSend.
        Ok [BankMsgSend (eAccString E sender) (sendToAddress send) toSend]))"

definition NoCustomMsg :: "AccAddress \<Rightarrow> bytes \<Rightarrow> sdk_msg list outcome" where
  "NoCustomMsg sender msg = Err ErrUnknownMsg"

definition EncodeDistributionMsg ::
  "'x enc_fns \<Rightarrow> AccAddress \<Rightarrow> DistributionMsg \<Rightarrow> sdk_msg list outcome" where
  "EncodeDistributionMsg E sender msg = (case dmSetWithdrawAddress msg of
     Some address \<Rightarrow> Ok [DistrSetWithdrawAddress (eAccString E sender) address]
   | None \<Rightarrow> (case dmWithdrawDelegatorReward msg of
       Some validator \<Rightarrow> Ok [DistrWithdrawDelegatorReward (eAccString E sender) validator]
     | None \<Rightarrow> (case dmFundCommunityPool msg of
         Some amount \<Rightarrow> withValue (ConvertWasmCoinsToSdkCoins E amount) (\<lambda>amt.
           Ok [DistrFundCommunityPool (eAccString E sender) amt])
       | None \<Rightarrow> Err ErrUnknownMsg)))"

definition EncodeStakingMsg :: "'x enc_fns \<Rightarrow> AccAddress \<Rightarrow> StakingMsg \<Rightarrow> sdk_msg list outcome" where
  "EncodeStakingMsg E sender msg = (case smDelegate msg of
     Some (validator, amount) \<Rightarrow> withValue (ConvertWasmCoinToSdkCoin E amount) (\<lambda>coin.
       Ok [StakingDelegate (eAccString E sender) validator coin])
   | None \<Rightarrow> (case smRedelegate msg of
       Some (src, dst, amount) \<Rightarrow> withValue (ConvertWasmCoinToSdkCoin E amount) (\<lambda>coin.
         Ok [StakingBeginRedelegate (eAccString E sender) src dst coin])
     | None \<Rightarrow> (case smUndelegate msg of
         Some (validator, amount) \<Rightarrow> withValue (ConvertWasmCoinToSdkCoin E amount) (\<lambda>coin.
           Ok [StakingUndelegate (eAccString E sender) validator coin])
       | None \<Rightarrow> Err ErrUnknownMsg)))"

definition EncodeAnyMsg :: "'x enc_fns \<Rightarrow> AccAddress \<Rightarrow> AnyMsg \<Rightarrow> sdk_msg list outcome" where
  "EncodeAnyMsg E sender msg = (case eUnpackAny E (anyTypeURL msg) (anyValue msg) of
     Err _ \<Rightarrow> Err ErrInvalidMsg
   | Panic p \<Rightarrow> Panic p
   | Ok sdkMsg \<Rightarrow> (case eUnpackInterfaces E sdkMsg of
       Err _ \<Rightarrow> Err ErrInvalidMsg
     | Panic p \<Rightarrow> Panic p
     | Ok _ \<Rightarrow> Ok [sdkMsg]))"

definition EncodeWasmMsg :: "'x enc_fns \<Rightarrow> AccAddress \<Rightarrow> WasmMsg \<Rightarrow> sdk_msg list outcome" where
  "EncodeWasmMsg E sender msg = (case wasmExecute msg of
     Some e \<Rightarrow> withValue (ConvertWasmCoinsToSdkCoins E (weFunds e)) (\<lambda>coins.
       Ok [WasmMsgOf (WExecute \<lparr>exSender = eAccString E sender, exContract = weContractAddr e,
             exMsgBytes = weMsg e, exFunds = coins\<rparr>)])
   | None \<Rightarrow> (case wasmInstantiate msg of
     Some i \<Rightarrow> withValue (ConvertWasmCoinsToSdkCoins E (wiFunds i)) (\<lambda>coins.
       Ok [WasmMsgOf (WInstantiate \<lparr>inSender = eAccString E sender, inAdmin = wiAdmin i, inCodeID = wiCodeID i,
             inLabel = wiLabel i, inMsg = wiMsg i, inFunds = coins\<rparr>)])
   | None \<Rightarrow> (case wasmInstantiate2 msg of
     Some (i, salt) \<Rightarrow> withValue (ConvertWasmCoinsToSdkCoins E (wiFunds i)) (\<lambda>coins.
       Ok [WasmMsgOf (WInstantiate2 \<lparr>i2Sender = eAccString E sender, i2Admin = wiAdmin i, i2CodeID = wiCodeID i,
             i2Label = wiLabel i, i2Msg = wiMsg i, i2Funds = coins, i2Salt = salt, i2FixMsg = False\<rparr>)])
   | None \<Rightarrow> (case wasmMigrate msg of
     Some m \<Rightarrow> Ok [WasmMsgOf (WMigrate \<lparr>miSender = eAccString E sender, miContract = wmContractAddr m,
             miCodeID = wmNewCodeID m, miMsg = wmMsg m\<rparr>)]
   | None \<Rightarrow> (case wasmClearAdmin msg of
     Some contract \<Rightarrow> Ok [WasmMsgOf (WClearAdmin \<lparr>caSender = eAccString E sender, caContract = contract\<rparr>)]
   | None \<Rightarrow> (case wasmUpdateAdmin msg of
     Some (contract, admin) \<Rightarrow> Ok [WasmMsgOf (WUpdateAdmin \<lparr>uaSender = eAccString E sender, uaNewAdmin = admin,
             uaContract = contract\<rparr>)]
   | None \<Rightarrow> Err ErrUnknownMsg))))))"

definition EncodeIBCMsg ::
  "'x enc_fns \<Rightarrow> 'x \<Rightarrow> AccAddress \<Rightarrow> bytes \<Rightarrow> IBCMsg \<Rightarrow> sdk_msg list outcome" where
  "EncodeIBCMsg E x sender contractIBCPortID msg = (case ibcCloseChannel msg of
     Some channelID \<Rightarrow>
       Ok [ChannelCloseInit (''wasm.'' @ eAccString E sender) channelID (eAccString E sender)]
   | None \<Rightarrow> (case ibcTransfer msg of
       Some t \<Rightarrow> withValue (withWrap (ConvertWasmCoinToSdkCoin E (trAmount t))) (\<lambda>amount.
         Ok [TransferMsg (eTransferPort E x) (trChannelID t) amount (eAccString E sender) (trToAddress t)
               (ConvertWasmIBCTimeoutHeightToCosmosHeight (toBlock (trTimeout t)))
               (toTimestamp (trTimeout t)) (trMemo t)])
     | None \<Rightarrow> Err ErrUnknownMsg))"

fun convertOptions :: "'x enc_fns \<Rightarrow> (WVoteOption \<times> bytes) list \<Rightarrow> (VoteOption \<times> bytes) list outcome" where
  "convertOptions E [] = Ok []"
| "convertOptions E ((opt, w) # vs) =
    withValue (withWrap (eDecFromStr E w)) (\<lambda>weight.
    withValue (withWrap (convertVoteOption opt)) (\<lambda>voteOption.
    withValue (convertOptions E vs) (\<lambda>opts. Ok ((voteOption, weight) # opts))))"

definition EncodeGovMsg :: "'x enc_fns \<Rightarrow> AccAddress \<Rightarrow> GovMsg \<Rightarrow> sdk_msg list outcome" where
  "EncodeGovMsg E sender msg = (case govVote msg of
     Some (proposalId, opt) \<Rightarrow> withValue (withWrap (convertVoteOption opt)) (\<lambda>voteOption.
       Ok [GovMsgVote (eAccString E sender) proposalId voteOption])
   | None \<Rightarrow> (case govVoteWeighted msg of
       Some (proposalId, options) \<Rightarrow> withValue (convertOptions E options) (\<lambda>opts.
         Ok [GovMsgVoteWeighted (eAccString E sender) proposalId opts])
     | None \<Rightarrow> Err ErrUnknownMsg))"

text \<open>The table of encoders; a nil entry is None.\<close>

record 'x MessageEncoders =
  encBank :: "(AccAddress \<Rightarrow> BankMsg \<Rightarrow> sdk_msg list outcome) option"
  encCustom :: "(AccAddress \<Rightarrow> bytes \<Rightarrow> sdk_msg list outcome) option"
  encDistribution :: "(AccAddress \<Rightarrow> DistributionMsg \<Rightarrow> sdk_msg list outcome) option"
  encIBC :: "('x \<Rightarrow> AccAddress \<Rightarrow> bytes \<Rightarrow> IBCMsg \<Rightarrow> sdk_msg list outcome) option"
  encStaking :: "(AccAddress \<Rightarrow> StakingMsg \<Rightarrow> sdk_msg list outcome) option"
  encAny :: "(AccAddress \<Rightarrow> AnyMsg \<Rightarrow> sdk_msg list outcome) option"
  encWasm :: "(AccAddress \<Rightarrow> WasmMsg \<Rightarrow> sdk_msg list outcome) option"
  encGov :: "(AccAddress \<Rightarrow> GovMsg \<Rightarrow> sdk_msg list outcome) option"

definition DefaultEncoders :: "'x enc_fns \<Rightarrow> 'x MessageEncoders" where
  "DefaultEncoders E = \<lparr>encBank = Some (EncodeBankMsg E), encCustom = Some NoCustomMsg,
     encDistribution = Some (EncodeDistributionMsg E), encIBC = Some (EncodeIBCMsg E),
     encStaking = Some (EncodeStakingMsg E), encAny = Some (EncodeAnyMsg E),
     encWasm = Some (EncodeWasmMsg E), encGov = Some (EncodeGovMsg E)\<rparr>"

definition orElse :: "'a option \<Rightarrow> 'a option \<Rightarrow> 'a option" where
  "orElse new old = (case new of None \<Rightarrow> old | Some f \<Rightarrow> Some f)"

definition Merge :: "'x MessageEncoders \<Rightarrow> 'x MessageEncoders option \<Rightarrow> 'x MessageEncoders" where
  "Merge e other = (case other of
     None \<Rightarrow> e
   | Some n \<Rightarrow> \<lparr>encBank = orElse (encBank n) (encBank e), encCustom = orElse (encCustom n) (encCustom e),
       encDistribution = orElse (encDistribution n) (encDistribution e),
       encIBC = orElse (encIBC n) (encIBC e), encStaking = orElse (encStaking n) (encStaking e),
       encAny = orElse (encAny n) (encAny e), encWasm = orElse (encWasm n) (encWasm e),
       encGov = orElse (encGov n) (encGov e)\<rparr>)"

definition callEncoder :: "'f option \<Rightarrow> ('f \<Rightarrow> 'a outcome) \<Rightarrow> 'a outcome" where
  "callEncoder f use = (case f of
     None \<Rightarrow> Panic (OtherPanic ''nil pointer dereference'')
   | Some g \<Rightarrow> use g)"

text \<open>Governance messages go to \<^verbatim>\<open>EncodeGovMsg\<close> and not to the table.\<close>

definition Encode ::
  "'x enc_fns \<Rightarrow> 'x MessageEncoders \<Rightarrow> 'x \<Rightarrow> AccAddress \<Rightarrow> bytes \<Rightarrow> CosmosMsg \<Rightarrow> sdk_msg list outcome" where
  "Encode E e x contractAddr contractIBCPortID msg = (case cmBank msg of
     Some b \<Rightarrow> callEncoder (encBank e) (\<lambda>f. f contractAddr b)
   | None \<Rightarrow> (case cmCustom msg of
     Some b \<Rightarrow> callEncoder (encCustom e) (\<lambda>f. f contractAddr b)
   | None \<Rightarrow> (case cmDistribution msg of
     Some b \<Rightarrow> callEncoder (encDistribution e) (\<lambda>f. f contractAddr b)
   | None \<Rightarrow> (case cmIBC msg of
     Some b \<Rightarrow> callEncoder (encIBC e) (\<lambda>f. f x contractAddr contractIBCPortID b)
   | None \<Rightarrow> (case cmStaking msg of
     Some b \<Rightarrow> callEncoder (encStaking e) (\<lambda>f. f contractAddr b)
   | None \<Rightarrow> (case cmAny msg of
     Some b \<Rightarrow> callEncoder (encAny e) (\<lambda>f. f contractAddr b)
   | None \<Rightarrow> (case cmWasm msg of
     Some b \<Rightarrow> callEncoder (encWasm e) (\<lambda>f. f contractAddr b)
   | None \<Rightarrow> (case cmGov msg of
     Some b \<Rightarrow> EncodeGovMsg E contractAddr b
   | None \<Rightarrow> Err ErrUnknownMsg))))))))"

subsection \<open>The SDK message handler\<close>

record sdk_result =
  resData :: "bytes option"
  resEvents :: "Event list"
  resMsgResponses :: "(bytes \<times> bytes) list"

text \<open>\<open>rValidateBasic\<close> is None for a message type without that method; \<open>rSigners\<close> are the decoded
  signers; \<open>rHandler\<close> is the router.\<close>

record ('m, 'x) route_fns =
  rValidateBasic :: "sdk_msg \<Rightarrow> unit outcome option"
  rSigners :: "sdk_msg \<Rightarrow> AccAddress list outcome"
  rHandler :: "sdk_msg \<Rightarrow> (ctx \<Rightarrow> (('m, 'x) st, sdk_result) go) option"

definition ErrUnknownRequest :: gerror where
  "ErrUnknownRequest = sdkErr 6"

definition handleSdkMessage ::
  "('m, 'x) route_fns \<Rightarrow> ctx \<Rightarrow> AccAddress \<Rightarrow> sdk_msg \<Rightarrow> (('m, 'x) st, sdk_result) go" where
  "handleSdkMessage R c contractAddr msg =
    thenM (liftO (case rValidateBasic R msg of None \<Rightarrow> Ok () | Some r \<Rightarrow> r))
    (bindM (liftO (rSigners R msg)) (\<lambda>signers.
    thenM (forM signers (\<lambda>acct. guardM (contractAddr = acct) ErrUnauthorized))
    (case rHandler R msg of
       Some handler \<Rightarrow> handler c
     | None \<Rightarrow> failM ErrUnknownRequest)))"

fun handleAll ::
  "('m, 'x) route_fns \<Rightarrow> ctx \<Rightarrow> AccAddress \<Rightarrow> sdk_msg list \<Rightarrow> (('m, 'x) st, dispatched) go" where
  "handleAll R c contractAddr [] = retM ([], [], [])"
| "handleAll R c contractAddr (sdkMsg # sdkMsgs) =
    bindM (handleSdkMessage R c contractAddr sdkMsg) (\<lambda>res.
    bindM (handleAll R c contractAddr sdkMsgs) (\<lambda>(events, data, msgResponses).
    retM (resEvents res @ events, resData res # data, resMsgResponses res # msgResponses)))"

definition SDKMessageHandler ::
  "'x enc_fns \<Rightarrow> 'x MessageEncoders \<Rightarrow> ('m, 'x) route_fns \<Rightarrow> ('m, 'x, CosmosMsg) messenger" where
  "SDKMessageHandler E encoders R c contractAddr contractIBCPortID msg =
    bindM (getsM world) (\<lambda>x.
    bindM (liftO (Encode E encoders x contractAddr contractIBCPortID msg)) (\<lambda>sdkMsgs.
    handleAll R c contractAddr sdkMsgs))"

subsection \<open>IBC packets and burning\<close>

record ('m, 'x) ibc_fns =
  ChannelCapabilityPath :: "bytes \<Rightarrow> bytes \<Rightarrow> bytes"
  ics4SendPacket :: "bytes \<Rightarrow> bytes \<Rightarrow> u64 \<times> u64 \<Rightarrow> u64 \<Rightarrow> bytes \<Rightarrow> ('m, 'x, u64) ext"
  ics4WriteAcknowledgement :: "Packet \<Rightarrow> bytes \<Rightarrow> ('m, 'x, unit) ext"
  marshalSendResponse :: "u64 \<Rightarrow> bytes"
  marshalAckResponse :: bytes

definition ErrChannelCapabilityNotFound :: gerror where
  "ErrChannelCapabilityNotFound = Registered ''channel'' 9"

definition ibcChannelCheck ::
  "('m, 'x, 'msg) keeper \<Rightarrow> ('m, 'x) ibc_fns \<Rightarrow> bytes \<Rightarrow> bytes \<Rightarrow> (('m, 'x) st, unit) go" where
  "ibcChannelCheck K I contractIBCPortID channelID =
    (if contractIBCPortID = '''' then failM ErrUnsupportedForContract
     else if channelID = '''' then failM ErrEmpty
     else bindM (getsM (\<lambda>s. GetCapability (kExt K) (world s) (ChannelCapabilityPath I contractIBCPortID channelID)))
       (\<lambda>ok. guardM ok ErrChannelCapabilityNotFound))"

definition IBCRawPacketHandler ::
  "('m, 'x, 'msg) keeper \<Rightarrow> ('m, 'x) ibc_fns \<Rightarrow> ('m, 'x, CosmosMsg) messenger" where
  "IBCRawPacketHandler K I c contractAddr contractIBCPortID msg = (case cmIBC msg of
     None \<Rightarrow> failM ErrUnknownMsg
   | Some ibc \<Rightarrow> (case ibcSendPacket ibc of
       Some sp \<Rightarrow>
         thenM (ibcChannelCheck K I contractIBCPortID (spChannelID sp))
         (bindM (wrapM errWrap (extM (ics4SendPacket I contractIBCPortID (spChannelID sp)
             (ConvertWasmIBCTimeoutHeightToCosmosHeight (toBlock (spTimeout sp))) (toTimestamp (spTimeout sp))
             (spData sp)))) (\<lambda>sq.
         retM ([], [Some (marshalSendResponse I sq)],
           [[(''/cosmwasm.wasm.v1.MsgIBCSendResponse'', marshalSendResponse I sq)]])))
     | None \<Rightarrow> (case ibcWriteAcknowledgement ibc of
         Some wa \<Rightarrow>
           thenM (ibcChannelCheck K I contractIBCPortID (waChannelID wa))
           (bindM (wrapM (\<lambda>_. ErrInvalid)
               (LoadAsyncAckPacket contractIBCPortID (waChannelID wa) (waPacketSequence wa))) (\<lambda>packet.
           thenM (wrapM errWrap (extM (ics4WriteAcknowledgement I packet (waAck wa))))
           (thenM (DeleteAsyncAckPacket contractIBCPortID (waChannelID wa) (waPacketSequence wa))
           (retM ([], [Some (marshalAckResponse I)],
             [[(''/cosmwasm.wasm.v1.MsgIBCWriteAcknowledgementResponse'', marshalAckResponse I)]])))))
       | None \<Rightarrow> failM ErrUnknownMsg)))"

record ('m, 'x) burner =
  burnSendToModule :: "AccAddress \<Rightarrow> bytes \<Rightarrow> Coins \<Rightarrow> ('m, 'x, unit) ext"
  burnBurnCoins :: "bytes \<Rightarrow> Coins \<Rightarrow> ('m, 'x, unit) ext"

definition NewBurnCoinMessageHandler ::
  "'x enc_fns \<Rightarrow> (Coins \<Rightarrow> bool) \<Rightarrow> ('m, 'x) burner \<Rightarrow> ('m, 'x, CosmosMsg) messenger" where
  "NewBurnCoinMessageHandler E isZero burner c contractAddr port msg =
    (case (case cmBank msg of None \<Rightarrow> None | Some b \<Rightarrow> bankBurn b) of
       None \<Rightarrow> failM ErrUnknownMsg
     | Some amount \<Rightarrow>
        bindM (liftO (ConvertWasmCoinsToSdkCoins E amount)) (\<lambda>coins.
        if isZero coins then failM ErrEmpty
        else
         thenM (wrapM errWrap (extM (burnSendToModule burner contractAddr ''wasm'' coins)))
         (thenM (wrapM errWrap (extM (burnBurnCoins burner ''wasm'' coins)))
         (retM ([], [], [])))))"

definition NewDefaultMessageHandler ::
  "('m, 'x, 'msg) keeper \<Rightarrow> 'x enc_fns \<Rightarrow> 'x MessageEncoders option list \<Rightarrow> ('m, 'x) route_fns
    \<Rightarrow> ('m, 'x) ibc_fns \<Rightarrow> ('m, 'x) burner \<Rightarrow> ('m, 'x, CosmosMsg) messenger" where
  "NewDefaultMessageHandler K E customEncoders R I burner =
    (let encoders = foldl Merge (DefaultEncoders E) customEncoders in
     MessageHandlerChain
       [SDKMessageHandler E encoders R, IBCRawPacketHandler K I,
        NewBurnCoinMessageHandler E (coinsIsZero (kSdk K)) burner])"

subsection \<open>Facts\<close>

lemma withValue_Ok_iff: "withValue r f = Ok y \<longleftrightarrow> (\<exists>x. r = Ok x \<and> f x = Ok y)"
  by (simp add: withValue_def split: outcome.splits)

lemma callEncoder_Ok_iff: "callEncoder f use = Ok y \<longleftrightarrow> (\<exists>g. f = Some g \<and> use g = Ok y)"
  by (simp add: callEncoder_def split: option.splits)

text \<open>The string in whose name a message acts; None for a message the encoders do not build.\<close>

fun sdk_sender :: "sdk_msg \<Rightarrow> bytes option" where
  "sdk_sender (BankMsgSend sender _ _) = Some sender"
| "sdk_sender (DistrSetWithdrawAddress sender _) = Some sender"
| "sdk_sender (DistrWithdrawDelegatorReward sender _) = Some sender"
| "sdk_sender (DistrFundCommunityPool sender _) = Some sender"
| "sdk_sender (StakingDelegate sender _ _) = Some sender"
| "sdk_sender (StakingBeginRedelegate sender _ _ _) = Some sender"
| "sdk_sender (StakingUndelegate sender _ _) = Some sender"
| "sdk_sender (WasmMsgOf w) = Some (wasm_signer w)"
| "sdk_sender (ChannelCloseInit _ _ sender) = Some sender"
| "sdk_sender (TransferMsg _ _ _ sender _ _ _ _) = Some sender"
| "sdk_sender (GovMsgVote sender _ _) = Some sender"
| "sdk_sender (GovMsgVoteWeighted sender _ _) = Some sender"
| "sdk_sender (OtherMsg _ _) = None"

lemmas encoder_defs = EncodeBankMsg_def NoCustomMsg_def EncodeDistributionMsg_def EncodeStakingMsg_def
  EncodeWasmMsg_def EncodeIBCMsg_def EncodeGovMsg_def

lemma encoders_own_name:
  "EncodeBankMsg E a b = Ok ms \<Longrightarrow> m \<in> set ms \<Longrightarrow> sdk_sender m = Some (eAccString E a)"
  "EncodeDistributionMsg E a d = Ok ms \<Longrightarrow> m \<in> set ms \<Longrightarrow> sdk_sender m = Some (eAccString E a)"
  "EncodeStakingMsg E a st = Ok ms \<Longrightarrow> m \<in> set ms \<Longrightarrow> sdk_sender m = Some (eAccString E a)"
  "EncodeWasmMsg E a w = Ok ms \<Longrightarrow> m \<in> set ms \<Longrightarrow> sdk_sender m = Some (eAccString E a)"
  "EncodeIBCMsg E x a port i = Ok ms \<Longrightarrow> m \<in> set ms \<Longrightarrow> sdk_sender m = Some (eAccString E a)"
  "EncodeGovMsg E a g = Ok ms \<Longrightarrow> m \<in> set ms \<Longrightarrow> sdk_sender m = Some (eAccString E a)"
  by (auto simp: encoder_defs withValue_Ok_iff split: option.splits if_splits)

lemma forM_guards: "forM xs (\<lambda>x. guardM (P x) e) = guardM (\<forall>x \<in> set xs. P x) e"
  by (induction xs) (auto simp: guardM_def thenM_def)

lemma handleSdkMessage_Ok:
  "handleSdkMessage R c a msg s = (Ok r, t) \<longleftrightarrow>
    (rValidateBasic R msg = None \<or> rValidateBasic R msg = Some (Ok ())) \<and>
    (\<exists>signers h. rSigners R msg = Ok signers \<and> set signers \<subseteq> {a} \<and> rHandler R msg = Some h \<and> h c s = (Ok r, t))"
  by (auto simp: handleSdkMessage_def go_Ok_iff forM_guards split: option.splits)

lemma handleAll_Ok_mem:
  "handleAll R c a ms s = (Ok r, t) \<Longrightarrow> m \<in> set ms \<Longrightarrow>
    \<exists>signers. rSigners R m = Ok signers \<and> set signers \<subseteq> {a}"
  by (induction R c a ms arbitrary: s r rule: handleAll.induct) (auto simp: go_Ok_iff handleSdkMessage_Ok)

lemma handleSdkMessage_foreign:
  "rSigners R msg = Ok signers \<Longrightarrow> \<not> set signers \<subseteq> {a} \<Longrightarrow>
    snd (handleSdkMessage R c a msg s) = s \<and> (\<forall>r. fst (handleSdkMessage R c a msg s) \<noteq> Ok r)"
  unfolding handleSdkMessage_def forM_guards
  by (auto simp: go_step split: option.splits outcome.splits)

text \<open>C5. A contract acts only in its own name.  The default encoders put the address of the contract
  into the sender field of every message they build (Any messages carry their own sender).  Whatever was
  encoded, a message is handed to its module only if the contract is its only signer; a message with a
  foreign signer never succeeds and changes nothing.\<close>

theorem contract_acts_in_own_name:
  "(Encode E (DefaultEncoders E) x a port msg = Ok ms \<and> cmAny msg = None \<and> m \<in> set ms \<longrightarrow>
      sdk_sender m = Some (eAccString E a)) \<and>
   (SDKMessageHandler E e R c a port msg s = (Ok r, t) \<and> Encode E e (world s) a port msg = Ok ms \<and> m \<in> set ms \<longrightarrow>
      (\<exists>signers. rSigners R m = Ok signers \<and> set signers \<subseteq> {a})) \<and>
   (rSigners R m = Ok signers \<and> \<not> set signers \<subseteq> {a} \<longrightarrow>
      snd (handleSdkMessage R c a m s) = s \<and> fst (handleSdkMessage R c a m s) \<noteq> Ok res)"
proof (intro conjI impI)
  assume "Encode E (DefaultEncoders E) x a port msg = Ok ms \<and> cmAny msg = None \<and> m \<in> set ms"
  then show "sdk_sender m = Some (eAccString E a)"
    by (auto simp: Encode_def DefaultEncoders_def callEncoder_Ok_iff NoCustomMsg_def split: option.splits
        intro: encoders_own_name)
next
  assume "SDKMessageHandler E e R c a port msg s = (Ok r, t) \<and> Encode E e (world s) a port msg = Ok ms \<and> m \<in> set ms"
  then show "\<exists>signers. rSigners R m = Ok signers \<and> set signers \<subseteq> {a}"
    by (auto simp: SDKMessageHandler_def go_Ok_iff dest!: handleAll_Ok_mem)
qed (use handleSdkMessage_foreign [of R m signers a c s] in auto)

definition exEnc :: "unit enc_fns" where
  "exEnc = \<lparr>eAccString = (\<lambda>a. a), eIntFromString = (\<lambda>t. if t = ''5'' then Some 5 else None),
     eCoinValidate = (\<lambda>_. Ok ()), eCoinsAdd = (\<lambda>cs c. cs @ [c]), eCoinsSort = (\<lambda>cs. cs),
     eDecFromStr = Ok, eUnpackAny = (\<lambda>u v. Ok (OtherMsg u v)), eUnpackInterfaces = (\<lambda>_. Ok ()),
     eTransferPort = (\<lambda>_. ''transfer'')\<rparr>"

definition exNoMsg :: CosmosMsg where
  "exNoMsg = \<lparr>cmBank = None, cmCustom = None, cmDistribution = None, cmGov = None, cmIBC = None,
     cmStaking = None, cmAny = None, cmWasm = None\<rparr>"

definition exSend :: CosmosMsg where
  "exSend = exNoMsg\<lparr>cmBank := Some \<lparr>bankSend = Some \<lparr>sendToAddress = ''bob'', sendAmount = [(''orai'', ''5'')]\<rparr>,
     bankBurn = None\<rparr>\<rparr>"

definition exRoutes :: "(u64 \<times> u64, unit) route_fns" where
  "exRoutes = \<lparr>rValidateBasic = (\<lambda>_. None),
     rSigners = (\<lambda>m. case m of OtherMsg _ v \<Rightarrow> Ok [v] | _ \<Rightarrow> Ok (case sdk_sender m of Some x \<Rightarrow> [x] | None \<Rightarrow> [])),
     rHandler = (\<lambda>m. Some (\<lambda>c. retM \<lparr>resData = None, resEvents = [], resMsgResponses = []\<rparr>))\<rparr>"

theorem contract_acts_in_own_name_witness:
  "Encode exEnc (DefaultEncoders exEnc) () ''carol'' '''' exSend =
      Ok [BankMsgSend ''carol'' ''bob'' [\<lparr>Denom = ''orai'', Amount = 5\<rparr>]] \<and>
   sdk_sender (BankMsgSend ''carol'' ''bob'' [\<lparr>Denom = ''orai'', Amount = 5\<rparr>]) = Some ''carol'' \<and>
   (\<forall>res. fst (handleSdkMessage exRoutes exCtx ''carol'' (OtherMsg ''/gov.Exec'' ''eve'') (exSt [])) \<noteq> Ok res)"
proof -
  have enc: "Encode exEnc (DefaultEncoders exEnc) () ''carol'' '''' exSend =
      Ok [BankMsgSend ''carol'' ''bob'' [\<lparr>Denom = ''orai'', Amount = 5\<rparr>]]"
    by (simp add: Encode_def DefaultEncoders_def exSend_def exNoMsg_def callEncoder_def EncodeBankMsg_def
        withValue_def ConvertWasmCoinsToSdkCoins_def ConvertWasmCoinToSdkCoin_def exEnc_def)
  show ?thesis
    using enc contract_acts_in_own_name [of exEnc "()" "''carol''" "''''" exSend
        "[BankMsgSend ''carol'' ''bob'' [\<lparr>Denom = ''orai'', Amount = 5\<rparr>]]"
        "BankMsgSend ''carol'' ''bob'' [\<lparr>Denom = ''orai'', Amount = 5\<rparr>]"]
      contract_acts_in_own_name [where R = exRoutes and m = "OtherMsg ''/gov.Exec'' ''eve''" and a = "''carol''"
        and signers = "[''eve'']" and c = exCtx and s = "exSt []"]
    by (simp add: exEnc_def exRoutes_def)
qed

subsection \<open>Acknowledgements and routing\<close>

lemma ibcChannelCheck_state: "snd (ibcChannelCheck K I port ch s) = s"
  by (simp add: ibcChannelCheck_def go_step)

lemma LoadAsyncAckPacket_none:
  "kv_get (store s) (asyncAckKey port ch q) = None \<Longrightarrow> LoadAsyncAckPacket port ch q s = (Err ErrNotFound, s)"
  by (simp add: LoadAsyncAckPacket_def go_step storeGet_def)

definition ackMsg :: "IBCWriteAck \<Rightarrow> CosmosMsg" where
  "ackMsg wa = exNoMsg\<lparr>cmIBC := Some \<lparr>ibcTransfer = None, ibcSendPacket = None, ibcWriteAcknowledgement = Some wa,
     ibcCloseChannel = None\<rparr>\<rparr>"

lemma IBCRawPacketHandler_ack:
  "IBCRawPacketHandler K I c a port (ackMsg wa) =
    thenM (ibcChannelCheck K I port (waChannelID wa))
     (bindM (wrapM (\<lambda>_. ErrInvalid) (LoadAsyncAckPacket port (waChannelID wa) (waPacketSequence wa))) (\<lambda>packet.
      thenM (wrapM errWrap (extM (ics4WriteAcknowledgement I packet (waAck wa))))
      (thenM (DeleteAsyncAckPacket port (waChannelID wa) (waPacketSequence wa))
      (retM ([], [Some (marshalAckResponse I)],
        [[(''/cosmwasm.wasm.v1.MsgIBCWriteAcknowledgementResponse'', marshalAckResponse I)]])))))"
  by (simp add: IBCRawPacketHandler_def ackMsg_def exNoMsg_def)

lemma extM_store: "extM f s = (r, t) \<Longrightarrow> store t = store s"
  by (auto simp: extM_def split: prod.splits)

text \<open>C8. Asynchronous acknowledgements.  A contract can acknowledge a packet only when the packet was
  stored for its own port and channel, and only once: after a success every further attempt for the same
  packet, by whatever content, fails without changing the state, as long as the packet is not stored again.\<close>

theorem async_ack_once:
  assumes ack: "IBCRawPacketHandler K I c a port (ackMsg wa) s = (Ok r, t)"
    and later: "kv_get (store u) (asyncAckKey port (waChannelID wa) (waPacketSequence wa)) =
      kv_get (store t) (asyncAckKey port (waChannelID wa) (waPacketSequence wa))"
    and again: "waChannelID wa' = waChannelID wa" "waPacketSequence wa' = waPacketSequence wa"
  shows "(\<exists>p. kv_get (store s) (asyncAckKey port (waChannelID wa) (waPacketSequence wa)) = Some (SPacket p)) \<and>
    snd (IBCRawPacketHandler K I c' a' port (ackMsg wa') u) = u \<and>
    fst (IBCRawPacketHandler K I c' a' port (ackMsg wa') u) \<noteq> Ok r'"
proof
  let ?k = "asyncAckKey port (waChannelID wa) (waPacketSequence wa)"
  obtain s0 p s1 s2 where chk: "ibcChannelCheck K I port (waChannelID wa) s = (Ok (), s0)"
    and load: "LoadAsyncAckPacket port (waChannelID wa) (waPacketSequence wa) s0 = (Ok p, s1)"
    and del: "DeleteAsyncAckPacket port (waChannelID wa) (waPacketSequence wa) s2 = (Ok (), t)"
    using ack by (auto simp: IBCRawPacketHandler_ack go_Ok_iff)
  have "s0 = s" using chk ibcChannelCheck_state [of K I port "waChannelID wa" s] by simp
  then show "\<exists>p. kv_get (store s) ?k = Some (SPacket p)"
    using load by (auto simp: LoadAsyncAckPacket_def go_Ok_iff split: option.splits stored.splits)
  have "kv_get (store t) ?k = None" using del by (auto simp: DeleteAsyncAckPacket_def)
  then have none: "LoadAsyncAckPacket port (waChannelID wa) (waPacketSequence wa) u = (Err ErrNotFound, u)"
    using later by (intro LoadAsyncAckPacket_none) simp
  have "snd (ibcChannelCheck K I port (waChannelID wa) u) = u" by (rule ibcChannelCheck_state)
  then show "snd (IBCRawPacketHandler K I c' a' port (ackMsg wa') u) = u \<and>
    fst (IBCRawPacketHandler K I c' a' port (ackMsg wa') u) \<noteq> Ok r'"
    using again none
    by (cases "ibcChannelCheck K I port (waChannelID wa) u"; cases "fst (ibcChannelCheck K I port (waChannelID wa) u)")
      (auto simp: IBCRawPacketHandler_ack thenM_step bindM_step wrapM_step)
qed

definition exIbc :: "(u64 \<times> u64, unit) ibc_fns" where
  "exIbc = \<lparr>ChannelCapabilityPath = (\<lambda>p ch. p @ ch), ics4SendPacket = (\<lambda>_ _ _ _ _ (m, x). (Ok 1, [], m, x)),
     ics4WriteAcknowledgement = (\<lambda>_ _ (m, x). (Ok (), [], m, x)), marshalSendResponse = (\<lambda>_. ''sent''),
     marshalAckResponse = ''ack''\<rparr>"

definition exAckPacket :: Packet where
  "exAckPacket = \<lparr>Sequence = 7, SourcePort = ''transfer'', SourceChannel = ''channel-9'',
     DestinationPort = ''wasm.carol'', DestinationChannel = ''channel-1'', PacketData = ''x'',
     TimeoutHeight = \<lparr>RevisionNumber = 0, RevisionHeight = 0\<rparr>, TimeoutTimestamp = 0\<rparr>"

definition exAck :: "bytes \<Rightarrow> IBCWriteAck" where
  "exAck d = \<lparr>waChannelID = ''channel-1'', waPacketSequence = 7, waAck = d\<rparr>"

definition exPending :: "(u64 \<times> u64, unit) st" where
  "exPending = exSt [(asyncAckKey ''wasm.carol'' ''channel-1'' 7, SPacket exAckPacket)]"

theorem async_ack_once_witness:
  "\<exists>t. IBCRawPacketHandler exKeeper exIbc exCtx ''carol'' ''wasm.carol'' (ackMsg (exAck ''ok'')) exPending =
      (Ok ([], [Some ''ack''], [[(''/cosmwasm.wasm.v1.MsgIBCWriteAcknowledgementResponse'', ''ack'')]]), t) \<and>
    (\<forall>r. fst (IBCRawPacketHandler exKeeper exIbc exCtx ''carol'' ''wasm.carol'' (ackMsg (exAck ''no'')) t) \<noteq> Ok r)"
proof -
  have run: "IBCRawPacketHandler exKeeper exIbc exCtx ''carol'' ''wasm.carol'' (ackMsg (exAck ''ok'')) exPending =
      (Ok ([], [Some ''ack''], [[(''/cosmwasm.wasm.v1.MsgIBCWriteAcknowledgementResponse'', ''ack'')]]), exSt [])"
    by (simp add: IBCRawPacketHandler_ack exPending_def ibcChannelCheck_def LoadAsyncAckPacket_def
        DeleteAsyncAckPacket_def go_step exAck_def exIbc_def extM_def exKeeper_fields exExt_def storeGet_def
        storeDelete_def kv_get_def kv_delete_def exSt_def)
  show ?thesis
    using run async_ack_once [OF run refl, of "exAck ''no''" exCtx "''carol''"] by (auto simp: exAck_def)
qed

text \<open>C27. Routing.  In the default handler chain the messages the SDK handler cannot encode reach the one
  handler that is made for them: packets and acknowledgements the raw packet handler, burns the burn handler,
  custom messages nobody; the handlers asked in vain leave no trace.\<close>

theorem default_chain_routing:
  "(cmBank msg = Some b \<and> bankSend b = None \<and> bankBurn b = Some amount \<and> cmIBC msg = None \<longrightarrow>
      NewDefaultMessageHandler K E [] R I burner c a port msg s =
        (case NewBurnCoinMessageHandler E (coinsIsZero (kSdk K)) burner c a port msg s of
           (Err e, t) \<Rightarrow> (Err (if abciInfo e = (''wasm'', 20) then ErrUnknownMsg else e), t)
         | x \<Rightarrow> x)) \<and>
   (cmBank msg = None \<and> cmCustom msg = None \<and> cmDistribution msg = None \<and> cmIBC msg = Some i \<and>
      ibcCloseChannel i = None \<and> ibcTransfer i = None \<longrightarrow>
      NewDefaultMessageHandler K E [] R I burner c a port msg s =
        (case IBCRawPacketHandler K I c a port msg s of
           (Err e, t) \<Rightarrow> (Err (if abciInfo e = (''wasm'', 20) then ErrUnknownMsg else e), t)
         | x \<Rightarrow> x)) \<and>
   (cmBank msg = None \<and> cmCustom msg = Some bz \<and> cmIBC msg = None \<longrightarrow>
      NewDefaultMessageHandler K E [] R I burner c a port msg s = (Err ErrUnknownMsg, s))"
proof (intro conjI impI)
  assume "cmBank msg = Some b \<and> bankSend b = None \<and> bankBurn b = Some amount \<and> cmIBC msg = None"
  then show "NewDefaultMessageHandler K E [] R I burner c a port msg s =
        (case NewBurnCoinMessageHandler E (coinsIsZero (kSdk K)) burner c a port msg s of
           (Err e, t) \<Rightarrow> (Err (if abciInfo e = (''wasm'', 20) then ErrUnknownMsg else e), t)
         | x \<Rightarrow> x)"
    by (auto simp: NewDefaultMessageHandler_def SDKMessageHandler_def Encode_def DefaultEncoders_def callEncoder_def
        EncodeBankMsg_def IBCRawPacketHandler_def go_step wasmErr_def split: prod.splits outcome.splits)
next
  assume "cmBank msg = None \<and> cmCustom msg = None \<and> cmDistribution msg = None \<and> cmIBC msg = Some i \<and>
      ibcCloseChannel i = None \<and> ibcTransfer i = None"
  then show "NewDefaultMessageHandler K E [] R I burner c a port msg s =
        (case IBCRawPacketHandler K I c a port msg s of
           (Err e, t) \<Rightarrow> (Err (if abciInfo e = (''wasm'', 20) then ErrUnknownMsg else e), t)
         | x \<Rightarrow> x)"
    by (auto simp: NewDefaultMessageHandler_def SDKMessageHandler_def Encode_def DefaultEncoders_def callEncoder_def
        EncodeIBCMsg_def NewBurnCoinMessageHandler_def go_step wasmErr_def split: prod.splits outcome.splits)
next
  assume "cmBank msg = None \<and> cmCustom msg = Some bz \<and> cmIBC msg = None"
  then show "NewDefaultMessageHandler K E [] R I burner c a port msg s = (Err ErrUnknownMsg, s)"
    by (simp add: NewDefaultMessageHandler_def SDKMessageHandler_def Encode_def DefaultEncoders_def callEncoder_def
        NoCustomMsg_def IBCRawPacketHandler_def NewBurnCoinMessageHandler_def go_step wasmErr_def)
qed

definition exBurner :: "(u64 \<times> u64, unit) burner" where
  "exBurner = \<lparr>burnSendToModule = (\<lambda>_ _ _ (m, x). (Ok (), [], m, x)), burnBurnCoins = (\<lambda>_ _ (m, x). (Ok (), [], m, x))\<rparr>"

definition exBurn :: CosmosMsg where
  "exBurn = exNoMsg\<lparr>cmBank := Some \<lparr>bankSend = None, bankBurn = Some [(''orai'', ''5'')]\<rparr>\<rparr>"

theorem default_chain_routing_witness:
  "NewDefaultMessageHandler exKeeper exEnc [] exRoutes exIbc exBurner exCtx ''carol'' '''' exBurn (exSt []) =
    (Ok ([], [], []), exSt [])"
proof -
  have "NewBurnCoinMessageHandler exEnc (coinsIsZero exSdk) exBurner exCtx ''carol'' '''' exBurn (exSt []) =
      (Ok ([], [], []), exSt [])"
    by (simp add: NewBurnCoinMessageHandler_def exBurn_def exNoMsg_def ConvertWasmCoinsToSdkCoins_def
        ConvertWasmCoinToSdkCoin_def exEnc_def exSdk_def go_step extM_def exBurner_def exSt_def)
  then show ?thesis
    using default_chain_routing [where msg = exBurn and b = "\<lparr>bankSend = None, bankBurn = Some [(''orai'', ''5'')]\<rparr>"
        and amount = "[(''orai'', ''5'')]" and K = exKeeper and E = exEnc and R = exRoutes and I = exIbc
        and burner = exBurner and c = exCtx and a = "''carol''" and port = "''''" and s = "exSt []"]
    by (simp add: exBurn_def exNoMsg_def exKeeper_fields)
qed

end
