(* ===== verification/TokenFactory.thy ===== *)
theory TokenFactory
  imports Handlers
begin

section \<open>The token factory\<close>

text \<open>
  The module x/tokenfactory: accounts create denominations \<^verbatim>\<open>factory/{creator}/{subdenom}\<close> and the
  admin of a denomination mints, burns and moves it (src/x/tokenfactory/types and
  src/x/tokenfactory/keeper).

  The module's own store is \<open>tfStore\<close> inside the world of the x/wasm state, beside the rest of the
  chain (\<open>tfRest\<close>: bank, community pool, parameter subspace).  Those are code of the SDK and appear as
  the functions of \<open>tf_fns\<close>; by their type they cannot reach the store of the module.  A stored value
  keeps its message type.  A coin amount is an integer; the nil \<^verbatim>\<open>math.Int\<close>, which
  \<^verbatim>\<open>Coin.IsValid\<close> rejects, has no representation.
\<close>

subsection \<open>Errors, data and environment\<close>

definition tfErr :: "nat \<Rightarrow> gerror" where
  "tfErr n = Registered ''tokenfactory'' n"

abbreviation "ErrDenomExists \<equiv> tfErr 2"
abbreviation "ErrTfUnauthorized \<equiv> tfErr 3"
abbreviation "ErrInvalidDenom \<equiv> tfErr 4"
abbreviation "ErrInvalidCreator \<equiv> tfErr 5"
abbreviation "ErrInvalidAuthorityMetadata \<equiv> tfErr 6"
abbreviation "ErrTfInvalidGenesis \<equiv> tfErr 7"
abbreviation "ErrSubdenomTooLong \<equiv> tfErr 8"
abbreviation "ErrCreatorTooLong \<equiv> tfErr 9"
abbreviation "ErrDenomDoesNotExist \<equiv> tfErr 10"
abbreviation "ErrCapabilityNotEnabled \<equiv> tfErr 11"

record DenomAuthorityMetadata =
  daAdmin :: bytes

record tf_params =
  DenomCreationFee :: "Coins option"
  DenomCreationGasConsume :: u64

record DenomUnit =
  duDenom :: bytes
  duExponent :: u32
  duAliases :: "bytes list"

record Metadata =
  mdDescription :: bytes
  mdDenomUnits :: "DenomUnit list"
  mdBase :: bytes
  mdDisplay :: bytes
  mdName :: bytes
  mdSymbol :: bytes
  mdURI :: bytes
  mdURIHash :: bytes

datatype tf_stored = TFAuthority DenomAuthorityMetadata | TFDenom bytes

record 'y tfw =
  tfStore :: "tf_stored kv"
  tfRest :: 'y

record ('m, 'y) tf_fns =
  tfSdk :: sdk_fns
  tfMeter :: "'m meter_fns"
  tfCapabilities :: "bytes list"
  ValidateDenom :: "bytes \<Rightarrow> unit outcome"
  NewCoins :: "Coin list \<Rightarrow> Coins outcome"
  CoinsValidate :: "Coins \<Rightarrow> unit outcome"
  CoinIsValid :: "Coin \<Rightarrow> bool"
  CoinString :: "Coin \<Rightarrow> bytes"
  MetadataValidate :: "Metadata \<Rightarrow> unit outcome"
  MetadataString :: "Metadata \<Rightarrow> bytes"
  GetParamSet :: "'y \<Rightarrow> tf_params outcome"
  SetParamSet :: "tf_params \<Rightarrow> ('m, 'y, unit) ext"
  HasSupply :: "'y \<Rightarrow> bytes \<Rightarrow> bool"
  GetDenomMetaData :: "'y \<Rightarrow> bytes \<Rightarrow> Metadata option"
  SetDenomMetaData :: "Metadata \<Rightarrow> ('m, 'y, unit) ext"
  BlockedAddr :: "AccAddress \<Rightarrow> bool"
  MintCoins :: "bytes \<Rightarrow> Coins \<Rightarrow> ('m, 'y, unit) ext"
  BurnCoins :: "bytes \<Rightarrow> Coins \<Rightarrow> ('m, 'y, unit) ext"
  SendCoinsFromModuleToAccount :: "bytes \<Rightarrow> AccAddress \<Rightarrow> Coins \<Rightarrow> ('m, 'y, unit) ext"
  SendCoinsFromAccountToModule :: "AccAddress \<Rightarrow> bytes \<Rightarrow> Coins \<Rightarrow> ('m, 'y, unit) ext"
  SendCoins :: "AccAddress \<Rightarrow> AccAddress \<Rightarrow> Coins \<Rightarrow> ('m, 'y, unit) ext"
  FundCommunityPool :: "Coins \<Rightarrow> AccAddress \<Rightarrow> ('m, 'y, unit) ext"

definition inRest :: "('m, 'y, 'a) ext \<Rightarrow> ('m, 'y tfw, 'a) ext" where
  "inRest f = (\<lambda>(m, x). case f (m, tfRest x) of (r, es, m', y) \<Rightarrow> (r, es, m', x\<lparr>tfRest := y\<rparr>))"

definition restM :: "('m, 'y, 'a) ext \<Rightarrow> (('m, 'y tfw) st, 'a) go" where
  "restM f = extM (inRest f)"

definition restGets :: "('y \<Rightarrow> 'a) \<Rightarrow> (('m, 'y tfw) st, 'a) go" where
  "restGets f = getsM (\<lambda>s. f (tfRest (world s)))"

subsection \<open>Denominations (types/denoms.go)\<close>

definition ModuleName :: bytes where "ModuleName = ''tokenfactory''"
definition ModuleDenomPrefix :: bytes where "ModuleDenomPrefix = ''factory''"
definition MaxSubdenomLength :: nat where "MaxSubdenomLength = 44"
definition MaxHrpLength :: nat where "MaxHrpLength = 16"
definition MaxCreatorLength :: nat where "MaxCreatorLength = 59 + MaxHrpLength"

definition GetTokenDenom :: "('m, 'y) tf_fns \<Rightarrow> bytes \<Rightarrow> bytes \<Rightarrow> bytes outcome" where
  "GetTokenDenom F creator subdenom =
    (if length subdenom > MaxSubdenomLength then Err ErrSubdenomTooLong
     else if length creator > MaxCreatorLength then Err ErrCreatorTooLong
     else if CHR ''/'' \<in> set creator then Err ErrInvalidCreator
     else let denom = joinWith ''/'' [ModuleDenomPrefix, creator, subdenom] in
       withValue (ValidateDenom F denom) (\<lambda>_. Ok denom))"

definition DeconstructDenom :: "('m, 'y) tf_fns \<Rightarrow> bytes \<Rightarrow> (bytes \<times> bytes) outcome" where
  "DeconstructDenom F denom = withValue (ValidateDenom F denom) (\<lambda>_.
     let strParts = splitOn CHR ''/'' denom in
     if length strParts < 3 then Err ErrInvalidDenom
     else if strParts ! 0 \<noteq> ModuleDenomPrefix then Err ErrInvalidDenom
     else case fromBech32 (tfSdk F) (strParts ! 1) of
         Ok creatorAddr \<Rightarrow> Ok (accString (tfSdk F) creatorAddr, joinWith ''/'' (drop 2 strParts))
       | Err _ \<Rightarrow> Err ErrInvalidDenom
       | Panic p \<Rightarrow> Panic p)"

subsection \<open>Store keys (types/keys.go)\<close>

definition KeySeparator :: bytes where "KeySeparator = ''|''"
definition DenomAuthorityMetadataKey :: bytes where "DenomAuthorityMetadataKey = ''authoritymetadata''"
definition DenomsPrefixKey :: bytes where "DenomsPrefixKey = ''denoms''"
definition CreatorPrefixKey :: bytes where "CreatorPrefixKey = ''creator''"

definition GetDenomPrefixStore :: "bytes \<Rightarrow> bytes" where
  "GetDenomPrefixStore denom = joinWith KeySeparator [DenomsPrefixKey, denom, '''']"

definition GetCreatorPrefix :: "bytes \<Rightarrow> bytes" where
  "GetCreatorPrefix creator = joinWith KeySeparator [CreatorPrefixKey, creator, '''']"

definition GetCreatorsPrefix :: bytes where
  "GetCreatorsPrefix = joinWith KeySeparator [CreatorPrefixKey, '''']"

subsection \<open>The keeper's store access (keeper/keeper.go, admins.go, creators.go, params.go)\<close>

definition tfGet :: "bytes \<Rightarrow> (('m, 'y tfw) st, tf_stored option) go" where
  "tfGet k = getsM (\<lambda>s. kv_get (tfStore (world s)) k)"

definition tfSet :: "bytes \<Rightarrow> tf_stored \<Rightarrow> (('m, 'y tfw) st, unit) go" where
  "tfSet k v = modifyM (\<lambda>s. s\<lparr>world := (world s)\<lparr>tfStore := kv_set k v (tfStore (world s))\<rparr>\<rparr>)"

text \<open>Unmarshalling no bytes gives the empty message.\<close>

fun asAuthority :: "tf_stored option \<Rightarrow> DenomAuthorityMetadata outcome" where
  "asAuthority None = Ok \<lparr>daAdmin = ''''\<rparr>"
| "asAuthority (Some (TFAuthority m)) = Ok m"
| "asAuthority (Some (TFDenom _)) = Err (PlainErr ''proto: wrong message'')"

definition GetAuthorityMetadata :: "bytes \<Rightarrow> (('m, 'y tfw) st, DenomAuthorityMetadata) go" where
  "GetAuthorityMetadata denom =
    bindM (tfGet (GetDenomPrefixStore denom @ DenomAuthorityMetadataKey)) (\<lambda>bz. liftO (asAuthority bz))"

definition AuthorityMetadata_Validate :: "('m, 'y) tf_fns \<Rightarrow> DenomAuthorityMetadata \<Rightarrow> unit outcome" where
  "AuthorityMetadata_Validate F metadata =
    (if daAdmin metadata \<noteq> '''' then wrapO id (fromBech32 (tfSdk F) (daAdmin metadata)) else Ok ())"

definition setAuthorityMetadata ::
  "('m, 'y) tf_fns \<Rightarrow> bytes \<Rightarrow> DenomAuthorityMetadata \<Rightarrow> (('m, 'y tfw) st, unit) go" where
  "setAuthorityMetadata F denom metadata =
    thenM (liftO (AuthorityMetadata_Validate F metadata))
      (tfSet (GetDenomPrefixStore denom @ DenomAuthorityMetadataKey) (TFAuthority metadata))"

definition setAdmin :: "('m, 'y) tf_fns \<Rightarrow> bytes \<Rightarrow> bytes \<Rightarrow> (('m, 'y tfw) st, unit) go" where
  "setAdmin F denom admin = bindM (GetAuthorityMetadata denom) (\<lambda>metadata.
     setAuthorityMetadata F denom (metadata\<lparr>daAdmin := admin\<rparr>))"

definition addDenomFromCreator :: "bytes \<Rightarrow> bytes \<Rightarrow> (('m, 'y tfw) st, unit) go" where
  "addDenomFromCreator creator denom = tfSet (GetCreatorPrefix creator @ denom) (TFDenom denom)"

definition GetDenomsFromCreator :: "bytes \<Rightarrow> (('m, 'y tfw) st, bytes list) go" where
  "GetDenomsFromCreator creator =
    getsM (\<lambda>s. map fst (kv_iter (tfStore (world s)) (GetCreatorPrefix creator)))"

definition GetAllDenomsIterator :: "(('m, 'y tfw) st, (bytes \<times> tf_stored) list) go" where
  "GetAllDenomsIterator = getsM (\<lambda>s. kv_iter (tfStore (world s)) GetCreatorsPrefix)"

definition tfGetParams :: "('m, 'y) tf_fns \<Rightarrow> (('m, 'y tfw) st, tf_params) go" where
  "tfGetParams F = bindM (restGets (GetParamSet F)) liftO"

definition tfSetParams :: "('m, 'y) tf_fns \<Rightarrow> tf_params \<Rightarrow> (('m, 'y tfw) st, unit) go" where
  "tfSetParams F params = restM (SetParamSet F params)"

subsection \<open>Creating denominations (keeper/createdenom.go)\<close>

definition newDenomMetaData :: "bytes \<Rightarrow> Metadata" where
  "newDenomMetaData denom =
    \<lparr>mdDescription = '''', mdDenomUnits = [\<lparr>duDenom = denom, duExponent = 0, duAliases = []\<rparr>], mdBase = denom,
     mdDisplay = '''', mdName = '''', mdSymbol = '''', mdURI = '''', mdURIHash = ''''\<rparr>"

definition createDenomAfterValidation ::
  "('m, 'y) tf_fns \<Rightarrow> bytes \<Rightarrow> bytes \<Rightarrow> (('m, 'y tfw) st, unit) go" where
  "createDenomAfterValidation F creatorAddr denom =
    thenM (restM (SetDenomMetaData F (newDenomMetaData denom)))
    (thenM (setAuthorityMetadata F denom \<lparr>daAdmin = creatorAddr\<rparr>)
      (addDenomFromCreator creatorAddr denom))"

definition validateCreateDenom ::
  "('m, 'y) tf_fns \<Rightarrow> bytes \<Rightarrow> bytes \<Rightarrow> (('m, 'y tfw) st, bytes) go" where
  "validateCreateDenom F creatorAddr subdenom =
    bindM (restGets (\<lambda>y. HasSupply F y subdenom)) (\<lambda>supply.
    thenM (guardM (\<not> supply) (PlainErr ''same as a native denom''))
    (bindM (liftO (GetTokenDenom F creatorAddr subdenom)) (\<lambda>denom.
     bindM (restGets (\<lambda>y. GetDenomMetaData F y denom)) (\<lambda>found.
     thenM (guardM (found = None) ErrDenomExists) (retM denom)))))"

definition chargeForCreateDenom :: "('m, 'y) tf_fns \<Rightarrow> bytes \<Rightarrow> (('m, 'y tfw) st, unit) go" where
  "chargeForCreateDenom F creatorAddr = bindM (tfGetParams F) (\<lambda>params.
    thenM (case DenomCreationFee params of
        None \<Rightarrow> retM ()
      | Some fee \<Rightarrow> bindM (liftO (fromBech32 (tfSdk F) creatorAddr)) (\<lambda>accAddr.
          restM (FundCommunityPool F fee accAddr)))
    (if DenomCreationGasConsume params \<noteq> 0
     then consumeGas (tfMeter F) (DenomCreationGasConsume params) else retM ()))"

definition tfCreateDenom :: "('m, 'y) tf_fns \<Rightarrow> bytes \<Rightarrow> bytes \<Rightarrow> (('m, 'y tfw) st, bytes) go" where
  "tfCreateDenom F creatorAddr subdenom =
    bindM (validateCreateDenom F creatorAddr subdenom) (\<lambda>denom.
    thenM (chargeForCreateDenom F creatorAddr)
    (thenM (createDenomAfterValidation F creatorAddr denom) (retM denom)))"

subsection \<open>Moving coins (keeper/bankactions.go)\<close>

definition mintTo :: "('m, 'y) tf_fns \<Rightarrow> Coin \<Rightarrow> bytes \<Rightarrow> (('m, 'y tfw) st, unit) go" where
  "mintTo F amount to =
    bindM (liftO (DeconstructDenom F (Denom amount))) (\<lambda>_.
    bindM (liftO (NewCoins F [amount])) (\<lambda>coins.
    thenM (restM (MintCoins F ModuleName coins))
    (bindM (liftO (fromBech32 (tfSdk F) to)) (\<lambda>addr.
     thenM (guardM (\<not> BlockedAddr F addr) (PlainErr ''failed to mint to blocked address''))
     (restM (SendCoinsFromModuleToAccount F ModuleName addr coins))))))"

definition burnFrom :: "('m, 'y) tf_fns \<Rightarrow> Coin \<Rightarrow> bytes \<Rightarrow> (('m, 'y tfw) st, unit) go" where
  "burnFrom F amount from =
    bindM (liftO (DeconstructDenom F (Denom amount))) (\<lambda>_.
    bindM (liftO (fromBech32 (tfSdk F) from)) (\<lambda>addr.
    thenM (guardM (\<not> BlockedAddr F addr) (PlainErr ''failed to burn from blocked address''))
    (bindM (liftO (NewCoins F [amount])) (\<lambda>coins.
     thenM (restM (SendCoinsFromAccountToModule F addr ModuleName coins))
     (restM (BurnCoins F ModuleName coins))))))"

definition forceTransfer :: "('m, 'y) tf_fns \<Rightarrow> Coin \<Rightarrow> bytes \<Rightarrow> bytes \<Rightarrow> (('m, 'y tfw) st, unit) go" where
  "forceTransfer F amount fromAddr toAddr =
    bindM (liftO (DeconstructDenom F (Denom amount))) (\<lambda>_.
    bindM (liftO (fromBech32 (tfSdk F) fromAddr)) (\<lambda>fromSdkAddr.
    bindM (liftO (fromBech32 (tfSdk F) toAddr)) (\<lambda>toSdkAddr.
    thenM (guardM (\<not> BlockedAddr F toSdkAddr) (PlainErr ''failed to force transfer to blocked address''))
    (bindM (liftO (NewCoins F [amount])) (\<lambda>coins.
     restM (SendCoins F fromSdkAddr toSdkAddr coins))))))"

subsection \<open>Messages (types/msgs.go)\<close>

record MsgCreateDenom =
  cdSender :: bytes
  cdSubdenom :: bytes

record MsgMint =
  mtSender :: bytes
  mtAmount :: Coin
  mtMintToAddress :: bytes

record MsgBurn =
  buSender :: bytes
  buAmount :: Coin
  buBurnFromAddress :: bytes

record MsgForceTransfer =
  ftSender :: bytes
  ftAmount :: Coin
  ftTransferFromAddress :: bytes
  ftTransferToAddress :: bytes

record MsgChangeAdmin =
  chSender :: bytes
  chDenom :: bytes
  chNewAdmin :: bytes

record MsgSetDenomMetadata =
  sdSender :: bytes
  sdMetadata :: Metadata

datatype tf_msg =
    TfCreateDenom MsgCreateDenom
  | TfMint MsgMint
  | TfBurn MsgBurn
  | TfForceTransfer MsgForceTransfer
  | TfChangeAdmin MsgChangeAdmin
  | TfSetDenomMetadata MsgSetDenomMetadata

definition NewMsgMint :: "bytes \<Rightarrow> Coin \<Rightarrow> MsgMint" where
  "NewMsgMint sender amount = \<lparr>mtSender = sender, mtAmount = amount, mtMintToAddress = ''''\<rparr>"

definition NewMsgBurn :: "bytes \<Rightarrow> Coin \<Rightarrow> MsgBurn" where
  "NewMsgBurn sender amount = \<lparr>buSender = sender, buAmount = amount, buBurnFromAddress = ''''\<rparr>"

definition NewMsgBurnFrom :: "bytes \<Rightarrow> Coin \<Rightarrow> bytes \<Rightarrow> MsgBurn" where
  "NewMsgBurnFrom sender amount from =
    \<lparr>buSender = sender, buAmount = amount, buBurnFromAddress = from\<rparr>"

text \<open>An address check whose error is \<^verbatim>\<open>ErrInvalidAddress\<close>.\<close>

definition tfAddr :: "('m, 'y) tf_fns \<Rightarrow> bytes \<Rightarrow> unit outcome" where
  "tfAddr F a = wrapO (\<lambda>_. ErrInvalidAddress) (fromBech32 (tfSdk F) a)"

definition MsgCreateDenom_ValidateBasic :: "('m, 'y) tf_fns \<Rightarrow> MsgCreateDenom \<Rightarrow> unit outcome" where
  "MsgCreateDenom_ValidateBasic F m =
    thenO (tfAddr F (cdSender m))
      (wrapO (\<lambda>_. ErrInvalidDenom) (GetTokenDenom F (cdSender m) (cdSubdenom m)))"

definition MsgMint_ValidateBasic :: "('m, 'y) tf_fns \<Rightarrow> MsgMint \<Rightarrow> unit outcome" where
  "MsgMint_ValidateBasic F m =
    thenO (tfAddr F (mtSender m))
    (thenO (if mtMintToAddress m \<noteq> '''' then tfAddr F (mtMintToAddress m) else Ok ())
      (failIf (\<not> CoinIsValid F (mtAmount m) \<or> Amount (mtAmount m) = 0) ErrInvalidCoins))"

definition MsgBurn_ValidateBasic :: "('m, 'y) tf_fns \<Rightarrow> MsgBurn \<Rightarrow> unit outcome" where
  "MsgBurn_ValidateBasic F m =
    thenO (tfAddr F (buSender m))
    (thenO (failIf (\<not> CoinIsValid F (buAmount m) \<or> Amount (buAmount m) = 0) ErrInvalidCoins)
      (if buBurnFromAddress m \<noteq> '''' then tfAddr F (buBurnFromAddress m) else Ok ()))"

definition MsgForceTransfer_ValidateBasic :: "('m, 'y) tf_fns \<Rightarrow> MsgForceTransfer \<Rightarrow> unit outcome" where
  "MsgForceTransfer_ValidateBasic F m =
    thenO (tfAddr F (ftSender m))
    (thenO (tfAddr F (ftTransferFromAddress m))
    (thenO (tfAddr F (ftTransferToAddress m))
      (failIf (\<not> CoinIsValid F (ftAmount m)) ErrInvalidCoins)))"

definition MsgChangeAdmin_ValidateBasic :: "('m, 'y) tf_fns \<Rightarrow> MsgChangeAdmin \<Rightarrow> unit outcome" where
  "MsgChangeAdmin_ValidateBasic F m =
    thenO (tfAddr F (chSender m))
    (thenO (tfAddr F (chNewAdmin m))
      (wrapO id (DeconstructDenom F (chDenom m))))"

definition MsgSetDenomMetadata_ValidateBasic :: "('m, 'y) tf_fns \<Rightarrow> MsgSetDenomMetadata \<Rightarrow> unit outcome" where
  "MsgSetDenomMetadata_ValidateBasic F m =
    thenO (tfAddr F (sdSender m))
    (thenO (MetadataValidate F (sdMetadata m))
      (wrapO id (DeconstructDenom F (mdBase (sdMetadata m)))))"

fun tf_ValidateBasic :: "('m, 'y) tf_fns \<Rightarrow> tf_msg \<Rightarrow> unit outcome" where
  "tf_ValidateBasic F (TfCreateDenom m) = MsgCreateDenom_ValidateBasic F m"
| "tf_ValidateBasic F (TfMint m) = MsgMint_ValidateBasic F m"
| "tf_ValidateBasic F (TfBurn m) = MsgBurn_ValidateBasic F m"
| "tf_ValidateBasic F (TfForceTransfer m) = MsgForceTransfer_ValidateBasic F m"
| "tf_ValidateBasic F (TfChangeAdmin m) = MsgChangeAdmin_ValidateBasic F m"
| "tf_ValidateBasic F (TfSetDenomMetadata m) = MsgSetDenomMetadata_ValidateBasic F m"

subsection \<open>The message server (keeper/msg_server.go, types/capabilities.go)\<close>

definition EnableSetMetadata :: bytes where "EnableSetMetadata = ''enable_metadata''"
definition EnableForceTransfer :: bytes where "EnableForceTransfer = ''enable_force_transfer''"
definition EnableBurnFrom :: bytes where "EnableBurnFrom = ''enable_burn_from''"

fun hasCapability :: "bytes list \<Rightarrow> bytes \<Rightarrow> bool" where
  "hasCapability [] capability = False"
| "hasCapability (v # vs) capability = (v = capability \<or> hasCapability vs capability)"

definition IsCapabilityEnabled :: "bytes list \<Rightarrow> bytes \<Rightarrow> bool" where
  "IsCapabilityEnabled enabled capability = (enabled = [] \<or> hasCapability enabled capability)"

definition tfEvent :: "bytes \<Rightarrow> (bytes \<times> bytes) list \<Rightarrow> Event" where
  "tfEvent ty attrs = \<lparr>EventType = ty, Attributes = map (\<lambda>(k, v). \<lparr>AttrKey = k, AttrValue = v\<rparr>) attrs\<rparr>"

text \<open>The check every handler but \<^verbatim>\<open>CreateDenom\<close> makes: the sender is the admin on record.\<close>

definition requireAdmin :: "bytes \<Rightarrow> bytes \<Rightarrow> (('m, 'y tfw) st, unit) go" where
  "requireAdmin denom sender = bindM (GetAuthorityMetadata denom) (\<lambda>authorityMetadata.
     guardM (sender = daAdmin authorityMetadata) ErrTfUnauthorized)"

definition tf_CreateDenom :: "('m, 'y) tf_fns \<Rightarrow> MsgCreateDenom \<Rightarrow> (('m, 'y tfw) st, bytes) go" where
  "tf_CreateDenom F msg = bindM (tfCreateDenom F (cdSender msg) (cdSubdenom msg)) (\<lambda>denom.
     thenM (emitEvents [tfEvent ''create_denom'' [(''creator'', cdSender msg), (''new_token_denom'', denom)]])
       (retM denom))"

definition tf_Mint :: "('m, 'y) tf_fns \<Rightarrow> MsgMint \<Rightarrow> (('m, 'y tfw) st, unit) go" where
  "tf_Mint F msg =
    bindM (restGets (\<lambda>y. GetDenomMetaData F y (Denom (mtAmount msg)))) (\<lambda>denomExists.
    thenM (guardM (denomExists \<noteq> None) ErrDenomDoesNotExist)
    (thenM (requireAdmin (Denom (mtAmount msg)) (mtSender msg))
    (let mintToAddress = (if mtMintToAddress msg = '''' then mtSender msg else mtMintToAddress msg) in
     thenM (mintTo F (mtAmount msg) mintToAddress)
       (emitEvents [tfEvent ''tf_mint''
          [(''mint_to_address'', mtSender msg), (''amount'', CoinString F (mtAmount msg))]]))))"

definition tf_Burn :: "('m, 'y) tf_fns \<Rightarrow> MsgBurn \<Rightarrow> (('m, 'y tfw) st, unit) go" where
  "tf_Burn F msg =
    thenM (requireAdmin (Denom (buAmount msg)) (buSender msg))
    (thenM (guardM (buBurnFromAddress msg = '''' \<or> IsCapabilityEnabled (tfCapabilities F) EnableBurnFrom)
        ErrCapabilityNotEnabled)
    (let burnFromAddress = (if buBurnFromAddress msg = '''' then buSender msg else buBurnFromAddress msg) in
     thenM (burnFrom F (buAmount msg) burnFromAddress)
       (emitEvents [tfEvent ''tf_burn''
          [(''burn_from_address'', buSender msg), (''amount'', CoinString F (buAmount msg))]])))"

definition tf_ForceTransfer :: "('m, 'y) tf_fns \<Rightarrow> MsgForceTransfer \<Rightarrow> (('m, 'y tfw) st, unit) go" where
  "tf_ForceTransfer F msg =
    thenM (guardM (IsCapabilityEnabled (tfCapabilities F) EnableForceTransfer) ErrCapabilityNotEnabled)
    (thenM (requireAdmin (Denom (ftAmount msg)) (ftSender msg))
    (thenM (forceTransfer F (ftAmount msg) (ftTransferFromAddress msg) (ftTransferToAddress msg))
      (emitEvents [tfEvent ''force_transfer''
         [(''transfer_from_address'', ftTransferFromAddress msg), (''transfer_to_address'', ftTransferToAddress msg),
          (''amount'', CoinString F (ftAmount msg))]])))"

definition tf_ChangeAdmin :: "('m, 'y) tf_fns \<Rightarrow> MsgChangeAdmin \<Rightarrow> (('m, 'y tfw) st, unit) go" where
  "tf_ChangeAdmin F msg =
    thenM (requireAdmin (chDenom msg) (chSender msg))
    (thenM (setAdmin F (chDenom msg) (chNewAdmin msg))
      (emitEvents [tfEvent ''change_admin'' [(''denom'', chDenom msg), (''new_admin'', chNewAdmin msg)]]))"

definition tf_SetDenomMetadata :: "('m, 'y) tf_fns \<Rightarrow> MsgSetDenomMetadata \<Rightarrow> (('m, 'y tfw) st, unit) go" where
  "tf_SetDenomMetadata F msg =
    thenM (guardM (IsCapabilityEnabled (tfCapabilities F) EnableSetMetadata) ErrCapabilityNotEnabled)
    (thenM (liftO (MetadataValidate F (sdMetadata msg)))
    (thenM (requireAdmin (mdBase (sdMetadata msg)) (sdSender msg))
    (thenM (restM (SetDenomMetaData F (sdMetadata msg)))
      (emitEvents [tfEvent ''set_denom_metadata'' [(''denom'', mdBase (sdMetadata msg)),
         (''denom_metadata'', MetadataString F (sdMetadata msg))]]))))"

text \<open>The response carries the new denomination for \<^verbatim>\<open>CreateDenom\<close> and is empty otherwise.  The
  SDK's router runs \<^verbatim>\<open>ValidateBasic\<close> before a handler.\<close>

fun tf_serve :: "('m, 'y) tf_fns \<Rightarrow> tf_msg \<Rightarrow> (('m, 'y tfw) st, bytes) go" where
  "tf_serve F (TfCreateDenom m) = tf_CreateDenom F m"
| "tf_serve F (TfMint m) = thenM (tf_Mint F m) (retM '''')"
| "tf_serve F (TfBurn m) = thenM (tf_Burn F m) (retM '''')"
| "tf_serve F (TfForceTransfer m) = thenM (tf_ForceTransfer F m) (retM '''')"
| "tf_serve F (TfChangeAdmin m) = thenM (tf_ChangeAdmin F m) (retM '''')"
| "tf_serve F (TfSetDenomMetadata m) = thenM (tf_SetDenomMetadata F m) (retM '''')"

definition tf_deliver :: "('m, 'y) tf_fns \<Rightarrow> tf_msg \<Rightarrow> (('m, 'y tfw) st, bytes) go" where
  "tf_deliver F msg = thenM (liftO (tf_ValidateBasic F msg)) (tf_serve F msg)"

subsection \<open>Genesis (types/genesis.go, types/params.go, keeper/genesis.go)\<close>

record GenesisDenom =
  gdDenom :: bytes
  gdAuthorityMetadata :: DenomAuthorityMetadata

record tf_genesis =
  gsParams :: tf_params
  gsFactoryDenoms :: "GenesisDenom list"

definition tfParams_Validate :: "('m, 'y) tf_fns \<Rightarrow> tf_params \<Rightarrow> unit outcome" where
  "tfParams_Validate F p = wrapO (\<lambda>_. PlainErr ''invalid denom creation fee'')
    (CoinsValidate F (case DenomCreationFee p of None \<Rightarrow> [] | Some fee \<Rightarrow> fee))"

fun validateFactoryDenoms :: "('m, 'y) tf_fns \<Rightarrow> bytes list \<Rightarrow> GenesisDenom list \<Rightarrow> unit outcome" where
  "validateFactoryDenoms F seenDenoms [] = Ok ()"
| "validateFactoryDenoms F seenDenoms (denom # denoms) =
    thenO (failIf (gdDenom denom \<in> set seenDenoms) ErrTfInvalidGenesis)
    (thenO (wrapO id (DeconstructDenom F (gdDenom denom)))
    (thenO (if daAdmin (gdAuthorityMetadata denom) \<noteq> ''''
        then wrapO (\<lambda>_. ErrInvalidAuthorityMetadata) (fromBech32 (tfSdk F) (daAdmin (gdAuthorityMetadata denom)))
        else Ok ())
      (validateFactoryDenoms F (gdDenom denom # seenDenoms) denoms)))"

definition tfGenesis_Validate :: "('m, 'y) tf_fns \<Rightarrow> tf_genesis \<Rightarrow> unit outcome" where
  "tfGenesis_Validate F gs =
    thenO (tfParams_Validate F (gsParams gs)) (validateFactoryDenoms F [] (gsFactoryDenoms gs))"

text \<open>\<^verbatim>\<open>if err != nil { panic(err) }\<close>\<close>

definition mustM :: "('s, 'a) go \<Rightarrow> ('s, 'a) go" where
  "mustM m = (\<lambda>s. case m s of (Err e, t) \<Rightarrow> (Panic (OtherPanic ''genesis''), t) | r \<Rightarrow> r)"

definition initDenom :: "('m, 'y) tf_fns \<Rightarrow> GenesisDenom \<Rightarrow> (('m, 'y tfw) st, unit) go" where
  "initDenom F genDenom =
    bindM (mustM (liftO (DeconstructDenom F (gdDenom genDenom)))) (\<lambda>(creator, _).
    thenM (mustM (createDenomAfterValidation F creator (gdDenom genDenom)))
      (mustM (setAuthorityMetadata F (gdDenom genDenom) (gdAuthorityMetadata genDenom))))"

definition tfInitGenesis :: "('m, 'y) tf_fns \<Rightarrow> tf_genesis \<Rightarrow> (('m, 'y tfw) st, unit) go" where
  "tfInitGenesis F genState =
    bindM (case DenomCreationFee (gsParams genState) of
        None \<Rightarrow> bindM (liftO (NewCoins F [])) (\<lambda>fee. retM ((gsParams genState)\<lparr>DenomCreationFee := Some fee\<rparr>))
      | Some _ \<Rightarrow> retM (gsParams genState)) (\<lambda>params.
    thenM (tfSetParams F params) (forM (gsFactoryDenoms genState) (initDenom F)))"

fun exportDenoms :: "tf_stored list \<Rightarrow> (('m, 'y tfw) st, GenesisDenom list) go" where
  "exportDenoms [] = retM []"
| "exportDenoms (TFDenom denom # vs) =
    bindM (mustM (GetAuthorityMetadata denom)) (\<lambda>authorityMetadata.
    bindM (exportDenoms vs) (\<lambda>genDenoms.
      retM (\<lparr>gdDenom = denom, gdAuthorityMetadata = authorityMetadata\<rparr> # genDenoms)))"
| "exportDenoms (TFAuthority _ # vs) = panicM (OtherPanic ''not a denom'')"

definition tfExportGenesis :: "('m, 'y) tf_fns \<Rightarrow> (('m, 'y tfw) st, tf_genesis) go" where
  "tfExportGenesis F =
    bindM GetAllDenomsIterator (\<lambda>kvs.
    bindM (exportDenoms (map snd kvs)) (\<lambda>genDenoms.
    bindM (tfGetParams F) (\<lambda>params.
      retM \<lparr>gsParams = params, gsFactoryDenoms = genDenoms\<rparr>)))"

subsection \<open>Keys and denominations\<close>

abbreviation authKey :: "bytes \<Rightarrow> bytes" where
  "authKey denom \<equiv> GetDenomPrefixStore denom @ DenomAuthorityMetadataKey"

abbreviation creatorKey :: "bytes \<Rightarrow> bytes \<Rightarrow> bytes" where
  "creatorKey creator denom \<equiv> GetCreatorPrefix creator @ denom"

lemmas tf_key_defs = GetDenomPrefixStore_def GetCreatorPrefix_def GetCreatorsPrefix_def KeySeparator_def
  DenomsPrefixKey_def CreatorPrefixKey_def DenomAuthorityMetadataKey_def

lemma tf_prefix_inject [simp]:
  "GetDenomPrefixStore d = GetDenomPrefixStore e \<longleftrightarrow> d = e" "GetCreatorPrefix c = GetCreatorPrefix b \<longleftrightarrow> c = b"
  by (simp_all add: tf_key_defs)

lemma auth_neq_creator [simp]: "authKey d \<noteq> creatorKey c e" "creatorKey c e \<noteq> authKey d"
  by (simp_all add: tf_key_defs)

lemma creatorKey_under: "creatorKey c d = GetCreatorsPrefix @ c @ ''|'' @ d"
  by (simp add: tf_key_defs)

lemma creatorKey_inject:
  assumes "CHR ''|'' \<notin> set d" and "CHR ''|'' \<notin> set e"
  shows "creatorKey c d = creatorKey b e \<longleftrightarrow> c = b \<and> d = e"
proof
  assume "creatorKey c d = creatorKey b e"
  then have "rev d @ CHR ''|'' # rev c = rev e @ CHR ''|'' # rev b"
    by (metis (no_types, lifting) append.assoc append_Cons append_Nil creatorKey_under rev_append rev_singleton_conv same_append_eq)
  then show "c = b \<and> d = e"
    using assms by (metis append_sep_inject rev_is_rev_conv set_rev)
qed simp

lemma splitOn_head:
  "ys \<noteq> [] \<Longrightarrow> splitOn sep s = x # ys \<longleftrightarrow> (\<exists>r. sep \<notin> set x \<and> s = x @ sep # r \<and> splitOn sep r = ys)"
proof (induction s arbitrary: x)
  case (Cons c s)
  obtain h t where ht: "splitOn sep s = h # t" by (cases "splitOn sep s") auto
  show ?case
  proof (cases "c = sep")
    case True
    then show ?thesis by (auto simp: append_eq_Cons_conv Cons_eq_append_conv)
  next
    case False
    have IH: "h # t = u # ys \<longleftrightarrow> (\<exists>r. sep \<notin> set u \<and> s = u @ sep # r \<and> splitOn sep r = ys)" for u
      using Cons ht by simp
    show ?thesis
    proof (cases x)
      case Nil
      then show ?thesis using False ht by simp
    next
      case (Cons b u)
      then show ?thesis using False ht IH [of u] by auto
    qed
  qed
qed simp

lemma DeconstructDenom_iff:
  "DeconstructDenom F d = Ok (c, sub) \<longleftrightarrow>
    (\<exists>part a. ValidateDenom F d = Ok () \<and> CHR ''/'' \<notin> set part \<and> d = ''factory/'' @ part @ ''/'' @ sub \<and>
      fromBech32 (tfSdk F) part = Ok a \<and> c = accString (tfSdk F) a)"
  (is "?l \<longleftrightarrow> ?r")
proof -
  have parts: "splitOn CHR ''/'' d = ''factory'' # part # zs \<and> zs \<noteq> [] \<longleftrightarrow>
      (\<exists>r. CHR ''/'' \<notin> set part \<and> d = ''factory/'' @ part @ ''/'' @ r \<and> splitOn CHR ''/'' r = zs)" for part zs
    using splitOn_head [of "part # zs" "CHR ''/''" d "''factory''"] splitOn_head [of zs "CHR ''/''" _ part]
    by auto
  have "?l \<longleftrightarrow> (\<exists>part zs a. ValidateDenom F d = Ok () \<and> splitOn CHR ''/'' d = ''factory'' # part # zs \<and> zs \<noteq> [] \<and>
      fromBech32 (tfSdk F) part = Ok a \<and> c = accString (tfSdk F) a \<and> sub = joinWith ''/'' zs)"
  proof (cases "splitOn CHR ''/'' d")
    case (Cons p ps)
    then show ?thesis
      by (cases ps; cases "tl ps")
        (auto simp: DeconstructDenom_def withValue_Ok_iff ModuleDenomPrefix_def Let_def split: outcome.splits if_splits)
  qed simp
  also have "\<dots> \<longleftrightarrow> ?r"
    using parts joinWith_splitOn [of "CHR ''/''"] by metis
  finally show ?thesis .
qed

lemma GetTokenDenom_Ok:
  "GetTokenDenom F c sub = Ok d \<longleftrightarrow> length sub \<le> 44 \<and> length c \<le> 75 \<and> CHR ''/'' \<notin> set c \<and>
    d = ''factory/'' @ c @ ''/'' @ sub \<and> ValidateDenom F d = Ok ()"
  by (auto simp: GetTokenDenom_def MaxSubdenomLength_def MaxCreatorLength_def MaxHrpLength_def
      ModuleDenomPrefix_def withValue_Ok_iff Let_def)

end
