(* ===== verification/TokenFactoryProps.thy ===== *)
theory TokenFactoryProps
  imports TokenFactory
begin

section \<open>What the token factory promises\<close>

text \<open>
  The specification of x/tokenfactory is a map from denominations to admins and a relation between
  creators and denominations (\<open>factory\<close>); \<open>spec_allows\<close> and \<open>spec_step\<close> say which messages are allowed
  and what they change.  The detailed keeper, with its byte keys and its checks through the bank's
  metadata, is shown to implement it in every reachable state.  The reachable states are those
  of \<open>tf_reach\<close>: genesis, then messages and anything the rest of the chain does; in all of them
  the store is well typed.  Exporting the state and importing it gives the same store.

  \<open>tf_laws\<close> is what the module relies on in the SDK: bank metadata is never removed, setting it
  makes it found, the empty string is no address, and a valid denomination has no separator.
\<close>

subsection \<open>The specification\<close>

record factory =
  fAdmin :: "bytes \<rightharpoonup> bytes"
  fCreated :: "(bytes \<times> bytes) set"

definition denomOf :: "MsgCreateDenom \<Rightarrow> bytes" where
  "denomOf m = ''factory/'' @ cdSender m @ ''/'' @ cdSubdenom m"

fun spec_allows :: "tf_msg \<Rightarrow> factory \<Rightarrow> bool" where
  "spec_allows (TfCreateDenom m) f = (fAdmin f (denomOf m) = None)"
| "spec_allows (TfMint m) f = (fAdmin f (Denom (mtAmount m)) = Some (mtSender m))"
| "spec_allows (TfBurn m) f = (fAdmin f (Denom (buAmount m)) = Some (buSender m))"
| "spec_allows (TfForceTransfer m) f = (fAdmin f (Denom (ftAmount m)) = Some (ftSender m))"
| "spec_allows (TfChangeAdmin m) f = (fAdmin f (chDenom m) = Some (chSender m))"
| "spec_allows (TfSetDenomMetadata m) f = (fAdmin f (mdBase (sdMetadata m)) = Some (sdSender m))"

fun spec_step :: "tf_msg \<Rightarrow> factory \<Rightarrow> factory" where
  "spec_step (TfCreateDenom m) f =
    \<lparr>fAdmin = (fAdmin f)(denomOf m \<mapsto> cdSender m), fCreated = insert (cdSender m, denomOf m) (fCreated f)\<rparr>"
| "spec_step (TfChangeAdmin m) f = f\<lparr>fAdmin := (fAdmin f)(chDenom m \<mapsto> chNewAdmin m)\<rparr>"
| "spec_step _ f = f"

definition adminOf :: "tf_stored kv \<Rightarrow> bytes \<Rightarrow> bytes option" where
  "adminOf S d = (case kv_get S (authKey d) of Some (TFAuthority m) \<Rightarrow> Some (daAdmin m) | _ \<Rightarrow> None)"

definition created :: "tf_stored kv \<Rightarrow> bytes \<Rightarrow> bytes \<Rightarrow> bool" where
  "created S c d = (kv_get S (creatorKey c d) = Some (TFDenom d))"

definition tf_abs :: "tf_stored kv \<Rightarrow> factory" where
  "tf_abs S = \<lparr>fAdmin = adminOf S, fCreated = {(c, d). created S c d}\<rparr>"

subsection \<open>The environment and the reachable states\<close>

definition metadata_stays :: "('m, 'y) tf_fns \<Rightarrow> 'y \<Rightarrow> 'y \<Rightarrow> bool" where
  "metadata_stays F y y' \<longleftrightarrow> (\<forall>d. GetDenomMetaData F y d \<noteq> None \<longrightarrow> GetDenomMetaData F y' d \<noteq> None)"

definition ext_stays :: "('m, 'y) tf_fns \<Rightarrow> ('m, 'y, 'a) ext \<Rightarrow> bool" where
  "ext_stays F f \<longleftrightarrow> (\<forall>m y. metadata_stays F y (snd (snd (snd (f (m, y))))))"

definition tf_laws :: "('m, 'y) tf_fns \<Rightarrow> bool" where
  "tf_laws F \<longleftrightarrow>
    (\<forall>p. ext_stays F (SetParamSet F p)) \<and>
    (\<forall>md. ext_stays F (SetDenomMetaData F md)) \<and>
    (\<forall>n cs. ext_stays F (MintCoins F n cs) \<and> ext_stays F (BurnCoins F n cs)) \<and>
    (\<forall>n a cs. ext_stays F (SendCoinsFromModuleToAccount F n a cs) \<and>
       ext_stays F (SendCoinsFromAccountToModule F a n cs)) \<and>
    (\<forall>a b cs. ext_stays F (SendCoins F a b cs)) \<and>
    (\<forall>cs a. ext_stays F (FundCommunityPool F cs a)) \<and>
    (\<forall>md m y es m' y'. SetDenomMetaData F md (m, y) = (Ok (), es, m', y') \<longrightarrow>
       GetDenomMetaData F y' (mdBase md) \<noteq> None) \<and>
    (\<forall>a. fromBech32 (tfSdk F) '''' \<noteq> Ok a) \<and>
    (\<forall>d. ValidateDenom F d = Ok () \<longrightarrow> CHR ''|'' \<notin> set d)"

inductive tf_reach :: "('m, 'y) tf_fns \<Rightarrow> ('m, 'y tfw) st \<Rightarrow> bool" for F where
  tr_init: "tfStore (world s) = [] \<Longrightarrow> tfInitGenesis F g s = (Ok (), t) \<Longrightarrow> tf_reach F t"
| tr_msg: "tf_reach F s \<Longrightarrow> tf_deliver F msg s = (Ok r, t) \<Longrightarrow> tf_reach F t"
| tr_other: "tf_reach F s \<Longrightarrow> tfStore (world t) = tfStore (world s) \<Longrightarrow>
    metadata_stays F (tfRest (world s)) (tfRest (world t)) \<Longrightarrow> tf_reach F t"

subsection \<open>The invariant\<close>

text \<open>The creator under which a denomination is indexed: the part of its name, or after an import the
  canonical spelling of the same address.\<close>

definition owner :: "('m, 'y) tf_fns \<Rightarrow> bytes \<Rightarrow> bytes \<Rightarrow> bool" where
  "owner F c d \<longleftrightarrow> (\<exists>part sub a. d = ''factory/'' @ part @ ''/'' @ sub \<and> CHR ''/'' \<notin> set part \<and>
     ValidateDenom F d = Ok () \<and> fromBech32 (tfSdk F) part = Ok a \<and>
     (c = part \<or> c = accString (tfSdk F) a))"

definition canonical :: "('m, 'y) tf_fns \<Rightarrow> bytes \<Rightarrow> bytes \<Rightarrow> bool" where
  "canonical F c d \<longleftrightarrow> (\<exists>sub. DeconstructDenom F d = Ok (c, sub))"

definition goodAdmin :: "('m, 'y) tf_fns \<Rightarrow> bytes \<Rightarrow> bool" where
  "goodAdmin F a \<longleftrightarrow> a = '''' \<or> (\<exists>x. fromBech32 (tfSdk F) a = Ok x)"

definition typed_entry :: "('m, 'y) tf_fns \<Rightarrow> (bytes \<Rightarrow> bytes \<Rightarrow> bool) \<Rightarrow> bytes \<Rightarrow> tf_stored \<Rightarrow> bool" where
  "typed_entry F own k v = (case v of
      TFAuthority m \<Rightarrow> (\<exists>d. k = authKey d) \<and> goodAdmin F (daAdmin m)
    | TFDenom d \<Rightarrow> (\<exists>c. k = creatorKey c d \<and> own c d))"

definition tf_inv :: "('m, 'y) tf_fns \<Rightarrow> (bytes \<Rightarrow> bytes \<Rightarrow> bool) \<Rightarrow> tf_stored kv \<Rightarrow> 'y \<Rightarrow> bool" where
  "tf_inv F own S y \<longleftrightarrow> kv_wf S \<and>
    (\<forall>k v. kv_get S k = Some v \<longrightarrow> typed_entry F own k v) \<and>
    (\<forall>d. adminOf S d \<noteq> None \<longleftrightarrow> (\<exists>c. created S c d)) \<and>
    (\<forall>c c' d. created S c d \<longrightarrow> created S c' d \<longrightarrow> c = c') \<and>
    (\<forall>d. adminOf S d \<noteq> None \<longrightarrow> GetDenomMetaData F y d \<noteq> None)"

abbreviation tf_ok :: "('m, 'y) tf_fns \<Rightarrow> (bytes \<Rightarrow> bytes \<Rightarrow> bool) \<Rightarrow> ('m, 'y tfw) st \<Rightarrow> bool" where
  "tf_ok F own s \<equiv> tf_inv F own (tfStore (world s)) (tfRest (world s))"

subsection \<open>Effects of the primitive steps\<close>

lemma tfGet_Ok_iff [simp]: "tfGet k s = (Ok v, t) \<longleftrightarrow> v = kv_get (tfStore (world s)) k \<and> t = s"
  by (auto simp: tfGet_def)

lemma tfSet_Ok_iff [simp]:
  "tfSet k v s = (Ok u, t) \<longleftrightarrow> t = s\<lparr>world := (world s)\<lparr>tfStore := kv_set k v (tfStore (world s))\<rparr>\<rparr>"
  by (auto simp: tfSet_def)

lemma restGets_Ok_iff [simp]: "restGets f s = (Ok v, t) \<longleftrightarrow> v = f (tfRest (world s)) \<and> t = s"
  by (auto simp: restGets_def)

lemma restM_Ok_iff:
  "restM f s = (Ok v, t) \<longleftrightarrow> (\<exists>es m y. f (meter s, tfRest (world s)) = (Ok v, es, m, y) \<and>
     t = s\<lparr>events := events s @ es, meter := m, world := (world s)\<lparr>tfRest := y\<rparr>\<rparr>)"
  by (auto simp: restM_def extM_def inRest_def split: prod.splits)

text \<open>\<open>quiet\<close>: a step leaves the module's store alone and metadata in place.\<close>

definition quiet :: "('m, 'y) tf_fns \<Rightarrow> (('m, 'y tfw) st, 'a) go \<Rightarrow> bool" where
  "quiet F m \<longleftrightarrow> (\<forall>s. tfStore (world (snd (m s))) = tfStore (world s) \<and>
     metadata_stays F (tfRest (world s)) (tfRest (world (snd (m s)))))"

named_theorems quiet_rules

lemma metadata_stays_refl [simp]: "metadata_stays F y y"
  by (simp add: metadata_stays_def)

lemma metadata_stays_trans: "metadata_stays F x y \<Longrightarrow> metadata_stays F y z \<Longrightarrow> metadata_stays F x z"
  by (simp add: metadata_stays_def)

lemma quietD: "quiet F m \<Longrightarrow> m s = (r, t) \<Longrightarrow>
    tfStore (world t) = tfStore (world s) \<and> metadata_stays F (tfRest (world s)) (tfRest (world t))"
  unfolding quiet_def by (metis snd_conv)

lemma quiet_restM: "ext_stays F f \<Longrightarrow> quiet F (restM f)"
  by (auto simp: quiet_def restM_def extM_def inRest_def ext_stays_def split: prod.splits) (metis snd_conv)

lemma quiet_simple [quiet_rules]:
  "quiet F (retM x)" "quiet F (failM e)" "quiet F (guardM b e)" "quiet F (liftO r)" "quiet F (tfGet k)"
  "quiet F (restGets f)" "quiet F (emitEvents es)" "quiet F (consumeGas M g)"
  by (auto simp: quiet_def retM_def failM_def guardM_def liftO_def tfGet_def restGets_def getsM_def
      emitEvents_def modifyM_def consumeGas_def split: prod.splits option.splits)

lemma quiet_bindM [quiet_rules]: "quiet F m \<Longrightarrow> (\<And>x. quiet F (f x)) \<Longrightarrow> quiet F (bindM m f)"
  unfolding quiet_def bindM_def
  by (auto split: prod.splits outcome.splits) (metis metadata_stays_trans snd_conv)+

lemma quiet_thenM [quiet_rules]: "quiet F m \<Longrightarrow> quiet F n \<Longrightarrow> quiet F (thenM m n)"
  by (simp add: thenM_def quiet_bindM)

lemma quiet_If [quiet_rules]: "(b \<Longrightarrow> quiet F m) \<Longrightarrow> (\<not> b \<Longrightarrow> quiet F n) \<Longrightarrow> quiet F (if b then m else n)"
  by simp

lemma quiet_case_option [quiet_rules]:
  "quiet F m \<Longrightarrow> (\<And>x. quiet F (f x)) \<Longrightarrow> quiet F (case v of None \<Rightarrow> m | Some x \<Rightarrow> f x)"
  by (cases v) auto

lemma quiet_GetAuthorityMetadata [quiet_rules]: "quiet F (GetAuthorityMetadata d)"
  unfolding GetAuthorityMetadata_def by (intro quiet_rules)

lemma quiet_requireAdmin [quiet_rules]: "quiet F (requireAdmin d a)"
  unfolding requireAdmin_def by (intro quiet_rules)

lemma quiet_world_calls [quiet_rules]:
  assumes "tf_laws F"
  shows "quiet F (restM (SetParamSet F p))" "quiet F (restM (SetDenomMetaData F md))"
    "quiet F (restM (MintCoins F n cs))" "quiet F (restM (BurnCoins F n cs))"
    "quiet F (restM (SendCoinsFromModuleToAccount F n a cs))"
    "quiet F (restM (SendCoinsFromAccountToModule F a n cs))"
    "quiet F (restM (SendCoins F a b cs))" "quiet F (restM (FundCommunityPool F cs a))"
  using assms by (auto simp: tf_laws_def intro!: quiet_restM)

lemma quiet_bank_actions [quiet_rules]:
  assumes "tf_laws F"
  shows "quiet F (mintTo F amount to)" "quiet F (burnFrom F amount from)"
    "quiet F (forceTransfer F amount from to)" "quiet F (chargeForCreateDenom F c)"
    "quiet F (validateCreateDenom F c sub)"
  unfolding mintTo_def burnFrom_def forceTransfer_def chargeForCreateDenom_def validateCreateDenom_def tfGetParams_def
  by (intro quiet_rules assms)+

lemma quiet_handlers:
  assumes "tf_laws F"
  shows "quiet F (tf_Mint F m1)" "quiet F (tf_Burn F m2)" "quiet F (tf_ForceTransfer F m3)"
    "quiet F (tf_SetDenomMetadata F m4)"
  unfolding tf_Mint_def tf_Burn_def tf_ForceTransfer_def tf_SetDenomMetadata_def Let_def
  by (intro quiet_rules assms)+

lemma quiet_inv:
  assumes "quiet F m" and "m s = (r, t)" and "tf_ok F own s"
  shows "tf_ok F own t"
  using quietD [OF assms(1,2)] assms(3) by (auto simp: tf_inv_def metadata_stays_def)

lemma requireAdmin_Ok:
  assumes "tf_laws F" and "requireAdmin d a s = (Ok (), t)" and "tfAddr F a = Ok ()"
  shows "adminOf (tfStore (world s)) d = Some a \<and> t = s"
proof -
  have "a \<noteq> ''''" using assms(1,3) by (auto simp: tfAddr_def tf_laws_def)
  then show ?thesis
    using assms(2) unfolding requireAdmin_def GetAuthorityMetadata_def adminOf_def
    by (auto simp: go_Ok_iff split: option.splits tf_stored.splits elim!: asAuthority.elims)
qed

subsection \<open>The two writes keep the invariant\<close>

lemma owner_valid: "owner F c d \<Longrightarrow> ValidateDenom F d = Ok ()"
  by (auto simp: owner_def)

lemma canonical_owner: "canonical F c d \<Longrightarrow> owner F c d"
  unfolding canonical_def owner_def DeconstructDenom_iff by blast

lemma adminOf_set_auth [simp]:
  "adminOf (kv_set (authKey d) (TFAuthority m) S) e = (if e = d then Some (daAdmin m) else adminOf S e)"
  by (simp add: adminOf_def)

lemma adminOf_set_creator [simp]: "adminOf (kv_set (creatorKey c d) v S) e = adminOf S e"
  by (simp add: adminOf_def)

lemma created_set_auth [simp]: "created (kv_set (authKey d) v S) c e = created S c e"
  by (simp add: created_def)

lemma created_set_creator:
  assumes "\<And>e. kv_get S (creatorKey c d) = Some (TFDenom e) \<Longrightarrow> e = d"
  shows "created (kv_set (creatorKey c d) (TFDenom d) S) b e \<longleftrightarrow> b = c \<and> e = d \<or> created S b e"
  using assms by (auto simp: created_def)

lemma tf_invI:
  assumes "kv_wf S" and "\<And>k v. kv_get S k = Some v \<Longrightarrow> typed_entry F own k v"
    and "\<And>d. adminOf S d \<noteq> None \<longleftrightarrow> (\<exists>c. created S c d)"
    and "\<And>c c' d. created S c d \<Longrightarrow> created S c' d \<Longrightarrow> c = c'"
    and "\<And>d. adminOf S d \<noteq> None \<Longrightarrow> GetDenomMetaData F y d \<noteq> None"
  shows "tf_inv F own S y"
  using assms unfolding tf_inv_def by simp

lemma tf_inv_change_admin:
  assumes "tf_inv F own S y" and "adminOf S d \<noteq> None" and "goodAdmin F (daAdmin m)"
  shows "tf_inv F own (kv_set (authKey d) (TFAuthority m) S) y"
  using assms unfolding tf_inv_def by (auto simp: typed_entry_def)

lemma tf_inv_typed: "tf_inv F own S y \<Longrightarrow> kv_get S k = Some v \<Longrightarrow> typed_entry F own k v"
  by (simp add: tf_inv_def)

lemma tf_laws_separator: "tf_laws F \<Longrightarrow> ValidateDenom F d = Ok () \<Longrightarrow> CHR ''|'' \<notin> set d"
  by (simp add: tf_laws_def)

lemma no_foreign_entry:
  assumes laws: "tf_laws F" and inv: "tf_inv F own S y" and own: "\<And>c d. own c d \<Longrightarrow> owner F c d" and "own c d"
    and entry: "kv_get S (creatorKey c d) = Some (TFDenom e)"
  shows "e = d"
proof -
  obtain b where b: "creatorKey c d = creatorKey b e" "own b e"
    using tf_inv_typed [OF inv entry] by (auto simp: typed_entry_def)
  have "CHR ''|'' \<notin> set d" "CHR ''|'' \<notin> set e"
    using tf_laws_separator [OF laws owner_valid [OF own]] b(2) assms(4) by blast+
  then show ?thesis using b(1) creatorKey_inject by blast
qed

lemma tf_inv_create:
  assumes laws: "tf_laws F" and inv: "tf_inv F own S y" and own: "\<And>c d. own c d \<Longrightarrow> owner F c d" "own c d"
    and good: "goodAdmin F (daAdmin m)"
    and fresh: "\<And>b. created S b d \<Longrightarrow> b = c"
    and meta: "metadata_stays F y y'" "GetDenomMetaData F y' d \<noteq> None"
  shows "tf_inv F own (kv_set (creatorKey c d) (TFDenom d) (kv_set (authKey d) (TFAuthority m) S)) y'"
proof -
  let ?T = "kv_set (creatorKey c d) (TFDenom d) (kv_set (authKey d) (TFAuthority m) S)"
  have cr: "created ?T b e \<longleftrightarrow> b = c \<and> e = d \<or> created S b e" for b e
    using no_foreign_entry [OF laws inv own] by (subst created_set_creator) auto
  have ad: "adminOf ?T e = (if e = d then Some (daAdmin m) else adminOf S e)" for e
    by simp
  have typed: "typed_entry F own k v" if "kv_get ?T k = Some v" for k v
    using that inv own(2) good unfolding tf_inv_def by (auto simp: typed_entry_def split: if_splits)
  have match: "adminOf ?T e \<noteq> None \<longleftrightarrow> (\<exists>b. created ?T b e)" for e
    using inv unfolding tf_inv_def ad cr by auto
  have uniq: "b = b'" if "created ?T b e" "created ?T b' e" for b b' e
    using that inv fresh unfolding tf_inv_def cr by blast
  have found: "GetDenomMetaData F y' e \<noteq> None" if "adminOf ?T e \<noteq> None" for e
    using that inv meta unfolding tf_inv_def ad metadata_stays_def by (auto split: if_splits)
  have "kv_wf ?T" using inv unfolding tf_inv_def by simp
  then show ?thesis using typed match uniq found by (rule tf_invI)
qed

subsection \<open>Operations\<close>

abbreviation withDenom :: "bytes \<Rightarrow> bytes \<Rightarrow> DenomAuthorityMetadata \<Rightarrow> tf_stored kv \<Rightarrow> tf_stored kv" where
  "withDenom c d m S \<equiv> kv_set (creatorKey c d) (TFDenom d) (kv_set (authKey d) (TFAuthority m) S)"

lemma AuthorityMetadata_Validate_Ok [simp]: "AuthorityMetadata_Validate F m = Ok u \<longleftrightarrow> goodAdmin F (daAdmin m)"
  by (auto simp: AuthorityMetadata_Validate_def goodAdmin_def)

lemma setAuthorityMetadata_Ok [simp]:
  "setAuthorityMetadata F d m s = (Ok u, t) \<longleftrightarrow> goodAdmin F (daAdmin m) \<and>
    t = s\<lparr>world := (world s)\<lparr>tfStore := kv_set (authKey d) (TFAuthority m) (tfStore (world s))\<rparr>\<rparr>"
  by (auto simp: setAuthorityMetadata_def go_Ok_iff)

lemma createDenomAfterValidation_Ok:
  assumes laws: "tf_laws F" and run: "createDenomAfterValidation F c d s = (Ok u, t)"
  shows "tfStore (world t) = withDenom c d \<lparr>daAdmin = c\<rparr> (tfStore (world s))"
    and "metadata_stays F (tfRest (world s)) (tfRest (world t))"
    and "GetDenomMetaData F (tfRest (world t)) d \<noteq> None" and "goodAdmin F c"
proof -
  let ?set = "restM (SetDenomMetaData F (newDenomMetaData d))"
  obtain s1 where s1: "?set s = (Ok (), s1)" and t: "goodAdmin F c"
      "t = s1\<lparr>world := (world s1)\<lparr>tfStore := withDenom c d \<lparr>daAdmin = c\<rparr> (tfStore (world s1))\<rparr>\<rparr>"
    using run by (auto simp: createDenomAfterValidation_def addDenomFromCreator_def go_Ok_iff)
  have quiet: "tfStore (world s1) = tfStore (world s)" "metadata_stays F (tfRest (world s)) (tfRest (world s1))"
    using quietD [OF quiet_world_calls(2) [OF laws] s1] by simp_all
  have "GetDenomMetaData F (tfRest (world s1)) (mdBase (newDenomMetaData d)) \<noteq> None"
    using s1 laws unfolding restM_Ok_iff tf_laws_def by force
  then show "tfStore (world t) = withDenom c d \<lparr>daAdmin = c\<rparr> (tfStore (world s))"
    and "metadata_stays F (tfRest (world s)) (tfRest (world t))"
    and "GetDenomMetaData F (tfRest (world t)) d \<noteq> None" and "goodAdmin F c"
    using quiet t by (simp_all add: newDenomMetaData_def)
qed

lemma deliver_create:
  assumes laws: "tf_laws F" and run: "tf_deliver F (TfCreateDenom m) s = (Ok r, t)"
  shows "tfStore (world t) = withDenom (cdSender m) (denomOf m) \<lparr>daAdmin = cdSender m\<rparr> (tfStore (world s))"
    and "metadata_stays F (tfRest (world s)) (tfRest (world t))"
    and "GetDenomMetaData F (tfRest (world s)) (denomOf m) = None"
    and "GetDenomMetaData F (tfRest (world t)) (denomOf m) \<noteq> None"
    and "owner F (cdSender m) (denomOf m)" and "goodAdmin F (cdSender m)"
proof -
  obtain a where addr: "fromBech32 (tfSdk F) (cdSender m) = Ok a"
    using run by (auto simp: tf_deliver_def go_Ok_iff MsgCreateDenom_ValidateBasic_def tfAddr_def)
  obtain d s1 s2 s3 where v: "validateCreateDenom F (cdSender m) (cdSubdenom m) s = (Ok d, s1)"
    and c: "chargeForCreateDenom F (cdSender m) s1 = (Ok (), s2)"
    and n: "createDenomAfterValidation F (cdSender m) d s2 = (Ok (), s3)"
    and t: "world t = world s3"
    using run by (auto simp: tf_deliver_def tf_CreateDenom_def tfCreateDenom_def go_Ok_iff)
  have d: "GetTokenDenom F (cdSender m) (cdSubdenom m) = Ok d" "GetDenomMetaData F (tfRest (world s)) d = None" "s1 = s"
    using v by (auto simp: validateCreateDenom_def go_Ok_iff)
  have dm: "d = denomOf m" "ValidateDenom F d = Ok ()" "CHR ''/'' \<notin> set (cdSender m)"
    using d(1) by (auto simp: GetTokenDenom_Ok denomOf_def)
  have q: "tfStore (world s2) = tfStore (world s)" "metadata_stays F (tfRest (world s)) (tfRest (world s2))"
    using quietD [OF quiet_bank_actions(4) [OF laws] c] d(3) by simp_all
  note new = createDenomAfterValidation_Ok [OF laws n]
  show "tfStore (world t) = withDenom (cdSender m) (denomOf m) \<lparr>daAdmin = cdSender m\<rparr> (tfStore (world s))"
    using new(1) q(1) t dm(1) by simp
  show "metadata_stays F (tfRest (world s)) (tfRest (world t))"
    using metadata_stays_trans [OF q(2) new(2)] t by simp
  show "GetDenomMetaData F (tfRest (world s)) (denomOf m) = None"
    and "GetDenomMetaData F (tfRest (world t)) (denomOf m) \<noteq> None" and "goodAdmin F (cdSender m)"
    using new(3,4) d(2) t dm(1) by simp_all
  show "owner F (cdSender m) (denomOf m)"
    using dm addr unfolding owner_def denomOf_def by blast
qed

lemma deliver_change_admin:
  assumes laws: "tf_laws F" and run: "tf_deliver F (TfChangeAdmin m) s = (Ok r, t)"
  shows "\<exists>a. tfStore (world t) = kv_set (authKey (chDenom m)) (TFAuthority a) (tfStore (world s)) \<and>
      daAdmin a = chNewAdmin m \<and> goodAdmin F (chNewAdmin m)"
    and "tfRest (world t) = tfRest (world s)"
    and "adminOf (tfStore (world s)) (chDenom m) = Some (chSender m)"
proof -
  obtain s1 s2 where adr: "tfAddr F (chSender m) = Ok ()"
    and req: "requireAdmin (chDenom m) (chSender m) s = (Ok (), s1)"
    and upd: "setAdmin F (chDenom m) (chNewAdmin m) s1 = (Ok (), s2)" and t: "world t = world s2"
    using run by (auto simp: tf_deliver_def tf_ChangeAdmin_def go_Ok_iff MsgChangeAdmin_ValidateBasic_def)
  note admin = requireAdmin_Ok [OF laws req adr]
  then show "adminOf (tfStore (world s)) (chDenom m) = Some (chSender m)" by simp
  show "\<exists>a. tfStore (world t) = kv_set (authKey (chDenom m)) (TFAuthority a) (tfStore (world s)) \<and>
      daAdmin a = chNewAdmin m \<and> goodAdmin F (chNewAdmin m)"
    and "tfRest (world t) = tfRest (world s)"
    using upd admin t unfolding setAdmin_def GetAuthorityMetadata_def by (auto simp: go_Ok_iff)
qed

lemma deliver_bank_message:
  assumes laws: "tf_laws F" and run: "tf_deliver F msg s = (Ok r, t)"
    and kind: "\<And>m. msg \<noteq> TfCreateDenom m" "\<And>m. msg \<noteq> TfChangeAdmin m"
  shows "tfStore (world t) = tfStore (world s)" and "metadata_stays F (tfRest (world s)) (tfRest (world t))"
    and "spec_allows msg (tf_abs (tfStore (world s)))"
proof -
  have "quiet F (tf_deliver F msg)"
    using kind by (cases msg) (auto simp: tf_deliver_def intro!: quiet_rules quiet_handlers laws)
  from quietD [OF this run]
  show "tfStore (world t) = tfStore (world s)" and "metadata_stays F (tfRest (world s)) (tfRest (world t))"
    by simp_all
  note defs = tf_deliver_def go_Ok_iff Let_def tf_abs_def
  show "spec_allows msg (tf_abs (tfStore (world s)))"
  proof (cases msg)
    case (TfMint m)
    then show ?thesis using run
      by (auto simp: defs tf_Mint_def MsgMint_ValidateBasic_def dest!: requireAdmin_Ok [OF laws])
  next
    case (TfBurn m)
    then show ?thesis using run
      by (auto simp: defs tf_Burn_def MsgBurn_ValidateBasic_def dest!: requireAdmin_Ok [OF laws])
  next
    case (TfForceTransfer m)
    then show ?thesis using run
      by (auto simp: defs tf_ForceTransfer_def MsgForceTransfer_ValidateBasic_def dest!: requireAdmin_Ok [OF laws])
  next
    case (TfSetDenomMetadata m)
    then show ?thesis using run
      by (auto simp: defs tf_SetDenomMetadata_def MsgSetDenomMetadata_ValidateBasic_def dest!: requireAdmin_Ok [OF laws])
  qed (use kind in auto)
qed

lemma deliver_keeps_inv:
  assumes laws: "tf_laws F" and inv: "tf_ok F (owner F) s" and run: "tf_deliver F msg s = (Ok r, t)"
  shows "tf_ok F (owner F) t"
proof -
  consider (create) m where "msg = TfCreateDenom m" | (admin) m where "msg = TfChangeAdmin m"
    | (bank) "\<forall>m. msg \<noteq> TfCreateDenom m" "\<forall>m. msg \<noteq> TfChangeAdmin m" by blast
  then show ?thesis
  proof cases
    case create
    note new = deliver_create [OF laws run [unfolded create]]
    have "\<not> created (tfStore (world s)) b (denomOf m)" for b
      using inv new(3) unfolding tf_inv_def by blast
    then show ?thesis
      unfolding new(1) by (intro tf_inv_create [OF laws inv _ new(5) _ _ new(2,4)]) (simp_all add: new(6))
  next
    case admin
    note chg = deliver_change_admin [OF laws run [unfolded admin]]
    then show ?thesis using tf_inv_change_admin [OF inv] by fastforce
  next
    case bank
    have "tfStore (world t) = tfStore (world s)" "metadata_stays F (tfRest (world s)) (tfRest (world t))"
      using deliver_bank_message [OF laws run] bank by blast+
    then show ?thesis using inv by (auto simp: tf_inv_def metadata_stays_def)
  qed
qed

subsection \<open>Genesis\<close>

lemma mustM_Ok_iff [simp]: "mustM m s = (Ok x, t) \<longleftrightarrow> m s = (Ok x, t)"
  by (auto simp: mustM_def split: prod.splits outcome.splits)

lemma initDenom_Ok:
  assumes laws: "tf_laws F" and run: "initDenom F g s = (Ok u, t)"
  obtains c where "canonical F c (gdDenom g)"
    "tfStore (world t) = kv_set (authKey (gdDenom g)) (TFAuthority (gdAuthorityMetadata g))
       (withDenom c (gdDenom g) \<lparr>daAdmin = c\<rparr> (tfStore (world s)))"
    "metadata_stays F (tfRest (world s)) (tfRest (world t))"
    "GetDenomMetaData F (tfRest (world t)) (gdDenom g) \<noteq> None"
    "goodAdmin F c" "goodAdmin F (daAdmin (gdAuthorityMetadata g))"
proof -
  obtain c sub s1 where c: "DeconstructDenom F (gdDenom g) = Ok (c, sub)"
    and n: "createDenomAfterValidation F c (gdDenom g) s = (Ok (), s1)"
    and a: "setAuthorityMetadata F (gdDenom g) (gdAuthorityMetadata g) s1 = (Ok u, t)"
    using run by (auto simp: initDenom_def go_Ok_iff)
  have "canonical F c (gdDenom g)" using c by (auto simp: canonical_def)
  then show ?thesis using createDenomAfterValidation_Ok [OF laws n] a by (intro that) auto
qed

lemma canonical_unique: "canonical F c d \<Longrightarrow> canonical F b d \<Longrightarrow> c = b"
  by (auto simp: canonical_def)

lemma created_own:
  assumes "tf_inv F own S y" and "created S b d"
  shows "own b d"
  using tf_inv_typed [OF assms(1), of "creatorKey b d" "TFDenom d"] assms(2)
  by (auto simp: created_def typed_entry_def)

lemma initDenom_keeps_inv:
  assumes laws: "tf_laws F" and inv: "tf_ok F (canonical F) s" and run: "initDenom F g s = (Ok u, t)"
  shows "tf_ok F (canonical F) t"
proof -
  obtain c where c: "canonical F c (gdDenom g)"
    "tfStore (world t) = kv_set (authKey (gdDenom g)) (TFAuthority (gdAuthorityMetadata g))
       (withDenom c (gdDenom g) \<lparr>daAdmin = c\<rparr> (tfStore (world s)))"
    "metadata_stays F (tfRest (world s)) (tfRest (world t))"
    "GetDenomMetaData F (tfRest (world t)) (gdDenom g) \<noteq> None"
    "goodAdmin F c" "goodAdmin F (daAdmin (gdAuthorityMetadata g))"
    using initDenom_Ok [OF laws run] by blast
  have "tf_inv F (canonical F) (withDenom c (gdDenom g) \<lparr>daAdmin = c\<rparr> (tfStore (world s))) (tfRest (world t))"
  proof (rule tf_inv_create [OF laws inv canonical_owner [of F] c(1) _ _ c(3,4)])
    show "b = c" if "created (tfStore (world s)) b (gdDenom g)" for b
      using canonical_unique [OF created_own [OF inv that] c(1)] .
  qed (simp_all add: c(5))
  then show ?thesis
    unfolding c(2) using c(6) by (intro tf_inv_change_admin) auto
qed

lemma initDenoms_keep_inv:
  "tf_laws F \<Longrightarrow> tf_ok F (canonical F) s \<Longrightarrow> forM gs (initDenom F) s = (Ok u, t) \<Longrightarrow> tf_ok F (canonical F) t"
proof (induction gs arbitrary: s)
  case (Cons g gs)
  then show ?case using initDenom_keeps_inv [OF Cons.prems(1,2)] by (auto simp: go_Ok_iff)
qed simp

lemma tf_inv_Nil: "tf_inv F own [] y"
  by (simp add: tf_inv_def adminOf_def created_def)

lemma tf_inv_mono:
  assumes "tf_inv F own S y" and "\<And>c d. own c d \<Longrightarrow> own' c d"
  shows "tf_inv F own' S y"
proof -
  have "typed_entry F own' k v" if "typed_entry F own k v" for k v
    using that assms(2) unfolding typed_entry_def by (cases v) auto
  then show ?thesis using assms(1) unfolding tf_inv_def by simp
qed

lemma tfInitGenesis_inv:
  assumes laws: "tf_laws F" and empty: "tfStore (world s) = []" and run: "tfInitGenesis F g s = (Ok (), t)"
  shows "tf_ok F (canonical F) t"
proof -
  obtain p s1 where s1: "restM (SetParamSet F p) s = (Ok (), s1)" "forM (gsFactoryDenoms g) (initDenom F) s1 = (Ok (), t)"
    using run by (auto simp: tfInitGenesis_def tfSetParams_def go_Ok_iff split: option.splits)
  have "tfStore (world s1) = []"
    using quietD [OF quiet_world_calls(1) [OF laws] s1(1)] empty by simp
  then show ?thesis using initDenoms_keep_inv [OF laws _ s1(2)] by (simp add: tf_inv_Nil)
qed

lemma tf_reach_inv:
  assumes laws: "tf_laws F" and "tf_reach F s"
  shows "tf_ok F (owner F) s"
  using assms(2)
proof (induction rule: tf_reach.induct)
  case (tr_init s g t)
  show ?case by (rule tf_inv_mono [OF tfInitGenesis_inv [OF laws tr_init]]) (rule canonical_owner)
next
  case (tr_msg s msg r t)
  then show ?case using deliver_keeps_inv [OF laws] by blast
next
  case (tr_other s t)
  then show ?case by (auto simp: tf_inv_def metadata_stays_def)
qed

lemma tf_abs_create:
  assumes laws: "tf_laws F" and inv: "tf_inv F (owner F) S y" and "owner F c d"
  shows "tf_abs (withDenom c d m S) =
    \<lparr>fAdmin = (adminOf S)(d \<mapsto> daAdmin m), fCreated = insert (c, d) (fCreated (tf_abs S))\<rparr>"
proof -
  have "created (withDenom c d m S) b e \<longleftrightarrow> b = c \<and> e = d \<or> created S b e" for b e
    using no_foreign_entry [OF laws inv _ assms(3)] by (subst created_set_creator) auto
  then show ?thesis by (auto simp: tf_abs_def fun_eq_iff)
qed

lemma token_spec_step:
  assumes "tf_laws F" and "tf_reach F s" and "tf_deliver F msg s = (Ok r, t)"
  shows "spec_allows msg (tf_abs (tfStore (world s))) \<and>
    tf_abs (tfStore (world t)) = spec_step msg (tf_abs (tfStore (world s)))"
proof -
  note laws = assms(1) and run = assms(3)
  note inv = tf_reach_inv [OF assms(1,2)]
  show ?thesis
  proof (cases msg)
    case (TfCreateDenom m)
    note new = deliver_create [OF laws run [unfolded TfCreateDenom]]
    have "adminOf (tfStore (world s)) (denomOf m) = None"
      using inv new(3) unfolding tf_inv_def by blast
    then show ?thesis
      using tf_abs_create [OF laws inv new(5)] by (simp add: new(1) TfCreateDenom) (simp add: tf_abs_def)
  next
    case (TfChangeAdmin m)
    then show ?thesis using deliver_change_admin [OF laws run [unfolded TfChangeAdmin]]
      by (auto simp: tf_abs_def fun_eq_iff)
  qed (use deliver_bank_message [OF laws run] in auto)
qed

subsection \<open>Export and import\<close>

definition tf_total :: "('m, 'y) tf_fns \<Rightarrow> bool" where
  "tf_total F \<longleftrightarrow> (\<forall>p x. fst (SetParamSet F p x) = Ok ()) \<and> (\<forall>md x. fst (SetDenomMetaData F md x) = Ok ()) \<and>
    (\<exists>cs. NewCoins F [] = Ok cs) \<and>
    (\<forall>x a. fromBech32 (tfSdk F) x = Ok a \<longrightarrow> fromBech32 (tfSdk F) (accString (tfSdk F) a) = Ok a)"

definition authorityOf :: "tf_stored kv \<Rightarrow> bytes \<Rightarrow> DenomAuthorityMetadata" where
  "authorityOf S d = (case kv_get S (authKey d) of Some (TFAuthority m) \<Rightarrow> m | _ \<Rightarrow> \<lparr>daAdmin = ''''\<rparr>)"

definition denomsOf :: "tf_stored kv \<Rightarrow> bytes list" where
  "denomsOf S = map (\<lambda>(k, v). case v of TFDenom d \<Rightarrow> d | TFAuthority _ \<Rightarrow> '''') (kv_iter S GetCreatorsPrefix)"

abbreviation exportOf :: "tf_stored kv \<Rightarrow> bytes \<Rightarrow> GenesisDenom" where
  "exportOf S d \<equiv> \<lparr>gdDenom = d, gdAuthorityMetadata = authorityOf S d\<rparr>"

lemma authority_entry:
  assumes "tf_inv F own S y" and "created S c d"
  shows "kv_get S (authKey d) = Some (TFAuthority (authorityOf S d))" and "goodAdmin F (daAdmin (authorityOf S d))"
proof -
  have "adminOf S d \<noteq> None" using assms unfolding tf_inv_def by blast
  then show entry: "kv_get S (authKey d) = Some (TFAuthority (authorityOf S d))"
    by (auto simp: adminOf_def authorityOf_def split: option.splits tf_stored.splits)
  show "goodAdmin F (daAdmin (authorityOf S d))"
    using tf_inv_typed [OF assms(1) entry] by (simp add: typed_entry_def)
qed

lemma iterated_entries:
  assumes inv: "tf_inv F own S y" and "(k, v) \<in> set (kv_iter S GetCreatorsPrefix)"
  shows "\<exists>c d. k = c @ ''|'' @ d \<and> v = TFDenom d \<and> created S c d"
proof -
  have get: "kv_get S (GetCreatorsPrefix @ k) = Some v"
    using assms by (simp add: kv.iter_mem tf_inv_def)
  have "GetCreatorsPrefix @ k \<noteq> authKey d" for d by (simp add: tf_key_defs)
  then obtain c d where "v = TFDenom d" "GetCreatorsPrefix @ k = creatorKey c d"
    using tf_inv_typed [OF inv get] by (auto simp: typed_entry_def split: tf_stored.splits)
  moreover from this have "k = c @ ''|'' @ d" "created S c d"
    using get by (simp_all only: created_def) (simp only: creatorKey_under same_append_eq)
  ultimately show ?thesis by blast
qed

lemma denomsOf_mem:
  assumes inv: "tf_inv F own S y"
  shows "d \<in> set (denomsOf S) \<longleftrightarrow> (\<exists>c. created S c d)"
proof
  assume "d \<in> set (denomsOf S)"
  then show "\<exists>c. created S c d" using iterated_entries [OF inv] by (fastforce simp: denomsOf_def)
next
  assume "\<exists>c. created S c d"
  then obtain c where "kv_get S (GetCreatorsPrefix @ c @ ''|'' @ d) = Some (TFDenom d)"
    unfolding created_def creatorKey_under by blast
  moreover have "kv_wf S" using inv unfolding tf_inv_def by blast
  ultimately have "(c @ ''|'' @ d, TFDenom d) \<in> set (kv_iter S GetCreatorsPrefix)"
    by (simp add: kv.iter_mem)
  then show "d \<in> set (denomsOf S)" by (force simp: denomsOf_def)
qed

lemma denomsOf_distinct:
  assumes inv: "tf_inv F own S y"
  shows "distinct (denomsOf S)"
proof -
  let ?kvs = "kv_iter S GetCreatorsPrefix"
  let ?name = "\<lambda>(k, v). case v of TFDenom d \<Rightarrow> d | TFAuthority _ \<Rightarrow> ''''"
  have "distinct ?kvs"
    using kv.iter_distinct [of S GetCreatorsPrefix] inv by (auto simp: tf_inv_def distinct_map)
  moreover have "inj_on ?name (set ?kvs)"
  proof (rule inj_onI)
    fix x y assume mem: "x \<in> set ?kvs" "y \<in> set ?kvs" and eq: "?name x = ?name y"
    obtain c d b e where "x = (c @ ''|'' @ d, TFDenom d)" "created S c d" "y = (b @ ''|'' @ e, TFDenom e)" "created S b e"
      using iterated_entries [OF inv, of "fst x" "snd x"] iterated_entries [OF inv, of "fst y" "snd y"] mem
      by (metis prod.collapse)
    moreover from this eq have "d = e" by simp
    ultimately show "x = y" using inv unfolding tf_inv_def by blast
  qed
  ultimately show ?thesis by (simp add: denomsOf_def distinct_map)
qed

lemma exportDenoms_Ok:
  assumes "\<And>d. d \<in> set ds \<Longrightarrow> kv_get (tfStore (world s)) (authKey d) = Some (TFAuthority (authorityOf (tfStore (world s)) d))"
  shows "exportDenoms (map TFDenom ds) s = (Ok (map (exportOf (tfStore (world s))) ds), s)"
  using assms
proof (induction ds)
  case (Cons d ds)
  have "mustM (GetAuthorityMetadata d) s = (Ok (authorityOf (tfStore (world s)) d), s)"
    using Cons.prems by (simp add: GetAuthorityMetadata_def go_Ok_iff)
  then show ?case using Cons by (simp add: bindM_Ok)
qed (simp add: retM_def)

lemma iterated_values:
  assumes inv: "tf_inv F own S y"
  shows "map snd (kv_iter S GetCreatorsPrefix) = map TFDenom (denomsOf S)"
  using iterated_entries [OF inv] by (fastforce simp: denomsOf_def)

lemma tfExportGenesis_Ok:
  assumes inv: "tf_ok F own s" and par: "GetParamSet F (tfRest (world s)) = Ok p"
  shows "tfExportGenesis F s =
    (Ok \<lparr>gsParams = p, gsFactoryDenoms = map (exportOf (tfStore (world s))) (denomsOf (tfStore (world s)))\<rparr>, s)"
proof -
  have "exportDenoms (map TFDenom (denomsOf (tfStore (world s)))) s =
      (Ok (map (exportOf (tfStore (world s))) (denomsOf (tfStore (world s)))), s)"
    using authority_entry(1) [OF inv] denomsOf_mem [OF inv] by (intro exportDenoms_Ok) blast
  then show ?thesis
    using par iterated_values [OF inv]
    by (simp add: tfExportGenesis_def GetAllDenomsIterator_def tfGetParams_def restGets_def getsM_def liftO_def
        bindM_def retM_def)
qed

lemma validateFactoryDenoms_Ok:
  assumes "\<And>d. d \<in> set ds \<Longrightarrow> (\<exists>r. DeconstructDenom F d = Ok r) \<and> goodAdmin F (daAdmin (authorityOf S d))"
    and "distinct ds" and "set ds \<inter> set seen = {}"
  shows "validateFactoryDenoms F seen (map (exportOf S) ds) = Ok ()"
  using assms by (induction ds arbitrary: seen) (auto simp: goodAdmin_def)

text \<open>After the import of a list of denominations the store holds what the exported store holds under
  the keys of these denominations, and nothing else.\<close>

definition imported :: "tf_stored kv \<Rightarrow> bytes set \<Rightarrow> tf_stored kv \<Rightarrow> bool" where
  "imported S D T \<longleftrightarrow> kv_wf T \<and> (\<forall>k. kv_get T k =
     (if \<exists>d \<in> D. k = authKey d \<or> (\<exists>c. created S c d \<and> k = creatorKey c d) then kv_get S k else None))"

lemma restM_total:
  assumes "\<And>x. fst (f x) = Ok u"
  shows "\<exists>t. restM f s = (Ok u, t) \<and> tfStore (world t) = tfStore (world s)"
proof -
  obtain es m y where "f (meter s, tfRest (world s)) = (Ok u, es, m, y)"
    using assms [of "(meter s, tfRest (world s))"] by (metis fst_conv prod_cases4)
  then show ?thesis by (simp add: restM_def extM_def inRest_def)
qed

lemma imported_insert:
  assumes inv: "tf_inv F own S y" and cr: "created S c d" and imp: "imported S D T"
  shows "imported S (insert d D) (kv_set (authKey d) (TFAuthority (authorityOf S d)) (withDenom c d m T))"
    (is "imported S _ ?U")
proof -
  have uniq: "created S b d \<longleftrightarrow> b = c" for b using inv cr unfolding tf_inv_def by blast
  have "kv_get ?U k = (if k = authKey d \<or> k = creatorKey c d then kv_get S k else kv_get T k)" for k
    using authority_entry(1) [OF inv cr] cr by (simp add: created_def)
  then show ?thesis using imp unfolding imported_def by (simp add: uniq) blast
qed

lemma createDenom_run:
  assumes "tf_total F" and "goodAdmin F c"
  shows "\<exists>t. createDenomAfterValidation F c d s = (Ok (), t) \<and>
    tfStore (world t) = withDenom c d \<lparr>daAdmin = c\<rparr> (tfStore (world s))"
proof -
  obtain s1 where "restM (SetDenomMetaData F (newDenomMetaData d)) s = (Ok (), s1)" "tfStore (world s1) = tfStore (world s)"
    using restM_total [of "SetDenomMetaData F (newDenomMetaData d)" "()" s] assms(1) by (auto simp: tf_total_def)
  then show ?thesis
    using assms(2) by (auto simp: createDenomAfterValidation_def addDenomFromCreator_def thenM_Ok_iff)
qed

lemma initDenom_imports:
  assumes tot: "tf_total F" and inv: "tf_inv F own S y" and cr: "created S c d" and can: "canonical F c d"
    and imp: "imported S D (tfStore (world s))"
  shows "\<exists>t. initDenom F (exportOf S d) s = (Ok (), t) \<and> imported S (insert d D) (tfStore (world t))"
proof -
  obtain sub where dec: "DeconstructDenom F d = Ok (c, sub)" using can by (auto simp: canonical_def)
  have good: "goodAdmin F c"
    using dec tot unfolding DeconstructDenom_iff tf_total_def goodAdmin_def by blast
  obtain s1 where s1: "createDenomAfterValidation F c d s = (Ok (), s1)"
      "tfStore (world s1) = withDenom c d \<lparr>daAdmin = c\<rparr> (tfStore (world s))"
    using createDenom_run [OF tot good] by blast
  let ?U = "kv_set (authKey d) (TFAuthority (authorityOf S d)) (tfStore (world s1))"
  obtain t where t: "setAuthorityMetadata F d (authorityOf S d) s1 = (Ok (), t)" "tfStore (world t) = ?U"
    using authority_entry(2) [OF inv cr] by simp
  have "initDenom F (exportOf S d) s = (Ok (), t)"
    unfolding initDenom_def bindM_Ok_iff
    using dec s1(1) t(1) by (auto simp: thenM_Ok_iff simp del: setAuthorityMetadata_Ok)
  moreover have "imported S (insert d D) (tfStore (world t))"
    unfolding t(2) s1(2) by (rule imported_insert [OF inv cr imp])
  ultimately show ?thesis by blast
qed

lemma initDenoms_import:
  assumes tot: "tf_total F" and inv: "tf_inv F own S y" and can: "\<And>c d. created S c d \<Longrightarrow> canonical F c d"
  shows "imported S D (tfStore (world s)) \<Longrightarrow> set ds \<subseteq> set (denomsOf S) \<Longrightarrow>
    \<exists>t. forM (map (exportOf S) ds) (initDenom F) s = (Ok (), t) \<and> imported S (set ds \<union> D) (tfStore (world t))"
proof (induction ds arbitrary: D s)
  case (Cons d ds)
  then obtain c where c: "created S c d" using denomsOf_mem [OF inv, of d] by auto
  obtain s1 where "initDenom F (exportOf S d) s = (Ok (), s1)" "imported S (insert d D) (tfStore (world s1))"
    using initDenom_imports [OF tot inv c can [OF c] Cons.prems(1)] by blast
  moreover from this obtain t where "forM (map (exportOf S) ds) (initDenom F) s1 = (Ok (), t)"
      "imported S (set ds \<union> insert d D) (tfStore (world t))"
    using Cons.IH [of "insert d D" s1] Cons.prems(2) by auto
  ultimately show ?case by (auto simp: go_Ok_iff)
qed (simp add: retM_def)

lemma kv_eqI:
  fixes S T :: "'v kv"
  assumes "kv_wf S" and "kv_wf T" and "\<And>k. kv_get S k = kv_get T k"
  shows "S = T"
proof -
  have "kv_iter X [] = X" for X :: "'v kv" by (simp add: kv_iter_def)
  then show ?thesis using kv.iter_cong [OF assms(1,2), of "[]"] assms(3) by simp
qed

lemma imported_all:
  assumes inv: "tf_inv F own S y" and imp: "imported S (set (denomsOf S)) T"
  shows "T = S"
proof (rule kv_eqI)
  show "kv_wf T" "kv_wf S" using imp inv by (simp_all add: imported_def tf_inv_def)
  have "\<exists>d \<in> set (denomsOf S). k = authKey d \<or> (\<exists>c. created S c d \<and> k = creatorKey c d)" if get: "kv_get S k = Some v" for k v
  proof (cases v)
    case (TFAuthority m)
    then obtain d where d: "k = authKey d" using tf_inv_typed [OF inv get] by (auto simp: typed_entry_def)
    then have "adminOf S d \<noteq> None" using get TFAuthority by (simp add: adminOf_def)
    then have "d \<in> set (denomsOf S)" using denomsOf_mem [OF inv] inv unfolding tf_inv_def by blast
    then show ?thesis using d by blast
  next
    case (TFDenom d)
    then obtain c where c: "k = creatorKey c d" using tf_inv_typed [OF inv get] by (auto simp: typed_entry_def)
    then have "created S c d" using get TFDenom by (simp add: created_def)
    then show ?thesis using c denomsOf_mem [OF inv] by blast
  qed
  then show "kv_get T k = kv_get S k" for k
    using imp unfolding imported_def by (cases "kv_get S k") auto
qed

subsection \<open>An instance\<close>

text \<open>A bank that only keeps metadata, addresses that are their own text, no fee, and a genesis with one
  denomination.\<close>

definition exOk :: "(unit, (bytes \<times> Metadata) list, unit) ext" where
  "exOk = (\<lambda>(m, y). (Ok (), [], m, y))"

definition exTF :: "(unit, (bytes \<times> Metadata) list) tf_fns" where
  "exTF = \<lparr>tfSdk = exSdk,
     tfMeter = \<lparr>ConsumeGas = (\<lambda>_ m. (None, m)), IsOutOfGas = (\<lambda>_. False), MeterLimit = (\<lambda>_. 0), GasConsumed = (\<lambda>_. 0),
       GasConsumedToLimit = (\<lambda>_. 0), NewGasMeter = (\<lambda>_. ()), NewInfiniteGasMeter = ()\<rparr>,
     tfCapabilities = [], ValidateDenom = (\<lambda>d. if CHR ''|'' \<in> set d then Err ErrInvalidDenom else Ok ()),
     NewCoins = Ok, CoinsValidate = (\<lambda>_. Ok ()), CoinIsValid = (\<lambda>_. True), CoinString = Denom,
     MetadataValidate = (\<lambda>_. Ok ()), MetadataString = mdBase,
     GetParamSet = (\<lambda>_. Ok \<lparr>DenomCreationFee = None, DenomCreationGasConsume = 0\<rparr>), SetParamSet = (\<lambda>_. exOk),
     HasSupply = (\<lambda>_ _. False), GetDenomMetaData = (\<lambda>y d. map_of y d),
     SetDenomMetaData = (\<lambda>md (m, y). (Ok (), [], m, (mdBase md, md) # y)), BlockedAddr = (\<lambda>a. a = ''gov''),
     MintCoins = (\<lambda>_ _. exOk), BurnCoins = (\<lambda>_ _. exOk), SendCoinsFromModuleToAccount = (\<lambda>_ _ _. exOk),
     SendCoinsFromAccountToModule = (\<lambda>_ _ _. exOk), SendCoins = (\<lambda>_ _ _. exOk), FundCommunityPool = (\<lambda>_ _. exOk)\<rparr>"

definition exGold :: bytes where "exGold = ''factory/alice/gold''"

definition exTfGenesis :: tf_genesis where
  "exTfGenesis = \<lparr>gsParams = \<lparr>DenomCreationFee = None, DenomCreationGasConsume = 0\<rparr>,
     gsFactoryDenoms = [\<lparr>gdDenom = exGold, gdAuthorityMetadata = \<lparr>daAdmin = ''bob''\<rparr>\<rparr>]\<rparr>"

definition exTfEmpty :: "(unit, (bytes \<times> Metadata) list tfw) st" where
  "exTfEmpty = \<lparr>store = [], meter = (), events = [], txContracts = None, world = \<lparr>tfStore = [], tfRest = []\<rparr>\<rparr>"

definition exTfState :: "(unit, (bytes \<times> Metadata) list tfw) st" where
  "exTfState = snd (tfInitGenesis exTF exTfGenesis exTfEmpty)"

definition exMint :: tf_msg where
  "exMint = TfMint (NewMsgMint ''bob'' \<lparr>Denom = exGold, Amount = 5\<rparr>)"

lemma exTF_laws: "tf_laws exTF"
  by (auto simp: tf_laws_def exTF_def exOk_def exSdk_def ext_stays_def metadata_stays_def split: if_splits)

lemma exTF_total: "tf_total exTF"
  by (auto simp: tf_total_def exTF_def exOk_def exSdk_def split: if_splits)

lemma exTf_init: "tfInitGenesis exTF exTfGenesis exTfEmpty = (Ok (), exTfState)"
proof -
  have "fst (tfInitGenesis exTF exTfGenesis exTfEmpty) = Ok ()" by code_simp
  then show ?thesis unfolding exTfState_def by (metis prod.collapse)
qed

lemma exTf_reach: "tf_reach exTF exTfState"
  by (rule tr_init [OF _ exTf_init]) (simp add: exTfEmpty_def)

lemma exTf_store: "tfStore (world exTfState) =
    [(creatorKey ''alice'' exGold, TFDenom exGold), (authKey exGold, TFAuthority \<lparr>daAdmin = ''bob''\<rparr>)]"
  by code_simp

lemma exTf_mint: "fst (tf_deliver exTF exMint exTfState) = Ok ''''"
  by code_simp

subsection \<open>Properties\<close>



text \<open>C2. The token factory implements its specification.  In every reachable state a delivered
  message was allowed by the specification, and the new store is the specified one: only the admin on record mints, burns,
  moves, hands over or describes a denomination; a created denomination had no admin before, so creation
  never takes over an existing one; nothing else changes.\<close>

theorem token_factory_refines_spec:
  assumes "tf_laws F" and "tf_reach F s" and "tf_deliver F msg s = (Ok r, t)"
  shows "spec_allows msg (tf_abs (tfStore (world s))) \<and>
    tf_abs (tfStore (world t)) = spec_step msg (tf_abs (tfStore (world s)))"
  by (rule token_spec_step [OF assms])

theorem token_factory_refines_spec_witness:
  "spec_allows exMint (tf_abs (tfStore (world exTfState))) \<and>
    tf_abs (tfStore (world (snd (tf_deliver exTF exMint exTfState)))) = tf_abs (tfStore (world exTfState))"
proof -
  have "tf_deliver exTF exMint exTfState = (Ok '''', snd (tf_deliver exTF exMint exTfState))"
    using exTf_mint by (metis prod.collapse)
  from token_factory_refines_spec [OF exTF_laws exTf_reach this] show ?thesis
    by (simp add: exMint_def)
qed

text \<open>C16. The store of the token factory stays well typed.  In every reachable state each entry is
  the authority record of a denomination, whose admin is empty or a valid address, or the index entry of a
  denomination under its own creator; a denomination has an authority record exactly when it is indexed, under a
  single creator, and then the bank knows it.\<close>

theorem token_store_well_typed:
  assumes "tf_laws F" and "tf_reach F s" and "tfStore (world s) = S"
  shows "(\<forall>k v. kv_get S k = Some v \<longrightarrow>
      (\<exists>d m. k = authKey d \<and> v = TFAuthority m \<and> goodAdmin F (daAdmin m)) \<or>
      (\<exists>c d. k = creatorKey c d \<and> v = TFDenom d \<and> owner F c d)) \<and>
    (\<forall>d. adminOf S d \<noteq> None \<longleftrightarrow> (\<exists>!c. created S c d)) \<and>
    (\<forall>d. adminOf S d \<noteq> None \<longrightarrow> GetDenomMetaData F (tfRest (world s)) d \<noteq> None)"
proof (intro conjI allI impI)
  have inv: "tf_inv F (owner F) S (tfRest (world s))" using tf_reach_inv [OF assms(1,2)] assms(3) by simp
  fix k v assume "kv_get S k = Some v"
  then show "(\<exists>d m. k = authKey d \<and> v = TFAuthority m \<and> goodAdmin F (daAdmin m)) \<or>
      (\<exists>c d. k = creatorKey c d \<and> v = TFDenom d \<and> owner F c d)"
    using tf_inv_typed [OF inv, of k v] by (cases v) (auto simp: typed_entry_def)
next
  have inv: "tf_inv F (owner F) S (tfRest (world s))" using tf_reach_inv [OF assms(1,2)] assms(3) by simp
  show "adminOf S d \<noteq> None \<longleftrightarrow> (\<exists>!c. created S c d)" for d using inv unfolding tf_inv_def by blast
  show "GetDenomMetaData F (tfRest (world s)) d \<noteq> None" if "adminOf S d \<noteq> None" for d
    using inv that unfolding tf_inv_def by blast
qed

theorem token_store_well_typed_witness:
  "adminOf (tfStore (world exTfState)) exGold = Some ''bob'' \<and> (\<exists>!c. created (tfStore (world exTfState)) c exGold)"
proof -
  have "adminOf (tfStore (world exTfState)) exGold = Some ''bob''"
    by (simp add: exTf_store adminOf_def kv_get_def)
  then show ?thesis
    using token_store_well_typed [OF exTF_laws exTf_reach refl, THEN conjunct2, THEN conjunct1, THEN spec [of _ exGold]] by simp
qed



end
