(* ===== verification/IBC.thy ===== *)
theory IBC
  imports Handlers
begin

section \<open>Contracts as IBC applications\<close>

text \<open>
  src/x/wasm/keeper/relay.go (the keeper's IBC entry points) and src/x/wasm/ibc.go (the IBC module
  interface and the callbacks of the callbacks middleware).

  \<open>ibc_vm\<close> are the IBC entry points of the wasm engine; \<open>ibc_env\<close> is what the module asks of ibc-go and
  of the capability keeper.  An acknowledgement is the contract's own (\<open>ConfirmAck\<close>, always a success) or
  an error acknowledgement; None is the nil acknowledgement.
\<close>

subsection \<open>Packets and channels\<close>

record IBCEndpoint =
  epPortID :: bytes
  epChannelID :: bytes

record IBCChannel =
  chEndpoint :: IBCEndpoint
  chCounterpartyEndpoint :: IBCEndpoint
  chOrder :: bytes
  chVersion :: bytes
  chConnectionID :: bytes

record IBCPacket =
  ipData :: bytes
  ipSrc :: IBCEndpoint
  ipDest :: IBCEndpoint
  ipSequence :: u64
  ipTimeout :: IBCTimeout

record Channel =
  ciOrdering :: bytes
  ciCounterparty :: IBCEndpoint
  ciConnectionHops :: "bytes list"

datatype ibc_open_msg =
    OpenInit IBCChannel
  | OpenTry IBCChannel bytes

datatype ibc_entry =
    IbcOpenAck IBCChannel bytes
  | IbcOpenConfirm IBCChannel
  | IbcCloseInit IBCChannel
  | IbcCloseConfirm IBCChannel
  | IbcPacketReceive IBCPacket bytes
  | IbcPacketAck bytes IBCPacket bytes
  | IbcPacketTimeout IBCPacket bytes
  | IbcSourceCallbackAck bytes IBCPacket bytes
  | IbcSourceCallbackTimeout IBCPacket bytes
  | IbcDestinationCallback bytes IBCPacket

datatype Acknowledgement = ConfirmAck bytes | ErrorAck bytes

fun Ack_Success :: "Acknowledgement \<Rightarrow> bool" where
  "Ack_Success (ConfirmAck _) = True"
| "Ack_Success (ErrorAck _) = False"

text \<open>The channel open entry point answers with an optional version and an error text.\<close>

record ('m, 'x, 'msg) ibc_vm =
  vmIBCChannelOpen :: "ibc_open_msg \<Rightarrow> bytes \<Rightarrow> Env \<Rightarrow> AccAddress \<Rightarrow> u64 \<Rightarrow> ctx \<Rightarrow> ('m, 'x) st
    \<Rightarrow> ('m, bytes option \<times> bytes) vm_out"
  vmIBC :: "ibc_entry \<Rightarrow> bytes \<Rightarrow> Env \<Rightarrow> AccAddress \<Rightarrow> u64 \<Rightarrow> ctx \<Rightarrow> ('m, 'x) st
    \<Rightarrow> ('m, 'msg ContractResult) vm_out"

subsection \<open>Entry points of the keeper\<close>

definition convertPacket :: "IBCPacket \<Rightarrow> Packet" where
  "convertPacket packet =
    \<lparr>Sequence = ipSequence packet,
     SourcePort = epPortID (ipSrc packet), SourceChannel = epChannelID (ipSrc packet),
     DestinationPort = epPortID (ipDest packet), DestinationChannel = epChannelID (ipDest packet),
     PacketData = ipData packet,
     TimeoutHeight = (case toBlock (ipTimeout packet) of
         None \<Rightarrow> \<lparr>RevisionNumber = 0, RevisionHeight = 0\<rparr>
       | Some (revision, height) \<Rightarrow> \<lparr>RevisionNumber = revision, RevisionHeight = height\<rparr>),
     TimeoutTimestamp = toTimestamp (ipTimeout packet)\<rparr>"

definition OnOpenChannel ::
  "('m, 'x, 'msg) keeper \<Rightarrow> ('m, 'x, 'msg) ibc_vm \<Rightarrow> ctx \<Rightarrow> AccAddress \<Rightarrow> ibc_open_msg
    \<Rightarrow> (('m, 'x) st, bytes) go" where
  "OnOpenChannel K V c contractAddr msg =
    bindM (contractInstance K contractAddr) (\<lambda>(_, codeInfo).
    bindM (liftO (NewEnv (kSdk K) c contractAddr)) (\<lambda>env.
    bindM (runtimeGasForContract K) (\<lambda>gasLeft.
    bindM (runVM (vmIBCChannelOpen V msg (CodeHash codeInfo) env contractAddr gasLeft c) contractAddr) (\<lambda>out.
    thenM (consumeRuntimeGas K (VmGasUsed out))
    (if VmErr out \<noteq> None then failM ErrExecuteFailed
     else case VmRes out of
         Some (Some version, _) \<Rightarrow> retM version
       | _ \<Rightarrow> retM '''')))))"

text \<open>What the other entry points share up to the engine error.\<close>

definition callIBC ::
  "('m, 'x, 'msg) keeper \<Rightarrow> ('m, 'x, 'msg) ibc_vm \<Rightarrow> ctx \<Rightarrow> AccAddress \<Rightarrow> ibc_entry \<Rightarrow> bytes
    \<Rightarrow> (('m, 'x) st, ('m, 'msg ContractResult) vm_out) go" where
  "callIBC K V c contractAddr entry checksum =
    bindM (liftO (NewEnv (kSdk K) c contractAddr)) (\<lambda>env.
    bindM (runtimeGasForContract K) (\<lambda>gasLeft.
    bindM (runVM (vmIBC V entry checksum env contractAddr gasLeft c) contractAddr) (\<lambda>out.
    thenM (consumeRuntimeGas K (VmGasUsed out)) (retM out))))"

definition handleIBCBasicContractResponse ::
  "('m, 'x, 'msg) keeper \<Rightarrow> ctx \<Rightarrow> AccAddress \<Rightarrow> bytes \<Rightarrow> 'msg Response option \<Rightarrow> (('m, 'x) st, unit) go" where
  "handleIBCBasicContractResponse K c addr port res =
    bindM (handleContractResponse K c addr port (map_option (\<lambda>r. r\<lparr>RespRData := None\<rparr>) res)) (\<lambda>_. retM ())"

definition basicEntry ::
  "('m, 'x, 'msg) keeper \<Rightarrow> ('m, 'x, 'msg) ibc_vm \<Rightarrow> ctx \<Rightarrow> AccAddress \<Rightarrow> ibc_entry
    \<Rightarrow> (('m, 'x) st, unit) go" where
  "basicEntry K V c contractAddr entry =
    bindM (contractInstance K contractAddr) (\<lambda>(contractInfo, codeInfo).
    bindM (callIBC K V c contractAddr entry (CodeHash codeInfo)) (\<lambda>out.
    if VmErr out \<noteq> None then failM ErrExecuteFailed
    else case VmRes out of
        None \<Rightarrow> failM ErrVMError
      | Some res \<Rightarrow>
          if CrErr res \<noteq> '''' then
            failM (DeterministicError ''wasm'' 5 (wrappedText (CrErr res) ''execute wasm contract failed''))
          else handleIBCBasicContractResponse K c contractAddr (IBCPortID contractInfo) (CrOk res)))"

text \<open>The entry points differ in the message only.\<close>

definition OnConnectChannel ::
  "('m, 'x, 'msg) keeper \<Rightarrow> ('m, 'x, 'msg) ibc_vm \<Rightarrow> ctx \<Rightarrow> AccAddress \<Rightarrow> ibc_entry \<Rightarrow> (('m, 'x) st, unit) go" where
  "OnConnectChannel K V c contractAddr msg = basicEntry K V c contractAddr msg"

definition OnCloseChannel ::
  "('m, 'x, 'msg) keeper \<Rightarrow> ('m, 'x, 'msg) ibc_vm \<Rightarrow> ctx \<Rightarrow> AccAddress \<Rightarrow> ibc_entry \<Rightarrow> (('m, 'x) st, unit) go" where
  "OnCloseChannel K V c contractAddr msg = basicEntry K V c contractAddr msg"

definition OnAckPacket ::
  "('m, 'x, 'msg) keeper \<Rightarrow> ('m, 'x, 'msg) ibc_vm \<Rightarrow> ctx \<Rightarrow> AccAddress \<Rightarrow> bytes \<Rightarrow> IBCPacket \<Rightarrow> bytes
    \<Rightarrow> (('m, 'x) st, unit) go" where
  "OnAckPacket K V c contractAddr ack packet relayer =
    basicEntry K V c contractAddr (IbcPacketAck ack packet relayer)"

definition OnTimeoutPacket ::
  "('m, 'x, 'msg) keeper \<Rightarrow> ('m, 'x, 'msg) ibc_vm \<Rightarrow> ctx \<Rightarrow> AccAddress \<Rightarrow> IBCPacket \<Rightarrow> bytes
    \<Rightarrow> (('m, 'x) st, unit) go" where
  "OnTimeoutPacket K V c contractAddr packet relayer =
    basicEntry K V c contractAddr (IbcPacketTimeout packet relayer)"

definition IBCSourceCallback ::
  "('m, 'x, 'msg) keeper \<Rightarrow> ('m, 'x, 'msg) ibc_vm \<Rightarrow> ctx \<Rightarrow> AccAddress \<Rightarrow> ibc_entry \<Rightarrow> (('m, 'x) st, unit) go" where
  "IBCSourceCallback K V c contractAddr msg = basicEntry K V c contractAddr msg"

definition IBCDestinationCallback ::
  "('m, 'x, 'msg) keeper \<Rightarrow> ('m, 'x, 'msg) ibc_vm \<Rightarrow> ctx \<Rightarrow> AccAddress \<Rightarrow> bytes \<Rightarrow> IBCPacket
    \<Rightarrow> (('m, 'x) st, unit) go" where
  "IBCDestinationCallback K V c contractAddr ack packet =
    basicEntry K V c contractAddr (IbcDestinationCallback ack packet)"

text \<open>Receiving a packet: an engine error aborts with a panic; without acknowledgement data the packet
  is stored for a later acknowledgement.\<close>

definition OnRecvPacket ::
  "('m, 'x, 'msg) keeper \<Rightarrow> ('m, 'x, 'msg) ibc_vm \<Rightarrow> ctx \<Rightarrow> AccAddress \<Rightarrow> IBCPacket \<Rightarrow> bytes
    \<Rightarrow> (('m, 'x) st, Acknowledgement option) go" where
  "OnRecvPacket K V c contractAddr packet relayer =
    bindM (contractInstance K contractAddr) (\<lambda>(contractInfo, codeInfo).
    bindM (callIBC K V c contractAddr (IbcPacketReceive packet relayer) (CodeHash codeInfo)) (\<lambda>out.
    if VmErr out \<noteq> None then panicM (OtherPanic ''contract aborted'')
    else case VmRes out of
        None \<Rightarrow> failM ErrVMError
      | Some res \<Rightarrow>
          if CrErr res \<noteq> '''' then retM (Some (ErrorAck (CrErr res)))
          else
           bindM (handleContractResponse K c contractAddr (IBCPortID contractInfo) (CrOk res)) (\<lambda>data.
           case data of
             None \<Rightarrow> thenM (StoreAsyncAckPacket (convertPacket packet)) (retM None)
           | Some d \<Rightarrow> retM (Some (ConfirmAck d)))))"

subsection \<open>The IBC module\<close>

record ('m, 'x) ibc_env =
  GetChannel :: "'x \<Rightarrow> bytes \<Rightarrow> bytes \<Rightarrow> Channel option"
  GetAppVersion :: "'x \<Rightarrow> bytes \<Rightarrow> bytes \<Rightarrow> bytes option"
  ParseChannelSequence :: "bytes \<Rightarrow> u64 outcome"
  ChannelPath :: "bytes \<Rightarrow> bytes \<Rightarrow> bytes"
  AuthenticateCapability :: "'x \<Rightarrow> bytes \<Rightarrow> bytes \<Rightarrow> bool"
  NewErrorAcknowledgement :: "gerror \<Rightarrow> bytes"
  ErrorText :: "gerror \<Rightarrow> bytes"

record ('m, 'x, 'msg) IBCHandler =
  ihKeeper :: "('m, 'x, 'msg) keeper"
  ihVm :: "('m, 'x, 'msg) ibc_vm"
  ihEnv :: "('m, 'x) ibc_env"

definition ErrChannelNotFound :: gerror where
  "ErrChannelNotFound = Registered ''channel'' 3"

definition ErrInvalidChannelVersion :: gerror where
  "ErrInvalidChannelVersion = Registered ''channel'' 24"

definition ValidateChannelParams :: "('m, 'x) ibc_env \<Rightarrow> bytes \<Rightarrow> unit outcome" where
  "ValidateChannelParams N channelID = (case ParseChannelSequence N channelID of
     Ok channelSequence \<Rightarrow> if channelSequence > 2 ^ 32 - 1 then Err ErrMaxIBCChannels else Ok ()
   | Err e \<Rightarrow> Err e
   | Panic p \<Rightarrow> Panic p)"

definition newIBCPacket :: "Packet \<Rightarrow> IBCPacket" where
  "newIBCPacket packet =
    \<lparr>ipData = PacketData packet,
     ipSrc = \<lparr>epPortID = SourcePort packet, epChannelID = SourceChannel packet\<rparr>,
     ipDest = \<lparr>epPortID = DestinationPort packet, epChannelID = DestinationChannel packet\<rparr>,
     ipSequence = Sequence packet,
     ipTimeout = \<lparr>toBlock =
         (let h = TimeoutHeight packet in
          if \<not> (RevisionNumber h = 0 \<and> RevisionHeight h = 0)
          then Some (RevisionNumber h, RevisionHeight h) else None),
       toTimestamp = TimeoutTimestamp packet\<rparr>\<rparr>"

definition firstHop :: "bytes list \<Rightarrow> bytes outcome" where
  "firstHop hops = (case hops of [] \<Rightarrow> Panic (OtherPanic ''index out of range'') | h # _ \<Rightarrow> Ok h)"

definition toWasmVMChannel :: "bytes \<Rightarrow> bytes \<Rightarrow> Channel \<Rightarrow> bytes \<Rightarrow> IBCChannel outcome" where
  "toWasmVMChannel portID channelID channelInfo appVersion =
    withValue (firstHop (ciConnectionHops channelInfo)) (\<lambda>hop. Ok
      \<lparr>chEndpoint = \<lparr>epPortID = portID, epChannelID = channelID\<rparr>,
       chCounterpartyEndpoint = ciCounterparty channelInfo,
       chOrder = ciOrdering channelInfo, chVersion = appVersion, chConnectionID = hop\<rparr>)"

definition contractOfPort ::
  "('m, 'x, 'msg) IBCHandler \<Rightarrow> bytes \<Rightarrow> (('m, 'x) st, AccAddress) go" where
  "contractOfPort i portID = wrapM errWrap (liftO (ContractFromPortID (kSdk (ihKeeper i)) portID))"

definition openChannelMsg ::
  "bytes \<Rightarrow> bytes list \<Rightarrow> bytes \<Rightarrow> bytes \<Rightarrow> IBCEndpoint \<Rightarrow> bytes \<Rightarrow> IBCChannel outcome" where
  "openChannelMsg order connectionHops portID channelID counterParty version =
    toWasmVMChannel portID channelID
      \<lparr>ciOrdering = order, ciCounterparty = counterParty, ciConnectionHops = connectionHops\<rparr> version"

definition claimChannel :: "('m, 'x, 'msg) IBCHandler \<Rightarrow> bytes \<Rightarrow> bytes \<Rightarrow> bytes \<Rightarrow> (('m, 'x) st, unit) go" where
  "claimChannel i chanCap portID channelID =
    wrapM errWrap (extM (ClaimCapabilityExt (kExt (ihKeeper i)) chanCap (ChannelPath (ihEnv i) portID channelID)))"

definition OnChanOpenInit ::
  "('m, 'x, 'msg) IBCHandler \<Rightarrow> ctx \<Rightarrow> bytes \<Rightarrow> bytes list \<Rightarrow> bytes \<Rightarrow> bytes \<Rightarrow> bytes \<Rightarrow> IBCEndpoint \<Rightarrow> bytes
    \<Rightarrow> (('m, 'x) st, bytes) go" where
  "OnChanOpenInit i c order connectionHops portID channelID chanCap counterParty version =
    thenM (liftO (ValidateChannelParams (ihEnv i) channelID))
    (bindM (contractOfPort i portID) (\<lambda>contractAddr.
    bindM (liftO (openChannelMsg order connectionHops portID channelID counterParty version)) (\<lambda>channel.
    bindM (OnOpenChannel (ihKeeper i) (ihVm i) c contractAddr (OpenInit channel)) (\<lambda>acceptedVersion.
    if acceptedVersion = '''' \<and> version = '''' then failM ErrEmpty
    else
     thenM (claimChannel i chanCap portID channelID)
     (retM (if acceptedVersion = '''' then version else acceptedVersion))))))"

definition OnChanOpenTry ::
  "('m, 'x, 'msg) IBCHandler \<Rightarrow> ctx \<Rightarrow> bytes \<Rightarrow> bytes list \<Rightarrow> bytes \<Rightarrow> bytes \<Rightarrow> bytes \<Rightarrow> IBCEndpoint \<Rightarrow> bytes
    \<Rightarrow> (('m, 'x) st, bytes) go" where
  "OnChanOpenTry i c order connectionHops portID channelID chanCap counterParty counterpartyVersion =
    thenM (liftO (ValidateChannelParams (ihEnv i) channelID))
    (bindM (contractOfPort i portID) (\<lambda>contractAddr.
    bindM (liftO (openChannelMsg order connectionHops portID channelID counterParty counterpartyVersion))
      (\<lambda>channel.
    bindM (OnOpenChannel (ihKeeper i) (ihVm i) c contractAddr (OpenTry channel counterpartyVersion)) (\<lambda>v.
    let version = (if v = '''' then counterpartyVersion else v) in
    bindM (getsM (\<lambda>s. AuthenticateCapability (ihEnv i) (world s) chanCap
        (ChannelPath (ihEnv i) portID channelID))) (\<lambda>owned.
    thenM (if \<not> owned then claimChannel i chanCap portID channelID else retM ())
    (retM version))))))"

definition channelFor ::
  "('m, 'x, 'msg) IBCHandler \<Rightarrow> bytes \<Rightarrow> bytes \<Rightarrow> (Channel \<Rightarrow> Channel)
    \<Rightarrow> (('m, 'x) st, AccAddress \<times> IBCChannel) go" where
  "channelFor i portID channelID adjust =
    bindM (contractOfPort i portID) (\<lambda>contractAddr.
    bindM (getsM (\<lambda>s. GetChannel (ihEnv i) (world s) portID channelID)) (\<lambda>info. case info of
      None \<Rightarrow> failM ErrChannelNotFound
    | Some channelInfo \<Rightarrow>
       bindM (getsM (\<lambda>s. GetAppVersion (ihEnv i) (world s) portID channelID)) (\<lambda>ver. case ver of
         None \<Rightarrow> failM ErrInvalidChannelVersion
       | Some appVersion \<Rightarrow>
          bindM (liftO (toWasmVMChannel portID channelID (adjust channelInfo) appVersion)) (\<lambda>channel.
          retM (contractAddr, channel)))))"

definition OnChanOpenAck ::
  "('m, 'x, 'msg) IBCHandler \<Rightarrow> ctx \<Rightarrow> bytes \<Rightarrow> bytes \<Rightarrow> bytes \<Rightarrow> bytes \<Rightarrow> (('m, 'x) st, unit) go" where
  "OnChanOpenAck i c portID channelID counterpartyChannelID counterpartyVersion =
    bindM (channelFor i portID channelID (\<lambda>ch.
        ch\<lparr>ciCounterparty := (ciCounterparty ch)\<lparr>epChannelID := counterpartyChannelID\<rparr>\<rparr>))
      (\<lambda>(contractAddr, channel).
    OnConnectChannel (ihKeeper i) (ihVm i) c contractAddr (IbcOpenAck channel counterpartyVersion))"

definition OnChanOpenConfirm ::
  "('m, 'x, 'msg) IBCHandler \<Rightarrow> ctx \<Rightarrow> bytes \<Rightarrow> bytes \<Rightarrow> (('m, 'x) st, unit) go" where
  "OnChanOpenConfirm i c portID channelID =
    bindM (channelFor i portID channelID id) (\<lambda>(contractAddr, channel).
    OnConnectChannel (ihKeeper i) (ihVm i) c contractAddr (IbcOpenConfirm channel))"

definition OnChanCloseInit ::
  "('m, 'x, 'msg) IBCHandler \<Rightarrow> ctx \<Rightarrow> bytes \<Rightarrow> bytes \<Rightarrow> (('m, 'x) st, unit) go" where
  "OnChanCloseInit i c portID channelID =
    bindM (channelFor i portID channelID id) (\<lambda>(contractAddr, channel).
    OnCloseChannel (ihKeeper i) (ihVm i) c contractAddr (IbcCloseInit channel))"

definition OnChanCloseConfirm ::
  "('m, 'x, 'msg) IBCHandler \<Rightarrow> ctx \<Rightarrow> bytes \<Rightarrow> bytes \<Rightarrow> (('m, 'x) st, unit) go" where
  "OnChanCloseConfirm i c portID channelID =
    bindM (channelFor i portID channelID id) (\<lambda>(contractAddr, channel).
    OnCloseChannel (ihKeeper i) (ihVm i) c contractAddr (IbcCloseConfirm channel))"

subsection \<open>Packets\<close>

definition CreateErrorAcknowledgement :: "('m, 'x) ibc_env \<Rightarrow> gerror \<Rightarrow> Acknowledgement" where
  "CreateErrorAcknowledgement N err = ErrorAck (NewErrorAcknowledgement N err)"

definition EmitAcknowledgementEvent ::
  "('m, 'x, 'msg) IBCHandler \<Rightarrow> AccAddress \<Rightarrow> Acknowledgement option \<Rightarrow> gerror option \<Rightarrow> (('m, 'x) st, unit) go" where
  "EmitAcknowledgementEvent i contractAddr ack err =
    (let success = (err = None \<and> (case ack of None \<Rightarrow> True | Some a \<Rightarrow> Ack_Success a)) in
     emitEvent (newEvent ''ibc_packet_received''
       ([attr ''module'' ''wasm'',
         attr AttributeKeyContractAddr (accString (kSdk (ihKeeper i)) contractAddr),
         attr ''success'' (if success then ''true'' else ''false'')] @
        (case err of None \<Rightarrow> [] | Some e \<Rightarrow> [attr ''error'' (ErrorText (ihEnv i) e)]))))"

text \<open>\<open>ctx.WithEventManager\<close>: the body collects its events apart; the caller gets them.\<close>

definition collectEvents :: "(('m, 'x) st, 'a) go \<Rightarrow> (('m, 'x) st, (gerror + 'a) \<times> Event list) go" where
  "collectEvents body = (\<lambda>s. case body (s\<lparr>events := []\<rparr>) of
      (Ok a, t) \<Rightarrow> (Ok (Inr a, events t), t\<lparr>events := events s\<rparr>)
    | (Err e, t) \<Rightarrow> (Ok (Inl e, events t), t\<lparr>events := events s\<rparr>)
    | (Panic p, t) \<Rightarrow> (Panic p, t\<lparr>events := events s\<rparr>))"

definition IBCHandler_OnRecvPacket ::
  "('m, 'x, 'msg) IBCHandler \<Rightarrow> ctx \<Rightarrow> Packet \<Rightarrow> AccAddress \<Rightarrow> (('m, 'x) st, Acknowledgement option) go" where
  "IBCHandler_OnRecvPacket i c packet relayer =
    (case ContractFromPortID (kSdk (ihKeeper i)) (DestinationPort packet) of
       Err _ \<Rightarrow> panicM (OtherPanic ''contract port id'')
     | Panic p \<Rightarrow> panicM p
     | Ok contractAddr \<Rightarrow>
        bindM (collectEvents (OnRecvPacket (ihKeeper i) (ihVm i) c contractAddr (newIBCPacket packet)
            (accString (kSdk (ihKeeper i)) relayer))) (\<lambda>(r, em). case r of
          Inl err \<Rightarrow>
            (let ack = Some (CreateErrorAcknowledgement (ihEnv i) err) in
             thenM (EmitAcknowledgementEvent i contractAddr ack (Some err)) (retM ack))
        | Inr ack \<Rightarrow>
            thenM (if (case ack of None \<Rightarrow> True | Some a \<Rightarrow> Ack_Success a) then emitEvents em else retM ())
            (thenM (EmitAcknowledgementEvent i contractAddr ack None) (retM ack))))"

definition OnAcknowledgementPacket ::
  "('m, 'x, 'msg) IBCHandler \<Rightarrow> ctx \<Rightarrow> Packet \<Rightarrow> bytes \<Rightarrow> AccAddress \<Rightarrow> (('m, 'x) st, unit) go" where
  "OnAcknowledgementPacket i c packet acknowledgement relayer =
    bindM (contractOfPort i (SourcePort packet)) (\<lambda>contractAddr.
    wrapM errWrap (OnAckPacket (ihKeeper i) (ihVm i) c contractAddr acknowledgement (newIBCPacket packet)
      (accString (kSdk (ihKeeper i)) relayer)))"

definition IBCHandler_OnTimeoutPacket ::
  "('m, 'x, 'msg) IBCHandler \<Rightarrow> ctx \<Rightarrow> Packet \<Rightarrow> AccAddress \<Rightarrow> (('m, 'x) st, unit) go" where
  "IBCHandler_OnTimeoutPacket i c packet relayer =
    bindM (contractOfPort i (SourcePort packet)) (\<lambda>contractAddr.
    wrapM errWrap (OnTimeoutPacket (ihKeeper i) (ihVm i) c contractAddr (newIBCPacket packet)
      (accString (kSdk (ihKeeper i)) relayer)))"

subsection \<open>Callbacks\<close>

definition validateSender :: "sdk_fns \<Rightarrow> bytes \<Rightarrow> bytes \<Rightarrow> AccAddress outcome" where
  "validateSender S contractAddr senderAddr =
    withValue (withWrap (fromBech32 S contractAddr)) (\<lambda>contractAddress.
    withValue (withWrap (fromBech32 S senderAddr)) (\<lambda>senderAddress.
    if contractAddress \<noteq> senderAddress then Err ErrExecuteFailed else Ok contractAddress))"

definition IBCSendPacketCallback ::
  "('m, 'x, 'msg) IBCHandler \<Rightarrow> bytes \<Rightarrow> bytes \<Rightarrow> (('m, 'x) st, unit) go" where
  "IBCSendPacketCallback i contractAddress packetSenderAddress =
    bindM (liftO (validateSender (kSdk (ihKeeper i)) contractAddress packetSenderAddress)) (\<lambda>_. retM ())"

definition IBCOnAcknowledgementPacketCallback ::
  "('m, 'x, 'msg) IBCHandler \<Rightarrow> ctx \<Rightarrow> Packet \<Rightarrow> bytes \<Rightarrow> AccAddress \<Rightarrow> bytes \<Rightarrow> bytes \<Rightarrow> (('m, 'x) st, unit) go" where
  "IBCOnAcknowledgementPacketCallback i c packet acknowledgement relayer contractAddress packetSenderAddress =
    bindM (liftO (validateSender (kSdk (ihKeeper i)) contractAddress packetSenderAddress)) (\<lambda>contractAddr.
    wrapM errWrap (IBCSourceCallback (ihKeeper i) (ihVm i) c contractAddr
      (IbcSourceCallbackAck acknowledgement (newIBCPacket packet) (accString (kSdk (ihKeeper i)) relayer))))"

definition IBCOnTimeoutPacketCallback ::
  "('m, 'x, 'msg) IBCHandler \<Rightarrow> ctx \<Rightarrow> Packet \<Rightarrow> AccAddress \<Rightarrow> bytes \<Rightarrow> bytes \<Rightarrow> (('m, 'x) st, unit) go" where
  "IBCOnTimeoutPacketCallback i c packet relayer contractAddress packetSenderAddress =
    bindM (liftO (validateSender (kSdk (ihKeeper i)) contractAddress packetSenderAddress)) (\<lambda>contractAddr.
    wrapM errWrap (IBCSourceCallback (ihKeeper i) (ihVm i) c contractAddr
      (IbcSourceCallbackTimeout (newIBCPacket packet) (accString (kSdk (ihKeeper i)) relayer))))"

definition IBCReceivePacketCallback ::
  "('m, 'x, 'msg) IBCHandler \<Rightarrow> ctx \<Rightarrow> Packet \<Rightarrow> bytes \<Rightarrow> bytes \<Rightarrow> (('m, 'x) st, unit) go" where
  "IBCReceivePacketCallback i c packet ack contractAddress =
    bindM (liftO (fromBech32 (kSdk (ihKeeper i)) contractAddress)) (\<lambda>contractAddr.
    wrapM errWrap (IBCDestinationCallback (ihKeeper i) (ihVm i) c contractAddr ack (newIBCPacket packet)))"

subsection \<open>Facts\<close>

lemma convert_newIBCPacket [simp]: "convertPacket (newIBCPacket p) = p"
  by (cases p) (auto simp: convertPacket_def newIBCPacket_def Let_def)

lemma newIBCPacket_dest [simp]:
  "epPortID (ipDest (newIBCPacket p)) = DestinationPort p" "epChannelID (ipDest (newIBCPacket p)) = DestinationChannel p"
  by (simp_all add: newIBCPacket_def)

lemma keeps_collectEvents:
  assumes "preserves (\<lambda>s. G (store s)) m"
  shows "keeps (\<lambda>s. G (store s)) (collectEvents m)"
proof (rule keepsI)
  fix s r t
  assume G: "G (store s)" and run: "collectEvents m s = (Ok r, t)"
  have "G (store (snd (m (s\<lparr>events := []\<rparr>))))"
    using assms G by (simp add: preserves_def)
  then show "G (store t)" using run
    by (auto simp: collectEvents_def split: prod.splits outcome.splits)
qed

lemma pres_callIBC [pres]: "closed G \<Longrightarrow> preserves (\<lambda>s. G (store s)) (callIBC K V c a e cs)"
  unfolding callIBC_def by (intro pres)

lemma pres_OnOpenChannel [pres]: "closed G \<Longrightarrow> preserves (\<lambda>s. G (store s)) (OnOpenChannel K V c a m)"
  unfolding OnOpenChannel_def by (intro pres) (auto split: option.split prod.split intro!: pres)

lemma keeps_basicEntry:
  "handler_ok K \<Longrightarrow> keeps (\<lambda>s. keeper_inv (store s)) (basicEntry K V c a e)"
  unfolding basicEntry_def handleIBCBasicContractResponse_def
  by (intro kept keeps_handleContractResponse preserves_keeps [OF pres_contractInstance]
      preserves_keeps [OF pres_callIBC [OF closed_inv]])

lemma keeps_StoreAsyncAckPacket: "keeps (\<lambda>s. keeper_inv (store s)) (StoreAsyncAckPacket p)"
  unfolding StoreAsyncAckPacket_def asyncAckKey_def
  by (auto intro!: keepsI inv_set_neutral)

lemma keeps_OnRecvPacket:
  "handler_ok K \<Longrightarrow> keeps (\<lambda>s. keeper_inv (store s)) (OnRecvPacket K V c a p r)"
  unfolding OnRecvPacket_def
  by (intro kept keeps_handleContractResponse keeps_StoreAsyncAckPacket preserves_keeps [OF pres_contractInstance]
      preserves_keeps [OF pres_callIBC [OF closed_inv]])

lemma contractOfPort_Ok [simp]:
  "contractOfPort i port s = (Ok a, t) \<longleftrightarrow> ContractFromPortID (kSdk (ihKeeper i)) port = Ok a \<and> t = s"
  by (simp add: contractOfPort_def)

lemma validateSender_Ok:
  "validateSender S ca sa = Ok a \<longleftrightarrow> fromBech32 S ca = Ok a \<and> fromBech32 S sa = Ok a"
  by (cases "fromBech32 S ca"; cases "fromBech32 S sa") (auto simp: validateSender_def withValue_def)

text \<open>A committed receive is a success of the keeper's entry point up to events.\<close>

lemma IBCHandler_OnRecvPacket_success:
  assumes "IBCHandler_OnRecvPacket i c p rel s = (Ok ack, t)"
    and "case ack of None \<Rightarrow> True | Some a \<Rightarrow> Ack_Success a"
  shows "\<exists>a u. ContractFromPortID (kSdk (ihKeeper i)) (DestinationPort p) = Ok a \<and>
    OnRecvPacket (ihKeeper i) (ihVm i) c a (newIBCPacket p) (accString (kSdk (ihKeeper i)) rel) (s\<lparr>events := []\<rparr>) =
      (Ok ack, u) \<and> store t = store u"
  using assms
  by (auto simp: IBCHandler_OnRecvPacket_def go_Ok_iff collectEvents_def EmitAcknowledgementEvent_def Let_def
      CreateErrorAcknowledgement_def split: outcome.splits prod.splits sum.splits if_splits)

lemma OnRecvPacket_None:
  assumes "OnRecvPacket K V c a p rel s = (Ok None, t)"
  shows "kv_get (store t) (asyncAckKey (epPortID (ipDest p)) (epChannelID (ipDest p)) (ipSequence p)) =
    Some (SPacket (convertPacket p))"
  using assms
  by (auto simp: OnRecvPacket_def go_Ok_iff StoreAsyncAckPacket_def convertPacket_def split: if_splits option.splits)

text \<open>C17. Deferred acknowledgements come through.  When a received packet is answered with no
  acknowledgement, exactly that packet is kept; from then on, as long as the entry is there and the contract
  owns the channel, a write-acknowledgement message of the contract behind that port hands the very same
  packet with the contract's data to ibc-go and succeeds whenever ibc-go accepts it.\<close>

theorem deferred_ack_reaches_ibc:
  assumes recv: "IBCHandler_OnRecvPacket i c p rel s = (Ok None, t)"
    and kept: "kv_get (store u) (asyncAckKey (DestinationPort p) (DestinationChannel p) (Sequence p)) =
      kv_get (store t) (asyncAckKey (DestinationPort p) (DestinationChannel p) (Sequence p))"
    and owned: "DestinationChannel p \<noteq> ''''"
      "GetCapability (kExt K) (world u) (ChannelCapabilityPath I (DestinationPort p) (DestinationChannel p))"
    and ack: "waChannelID wa = DestinationChannel p" "waPacketSequence wa = Sequence p"
    and accepted: "extM (ics4WriteAcknowledgement I p (waAck wa)) u = (Ok (), v)"
  shows "\<exists>r. IBCRawPacketHandler K I c' a (DestinationPort p) (ackMsg wa) u =
    (Ok r, v\<lparr>store := kv_delete (asyncAckKey (DestinationPort p) (DestinationChannel p) (Sequence p)) (store v)\<rparr>)"
proof -
  let ?k = "asyncAckKey (DestinationPort p) (DestinationChannel p) (Sequence p)"
  obtain a' u' where port: "ContractFromPortID (kSdk (ihKeeper i)) (DestinationPort p) = Ok a'"
    and run: "OnRecvPacket (ihKeeper i) (ihVm i) c a' (newIBCPacket p) (accString (kSdk (ihKeeper i)) rel)
      (s\<lparr>events := []\<rparr>) = (Ok None, u')" and "store t = store u'"
    using IBCHandler_OnRecvPacket_success [OF recv] by auto
  have seq: "ipSequence (newIBCPacket p) = Sequence p" by (simp add: newIBCPacket_def)
  have "kv_get (store u) ?k = Some (SPacket p)"
    using OnRecvPacket_None [OF run] \<open>store t = store u'\<close> kept seq by simp
  then have load: "LoadAsyncAckPacket (DestinationPort p) (waChannelID wa) (waPacketSequence wa) u = (Ok p, u)"
    by (simp add: LoadAsyncAckPacket_def go_step storeGet_def ack)
  have "DestinationPort p \<noteq> ''''"
    using port by (auto simp: ContractFromPortID_def split: if_splits)
  then have chk: "ibcChannelCheck K I (DestinationPort p) (waChannelID wa) u = (Ok (), u)"
    using owned by (simp add: ibcChannelCheck_def go_step ack)
  show ?thesis
    using load chk accepted ack
    by (auto simp: IBCRawPacketHandler_ack thenM_step bindM_step wrapM_step DeleteAsyncAckPacket_def
        storeDelete_def modifyM_def retM_def)
qed

definition exIbcVm :: "(u64 \<times> u64, unit, 'msg) ibc_vm" where
  "exIbcVm = \<lparr>vmIBCChannelOpen = (\<lambda>_ _ _ _ _ _ s. exVmOut (meter s) (txContracts s) (Some ''v1'', '''')),
     vmIBC = (\<lambda>_ _ _ _ _ _ s. exVmOut (meter s) (txContracts s)
        \<lparr>CrOk = Some \<lparr>RespMessages = [], RespRData = None, RespAttributes = [], RespREvents = []\<rparr>, CrErr = ''''\<rparr>)\<rparr>"

definition exIbcEnv :: "(u64 \<times> u64, unit) ibc_env" where
  "exIbcEnv = \<lparr>GetChannel = (\<lambda>_ _ _. None), GetAppVersion = (\<lambda>_ _ _. None), ParseChannelSequence = (\<lambda>_. Ok 1),
     ChannelPath = (\<lambda>p ch. p @ ch), AuthenticateCapability = (\<lambda>_ _ _. False),
     NewErrorAcknowledgement = (\<lambda>_. ''error''), ErrorText = (\<lambda>_. ''error'')\<rparr>"

definition exIbcHandler :: "(u64 \<times> u64, unit, unit) IBCHandler" where
  "exIbcHandler = \<lparr>ihKeeper = exKeeper, ihVm = exIbcVm, ihEnv = exIbcEnv\<rparr>"

definition exIbcState :: "(u64 \<times> u64, unit) st" where
  "exIbcState = exSt [(GetCodeKey 1, SCodeInfo \<lparr>CodeHash = ''h'', CodeCreator = ''a'', InstantiateConfig = AllowEverybody\<rparr>),
     (GetContractAddressKey ''carol'', SContractInfo (exInfo\<lparr>IBCPortID := ''wasm.carol''\<rparr>))]"

definition exRecv :: "(u64 \<times> u64, unit) st" where
  "exRecv = snd (IBCHandler_OnRecvPacket exIbcHandler exCtx exAckPacket ''rel'' exIbcState)"

lemma exRecv_run: "IBCHandler_OnRecvPacket exIbcHandler exCtx exAckPacket ''rel'' exIbcState = (Ok None, exRecv)"
proof -
  have "fst (IBCHandler_OnRecvPacket exIbcHandler exCtx exAckPacket ''rel'' exIbcState) = Ok None"
    by (simp add: IBCHandler_OnRecvPacket_def exIbcHandler_def exAckPacket_def exIbcState_def OnRecvPacket_def
        callIBC_def collectEvents_def EmitAcknowledgementEvent_def exIbcVm_def exIbcEnv_def exInfo_def
        newIBCPacket_def run_eval be_numeral split: prod.split cong: go_frozen)
  then show ?thesis by (metis exRecv_def prod.collapse)
qed

theorem deferred_ack_reaches_ibc_witness:
  "\<exists>r u. IBCRawPacketHandler exKeeper exIbc exCtx ''carol'' ''wasm.carol'' (ackMsg (exAck ''done'')) exRecv = (Ok r, u)"
proof -
  have acc: "extM (ics4WriteAcknowledgement exIbc exAckPacket (waAck (exAck ''done''))) exRecv = (Ok (), exRecv)"
    by (cases exRecv) (simp add: extM_def exIbc_def)
  show ?thesis
    using deferred_ack_reaches_ibc [OF exRecv_run refl, of exKeeper exIbc "exAck ''done''" exRecv exCtx "''carol''"] acc
    by (auto simp: exAckPacket_def exAck_def exKeeper_fields exExt_def)
qed

text \<open>C10. Callbacks reach the sender only.  The source-chain callbacks call a contract only when the
  callback address and the packet sender decode to the same address; otherwise the state is untouched.  A
  packet of a contract is delivered to the contract whose address is in the destination port.\<close>

theorem callbacks_reach_sender_only:
  assumes "\<nexists>a. fromBech32 (kSdk (ihKeeper i)) ca = Ok a \<and> fromBech32 (kSdk (ihKeeper i)) sa = Ok a"
  shows "snd (IBCOnAcknowledgementPacketCallback i c p ack rel ca sa s) = s \<and>
    snd (IBCOnTimeoutPacketCallback i c p rel ca sa s) = s \<and>
    fst (IBCOnAcknowledgementPacketCallback i c p ack rel ca sa s) \<noteq> Ok () \<and>
    fst (IBCOnTimeoutPacketCallback i c p rel ca sa s) \<noteq> Ok () \<and>
    fst (IBCSendPacketCallback i ca sa s) \<noteq> Ok ()"
proof -
  have bad: "validateSender (kSdk (ihKeeper i)) ca sa \<noteq> Ok a" for a
    using assms by (auto simp: validateSender_Ok)
  show ?thesis
    by (cases "validateSender (kSdk (ihKeeper i)) ca sa")
      (use bad in \<open>auto simp: IBCOnAcknowledgementPacketCallback_def IBCOnTimeoutPacketCallback_def
        IBCSendPacketCallback_def bindM_step liftO_def\<close>)
qed

theorem callbacks_reach_sender_only_witness:
  "fst (IBCOnTimeoutPacketCallback exIbcHandler exCtx exAckPacket ''rel'' ''carol'' ''mallory'' exIbcState) \<noteq> Ok () \<and>
   fst (IBCOnTimeoutPacketCallback exIbcHandler exCtx exAckPacket ''rel'' ''carol'' ''carol'' exIbcState) = Ok ()"
proof
  show "fst (IBCOnTimeoutPacketCallback exIbcHandler exCtx exAckPacket ''rel'' ''carol'' ''mallory'' exIbcState) \<noteq> Ok ()"
    using callbacks_reach_sender_only [of exIbcHandler "''carol''" "''mallory''" exCtx exAckPacket "''''" "''rel''" exIbcState]
    by (simp add: exIbcHandler_def exKeeper_fields exSdk_def)
  show "fst (IBCOnTimeoutPacketCallback exIbcHandler exCtx exAckPacket ''rel'' ''carol'' ''carol'' exIbcState) = Ok ()"
    by (simp add: IBCOnTimeoutPacketCallback_def exIbcHandler_def exAckPacket_def exIbcState_def IBCSourceCallback_def
        basicEntry_def handleIBCBasicContractResponse_def validateSender_def withValue_def
        callIBC_def exIbcVm_def exIbcEnv_def exInfo_def
        newIBCPacket_def run_eval be_numeral split: prod.split cong: go_frozen)
qed

text \<open>C28. Events and acknowledgements agree.  A receive that ends with an error acknowledgement emits
  none of the contract's events, only the acknowledgement event; in every case the caller's earlier events
  stay in front, and a success is reported exactly for a nil or a contract acknowledgement.\<close>

theorem recv_events_match_ack:
  assumes "IBCHandler_OnRecvPacket i c p rel s = (Ok ack, t)"
  shows "\<exists>es attrs. events t = events s @ es @ [newEvent ''ibc_packet_received'' attrs] \<and>
    (case ack of
       Some (ErrorAck _) \<Rightarrow> es = [] \<and> attr ''success'' ''false'' \<in> set attrs
     | _ \<Rightarrow> attr ''success'' ''true'' \<in> set attrs)"
proof -
  have shape: "\<exists>attrs. t = u\<lparr>events := events u @ [newEvent ''ibc_packet_received'' attrs]\<rparr> \<and>
      attr ''success'' (if err = None \<and> (case ack of None \<Rightarrow> True | Some a \<Rightarrow> Ack_Success a) then ''true'' else ''false'') \<in> set attrs"
    if "EmitAcknowledgementEvent i a ack err u = (Ok (), t)" for a ack err and u t :: "('a, 'b) st"
    using that by (auto simp: EmitAcknowledgementEvent_def Let_def)
  obtain a r em u where port: "ContractFromPortID (kSdk (ihKeeper i)) (DestinationPort p) = Ok a"
    and run: "collectEvents (OnRecvPacket (ihKeeper i) (ihVm i) c a (newIBCPacket p)
      (accString (kSdk (ihKeeper i)) rel)) s = (Ok (r, em), u)"
    using assms by (auto simp: IBCHandler_OnRecvPacket_def go_Ok_iff split: outcome.splits)
  have ev: "events u = events s"
    using run by (auto simp: collectEvents_def split: prod.splits outcome.splits)
  show ?thesis
  proof (cases r)
    case (Inl err)
    then have "EmitAcknowledgementEvent i a ack (Some err) u = (Ok (), t)"
      "ack = Some (ErrorAck (NewErrorAcknowledgement (ihEnv i) err))"
      using assms port run
      by (auto simp: IBCHandler_OnRecvPacket_def go_Ok_iff CreateErrorAcknowledgement_def Let_def)
    then show ?thesis using shape [of a ack "Some err" u t] ev by auto
  next
    case (Inr ack')
    then obtain es where "EmitAcknowledgementEvent i a ack None (u\<lparr>events := events u @ es\<rparr>) = (Ok (), t)"
      and "ack = ack'" and "(case ack of None \<Rightarrow> False | Some a \<Rightarrow> \<not> Ack_Success a) \<longrightarrow> es = []"
      using assms port run
      by (auto simp: IBCHandler_OnRecvPacket_def go_Ok_iff split: if_splits option.splits)
    then show ?thesis
      using shape [of a ack None "u\<lparr>events := events u @ es\<rparr>" t] ev
      by (cases ack; cases "the ack") auto
  qed
qed

theorem recv_events_match_ack_witness:
  "\<exists>es attrs. events exRecv = events exIbcState @ es @ [newEvent ''ibc_packet_received'' attrs] \<and>
    attr ''success'' ''true'' \<in> set attrs"
  using recv_events_match_ack [OF exRecv_run] by simp

lemma contractInstance_exists: "contractInstance K a s = (Ok r, t) \<Longrightarrow> contractAt (store s) a \<noteq> None"
  by (auto simp: contractInstance_def contractAt_def go_Ok_iff split: option.splits stored.splits
      elim!: asContractInfo.elims)

lemma OnOpenChannel_exists: "OnOpenChannel K V c a m s = (Ok v, t) \<Longrightarrow> contractAt (store s) a \<noteq> None"
  unfolding OnOpenChannel_def bindM_Ok_iff using contractInstance_exists by blast

lemma openChannelMsg_hops: "openChannelMsg ord hops port ch cp v = Ok x \<Longrightarrow> hops \<noteq> []"
  by (auto simp: openChannelMsg_def toWasmVMChannel_def firstHop_def withValue_def)

lemma ValidateChannelParams_bound:
  assumes "ValidateChannelParams N ch = Ok u"
  shows "\<exists>q. ParseChannelSequence N ch = Ok q \<and> unat q < 2 ^ 32"
proof -
  obtain q where q: "ParseChannelSequence N ch = Ok q" "\<not> q > 2 ^ 32 - 1"
    using assms by (auto simp: ValidateChannelParams_def split: outcome.splits if_splits)
  then have "q \<le> 4294967295" by simp
  then have "unat q \<le> unat (4294967295 :: u64)" by (simp only: word_le_nat_alt)
  then show ?thesis using q by simp
qed

text \<open>C29. Opening channels.  A channel is opened only for a contract that exists, with a channel sequence
  that fits into 32 bits; the initiating side always ends up with a version, and claims the capability with the
  very last step.\<close>

theorem channel_open_checked:
  assumes "OnChanOpenInit i c ord hops port ch cap cp v s = (Ok v', t) \<or>
    OnChanOpenTry i c ord hops port ch cap cp v s = (Ok v', t)"
  shows "(\<exists>q. ParseChannelSequence (ihEnv i) ch = Ok q \<and> unat q < 2 ^ 32) \<and>
    (\<exists>a. ContractFromPortID (kSdk (ihKeeper i)) port = Ok a \<and> contractAt (store s) a \<noteq> None) \<and> hops \<noteq> [] \<and>
    (OnChanOpenInit i c ord hops port ch cap cp v s = (Ok v', t) \<longrightarrow> v' \<noteq> '''' \<and>
      (\<exists>u. claimChannel i cap port ch u = (Ok (), t)))"
proof -
  obtain u a x m v0 w where valid: "ValidateChannelParams (ihEnv i) ch = Ok u"
    and port: "ContractFromPortID (kSdk (ihKeeper i)) port = Ok a"
    and msg: "openChannelMsg ord hops port ch cp v = Ok x"
    and call: "OnOpenChannel (ihKeeper i) (ihVm i) c a m s = (Ok v0, w)"
    using assms by (auto simp: OnChanOpenInit_def OnChanOpenTry_def go_Ok_iff Let_def)
  have init: "v' \<noteq> '''' \<and> (\<exists>u. claimChannel i cap port ch u = (Ok (), t))"
    if "OnChanOpenInit i c ord hops port ch cap cp v s = (Ok v', t)"
    using that by (auto simp: OnChanOpenInit_def go_Ok_iff split: if_splits)
  show ?thesis
    using ValidateChannelParams_bound [OF valid] OnOpenChannel_exists [OF call] openChannelMsg_hops [OF msg] port
      init by (intro conjI impI exI [of _ a]) simp_all
qed

theorem channel_open_checked_witness:
  "\<exists>t. OnChanOpenInit exIbcHandler exCtx ''ORDER_UNORDERED'' [''connection-0''] ''wasm.carol'' ''channel-1'' ''cap''
      \<lparr>epPortID = ''p'', epChannelID = ''''\<rparr> '''' exIbcState = (Ok ''v1'', t) \<and>
    contractAt (store exIbcState) ''carol'' \<noteq> None"
proof -
  let ?run = "OnChanOpenInit exIbcHandler exCtx ''ORDER_UNORDERED'' [''connection-0''] ''wasm.carol'' ''channel-1'' ''cap''
      \<lparr>epPortID = ''p'', epChannelID = ''''\<rparr> '''' exIbcState"
  have "fst ?run = Ok ''v1''"
    by (simp add: OnChanOpenInit_def exIbcHandler_def exIbcState_def OnOpenChannel_def openChannelMsg_def
        toWasmVMChannel_def withValue_def firstHop_def ValidateChannelParams_def exIbcVm_def exIbcEnv_def exInfo_def
        contractOfPort_def claimChannel_def run_eval be_numeral split: prod.split cong: go_frozen)
  then obtain t where run: "?run = (Ok ''v1'', t)" by (cases ?run) auto
  have "ContractFromPortID exSdk ''wasm.carol'' = Ok ''carol''"
    by (simp add: ContractFromPortID_def exSdk_def)
  then show ?thesis
    using run channel_open_checked [OF disjI1 [OF run]] by (auto simp: exIbcHandler_def exKeeper_fields)
qed

end
