(* ===== verification/Genesis.thy ===== *)
theory Genesis
  imports MsgServer
begin

section \<open>Genesis of x/wasm\<close>

text \<open>
  Importing and exporting the state of the module (src/x/wasm/keeper/genesis.go) and the checks on a
  genesis file (src/x/wasm/types/genesis.go, and the \<^verbatim>\<open>ValidateBasic\<close> methods of types.go it calls).  A callback
  of an iterator that never stops the iteration is a collecting loop (\<open>collectM\<close>).  The checks inside an
  extension of a contract are a parameter of the validation.

  An import gives a store with the invariant of the keeper, so a chain can start from it; an import
  followed by an export gives the same genesis file back.
\<close>

record Code =
  GenCodeID :: u64
  GenCodeInfo :: CodeInfo
  CodeBytes :: bytes
  Pinned :: bool

record Contract =
  ContractAddress :: bytes
  GenContractInfo :: ContractInfo
  ContractState :: "Model list"
  ContractCodeHistory :: "ContractCodeHistoryEntry list"

record GenSequence =
  IDKey :: bytes
  SeqValue :: u64

record GenesisState =
  GenParams :: Params
  Codes :: "Code list"
  Contracts :: "Contract list"
  Sequences :: "GenSequence list"

subsection \<open>Validation\<close>

definition MaxProposalWasmSize :: nat where
  "MaxProposalWasmSize = 3 * 1024 * 1024"

definition GenSequence_ValidateBasic :: "GenSequence \<Rightarrow> unit outcome" where
  "GenSequence_ValidateBasic s = failIf (length (IDKey s) = 0) ErrEmpty"

definition Model_ValidateBasic :: "Model \<Rightarrow> unit outcome" where
  "Model_ValidateBasic m = failIf (length (ModelKey m) = 0) ErrEmpty"

definition CodeInfo_ValidateBasic :: "basic_fns \<Rightarrow> CodeInfo \<Rightarrow> unit outcome" where
  "CodeInfo_ValidateBasic B c =
    thenO (failIf (length (CodeHash c) = 0) ErrEmpty)
    (thenO (checkAddr B (CodeCreator c))
    (wrapO errWrap (AccessConfig_ValidateBasic (bFromBech32 B) (InstantiateConfig c))))"

definition ContractInfo_ValidateBasic ::
  "basic_fns \<Rightarrow> (bytes \<Rightarrow> unit outcome) \<Rightarrow> ContractInfo \<Rightarrow> unit outcome" where
  "ContractInfo_ValidateBasic B validExt c =
    thenO (failIf (CodeID c = 0) ErrEmpty)
    (thenO (checkAddr B (Creator c))
    (thenO (checkOptAddr B (Admin c))
    (thenO (checkLabel B (Label c))
    (case Extension c of None \<Rightarrow> Ok () | Some e \<Rightarrow> wrapO errWrap (validExt e)))))"

definition AllCodeHistoryTypes :: "ContractCodeHistoryOperationType list" where
  "AllCodeHistoryTypes = [ContractCodeHistoryOperationTypeGenesis, ContractCodeHistoryOperationTypeInit,
     ContractCodeHistoryOperationTypeMigrate]"

definition ContractCodeHistoryEntry_ValidateBasic :: "ContractCodeHistoryEntry \<Rightarrow> unit outcome" where
  "ContractCodeHistoryEntry_ValidateBasic c =
    thenO (failIf (Operation c \<notin> set AllCodeHistoryTypes) ErrInvalid)
    (thenO (failIf (HistCodeID c = 0) ErrEmpty)
    (thenO (failIf (Updated c = None) ErrEmpty)
    (checkPayload (HistMsg c))))"

definition Code_ValidateBasic :: "basic_fns \<Rightarrow> Code \<Rightarrow> unit outcome" where
  "Code_ValidateBasic B c =
    thenO (failIf (GenCodeID c = 0) ErrEmpty)
    (thenO (wrapO errWrap (CodeInfo_ValidateBasic B (GenCodeInfo c)))
    (wrapO errWrap (validateWasmCode (CodeBytes c) MaxProposalWasmSize)))"

fun validateAll :: "('a \<Rightarrow> unit outcome) \<Rightarrow> 'a list \<Rightarrow> unit outcome" where
  "validateAll f [] = Ok ()"
| "validateAll f (x # xs) = thenO (wrapO errWrap (f x)) (validateAll f xs)"

definition Contract_ValidateBasic ::
  "basic_fns \<Rightarrow> (bytes \<Rightarrow> unit outcome) \<Rightarrow> Contract \<Rightarrow> unit outcome" where
  "Contract_ValidateBasic B validExt c =
    thenO (checkAddr B (ContractAddress c))
    (thenO (wrapO errWrap (ContractInfo_ValidateBasic B validExt (GenContractInfo c)))
    (thenO (failIf (Created (GenContractInfo c) = None) ErrInvalid)
    (thenO (validateAll Model_ValidateBasic (ContractState c))
    (thenO (failIf (length (ContractCodeHistory c) = 0) ErrEmpty)
    (validateAll ContractCodeHistoryEntry_ValidateBasic (ContractCodeHistory c))))))"

definition GenesisState_ValidateBasic ::
  "basic_fns \<Rightarrow> (bytes \<Rightarrow> unit outcome) \<Rightarrow> GenesisState \<Rightarrow> unit outcome" where
  "GenesisState_ValidateBasic B validExt s =
    thenO (wrapO errWrap (Params_ValidateBasic (bFromBech32 B) (GenParams s)))
    (thenO (validateAll (Code_ValidateBasic B) (Codes s))
    (thenO (validateAll (Contract_ValidateBasic B validExt) (Contracts s))
    (validateAll GenSequence_ValidateBasic (Sequences s))))"

definition ValidateGenesis :: "basic_fns \<Rightarrow> (bytes \<Rightarrow> unit outcome) \<Rightarrow> GenesisState \<Rightarrow> unit outcome" where
  "ValidateGenesis B validExt data = GenesisState_ValidateBasic B validExt data"

subsection \<open>Import\<close>

fun importCodes :: "('m, 'x, 'msg) keeper \<Rightarrow> u64 \<Rightarrow> Code list \<Rightarrow> (('m, 'x) st, u64) go" where
  "importCodes K maxCodeID [] = retM maxCodeID"
| "importCodes K maxCodeID (code # codes) =
    thenM (wrapM errWrap (importCode K (GenCodeID code) (GenCodeInfo code) (CodeBytes code)))
    (thenM (if Pinned code then wrapM errWrap (pinCode K (GenCodeID code)) else retM ())
    (importCodes K (if GenCodeID code > maxCodeID then GenCodeID code else maxCodeID) codes))"

definition importGenContract :: "('m, 'x, 'msg) keeper \<Rightarrow> Contract \<Rightarrow> (('m, 'x) st, unit) go" where
  "importGenContract K contract =
    bindM (wrapM errWrap (liftO (fromBech32 (kSdk K) (ContractAddress contract)))) (\<lambda>contractAddr.
    wrapM errWrap (importContract K contractAddr (GenContractInfo contract) (ContractState contract)
      (ContractCodeHistory contract)))"

text \<open>A cache context whose writes are dropped.\<close>

definition dropM :: "('s, 'a) go \<Rightarrow> ('s, 'a) go" where
  "dropM m = (\<lambda>s. (fst (m s), s))"

definition InitGenesis :: "('m, 'x, 'msg) keeper \<Rightarrow> GenesisState \<Rightarrow> (('m, 'x) st, unit) go" where
  "InitGenesis K data =
    thenM (wrapM errWrap (SetParams (GenParams data)))
    (bindM (importCodes K 0 (Codes data)) (\<lambda>maxCodeID.
    thenM (forM (Contracts data) (importGenContract K))
    (thenM (forM (Sequences data) (\<lambda>sq. wrapM errWrap (importAutoIncrementID (IDKey sq) (SeqValue sq))))
    (bindM (PeekAutoIncrementID KeySequenceCodeID) (\<lambda>seqVal.
    thenM (guardM (seqVal > maxCodeID) ErrInvalid)
    (bindM (PeekAutoIncrementID KeySequenceInstanceID) (\<lambda>seqVal.
    bindM (dropM (ClassicAddressGenerator K seqVal [])) (\<lambda>addr.
    bindM (HasContractInfo addr) (\<lambda>used.
    guardM (\<not> used) ErrInvalid)))))))))"

subsection \<open>Export\<close>

fun collectM :: "('a \<Rightarrow> ('s, 'b) go) \<Rightarrow> 'a list \<Rightarrow> ('s, 'b list) go" where
  "collectM f [] = retM []"
| "collectM f (x # xs) = bindM (f x) (\<lambda>y. bindM (collectM f xs) (\<lambda>ys. retM (y # ys)))"

definition orPanic :: "('s, 'a) go \<Rightarrow> ('s, 'a) go" where
  "orPanic m = (\<lambda>s. case m s of (Err _, t) \<Rightarrow> (Panic (OtherPanic ''error''), t) | r \<Rightarrow> r)"

definition exportCode :: "('m, 'x, 'msg) keeper \<Rightarrow> bytes \<times> stored \<Rightarrow> (('m, 'x) st, Code) go" where
  "exportCode K = (\<lambda>(key, v).
    bindM (liftO (asCodeInfo v)) (\<lambda>info.
    bindM (liftO (readUint64 key)) (\<lambda>codeID.
    bindM (orPanic (GetByteCode K codeID)) (\<lambda>bytecode.
    bindM (IsPinnedCode codeID) (\<lambda>pinned.
    retM \<lparr>GenCodeID = codeID, GenCodeInfo = info,
          CodeBytes = (case bytecode of None \<Rightarrow> [] | Some bz \<Rightarrow> bz), Pinned = pinned\<rparr>)))))"

definition exportContract :: "('m, 'x, 'msg) keeper \<Rightarrow> bytes \<times> stored \<Rightarrow> (('m, 'x) st, Contract) go" where
  "exportContract K = (\<lambda>(addr, v).
    bindM (liftO (asContractInfo v)) (\<lambda>contract.
    bindM (bindM (getsM (\<lambda>s. kv_iter (store s) (GetContractStorePrefix addr)))
      (collectM (\<lambda>(key, w). bindM (liftO (asBytes w)) (\<lambda>value. retM \<lparr>ModelKey = key, ModelValue = value\<rparr>))))
      (\<lambda>state.
    bindM (GetContractHistory addr) (\<lambda>contractCodeHistory.
    retM \<lparr>ContractAddress = accString (kSdk K) addr, GenContractInfo = contract, ContractState = state,
          ContractCodeHistory = contractCodeHistory\<rparr>))))"

definition exportSequence :: "bytes \<Rightarrow> (('m, 'x) st, GenSequence) go" where
  "exportSequence k = bindM (orPanic (PeekAutoIncrementID k)) (\<lambda>i. retM \<lparr>IDKey = k, SeqValue = i\<rparr>)"

definition ExportGenesis :: "('m, 'x, 'msg) keeper \<Rightarrow> (('m, 'x) st, GenesisState) go" where
  "ExportGenesis K =
    bindM GetParams (\<lambda>params.
    bindM (bindM (getsM (\<lambda>s. kv_iter (store s) CodeKeyPrefix)) (collectM (exportCode K))) (\<lambda>codes.
    bindM (bindM (getsM (\<lambda>s. kv_iter (store s) ContractKeyPrefix)) (collectM (exportContract K))) (\<lambda>contracts.
    bindM (collectM exportSequence [KeySequenceCodeID, KeySequenceInstanceID]) (\<lambda>sequences.
    retM \<lparr>GenParams = params, Codes = codes, Contracts = contracts, Sequences = sequences\<rparr>))))"

subsection \<open>An import gives a consistent store\<close>

text \<open>What storing history entries changes: nothing but the history, and that as long as it does not run into
  the last position.\<close>

definition same_but_history :: "stored kv \<Rightarrow> stored kv \<Rightarrow> bool" where
  "same_but_history st st' =
    (kv_wf st' \<and> typed st' \<and> codeAt st' = codeAt st \<and> contractAt st' = contractAt st \<and>
     indexed st' = indexed st \<and> (saturated st \<longrightarrow> saturated st'))"

lemma storeHistory_frame:
  "kv_wf (store s) \<Longrightarrow> typed (store s) \<Longrightarrow> storeHistory a pos es s = (Ok u, t) \<Longrightarrow>
    same_but_history (store s) (store t)"
proof (induction es arbitrary: pos s)
  case Nil
  then show ?case by (simp add: same_but_history_def)
next
  case (Cons e es)
  let ?s = "s\<lparr>store := kv_set (GetContractCodeHistoryElementKey a (pos + 1)) (SHistory e) (store s)\<rparr>"
  have "storeHistory a (pos + 1) es ?s = (Ok u, t)"
    using Cons.prems(3) by (auto simp: thenM_Ok_iff)
  then have "same_but_history (store ?s) (store t)"
    using Cons.prems(1, 2) by (intro Cons.IH) (simp_all add: typed_set)
  then show ?case by (auto simp: same_but_history_def saturated_set fun_eq_iff)
qed

lemma storeHistory_appends:
  "kv_wf (store s) \<Longrightarrow> typed (store s) \<Longrightarrow> storeHistory a (histPos (store s) a) es s = (Ok u, t) \<Longrightarrow>
    \<not> saturated (store t) \<Longrightarrow> histAt (store t) = (histAt (store s))(a := histAt (store s) a @ es)"
proof (induction es arbitrary: s)
  case Nil
  then show ?case by simp
next
  case (Cons e es)
  let ?pos = "histPos (store s) a"
  let ?s = "s\<lparr>store := kv_set (GetContractCodeHistoryElementKey a (?pos + 1)) (SHistory e) (store s)\<rparr>"
  have "\<not> saturated (store s)"
    using storeHistory_frame [OF Cons.prems(1-3)] Cons.prems(4) by (auto simp: same_but_history_def)
  then have pos: "?pos \<noteq> - 1" using histPos_saturated [OF Cons.prems(1)] by blast
  have hist: "histAt (store ?s) = (histAt (store s))(a := histAt (store s) a @ [e])"
    using histAt_append [OF Cons.prems(1) pos] by (simp add: fun_eq_iff)
  have "storeHistory a (histPos (store ?s) a) es ?s = (Ok u, t)"
    using Cons.prems(3) histPos_append [OF Cons.prems(1) pos] by (auto simp: thenM_Ok_iff)
  then have "histAt (store t) = (histAt (store ?s))(a := histAt (store ?s) a @ es)"
    using Cons.prems by (intro Cons.IH) (simp_all add: typed_set)
  then show ?case unfolding hist by simp
qed

lemma closed_keeper_inv_models:
  "preserves (\<lambda>s. keeper_inv (store s)) (importContractState a models)"
  unfolding importContractState_def Let_def by (intro pres closed_inv neutral_keys)

lemma addToCreator_key:
  "addToContractCreatorSecondaryIndex K cr p a s = (Ok u, t) \<Longrightarrow>
    \<exists>k. t = s\<lparr>store := kv_set (ContractsByCreatorPrefix @ k) (SBytes []) (store s)\<rparr>"
  by (auto simp: addToContractCreatorSecondaryIndex_def go_Ok_iff GetContractByCreatorSecondaryIndexKey_def
      GetContractsByCreatorPrefix_def split: outcome.splits)

lemma importContract_Ok:
  assumes "importContract K a ci models hist s = (Ok u, t)"
  obtains s1 q ck where "kv_has (store s) (GetCodeKey (CodeID ci))"
    and "\<not> kv_has (store s) (GetContractAddressKey a)" and "hist \<noteq> []"
    and "storeHistory a (histPos (store s) a) hist s = (Ok (), s1)"
    and "Updated (last hist) = Some q"
    and "importContractState a models (s1\<lparr>store := kv_set (ContractsByCreatorPrefix @ ck) (SBytes [])
      (kv_set (GetContractByCodeIDSecondaryIndexPrefix (HistCodeID (last hist)) @ posBytes q @ a) (SBytes [])
      (kv_set (GetContractAddressKey a) (SContractInfo ci) (store s1)))\<rparr>) = (Ok u, t)"
  using assms
  by (auto simp: importContract_def containsCodeInfo_def HasContractInfo_def appendToContractHistory_def
      histPos_def mustStoreContractInfo_def go_Ok_iff addToCode_Ok split: if_splits dest!: addToCreator_key)

text \<open>The last entry of the history has to name the code of the contract; the code does not check it.\<close>

lemma importContract_keeps_inv:
  assumes inv: "keeper_inv (store s)" and run: "importContract K a ci models hist s = (Ok u, t)"
    and match: "HistCodeID (last hist) = CodeID ci"
  shows "keeper_inv (store t)"
proof -
  have wf: "kv_wf (store s)" and ty: "typed (store s)" using inv by (simp_all add: keeper_inv_def)
  obtain s1 q ck where code: "kv_has (store s) (GetCodeKey (CodeID ci))"
    and fresh: "\<not> kv_has (store s) (GetContractAddressKey a)" and ne: "hist \<noteq> []"
    and h: "storeHistory a (histPos (store s) a) hist s = (Ok (), s1)"
    and q: "Updated (last hist) = Some q"
    and rest: "importContractState a models (s1\<lparr>store := kv_set (ContractsByCreatorPrefix @ ck) (SBytes [])
      (kv_set (GetContractByCodeIDSecondaryIndexPrefix (HistCodeID (last hist)) @ posBytes q @ a) (SBytes [])
      (kv_set (GetContractAddressKey a) (SContractInfo ci) (store s1)))\<rparr>) = (Ok u, t)"
    using run by (rule importContract_Ok)
  define s2 where "s2 = s1\<lparr>store := kv_set (ContractsByCreatorPrefix @ ck) (SBytes [])
      (kv_set (GetContractByCodeIDSecondaryIndexPrefix (HistCodeID (last hist)) @ posBytes q @ a) (SBytes [])
      (kv_set (GetContractAddressKey a) (SContractInfo ci) (store s1)))\<rparr>"
  have s2: "store s2 = kv_set (ContractsByCreatorPrefix @ ck) (SBytes []) (kv_set (GetContractByCodeIDSecondaryIndexPrefix (CodeID ci)
        @ posBytes q @ a) (SBytes []) (kv_set (GetContractAddressKey a) (SContractInfo ci) (store s1)))"
    by (simp add: s2_def match)
  have ck: "neutral (ContractsByCreatorPrefix @ ck)" by simp
  note frame = storeHistory_frame [OF wf ty h, unfolded same_but_history_def]
  have views: "kv_wf (store s2)" "typed (store s2)" "codeAt (store s2) = codeAt (store s)"
      "contractAt (store s2) = (contractAt (store s))(a \<mapsto> ci)"
      "indexed (store s2) = (\<lambda>i p b. i = CodeID ci \<and> p = q \<and> b = a \<or> indexed (store s) i p b)"
      "saturated (store s1) \<Longrightarrow> saturated (store s2)"
    using frame ck by (auto simp: s2 typed_set saturated_set fun_eq_iff)
  have "keeper_core (codeAt (store s2)) (contractAt (store s2)) (histAt (store s2)) (indexed (store s2))"
    if "\<not> saturated (store s2)"
  proof -
    have ns: "\<not> saturated (store s1)" "\<not> saturated (store s)" using that views(6) frame by blast+
    have hist: "histAt (store s2) = (histAt (store s))(a := histAt (store s) a @ hist)"
      using storeHistory_appends [OF wf ty h ns(1)] frame ck by (simp add: s2 fun_eq_iff)
    have core: "keeper_core (codeAt (store s)) (contractAt (store s)) (histAt (store s)) (indexed (store s))"
      using inv ns(2) by (simp add: keeper_inv_def)
    have none: "contractAt (store s) a = None" using fresh by (simp add: contractAt_def kv_has_def)
    have some: "codeAt (store s) (CodeID ci) \<noteq> None"
      using code ty by (fastforce simp: codeAt_def kv_has_def typed_def)
    show ?thesis
      unfolding keeper_core_def views(3-5) hist
      using core some none ne match q index_none_if_no_contract [OF inv ns(2) none]
      by (auto simp: keeper_core_def)
  qed
  then have "keeper_inv (store s2)" using views(1, 2) by (auto simp: keeper_inv_def)
  then show ?thesis using preservesD [OF closed_keeper_inv_models rest [folded s2_def]] by blast
qed

definition genesis_ok :: "GenesisState \<Rightarrow> bool" where
  "genesis_ok g =
    ((\<forall>c \<in> set (Contracts g). HistCodeID (last (ContractCodeHistory c)) = CodeID (GenContractInfo c)) \<and>
     (\<forall>sq \<in> set (Sequences g). IDKey sq \<in> {KeySequenceCodeID, KeySequenceInstanceID}))"

lemma importCodes_keeps_inv: "keeps (\<lambda>s. keeper_inv (store s)) (importCodes K m cs)"
proof (induction cs arbitrary: m)
  case Nil
  then show ?case by (simp add: keeps_simple)
next
  case (Cons c cs)
  have "keeps (\<lambda>s. keeper_inv (store s)) (wrapM errWrap (importCode K (GenCodeID c) (GenCodeInfo c) (CodeBytes c)))"
    and "keeps (\<lambda>s. keeper_inv (store s))
      (if Pinned c then wrapM errWrap (pinCode K (GenCodeID c)) else retM ())"
    by (auto intro: kept importCode_keeps_inv pinCode_keeps_inv)
  then show ?case unfolding importCodes.simps by (intro keeps_thenM Cons.IH)
qed

lemma importGenContract_keeps_inv:
  "HistCodeID (last (ContractCodeHistory c)) = CodeID (GenContractInfo c) \<Longrightarrow>
    keeps (\<lambda>s. keeper_inv (store s)) (importGenContract K c)"
  by (rule keepsI) (auto simp: importGenContract_def go_Ok_iff intro: importContract_keeps_inv)

lemma importSequence_keeps_inv:
  "k \<in> {KeySequenceCodeID, KeySequenceInstanceID} \<Longrightarrow>
    keeps (\<lambda>s. keeper_inv (store s)) (wrapM errWrap (importAutoIncrementID k v))"
  unfolding importAutoIncrementID_def
  by (rule preserves_keeps) (intro pres closed_inv, auto)

lemma dropM_Ok_iff: "dropM m s = (Ok x, t) \<longleftrightarrow> t = s \<and> (\<exists>s'. m s = (Ok x, s'))"
  by (cases "m s") (auto simp: dropM_def)

lemma InitGenesis_inv:
  assumes "genesis_ok g" and "keeper_inv (store s)" and run: "InitGenesis K g s = (Ok u, t)"
  shows "keeper_inv (store t)"
proof -
  have peek: "preserves (\<lambda>s. keeper_inv (store s)) (PeekAutoIncrementID k)" for k
    unfolding PeekAutoIncrementID_def by (intro pres)
  have drop: "keeps (\<lambda>s. keeper_inv (store s)) (dropM m)" for m :: "(('a, 'b) st, AccAddress) go"
    by (auto simp: keeps_def dropM_Ok_iff)
  have "keeps (\<lambda>s. keeper_inv (store s)) (InitGenesis K g)"
    unfolding InitGenesis_def HasContractInfo_def
    by (intro keeps_thenM keeps_bindM keeps_wrapM keeps_forM SetParams_keeps_inv importCodes_keeps_inv
        importGenContract_keeps_inv importSequence_keeps_inv keeps_simple preserves_keeps [OF peek] drop
        preserves_keeps [OF preserves_storeHas])
      (use assms(1) in \<open>auto simp: genesis_ok_def\<close>)
  then show ?thesis using run assms(2) by (rule keepsD)
qed

subsection \<open>An import followed by an export\<close>

text \<open>A genesis file as an export writes it: codes, contracts and state in the order of their keys,
  addresses in their canonical text form and of the length the chain builds, code not compressed.\<close>

definition addrOf :: "('m, 'x, 'msg) keeper \<Rightarrow> Contract \<Rightarrow> AccAddress" where
  "addrOf K c = (case fromBech32 (kSdk K) (ContractAddress c) of Ok a \<Rightarrow> a | _ \<Rightarrow> [])"

definition canonical_contract :: "('m, 'x, 'msg) keeper \<Rightarrow> Contract \<Rightarrow> bool" where
  "canonical_contract K c =
    (accString (kSdk K) (addrOf K c) = ContractAddress c \<and> length (addrOf K c) = ContractAddrLen \<and>
     sorted_wrt (<) (map ModelKey (ContractState c)) \<and> length (ContractCodeHistory c) < 2 ^ 64)"

definition canonical :: "('m, 'x, 'msg) keeper \<Rightarrow> GenesisState \<Rightarrow> bool" where
  "canonical K g =
    (sorted_wrt (<) (map GenCodeID (Codes g)) \<and> (\<forall>c \<in> set (Codes g). \<not> IsGzip (CodeBytes c)) \<and>
     sorted_wrt (<) (map (addrOf K) (Contracts g)) \<and> (\<forall>c \<in> set (Contracts g). canonical_contract K c) \<and>
     map IDKey (Sequences g) = [KeySequenceCodeID, KeySequenceInstanceID])"

text \<open>The engine gives back the code it stored.\<close>

definition engine_law :: "('m, 'x, 'msg) keeper \<Rightarrow> bool" where
  "engine_law K =
    (\<forall>code h. vmStoreCodeUnchecked (kVm K) code = Ok h \<longrightarrow> vmGetCode (kVm K) h = Ok code)"

text \<open>The part of the store that has been imported.\<close>

definition codeKV :: "Code \<Rightarrow> bytes \<times> stored" where
  "codeKV c = (Uint64ToBigEndian (GenCodeID c), SCodeInfo (GenCodeInfo c))"

definition contractKV :: "('m, 'x, 'msg) keeper \<Rightarrow> Contract \<Rightarrow> bytes \<times> stored" where
  "contractKV K d = (addrOf K d, SContractInfo (GenContractInfo d))"

definition modelKV :: "Model \<Rightarrow> bytes \<times> stored" where
  "modelKV m = (ModelKey m, SBytes (ModelValue m))"

definition partOf :: "('m, 'x, 'msg) keeper \<Rightarrow> (Contract \<Rightarrow> 'a list) \<Rightarrow> Contract list \<Rightarrow> AccAddress \<Rightarrow> 'a list" where
  "partOf K f ds a = concat (map (\<lambda>d. if addrOf K d = a then f d else []) ds)"

definition importedCodes :: "('m, 'x, 'msg) keeper \<Rightarrow> Params \<Rightarrow> Code list \<Rightarrow> stored kv \<Rightarrow> bool" where
  "importedCodes K ps cs st =
    (kv_wf st \<and> typed st \<and> kv_get st ParamsKey = Some (SParams ps) \<and>
     kv_iter st CodeKeyPrefix = map codeKV cs \<and>
     (\<forall>i. kv_has st (GetPinnedCodeIndexPrefix i) = (\<exists>c \<in> set cs. GenCodeID c = i \<and> Pinned c)) \<and>
     (\<forall>c \<in> set cs. vmStoreCodeUnchecked (kVm K) (CodeBytes c) = Ok (CodeHash (GenCodeInfo c))))"

definition importedContracts :: "('m, 'x, 'msg) keeper \<Rightarrow> Contract list \<Rightarrow> stored kv \<Rightarrow> bool" where
  "importedContracts K ds st =
    (kv_iter st ContractKeyPrefix = map (contractKV K) ds \<and>
     (\<forall>a. length a = ContractAddrLen \<longrightarrow>
        kv_iter st (GetContractStorePrefix a) = map modelKV (partOf K ContractState ds a) \<and>
        histAt st a = partOf K ContractCodeHistory ds a))"

lemma code_key_order: "(Uint64ToBigEndian i < Uint64ToBigEndian j) = (i < j)"
  by (rule Uint64ToBigEndian_less_iff)

lemma iter_other [simp]:
  "kv_wf st \<Longrightarrow> \<not> prefix p k \<Longrightarrow> kv_iter (kv_set k v st) p = kv_iter st p"
  by (rule kv.iter_upd_other)

lemma importCode_Ok:
  "importCode K i ci code s = (Ok u, t) \<Longrightarrow> \<not> IsGzip code \<Longrightarrow>
    vmStoreCodeUnchecked (kVm K) code = Ok (CodeHash ci) \<and>
    t = s\<lparr>store := kv_set (GetCodeKey i) (SCodeInfo ci) (store s)\<rparr>"
  by (auto simp: importCode_def go_Ok_iff split: if_splits)

lemma vmWorldM_store: "vmWorldM f s = (Ok u, t) \<Longrightarrow> store t = store s"
  by (auto simp: vmWorldM_def split: prod.splits)

lemma pinCode_Ok:
  "pinCode K i s = (Ok u, t) \<Longrightarrow> store t = kv_set (GetPinnedCodeIndexPrefix i) (SBytes [CHR 0x01]) (store s)"
  by (auto simp: pinCode_def go_Ok_iff GetCodeInfo_def dest!: vmWorldM_store split: option.splits)

lemma importCodes_imported:
  assumes "importCodes K m cs s = (Ok u, t)" and "importedCodes K ps done (store s)"
    and "importedContracts K [] (store s)"
    and "sorted_wrt (<) (map GenCodeID (done @ cs))" and "\<forall>c \<in> set cs. \<not> IsGzip (CodeBytes c)"
  shows "importedCodes K ps (done @ cs) (store t) \<and> importedContracts K [] (store t)"
  using assms
proof (induction cs arbitrary: m "done" s)
  case Nil
  then show ?case by simp
next
  case (Cons c cs)
  obtain s1 s2 where code: "importCode K (GenCodeID c) (GenCodeInfo c) (CodeBytes c) s = (Ok (), s1)"
    and pin: "(if Pinned c then wrapM errWrap (pinCode K (GenCodeID c)) else retM ()) s1 = (Ok (), s2)"
    and rest: "importCodes K (if GenCodeID c > m then GenCodeID c else m) cs s2 = (Ok u, t)"
    using Cons.prems(1) by (auto simp: go_Ok_iff simp del: wrapM_Ok_iff) (auto simp: go_Ok_iff)
  have c: "vmStoreCodeUnchecked (kVm K) (CodeBytes c) = Ok (CodeHash (GenCodeInfo c))"
    and s1: "store s1 = kv_set (GetCodeKey (GenCodeID c)) (SCodeInfo (GenCodeInfo c)) (store s)"
    using importCode_Ok [OF code] Cons.prems(5) by auto
  have s2: "store s2 = (if Pinned c then kv_set (GetPinnedCodeIndexPrefix (GenCodeID c)) (SBytes [CHR 0x01]) (store s1)
      else store s1)"
    using pin pinCode_Ok by (auto split: if_splits)
  have wf: "kv_wf (store s)" using Cons.prems(2) by (simp add: importedCodes_def)
  have "k < Uint64ToBigEndian (GenCodeID c)" if "(k, v) \<in> set (kv_iter (store s) CodeKeyPrefix)" for k v
    using that Cons.prems(2, 4)
    by (auto simp: importedCodes_def codeKV_def sorted_wrt_append code_key_order)
  then have "kv_iter (store s1) CodeKeyPrefix = kv_iter (store s) CodeKeyPrefix @ [codeKV c]"
    unfolding s1 GetCodeKey_def codeKV_def using wf by (intro kv.iter_upd_last) auto
  moreover have "typed (store s2)"
    using Cons.prems(2) by (auto simp: s2 s1 importedCodes_def typed_set)
  ultimately have "importedCodes K ps (done @ [c]) (store s2)" and "importedContracts K [] (store s2)"
    using Cons.prems(2, 3) c wf
    by (auto simp: importedCodes_def importedContracts_def s2 s1 view_defs partOf_def)
  then show ?case using Cons.IH [OF rest, of "done @ [c]"] Cons.prems(4, 5) by simp
qed

text \<open>The writes of one contract.\<close>

definition setModels :: "AccAddress \<Rightarrow> Model list \<Rightarrow> stored kv \<Rightarrow> stored kv" where
  "setModels a models st =
    fold (\<lambda>m. kv_set (GetContractStorePrefix a @ ModelKey m) (SBytes (ModelValue m))) models st"

lemma importContractState_Ok:
  "importContractState a models s = (Ok u, t) \<Longrightarrow> store t = setModels a models (store s)"
  by (induction models arbitrary: s)
     (auto simp: importContractState_def setModels_def Let_def go_Ok_iff split: if_splits)

lemma setModels_frame:
  "kv_wf st \<Longrightarrow> kv_wf (setModels a models st) \<and> (typed st \<longrightarrow> typed (setModels a models st)) \<and>
    (\<forall>k. \<not> prefix (GetContractStorePrefix a) k \<longrightarrow> kv_get (setModels a models st) k = kv_get st k)"
  unfolding setModels_def
proof (induction models arbitrary: st)
  case Nil
  then show ?case by simp
next
  case (Cons m models)
  show ?case
    using Cons.IH [of "kv_set (GetContractStorePrefix a @ ModelKey m) (SBytes (ModelValue m)) st"] Cons.prems
    by (auto simp: typed_set)
qed

lemma setModels_iter:
  "kv_wf st \<Longrightarrow> sorted_wrt (<) (map ModelKey models) \<Longrightarrow>
    (\<And>k v m. (k, v) \<in> set (kv_iter st (GetContractStorePrefix a)) \<Longrightarrow> m \<in> set models \<Longrightarrow> k < ModelKey m) \<Longrightarrow>
    kv_iter (setModels a models st) (GetContractStorePrefix a) =
      kv_iter st (GetContractStorePrefix a) @ map modelKV models"
  unfolding setModels_def
proof (induction models arbitrary: st)
  case Nil
  then show ?case by simp
next
  case (Cons m models)
  let ?st = "kv_set (GetContractStorePrefix a @ ModelKey m) (SBytes (ModelValue m)) st"
  have step: "kv_iter ?st (GetContractStorePrefix a) = kv_iter st (GetContractStorePrefix a) @ [modelKV m]"
    unfolding modelKV_def using Cons.prems by (intro kv.iter_upd_last) auto
  have "kv_iter (fold (\<lambda>m. kv_set (GetContractStorePrefix a @ ModelKey m) (SBytes (ModelValue m))) models ?st)
      (GetContractStorePrefix a) = kv_iter ?st (GetContractStorePrefix a) @ map modelKV models"
    using Cons.prems by (intro Cons.IH) (auto simp: step modelKV_def)
  then show ?case by (simp add: step)
qed

lemma storeHistory_get:
  "storeHistory a pos es s = (Ok u, t) \<Longrightarrow> \<not> prefix ContractCodeHistoryElementPrefix k \<Longrightarrow>
    kv_get (store t) k = kv_get (store s) k"
proof (induction es arbitrary: pos s)
  case Nil
  then show ?case by simp
next
  case (Cons e es)
  have "k \<noteq> GetContractCodeHistoryElementKey a (pos + 1)"
    using Cons.prems(2) by (auto simp: view_defs)
  then show ?case using Cons by (auto simp: thenM_Ok_iff)
qed

lemma histPos_fresh:
  assumes "kv_wf st" and "typed st" and "histAt st a = []"
  shows "histPos st a = 0"
proof (cases "histKV st a")
  case Nil
  then show ?thesis by (simp add: histPos_eq)
next
  case (Cons kv kvs)
  obtain k v where kv: "kv = (k, v)" by fastforce
  then have "length k = 8" "kv_get st (GetContractCodeHistoryElementPrefix a @ k) = Some v"
    using histKV_mem [OF assms(1), of k v a] Cons by auto
  moreover from this(1) have "k = Uint64ToBigEndian (BigEndianUint64 k)" by (simp add: byte_enc)
  ultimately obtain e where "v = SHistory e"
    using assms(2) unfolding typed_def GetContractCodeHistoryElementKey_def by metis
  then show ?thesis using assms(3) Cons kv by (simp add: histAt_def map_filter_def toHistory_def)
qed

lemma partOf_snoc: "partOf K f (ds @ [d]) a = partOf K f ds a @ (if addrOf K d = a then f d else [])"
  by (simp add: partOf_def)

lemma partOf_none: "\<forall>d \<in> set ds. addrOf K d \<noteq> a \<Longrightarrow> partOf K f ds a = []"
  by (simp add: partOf_def)

text \<open>What a contract import writes: the record of the contract, its history, its state, and entries of
  the two indexes.\<close>

definition contract_written ::
  "AccAddress \<Rightarrow> ContractInfo \<Rightarrow> ContractCodeHistoryEntry list \<Rightarrow> stored kv \<Rightarrow> stored kv \<Rightarrow> bool" where
  "contract_written a ci hist st st' =
    (kv_wf st' \<and> typed st' \<and> (\<forall>b. histAt st' b = (if b = a then hist else histAt st b)) \<and>
     (\<forall>k. \<not> prefix ContractCodeHistoryElementPrefix k \<and> \<not> prefix ContractsByCreatorPrefix k \<and>
        \<not> prefix ContractByCodeIDAndCreatedSecondaryIndexPrefix k \<longrightarrow>
        kv_get st' k = kv_get (kv_set (GetContractAddressKey a) (SContractInfo ci) st) k))"

lemma importContract_store:
  assumes run: "importContract K a ci models hist s = (Ok u, t)"
    and wf: "kv_wf (store s)" and ty: "typed (store s)" and none: "histAt (store s) a = []"
    and small: "length hist < 2 ^ 64"
  shows "\<exists>st. contract_written a ci hist (store s) st \<and> store t = setModels a models st"
proof -
  have pos: "histPos (store s) a = 0" by (rule histPos_fresh [OF wf ty none])
  obtain s1 q ck where h: "storeHistory a (histPos (store s) a) hist s = (Ok (), s1)"
    and rest: "importContractState a models (s1\<lparr>store := kv_set (ContractsByCreatorPrefix @ ck) (SBytes [])
      (kv_set (GetContractByCodeIDSecondaryIndexPrefix (HistCodeID (last hist)) @ posBytes q @ a) (SBytes [])
      (kv_set (GetContractAddressKey a) (SContractInfo ci) (store s1)))\<rparr>) = (Ok u, t)"
    using run by (rule importContract_Ok)
  have "\<exists>st'. storeHistory a (histPos (store s) a) hist s = (Ok (), s\<lparr>store := st'\<rparr>) \<and> kv_wf st' \<and> typed st' \<and>
      (\<forall>b. histAt st' b = (if b = a then histAt (store s) a @ hist else histAt (store s) b))"
    by (rule storeHistory_spec [OF wf ty refl]) (use small pos in simp)
  then have s1: "kv_wf (store s1)" "typed (store s1)"
      "histAt (store s1) b = (if b = a then hist else histAt (store s) b)" for b
    using h none by auto
  let ?st = "kv_set (ContractsByCreatorPrefix @ ck) (SBytes [])
      (kv_set (GetContractByCodeIDSecondaryIndexPrefix (HistCodeID (last hist)) @ posBytes q @ a) (SBytes [])
      (kv_set (GetContractAddressKey a) (SContractInfo ci) (store s1)))"
  have "kv_wf ?st" "typed ?st" using s1(1, 2) by (simp_all add: typed_set)
  moreover have "histAt ?st b = (if b = a then hist else histAt (store s) b)" for b
    using s1 by simp
  moreover have "kv_get ?st k = kv_get (kv_set (GetContractAddressKey a) (SContractInfo ci) (store s)) k"
    if "\<not> prefix ContractCodeHistoryElementPrefix k" "\<not> prefix ContractsByCreatorPrefix k"
      "\<not> prefix ContractByCodeIDAndCreatedSecondaryIndexPrefix k" for k
    using that storeHistory_get [OF h that(1)] by (auto simp: view_defs)
  ultimately have "contract_written a ci hist (store s) ?st" by (simp add: contract_written_def)
  moreover have "store t = setModels a models ?st" using importContractState_Ok [OF rest] by simp
  ultimately show ?thesis by blast
qed

lemma contract_written_get:
  assumes "contract_written a ci hist st st'" and "hd k \<notin> {CHR 0x05, CHR 0x06, CHR 0x09}"
  shows "kv_get st' k = kv_get (kv_set (GetContractAddressKey a) (SContractInfo ci) st) k"
proof -
  have "\<not> prefix ContractCodeHistoryElementPrefix k \<and> \<not> prefix ContractsByCreatorPrefix k \<and>
      \<not> prefix ContractByCodeIDAndCreatedSecondaryIndexPrefix k"
    using assms(2) by (cases k) (auto simp: prefix_defs)
  then show ?thesis using assms(1) unfolding contract_written_def by blast
qed

lemma contract_written_state:
  assumes "contract_written a ci hist st st'" and "kv_wf st"
  shows "kv_iter st' (GetContractStorePrefix b) = kv_iter st (GetContractStorePrefix b)"
  using assms by (intro kv.iter_cong) (simp_all add: contract_written_get [OF assms(1)] view_defs contract_written_def)

text \<open>Nothing of it is read back for other contracts or codes.\<close>

lemma contract_written_iter:
  assumes "contract_written a ci hist st st'" and "kv_wf st" and "length a = ContractAddrLen"
    and "\<forall>(k, v) \<in> set (kv_iter st ContractKeyPrefix). k < a"
  shows "kv_iter (setModels a models st') ContractKeyPrefix = kv_iter st ContractKeyPrefix @ [(a, SContractInfo ci)]"
    and "kv_iter (setModels a models st') CodeKeyPrefix = kv_iter st CodeKeyPrefix"
    and "length b = ContractAddrLen \<Longrightarrow> b \<noteq> a \<Longrightarrow>
      kv_iter (setModels a models st') (GetContractStorePrefix b) = kv_iter st (GetContractStorePrefix b)"
    and "histAt (setModels a models st') b = (if b = a then hist else histAt st b)"
    and "kv_get (setModels a models st') ParamsKey = kv_get st ParamsKey"
    and "kv_get (setModels a models st') (GetPinnedCodeIndexPrefix i) = kv_get st (GetPinnedCodeIndexPrefix i)"
proof -
  let ?st = "setModels a models st'"
  have wf': "kv_wf st'" using assms(1) by (simp add: contract_written_def)
  have wf: "kv_wf ?st" using setModels_frame [OF wf'] by blast
  have get: "kv_get ?st k = kv_get st' k" if "\<not> prefix (GetContractStorePrefix a) k" for k
    using setModels_frame [OF wf'] that by blast
  note get' = contract_written_get [OF assms(1)]
  have "kv_iter ?st ContractKeyPrefix =
      kv_iter (kv_set (GetContractAddressKey a) (SContractInfo ci) st) ContractKeyPrefix"
    using wf assms(2) by (intro kv.iter_cong) (simp_all add: get get' view_defs)
  also have "\<dots> = kv_iter st ContractKeyPrefix @ [(a, SContractInfo ci)]"
    unfolding GetContractAddressKey_def using assms(4) by (intro kv.iter_upd_last [OF assms(2)]) auto
  finally show "kv_iter ?st ContractKeyPrefix = kv_iter st ContractKeyPrefix @ [(a, SContractInfo ci)]" .
  show "kv_iter ?st CodeKeyPrefix = kv_iter st CodeKeyPrefix"
    using wf assms(2) by (intro kv.iter_cong) (simp_all add: get get' view_defs)
  show "kv_iter ?st (GetContractStorePrefix b) = kv_iter st (GetContractStorePrefix b)"
    if "length b = ContractAddrLen" "b \<noteq> a"
  proof (rule kv.iter_cong [OF wf assms(2)])
    fix k
    have "\<not> prefix (GetContractStorePrefix a) (GetContractStorePrefix b @ k)"
      using that assms(3) by (auto simp: view_defs prefix_def)
    then show "kv_get ?st (GetContractStorePrefix b @ k) = kv_get st (GetContractStorePrefix b @ k)"
      by (simp add: get get' view_defs)
  qed
  have "kv_iter ?st (GetContractCodeHistoryElementPrefix b) = kv_iter st' (GetContractCodeHistoryElementPrefix b)"
    using wf wf' by (intro kv.iter_cong) (simp_all add: get view_defs)
  then show "histAt ?st b = (if b = a then hist else histAt st b)"
    using assms(1) by (simp add: contract_written_def histAt_def histKV_def)
  show "kv_get ?st ParamsKey = kv_get st ParamsKey"
    and "kv_get ?st (GetPinnedCodeIndexPrefix i) = kv_get st (GetPinnedCodeIndexPrefix i)"
    by (simp_all add: get get' view_defs)
qed

lemma importGenContract_imported:
  assumes run: "importGenContract K d s = (Ok u, t)" and codes: "importedCodes K ps cs (store s)"
    and contracts: "importedContracts K ds (store s)" and can: "canonical_contract K d"
    and less: "\<forall>e \<in> set ds. addrOf K e < addrOf K d"
  shows "importedCodes K ps cs (store t) \<and> importedContracts K (ds @ [d]) (store t)"
proof -
  let ?a = "addrOf K d"
  have wf: "kv_wf (store s)" and ty: "typed (store s)" using codes by (simp_all add: importedCodes_def)
  have len: "length ?a = ContractAddrLen" using can by (simp add: canonical_contract_def)
  have ne: "\<forall>e \<in> set ds. addrOf K e \<noteq> ?a" using less by auto
  have old: "kv_iter (store s) (GetContractStorePrefix ?a) = []" "histAt (store s) ?a = []"
    using contracts len partOf_none [OF ne] by (simp_all add: importedContracts_def)
  have "importContract K ?a (GenContractInfo d) (ContractState d) (ContractCodeHistory d) s = (Ok u, t)"
    using run by (auto simp: importGenContract_def go_Ok_iff addrOf_def)
  moreover have "length (ContractCodeHistory d) < 2 ^ 64" using can by (simp add: canonical_contract_def)
  ultimately obtain st where st: "contract_written ?a (GenContractInfo d) (ContractCodeHistory d) (store s) st"
    and t: "store t = setModels ?a (ContractState d) st"
    using importContract_store [OF _ wf ty old(2)] by blast
  have below: "\<forall>(k, v) \<in> set (kv_iter (store s) ContractKeyPrefix). k < ?a"
    using contracts less by (auto simp: importedContracts_def contractKV_def)
  note iter = contract_written_iter [OF st wf len below, where models = "ContractState d", folded t]
  have wf': "kv_wf st" "typed st" using st by (simp_all add: contract_written_def)
  then have "kv_wf (store t)" "typed (store t)"
    using setModels_frame [of st ?a "ContractState d", folded t] by blast+
  moreover have "kv_iter (store t) (GetContractStorePrefix ?a) = map modelKV (ContractState d)"
    using setModels_iter [OF wf'(1), of "ContractState d" ?a] can
    by (simp add: t contract_written_state [OF st wf] old(1) canonical_contract_def)
  ultimately show ?thesis
    using codes contracts partOf_none [OF ne, of ContractState] partOf_none [OF ne, of ContractCodeHistory]
    by (auto simp: importedCodes_def importedContracts_def kv_has_def iter partOf_snoc contractKV_def)
qed

lemma importContracts_imported:
  assumes "forM ds (importGenContract K) s = (Ok u, t)" and "importedCodes K ps cs (store s)"
    and "importedContracts K done (store s)" and "\<forall>d \<in> set ds. canonical_contract K d"
    and "sorted_wrt (<) (map (addrOf K) (done @ ds))"
  shows "importedCodes K ps cs (store t) \<and> importedContracts K (done @ ds) (store t)"
  using assms
proof (induction ds arbitrary: "done" s)
  case Nil
  then show ?case by simp
next
  case (Cons d ds)
  obtain s1 where one: "importGenContract K d s = (Ok (), s1)"
    and rest: "forM ds (importGenContract K) s1 = (Ok u, t)"
    using Cons.prems(1) by (auto simp: thenM_Ok_iff)
  have "importedCodes K ps cs (store s1) \<and> importedContracts K (done @ [d]) (store s1)"
    using importGenContract_imported [OF one Cons.prems(2, 3)] Cons.prems(4, 5)
    by (auto simp: sorted_wrt_append)
  then show ?case using Cons.IH [OF rest, of "done @ [d]"] Cons.prems(4, 5) by simp
qed

lemma imported_set_other:
  assumes "hd k \<in> {CHR 0x04, CHR 0x0A}" and "k \<noteq> []"
    and "importedCodes K ps cs st \<and> importedContracts K ds st"
  shows "importedCodes K ps cs (kv_set k v st) \<and> importedContracts K ds (kv_set k v st)"
proof
  have wf: "kv_wf st" and ty: "typed st" using assms(3) by (simp_all add: importedCodes_def)
  have "neutral k" using assms(1, 2) by (auto simp: neutral_def split: list.splits)
  with ty have "typed (kv_set k v st)" by (rule typed_set(6))
  moreover obtain c k' where k: "k = c # k'" "c \<in> {CHR 0x04, CHR 0x0A}" using assms(1, 2) by (cases k) auto
  ultimately show "importedCodes K ps cs (kv_set k v st)"
    using assms(3) wf by (auto simp: importedCodes_def view_defs)
  show "importedContracts K ds (kv_set k v st)"
    using assms(3) wf k by (auto simp: importedContracts_def view_defs)
qed

lemma InitGenesis_imported:
  assumes run: "InitGenesis K g s = (Ok u, t)" and can: "canonical K g" and empty: "store s = []"
  shows "importedCodes K (GenParams g) (Codes g) (store t) \<and> importedContracts K (Contracts g) (store t) \<and>
    (\<forall>sq \<in> set (Sequences g). kv_get (store t) (IDKey sq) = Some (SBytes (Uint64ToBigEndian (SeqValue sq))))"
proof -
  obtain sq1 sq2 where sqs: "Sequences g = [sq1, sq2]" "IDKey sq1 = KeySequenceCodeID"
      "IDKey sq2 = KeySequenceInstanceID"
    using can by (auto simp: canonical_def)
  obtain s0 s1 s2 m where s0: "SetParams (GenParams g) s = (Ok (), s0)"
    and codes: "importCodes K 0 (Codes g) s0 = (Ok m, s1)"
    and contracts: "forM (Contracts g) (importGenContract K) s1 = (Ok (), s2)"
    and t: "store t = kv_set KeySequenceInstanceID (SBytes (Uint64ToBigEndian (SeqValue sq2)))
      (kv_set KeySequenceCodeID (SBytes (Uint64ToBigEndian (SeqValue sq1))) (store s2))"
    using run
    by (auto simp: InitGenesis_def go_Ok_iff sqs importAutoIncrementID_def PeekAutoIncrementID_def dropM_Ok_iff
        HasContractInfo_def split: if_splits option.splits)
  have "importedCodes K (GenParams g) [] (store s0)" "importedContracts K [] (store s0)"
    using s0 empty
    by (auto simp: SetParams_def importedCodes_def importedContracts_def typed_def kv_has_def partOf_def
        view_defs kv_iter_def histAt_def histKV_def map_filter_def kv_wf_def kv_get_def)
  then have "importedCodes K (GenParams g) (Codes g) (store s1) \<and> importedContracts K [] (store s1)"
    using importCodes_imported [OF codes, of "GenParams g" "[]"] can by (simp add: canonical_def)
  then have "importedCodes K (GenParams g) (Codes g) (store s2) \<and> importedContracts K (Contracts g) (store s2)"
    using importContracts_imported [OF contracts, of "GenParams g" "Codes g" "[]"] can by (simp add: canonical_def)
  then have "importedCodes K (GenParams g) (Codes g) (store t) \<and> importedContracts K (Contracts g) (store t)"
    unfolding t by (intro imported_set_other) (simp_all add: prefix_defs)
  moreover have "KeySequenceCodeID \<noteq> KeySequenceInstanceID" by (simp add: prefix_defs)
  ultimately show ?thesis by (simp add: t sqs)
qed

subsubsection \<open>Reading it back\<close>

lemma collectM_map:
  "\<forall>x \<in> set xs. f (h x) s = (Ok (g x), s) \<Longrightarrow> collectM f (map h xs) s = (Ok (map g xs), s)"
  by (induction xs) (simp_all add: bindM_step retM_def)

lemma exportCode_imported:
  assumes "importedCodes K ps cs (store t)" and "engine_law K" and "distinct (map GenCodeID cs)" and "c \<in> set cs"
  shows "exportCode K (codeKV c) t = (Ok c, t)"
proof -
  have wf: "kv_wf (store t)" using assms(1) by (simp add: importedCodes_def)
  have "codeKV c \<in> set (kv_iter (store t) CodeKeyPrefix)" using assms(1, 4) by (simp add: importedCodes_def)
  then have info: "kv_get (store t) (GetCodeKey (GenCodeID c)) = Some (SCodeInfo (GenCodeInfo c))"
    unfolding codeKV_def kv_iter_mem [OF wf] GetCodeKey_def .
  have code: "vmGetCode (kVm K) (CodeHash (GenCodeInfo c)) = Ok (CodeBytes c)"
    using assms(1, 2, 4) by (simp add: importedCodes_def engine_law_def)
  have "c' = c" if "c' \<in> set cs" "GenCodeID c' = GenCodeID c" for c'
    using that assms(3, 4) by (simp add: distinct_map inj_on_def)
  then have "kv_has (store t) (GetPinnedCodeIndexPrefix (GenCodeID c)) = Pinned c"
    using assms(1, 4) by (auto simp: importedCodes_def)
  then show ?thesis
    by (simp add: exportCode_def codeKV_def go_step readUint64_def byte_enc orPanic_def GetByteCode_def
        storeGet_def info code IsPinnedCode_def storeHas_def)
qed

lemma partOf_unique:
  "distinct (map (addrOf K) ds) \<Longrightarrow> d \<in> set ds \<Longrightarrow> partOf K f ds (addrOf K d) = f d"
proof (induction ds)
  case Nil
  then show ?case by simp
next
  case (Cons e ds)
  show ?case
  proof (cases "e = d")
    case True
    then have "partOf K f ds (addrOf K d) = []" using Cons.prems(1) by (intro partOf_none) (auto simp: image_iff)
    then show ?thesis using True by (simp add: partOf_def)
  next
    case False
    then have "d \<in> set ds" "addrOf K e \<noteq> addrOf K d" using Cons.prems by auto
    then show ?thesis using Cons.IH Cons.prems(1) by (simp add: partOf_def)
  qed
qed

lemma exportContract_imported:
  assumes "importedCodes K ps cs (store t)" and "importedContracts K ds (store t)"
    and "distinct (map (addrOf K) ds)" and "d \<in> set ds" and "canonical_contract K d"
  shows "exportContract K (contractKV K d) t = (Ok d, t)"
proof -
  have "kv_wf (store t)" "typed (store t)" using assms(1) by (simp_all add: importedCodes_def)
  note hist = GetContractHistory_eq [OF this, of "addrOf K d"]
  have part: "kv_iter (store t) (GetContractStorePrefix (addrOf K d)) = map modelKV (ContractState d)"
      "histAt (store t) (addrOf K d) = ContractCodeHistory d"
    using assms(2, 5) partOf_unique [OF assms(3, 4), of ContractState]
      partOf_unique [OF assms(3, 4), of ContractCodeHistory] by (simp_all add: importedContracts_def canonical_contract_def)
  have "collectM (\<lambda>(key, w). bindM (liftO (asBytes w)) (\<lambda>value. retM \<lparr>ModelKey = key, ModelValue = value\<rparr>))
      (map modelKV (ContractState d)) t = (Ok (map id (ContractState d)), t)"
    by (rule collectM_map) (simp add: modelKV_def go_step)
  then show ?thesis
    using assms(5)
    by (simp add: exportContract_def contractKV_def go_step part hist canonical_contract_def)
qed

lemma exportSequence_imported:
  "kv_get (store t) (IDKey sq) = Some (SBytes (Uint64ToBigEndian (SeqValue sq))) \<Longrightarrow>
    exportSequence (IDKey sq) t = (Ok sq, t)"
  by (simp add: exportSequence_def orPanic_def PeekAutoIncrementID_def go_step storeGet_def readUint64_def byte_enc)

lemma ExportGenesis_imported:
  assumes can: "canonical K g" and law: "engine_law K"
    and codes: "importedCodes K (GenParams g) (Codes g) (store t)"
    and contracts: "importedContracts K (Contracts g) (store t)"
    and sqs: "\<forall>sq \<in> set (Sequences g). kv_get (store t) (IDKey sq) = Some (SBytes (Uint64ToBigEndian (SeqValue sq)))"
  shows "ExportGenesis K t = (Ok g, t)"
proof -
  have dist: "distinct (map GenCodeID (Codes g))" "distinct (map (addrOf K) (Contracts g))"
    using can by (simp_all add: canonical_def strict_sorted_iff)
  have "collectM (exportCode K) (map codeKV (Codes g)) t = (Ok (map id (Codes g)), t)"
    using exportCode_imported [OF codes law dist(1)] by (intro collectM_map) simp
  moreover have "collectM (exportContract K) (map (contractKV K) (Contracts g)) t = (Ok (map id (Contracts g)), t)"
    using exportContract_imported [OF codes contracts dist(2)] can
    by (intro collectM_map) (simp add: canonical_def)
  moreover have "collectM exportSequence (map IDKey (Sequences g)) t = (Ok (map id (Sequences g)), t)"
    using sqs by (intro collectM_map) (simp add: exportSequence_imported)
  then have "collectM exportSequence [KeySequenceCodeID, KeySequenceInstanceID] t = (Ok (Sequences g), t)"
    using can by (simp add: canonical_def)
  moreover have "GetParams t = (Ok (GenParams g), t)"
    using codes by (simp add: GetParams_def go_step storeGet_def importedCodes_def)
  moreover have "kv_iter (store t) CodeKeyPrefix = map codeKV (Codes g)"
      "kv_iter (store t) ContractKeyPrefix = map (contractKV K) (Contracts g)"
    using codes contracts by (simp_all add: importedCodes_def importedContracts_def)
  ultimately show ?thesis
    by (simp add: ExportGenesis_def bindM_step getsM_def retM_def del: collectM.simps)
qed

text \<open>The export has no entry for the contracts that run without gas: setting such a flag does not change
  what is exported, so an import loses it.\<close>

lemma gasless_not_exported:
  assumes "engine_law K" and "canonical K g" and "store s = []" and "InitGenesis K g s = (Ok (), t)"
  shows "ExportGenesis K (t\<lparr>store := kv_set (GaslessContractIndexPrefix @ a) v (store t)\<rparr>) =
    (Ok g, t\<lparr>store := kv_set (GaslessContractIndexPrefix @ a) v (store t)\<rparr>)"
proof (rule ExportGenesis_imported [OF assms(2, 1)])
  let ?t = "t\<lparr>store := kv_set (GaslessContractIndexPrefix @ a) v (store t)\<rparr>"
  note imported = InitGenesis_imported [OF assms(4, 2, 3)]
  have "importedCodes K (GenParams g) (Codes g) (store ?t) \<and> importedContracts K (Contracts g) (store ?t)"
    using imported by (simp, intro imported_set_other) (simp_all add: prefix_defs)
  then show "importedCodes K (GenParams g) (Codes g) (store ?t)" "importedContracts K (Contracts g) (store ?t)"
    by blast+
  show "\<forall>sq \<in> set (Sequences g). kv_get (store ?t) (IDKey sq) = Some (SBytes (Uint64ToBigEndian (SeqValue sq)))"
  proof
    fix sq assume sq: "sq \<in> set (Sequences g)"
    then have "IDKey sq \<in> {KeySequenceCodeID, KeySequenceInstanceID}"
      using assms(2) by (auto simp: canonical_def map_eq_Cons_conv)
    then have "IDKey sq \<noteq> GaslessContractIndexPrefix @ a" by (auto simp: prefix_defs)
    then show "kv_get (store ?t) (IDKey sq) = Some (SBytes (Uint64ToBigEndian (SeqValue sq)))"
      using imported sq by simp
  qed
qed

subsection \<open>An example\<close>

definition exGenAddr :: bytes where
  "exGenAddr = ''contractcontractcontractcontract''"

definition exGenesis :: GenesisState where
  "exGenesis = \<lparr>GenParams = DefaultParams,
     Codes = [\<lparr>GenCodeID = 1, GenCodeInfo = \<lparr>CodeHash = ''wasm'', CodeCreator = ''orai1x'',
       InstantiateConfig = AllowEverybody\<rparr>, CodeBytes = ''wasm'', Pinned = True\<rparr>],
     Contracts = [\<lparr>ContractAddress = exGenAddr,
       GenContractInfo = \<lparr>CodeID = 1, Creator = ''orai1x'', Admin = '''', Label = ''cw'',
         Created = Some \<lparr>BlockHeight = 3, TxIndex = 1\<rparr>, IBCPortID = '''', Extension = None\<rparr>,
       ContractState = [\<lparr>ModelKey = ''a'', ModelValue = ''1''\<rparr>, \<lparr>ModelKey = ''b'', ModelValue = ''2''\<rparr>],
       ContractCodeHistory = [\<lparr>Operation = ContractCodeHistoryOperationTypeInit, HistCodeID = 1,
         Updated = Some \<lparr>BlockHeight = 3, TxIndex = 1\<rparr>, HistMsg = ''{}''\<rparr>]\<rparr>],
     Sequences = [\<lparr>IDKey = KeySequenceCodeID, SeqValue = 2\<rparr>, \<lparr>IDKey = KeySequenceInstanceID, SeqValue = 2\<rparr>]\<rparr>"

lemma exGenesis_canonical: "canonical exKeeper exGenesis" "engine_law exKeeper" "genesis_ok exGenesis"
  by (simp_all add: canonical_def canonical_contract_def addrOf_def exGenesis_def exGenAddr_def ex_defs
      ContractAddrLen_def IsGzip_def gzipIdent_def engine_law_def genesis_ok_def)

lemma exNext:
  "foldl (\<lambda>acc c. 256 * acc + of_char c) (0 :: nat) (be 8 2) = 2"
  "be 8 2 @ xs \<noteq> ''contractcontractcontractcontract''"
proof -
  show "foldl (\<lambda>acc c. 256 * acc + of_char c) (0 :: nat) (be 8 2) = 2"
    using of_be_be [of 8 2] by (simp add: of_be_def)
  have "last (be 8 2) \<noteq> CHR ''t''" by (simp add: be_numeral char_of_def bit_0)
  moreover have "last (be 8 2) = CHR ''t''" if "be 8 2 @ xs = ''contractcontractcontractcontract''"
    using arg_cong [OF that, of "\<lambda>ys. ys ! 7"] by (simp add: nth_append last_conv_nth flip: length_0_conv)
  ultimately show "be 8 2 @ xs \<noteq> ''contractcontractcontractcontract''" by blast
qed

lemma exGenesis_run: "\<exists>t. InitGenesis exKeeper exGenesis (exSt []) = (Ok (), t)"
proof -
  have "fst (InitGenesis exKeeper exGenesis (exSt [])) = Ok ()"
    by (simp add: InitGenesis_def run_eval exGenesis_def exGenAddr_def importGenContract_def dropM_def
        exNext cong: go_frozen)
  then show ?thesis by (metis prod.collapse)
qed

subsection \<open>Properties\<close>

text \<open>C42. Importing a genesis file and exporting the state again gives the file back: parameters, every code with
  its bytes and its pin, every contract with its record, its whole state and its history, and both sequence
  counters.  The file has to be as an export writes it: in the order of the keys, with canonical addresses of
  the length the chain builds and with uncompressed code; the engine has to give back the code it stored.\<close>

theorem genesis_roundtrip:
  assumes "engine_law K" and "canonical K g" and "store s = []" and "InitGenesis K g s = (Ok (), t)"
  shows "ExportGenesis K t = (Ok g, t)"
  using ExportGenesis_imported [OF assms(2, 1)] InitGenesis_imported [OF assms(4, 2, 3)] by blast

theorem genesis_roundtrip_witness:
  "\<exists>t. InitGenesis exKeeper exGenesis (exSt []) = (Ok (), t) \<and> ExportGenesis exKeeper t = (Ok exGenesis, t)"
proof -
  have "store (exSt []) = []" by (simp add: exSt_def)
  then show ?thesis using exGenesis_run genesis_roundtrip [OF exGenesis_canonical(2, 1)] by blast
qed

end
