(* ===== verification/Chain.thy ===== *)
theory Chain
  imports IBC Genesis
begin

section \<open>The module as a whole\<close>

text \<open>
  The keeper's response handler calls the message handlers, which call the message server, which calls
  the keeper again: \<^verbatim>\<open>NewKeeper\<close> of src/x/wasm/keeper/keeper_cgo.go ties this knot.  \<open>tied A n\<close> is the
  keeper in which contracts can nest \<open>n\<close> levels of dispatch; deeper dispatch is a panic no code
  recovers from.  The results do not depend on \<open>n\<close> as long as it is large enough, because nothing in the
  keeper looks at it; in the code the nesting is bounded by the call depth and by gas.

  \<open>chain_app\<close> holds what surrounds the module: the functions of the SDK, the routes into other modules,
  and the decorator with which the application wraps the messenger.
\<close>

record ('m, 'x) chain_app =
  caBase :: "('m, 'x, CosmosMsg) keeper"
  caBasic :: basic_fns
  caEnc :: "'x enc_fns"
  caOther :: "('m, 'x) route_fns"
  caIbc :: "('m, 'x) ibc_fns"
  caBurner :: "('m, 'x) burner"
  caSysErrText :: "vmerror \<Rightarrow> bytes"
  caMarshal :: "wasm_resp \<Rightarrow> bytes \<times> bytes"
  caDecorate :: "('m, 'x, CosmosMsg) messenger \<Rightarrow> ('m, 'x, CosmosMsg) messenger"

definition serverOf :: "('m, 'x) chain_app \<Rightarrow> ('m, 'x, CosmosMsg) keeper \<Rightarrow> ('m, 'x, CosmosMsg) msgServer" where
  "serverOf A K = \<lparr>msKeeper = K, msBasic = caBasic A\<rparr>"

text \<open>A message service handler of the SDK's router: it runs the server with its own event manager and
  returns the events with the marshalled response.\<close>

definition serviceHandler ::
  "(wasm_resp \<Rightarrow> bytes \<times> bytes) \<Rightarrow> (('m, 'x) st, wasm_resp) go \<Rightarrow> (('m, 'x) st, sdk_result) go" where
  "serviceHandler marshal body = (\<lambda>s. case body (s\<lparr>events := []\<rparr>) of
      (Ok r, t) \<Rightarrow> (Ok \<lparr>resData = Some (snd (marshal r)), resEvents = events t, resMsgResponses = [marshal r]\<rparr>,
         t\<lparr>events := events s\<rparr>)
    | (Err e, t) \<Rightarrow> (Err e, t\<lparr>events := events s\<rparr>)
    | (Panic p, t) \<Rightarrow> (Panic p, t\<lparr>events := events s\<rparr>))"

definition routesOf :: "('m, 'x) chain_app \<Rightarrow> ('m, 'x, CosmosMsg) keeper \<Rightarrow> ('m, 'x) route_fns" where
  "routesOf A K =
    \<lparr>rValidateBasic = (\<lambda>m. case m of
        WasmMsgOf w \<Rightarrow> Some (wasm_ValidateBasic (basicOf (serverOf A K)) w)
      | _ \<Rightarrow> rValidateBasic (caOther A) m),
     rSigners = (\<lambda>m. case m of
        WasmMsgOf w \<Rightarrow> withValue (fromBech32 (kSdk K) (wasm_signer w)) (\<lambda>a. Ok [a])
      | _ \<Rightarrow> rSigners (caOther A) m),
     rHandler = (\<lambda>m. case m of
        WasmMsgOf w \<Rightarrow> Some (\<lambda>c. serviceHandler (caMarshal A) (serve (serverOf A K) c w))
      | _ \<Rightarrow> rHandler (caOther A) m)\<rparr>"

definition messengerOf ::
  "('m, 'x) chain_app \<Rightarrow> ('m, 'x, CosmosMsg) keeper \<Rightarrow> ('m, 'x, CosmosMsg) messenger" where
  "messengerOf A K = callDepthMessageHandler (kMaxCallDepth K)
    (caDecorate A (NewDefaultMessageHandler K (caEnc A) [] (routesOf A K) (caIbc A) (caBurner A)))"

definition dispatcherOf ::
  "('m, 'x) chain_app \<Rightarrow> ('m, 'x, CosmosMsg) keeper \<Rightarrow> ('m, 'x, CosmosMsg) dispatcher" where
  "dispatcherOf A K = \<lparr>dMessenger = messengerOf A K, dReply = reply K, dMeter = kMeter K,
     dIsWasm = (\<lambda>m. cmWasm m \<noteq> None), dSysErrText = caSysErrText A\<rparr>"

primrec tied :: "('m, 'x) chain_app \<Rightarrow> nat \<Rightarrow> ('m, 'x, CosmosMsg) keeper" where
  "tied A 0 = (caBase A)\<lparr>kHandle := \<lambda>_ _ _ _ _. panicM (OtherPanic ''nesting'')\<rparr>"
| "tied A (Suc n) = (caBase A)\<lparr>kHandle := Handle (dispatcherOf A (tied A n))\<rparr>"

subsection \<open>Reachable states\<close>

text \<open>What changes the module's store: the import of a genesis file whose histories end with the code of their
  contract, then on the running chain transactions with x/wasm messages, IBC entry
  points whose effects ibc-go commits, and anything else, which does not touch the store.\<close>

inductive chain_reach ::
  "('m, 'x) chain_app \<Rightarrow> ('m, 'x, CosmosMsg) ibc_vm \<Rightarrow> ('m, 'x) ibc_env \<Rightarrow> ('m, 'x) st \<Rightarrow> bool"
  for A V N where
  cr_empty: "store s = [] \<Longrightarrow> chain_reach A V N s"
| cr_genesis: "store s = [] \<Longrightarrow> genesis_ok g \<Longrightarrow> InitGenesis (tied A n) g s = (Ok (), t) \<Longrightarrow>
    chain_reach A V N t"
| cr_msg: "chain_reach A V N s \<Longrightarrow> serve (serverOf A (tied A n)) c msg s = (Ok r, t) \<Longrightarrow> chain_reach A V N t"
| cr_recv: "chain_reach A V N s \<Longrightarrow>
    IBCHandler_OnRecvPacket \<lparr>ihKeeper = tied A n, ihVm = V, ihEnv = N\<rparr> c p rel s = (Ok ack, t) \<Longrightarrow>
    (case ack of None \<Rightarrow> True | Some a \<Rightarrow> Ack_Success a) \<Longrightarrow> chain_reach A V N t"
| cr_ibc: "chain_reach A V N s \<Longrightarrow> basicEntry (tied A n) V c a e s = (Ok (), t) \<Longrightarrow> chain_reach A V N t"
| cr_open: "chain_reach A V N s \<Longrightarrow> OnOpenChannel (tied A n) V c a m s = (Ok v, t) \<Longrightarrow> chain_reach A V N t"
| cr_other: "chain_reach A V N s \<Longrightarrow> store t = store s \<Longrightarrow> chain_reach A V N t"

text \<open>What the module relies on: handlers of other modules touch its store only through its own
  operations, in whatever way they end; the decorator adds no writes of its own.\<close>

definition other_ok :: "('m, 'x) chain_app \<Rightarrow> bool" where
  "other_ok A \<longleftrightarrow>
    (\<forall>m h c. rHandler (caOther A) m = Some h \<longrightarrow> preserves (\<lambda>s. keeper_inv (store s)) (h c)) \<and>
    (\<forall>f. (\<forall>c a p m. keeps (\<lambda>s. keeper_inv (store s)) (f c a p m)) \<longrightarrow>
      (\<forall>c a p m. keeps (\<lambda>s. keeper_inv (store s)) (caDecorate A f c a p m)))"

subsection \<open>The knot keeps the invariant\<close>

lemma keeps_serviceHandler:
  "keeps (\<lambda>s. G (store s)) body \<Longrightarrow> keeps (\<lambda>s. G (store s)) (serviceHandler f body)"
proof (rule keepsI)
  fix s x t
  assume body: "keeps (\<lambda>s. G (store s)) body" and G: "G (store s)" and run: "serviceHandler f body s = (Ok x, t)"
  then obtain r u where "body (s\<lparr>events := []\<rparr>) = (Ok r, u)" "t = u\<lparr>events := events s\<rparr>"
    by (auto simp: serviceHandler_def split: prod.splits outcome.splits)
  then show "G (store t)" using keepsD [OF body] G by fastforce
qed

definition plain :: "sdk_msg list \<Rightarrow> bool" where
  "plain ms = (\<forall>m \<in> set ms. \<forall>w. m \<noteq> WasmMsgOf w)"

lemma Encode_plain:
  "Encode E (DefaultEncoders E) x a p msg = Ok ms \<Longrightarrow> cmBank msg \<noteq> None \<or> cmIBC msg \<noteq> None \<Longrightarrow> plain ms"
  by (auto simp: Encode_def DefaultEncoders_def callEncoder_Ok_iff plain_def encoder_defs withValue_Ok_iff
      split: option.splits if_splits)

lemma route_other [simp]:
  "\<forall>w. m \<noteq> WasmMsgOf w \<Longrightarrow> rHandler (routesOf A K) m = rHandler (caOther A) m"
  by (cases m) (auto simp: routesOf_def)

lemma preserves_handleSdkMessage:
  assumes "other_ok A" and "\<forall>w. m \<noteq> WasmMsgOf w"
  shows "preserves (\<lambda>s. keeper_inv (store s)) (handleSdkMessage (routesOf A K) c a m)"
proof -
  have "preserves (\<lambda>s. keeper_inv (store s)) (h c)" if "rHandler (routesOf A K) m = Some h" for h
    using that assms by (simp add: other_ok_def)
  then have route: "preserves (\<lambda>s. keeper_inv (store s)) (case rHandler (routesOf A K) m of
      Some handler \<Rightarrow> handler c | None \<Rightarrow> failM ErrUnknownRequest)"
    by (auto split: option.split intro!: pres)
  show ?thesis
    unfolding handleSdkMessage_def
    by (intro preserves_thenM preserves_bindM preserves_liftO preserves_forM preserves_guardM route)
qed

lemma preserves_handleAll:
  "other_ok A \<Longrightarrow> plain ms \<Longrightarrow> preserves (\<lambda>s. keeper_inv (store s)) (handleAll (routesOf A K) c a ms)"
  by (induction ms) (auto simp: plain_def intro!: pres preserves_handleSdkMessage)

lemma keeps_handleSdkMessage:
  assumes "other_ok A" and "handler_ok K"
  shows "keeps (\<lambda>s. keeper_inv (store s)) (handleSdkMessage (routesOf A K) c a m)"
proof -
  have "keeps (\<lambda>s. keeper_inv (store s)) (h c)" if "rHandler (routesOf A K) m = Some h" for h
  proof (cases "\<exists>w. m = WasmMsgOf w")
    case True
    then show ?thesis using that assms(2)
      by (auto simp: routesOf_def serverOf_def intro!: keeps_serviceHandler serve_keeps_inv)
  next
    case False
    then show ?thesis using that assms(1) by (auto simp: other_ok_def intro: preserves_keeps)
  qed
  then show ?thesis
    unfolding handleSdkMessage_def by (intro kept) (auto split: option.splits intro!: kept)
qed

lemma keeps_handleAll:
  "other_ok A \<Longrightarrow> handler_ok K \<Longrightarrow> keeps (\<lambda>s. keeper_inv (store s)) (handleAll (routesOf A K) c a ms)"
  by (induction ms) (auto intro!: kept keeps_handleSdkMessage)

lemma preserves_chain:
  "(\<And>h. h \<in> set hs \<Longrightarrow> preserves P (h c a p m)) \<Longrightarrow> preserves P (MessageHandlerChain hs c a p m)"
  by (induction hs) (auto split: sum.split intro!: pres)

lemma preserves_raw_and_burn:
  "preserves (\<lambda>s. keeper_inv (store s)) (IBCRawPacketHandler K I c a p m)"
  "preserves (\<lambda>s. keeper_inv (store s)) (NewBurnCoinMessageHandler E z b c a p m)"
proof -
  have del: "preserves (\<lambda>s. keeper_inv (store s)) (DeleteAsyncAckPacket port ch q)" for port ch q
    unfolding DeleteAsyncAckPacket_def asyncAckKey_def by (intro preserves_storeDelete inv_delete_neutral) simp_all
  have load: "preserves P (LoadAsyncAckPacket port ch q)" for P :: "('a, 'b) st \<Rightarrow> bool" and port ch q
    unfolding LoadAsyncAckPacket_def by (intro pres) (auto split: stored.split intro!: pres)
  have chk: "preserves P (ibcChannelCheck K I port ch)" for P :: "('a, 'b) st \<Rightarrow> bool" and port ch
    unfolding ibcChannelCheck_def by (intro pres)
  show "preserves (\<lambda>s. keeper_inv (store s)) (IBCRawPacketHandler K I c a p m)"
    unfolding IBCRawPacketHandler_def by (intro pres del load chk)
  show "preserves (\<lambda>s. keeper_inv (store s)) (NewBurnCoinMessageHandler E z b c a p m)"
    unfolding NewBurnCoinMessageHandler_def by (intro pres)
qed

lemma keeps_default_handler:
  assumes "other_ok A" and "handler_ok K"
  shows "keeps (\<lambda>s. keeper_inv (store s))
    (NewDefaultMessageHandler K (caEnc A) [] (routesOf A K) (caIbc A) (caBurner A) c a p msg)"
proof (cases "cmBank msg \<noteq> None \<or> cmIBC msg \<noteq> None")
  case True
  have "preserves (\<lambda>s. keeper_inv (store s))
      (SDKMessageHandler (caEnc A) (DefaultEncoders (caEnc A)) (routesOf A K) c a p msg)"
  proof -
    have "preserves (\<lambda>s. keeper_inv (store s)) (bindM (liftO (Encode (caEnc A) (DefaultEncoders (caEnc A)) x a p msg))
        (handleAll (routesOf A K) c a))" for x
    proof (cases "Encode (caEnc A) (DefaultEncoders (caEnc A)) x a p msg")
      case (Ok ms)
      then have "plain ms" using True by (rule Encode_plain)
      then show ?thesis using preserves_handleAll [OF assms(1)] Ok by (auto simp: preserves_def bindM_def liftO_def)
    qed (auto simp: preserves_def bindM_def liftO_def)
    then show ?thesis unfolding SDKMessageHandler_def by (rule preserves_bindM [OF preserves_getsM])
  qed
  then show ?thesis
    unfolding NewDefaultMessageHandler_def Let_def
    by (intro preserves_keeps preserves_chain) (auto intro: preserves_raw_and_burn)
next
  case False
  then have "(NewDefaultMessageHandler K (caEnc A) [] (routesOf A K) (caIbc A) (caBurner A) c a p msg s = (Ok r, t)) =
      (SDKMessageHandler (caEnc A) (DefaultEncoders (caEnc A)) (routesOf A K) c a p msg s = (Ok r, t))" for s r t
    by (auto simp: NewDefaultMessageHandler_def IBCRawPacketHandler_def NewBurnCoinMessageHandler_def go_step wasmErr_def
        split: prod.splits outcome.splits)
  moreover have "keeps (\<lambda>s. keeper_inv (store s))
      (SDKMessageHandler (caEnc A) (DefaultEncoders (caEnc A)) (routesOf A K) c a p msg)"
    unfolding SDKMessageHandler_def by (intro kept keeps_handleAll assms)
  ultimately show ?thesis unfolding keeps_def by auto
qed

lemma handler_ok_tied: "other_ok A \<Longrightarrow> handler_ok (tied A n)"
proof (induction n)
  case 0
  then show ?case by (simp add: handler_ok_def kept)
next
  case (Suc n)
  have "keeps (\<lambda>s. keeper_inv (store s)) (messengerOf A (tied A n) c a p msg)" for c a p msg
    using keeps_default_handler [OF Suc(2) Suc(1) [OF Suc(2)]] Suc(2)
    unfolding messengerOf_def callDepthMessageHandler_def other_ok_def by (intro kept) blast
  then have "keeps (\<lambda>s. keeper_inv (store s)) (Handle (dispatcherOf A (tied A n)) c a p ms d)" for c a p ms d
    using reply_keeps_inv [OF Suc(1) [OF Suc(2)]] by (intro keeps_Handle) (simp_all add: dispatcherOf_def)
  then show ?case by (simp add: handler_ok_def)
qed

lemma chain_reach_inv:
  assumes "other_ok A" and "chain_reach A V N s"
  shows "keeper_inv (store s)"
  using assms(2)
proof (induction rule: chain_reach.induct)
  case (cr_empty s)
  then show ?case by (simp add: keeper_inv_Nil)
next
  case (cr_genesis s g n t)
  then show ?case using InitGenesis_inv [OF cr_genesis(2) _ cr_genesis(3)] by (simp add: keeper_inv_Nil)
next
  case (cr_msg s n c msg r t)
  have ks: "keeps (\<lambda>s. keeper_inv (store s)) (serve (serverOf A (tied A n)) c msg)"
    using handler_ok_tied [OF assms(1)] by (intro serve_keeps_inv) (simp add: serverOf_def)
  show ?case using keepsD [OF ks cr_msg(2)] cr_msg(3) by simp
next
  case (cr_recv s n c p rel ack t)
  then obtain a u where run: "OnRecvPacket (tied A n) V c a (newIBCPacket p) (accString (kSdk (tied A n)) rel)
      (s\<lparr>events := []\<rparr>) = (Ok ack, u)" and st: "store t = store u"
    using IBCHandler_OnRecvPacket_success [OF cr_recv(2, 3)] by auto
  show ?case
    using keepsD [OF keeps_OnRecvPacket [OF handler_ok_tied [OF assms(1)]] run] cr_recv(4) st by simp
next
  case (cr_ibc s n c a e t)
  then show ?case using keepsD [OF keeps_basicEntry [OF handler_ok_tied [OF assms(1)]] cr_ibc(2)] by simp
next
  case (cr_open s n c a m v t)
  then show ?case
    using keepsD [OF preserves_keeps [OF pres_OnOpenChannel [OF closed_inv]] cr_open(2)] by simp
qed simp

subsection \<open>An example chain\<close>

definition exBase :: "(u64 \<times> u64, unit, CosmosMsg) keeper" where
  "exBase = \<lparr>kSdk = exSdk, kMeter = exMeter, kVm = exVm, kExt = exExt,
     kGasRegister = DefaultGasRegisterConfig, kMulFloor = (\<lambda>f n. n * Numerator f div Denominator f),
     kGunzip = (\<lambda>_ _. Err errLimit), kMaxQueryStackSize = 10, kMaxCallDepth = 500,
     kQueryGasLimit = 3000000, kAcceptedAccountTypes = [''base''], kAuthority = ''gov'', kPropagateGov = [],
     kTransferCoins = (\<lambda>_ _ _ (m, x). (Ok (), [], m, x)),
     kCleanupExistingAccount = (\<lambda>_ (m, x). (Ok True, [], m, x)),
     kHandle = (\<lambda>c a p ms d. retM d)\<rparr>"

definition exApp :: "(u64 \<times> u64, unit) chain_app" where
  "exApp = \<lparr>caBase = exBase, caBasic = exBasic, caEnc = exEnc,
     caOther = \<lparr>rValidateBasic = (\<lambda>_. None), rSigners = (\<lambda>_. Ok []),
       rHandler = (\<lambda>_. Some (\<lambda>c. extM (\<lambda>(m, x). (Ok \<lparr>resData = None, resEvents = [], resMsgResponses = []\<rparr>, [], m, x))))\<rparr>,
     caIbc = exIbc, caBurner = exBurner, caSysErrText = (\<lambda>_. ''system''), caMarshal = (\<lambda>_. (''/response'', '''')),
     caDecorate = (\<lambda>f. f)\<rparr>"

lemma exApp_ok: "other_ok exApp"
  by (simp add: other_ok_def exApp_def preserves_extM)

definition exServe :: "wasm_msg \<Rightarrow> (u64 \<times> u64, unit) st \<Rightarrow> (u64 \<times> u64, unit) st" where
  "exServe msg s = snd (serve (serverOf exApp (tied exApp 1)) exCtx msg s)"

definition exMsg1 :: wasm_msg where
  "exMsg1 = WUpdateParams \<lparr>upAuthority = ''gov'', upParams = DefaultParams\<rparr>"

definition exMsg2 :: wasm_msg where
  "exMsg2 = WStoreCode \<lparr>scSender = ''alice'', scWASMByteCode = ''code1'', scInstantiatePermission = None\<rparr>"

definition exMsg3 :: wasm_msg where
  "exMsg3 = WInstantiate \<lparr>inSender = ''alice'', inAdmin = ''bob'', inCodeID = 1, inLabel = ''label'', inMsg = ''{}'',
     inFunds = []\<rparr>"

lemma exTied_fields:
  "kSdk (tied exApp (Suc 0)) = exSdk" "kMeter (tied exApp (Suc 0)) = exMeter" "kVm (tied exApp (Suc 0)) = exVm"
  "kExt (tied exApp (Suc 0)) = exExt" "kGasRegister (tied exApp (Suc 0)) = DefaultGasRegisterConfig"
  "kAcceptedAccountTypes (tied exApp (Suc 0)) = [''base'']" "kAuthority (tied exApp (Suc 0)) = ''gov''"
  "kPropagateGov (tied exApp (Suc 0)) = []"
  "kHandle (tied exApp (Suc 0)) = Handle (dispatcherOf exApp (tied exApp 0))"
  "caBasic exApp = exBasic" "bCoinsValidate exBasic = (\<lambda>_. Ok ())"
  by (simp_all add: exApp_def exBase_def exBasic_def)

lemma exLabel: "ValidateLabel table ''label'' = Ok ()"
proof -
  have "TrimSpace ''label'' = ''label''"
    using TrimSpace_ascii_id_iff [of "''label''"] by (simp add: byte_def asciiSpace_def)
  moreover have "printableOnly table ''label'' = ''label''"
    using printableOnly_ascii [of "''label''" table] by (simp add: byte_def)
  ultimately show ?thesis by (simp add: ValidateLabel_def MaxLabelSize_def)
qed

lemmas chain_eval = serverOf_def exTied_fields mapM_def basicOf_def checkAddr_def checkOptAddr_def checkCode_def
  checkPermission_def checkLabel_def checkFunds_def checkPayload_def decodeAddr_def decodeOptAddr_def
  requireAuthority_def validateWasmCode_def selectAuthorizationPolicy_def failIf_def Handle_def
  DispatchSubmessages_def exLabel json_Valid_empty_object

lemma exServe1:
  "serve (serverOf exApp (tied exApp 1)) exCtx exMsg1 (exSt []) = (Ok REmpty, exSt [(ParamsKey, SParams DefaultParams)])"
  by (simp add: exMsg1_def UpdateParams_def MsgUpdateParams_ValidateBasic_def Params_ValidateBasic_def DefaultParams_def
      validateAccessType_def AccessConfig_ValidateBasic_def AllowEverybody_def AllAccessTypes_def go_step chain_eval
      exApp_def [symmetric] exSdk_def SetParams_def storeSet_def exSt_def del: tied.simps)

definition exStored :: "(u64 \<times> u64, unit) st" where
  "exStored = exSt [(GetCodeKey 1, SCodeInfo \<lparr>CodeHash = ''code'', CodeCreator = ''alice'', InstantiateConfig = AllowEverybody\<rparr>),
     (KeySequenceCodeID, SBytes (Uint64ToBigEndian 2)), (ParamsKey, SParams DefaultParams)]"

definition exChainState :: "(u64 \<times> u64, unit) st" where
  "exChainState = exServe exMsg3 exStored"

lemma exServe2:
  "fst (serve (serverOf exApp (tied exApp 1)) exCtx exMsg2 (exServe exMsg1 (exSt []))) = Ok (RCode 1 ''code'')"
  "store (exServe exMsg2 (exServe exMsg1 (exSt []))) = store exStored"
  unfolding exServe_def exServe1
  by (simp_all add: exMsg2_def StoreCode_def MsgStoreCode_ValidateBasic_def chain_eval run_eval be_numeral exStored_def
      del: tied.simps cong: go_frozen)

lemma exServe3: "fst (serve (serverOf exApp (tied exApp 1)) exCtx exMsg3 exStored) = Ok (RContract exAddr None)"
  by (simp add: exMsg3_def InstantiateContract_def exStored_def
      MsgInstantiateContract_ValidateBasic_def chain_eval run_eval exAddr_def
      del: tied.simps cong: go_frozen)

lemma exChain_contract: "contractAt (store exChainState) exAddr = Some exInfo"
  by (simp add: exMsg3_def InstantiateContract_def exStored_def exChainState_def exServe_def contractAt_def exInfo_def
      MsgInstantiateContract_ValidateBasic_def chain_eval run_eval exAddr_def
      del: tied.simps cong: go_frozen)

lemma last_be: "be (numeral k) n \<noteq> []" "last (be (numeral k) n) = char_of (n mod 256)"
  by (simp_all add: be_numeral)

lemma exChain_not_saturated: "\<not> saturated (store exChainState)"
  by (rule not_saturatedI) (simp add: exMsg3_def InstantiateContract_def exStored_def exChainState_def exServe_def
      MsgInstantiateContract_ValidateBasic_def chain_eval run_eval last_be last_position(2)
      del: tied.simps cong: go_frozen)

lemma exChain_reach: "chain_reach exApp V N exChainState"
proof -
  have step: "chain_reach exApp V N (exServe msg s)"
    if "chain_reach exApp V N s" "fst (serve (serverOf exApp (tied exApp 1)) exCtx msg s) = Ok r" for msg s r
    using cr_msg [OF that(1), of 1 exCtx msg r "exServe msg s"] that(2) by (metis exServe_def prod.collapse)
  have start: "chain_reach exApp V N (exSt [])" by (rule cr_empty) (simp add: exSt_def)
  have "chain_reach exApp V N (exServe exMsg1 (exSt []))"
    by (rule step [OF start, of _ REmpty]) (simp only: exServe1 fst_conv)
  then have "chain_reach exApp V N (exServe exMsg2 (exServe exMsg1 (exSt [])))"
    by (rule step [OF _ exServe2(1)])
  then have "chain_reach exApp V N exStored"
    by (rule cr_other) (simp only: exServe2(2))
  then show ?thesis
    unfolding exChainState_def by (rule step [OF _ exServe3])
qed

subsection \<open>Properties\<close>

text \<open>C1. The store of the module is consistent in every reachable state.  However messages, replies,
  submessages, IBC packets and other modules interleave, and however deep contracts call each other: every
  contract has a stored code, so loading it never fails; its history is not empty and ends with its
  current code; and the contracts-by-code index lists an address under a code exactly when the contract
  runs that code.  The chain starts empty or from an imported genesis file.  (Up to the point where a history has \<open>2\<^sup>6\<^sup>4\<close> entries.)\<close>

theorem chain_store_consistent:
  assumes "other_ok A" and "chain_reach A V N s" and "\<not> saturated (store s)"
  shows "(\<forall>a ci. contractAt (store s) a = Some ci \<longrightarrow>
      (\<exists>code. contractInstance K a s = (Ok (ci, code), s)) \<and>
      histAt (store s) a \<noteq> [] \<and> HistCodeID (last (histAt (store s) a)) = CodeID ci) \<and>
    (\<forall>i a. (\<exists>p. indexed (store s) i p a) \<longleftrightarrow> (\<exists>ci. contractAt (store s) a = Some ci \<and> CodeID ci = i))"
proof (intro conjI allI impI)
  have inv: "keeper_inv (store s)" by (rule chain_reach_inv [OF assms(1, 2)])
  fix a ci assume ci: "contractAt (store s) a = Some ci"
  then have core: "codeAt (store s) (CodeID ci) \<noteq> None" "histAt (store s) a \<noteq> []"
      "HistCodeID (last (histAt (store s) a)) = CodeID ci"
    using inv assms(3) by (auto simp: keeper_inv_def keeper_core_def)
  then show "histAt (store s) a \<noteq> []" "HistCodeID (last (histAt (store s) a)) = CodeID ci" by auto
  show "\<exists>code. contractInstance K a s = (Ok (ci, code), s)"
    using ci core(1)
    by (auto simp: contractInstance_def contractAt_def codeAt_def go_step storeGet_def
        split: option.splits stored.splits)
next
  fix i a
  show "(\<exists>p. indexed (store s) i p a) \<longleftrightarrow> (\<exists>ci. contractAt (store s) a = Some ci \<and> CodeID ci = i)"
    using index_of_code [OF chain_reach_inv [OF assms(1, 2)] assms(3)] by blast
qed

theorem chain_store_consistent_witness:
  "contractAt (store exChainState) exAddr = Some exInfo \<and>
   (\<exists>p. indexed (store exChainState) (CodeID exInfo) p exAddr)"
  using chain_store_consistent [OF exApp_ok exChain_reach exChain_not_saturated] exChain_contract by blast

end
