(* ===== verification/TokenBindings.thy ===== *)
theory TokenBindings
  imports TokenFactoryProps Chain
begin

section \<open>The token factory seen by contracts\<close>

text \<open>
  Contracts reach the token factory with custom messages: \<^verbatim>\<open>CustomMessenger\<close> of
  src/x/tokenfactory/bindings/message_plugin.go decorates the messenger of the x/wasm keeper, decodes the custom
  part of a message and runs it through the message server in the name of the contract.

  Decoding the JSON text (\<^verbatim>\<open>json.Unmarshal\<close> through \<^verbatim>\<open>math.Int\<close>'s own decoder) and marshalling the protobuf
  response are the two parameters of \<open>token_codec\<close>.  The property shows that whatever a contract sends, the store
  of the token factory changes only as the specification says for messages signed by the contract.
\<close>

subsection \<open>Messages (bindings/types)\<close>

record WDenomUnit =
  wuDenom :: bytes
  wuExponent :: u32
  wuAliases :: "bytes list"

record WMetadata =
  wmDescription :: bytes
  wmDenomUnits :: "WDenomUnit list"
  wmBase :: bytes
  wmDisplay :: bytes
  wmName :: bytes
  wmSymbol :: bytes

record CreateDenom =
  bcSubdenom :: bytes
  bcMetadata :: "WMetadata option"

record ChangeAdmin =
  baDenom :: bytes
  baNewAdminAddress :: bytes

record MintTokens =
  bmDenom :: bytes
  bmAmount :: int
  bmMintToAddress :: bytes

record BurnTokens =
  bbDenom :: bytes
  bbAmount :: int
  bbBurnFromAddress :: bytes

record SetMetadata =
  bsDenom :: bytes
  bsMetadata :: WMetadata

record ForceTransfer =
  bfDenom :: bytes
  bfAmount :: int
  bfFromAddress :: bytes
  bfToAddress :: bytes

record TokenMsg =
  tmCreateDenom :: "CreateDenom option"
  tmChangeAdmin :: "ChangeAdmin option"
  tmMintTokens :: "MintTokens option"
  tmBurnTokens :: "BurnTokens option"
  tmSetMetadata :: "SetMetadata option"
  tmForceTransfer :: "ForceTransfer option"

record token_codec =
  tcDecode :: "bytes \<Rightarrow> TokenMsg option outcome"
  tcMarshal :: "bytes \<Rightarrow> bytes outcome"

subsection \<open>Conversions\<close>

definition WasmMetadataToSdk :: "WMetadata \<Rightarrow> Metadata" where
  "WasmMetadataToSdk metadata =
    \<lparr>mdDescription = wmDescription metadata,
     mdDenomUnits = map (\<lambda>unit. \<lparr>duDenom = wuDenom unit, duExponent = wuExponent unit, duAliases = wuAliases unit\<rparr>)
       (wmDenomUnits metadata),
     mdBase = wmBase metadata, mdDisplay = wmDisplay metadata, mdName = wmName metadata,
     mdSymbol = wmSymbol metadata, mdURI = '''', mdURIHash = ''''\<rparr>"

definition SdkMetadataToWasm :: "Metadata \<Rightarrow> WMetadata" where
  "SdkMetadataToWasm metadata =
    \<lparr>wmDescription = mdDescription metadata,
     wmDenomUnits = map (\<lambda>unit. \<lparr>wuDenom = duDenom unit, wuExponent = duExponent unit, wuAliases = duAliases unit\<rparr>)
       (mdDenomUnits metadata),
     wmBase = mdBase metadata, wmDisplay = mdDisplay metadata, wmName = mdName metadata,
     wmSymbol = mdSymbol metadata\<rparr>"

definition parseAddress :: "('m, 'y) tf_fns \<Rightarrow> bytes \<Rightarrow> AccAddress outcome" where
  "parseAddress F addr =
    withValue (withWrap (fromBech32 (tfSdk F) addr)) (\<lambda>parsed.
    withValue (withWrap (verifyAddressFormat (tfSdk F) parsed)) (\<lambda>_. Ok parsed))"

definition GetFullDenom :: "('m, 'y) tf_fns \<Rightarrow> bytes \<Rightarrow> bytes \<Rightarrow> bytes outcome" where
  "GetFullDenom F contract subDenom =
    withValue (parseAddress F contract) (\<lambda>_. withWrap (GetTokenDenom F contract subDenom))"

abbreviation InvalidRequest :: gerror where
  "InvalidRequest \<equiv> SystemError (OtherSystemError ''invalid request'')"

subsection \<open>Running the messages\<close>

definition PerformSetMetadata ::
  "('m, 'y) tf_fns \<Rightarrow> AccAddress \<Rightarrow> bytes \<Rightarrow> WMetadata \<Rightarrow> (('m, 'y tfw) st, unit) go" where
  "PerformSetMetadata F contractAddr denom metadata =
    bindM (GetAuthorityMetadata denom) (\<lambda>auth.
    thenM (guardM (daAdmin auth = accString (tfSdk F) contractAddr) InvalidRequest)
    (thenM (guardM (wmBase metadata = '''' \<or> wmBase metadata = denom) InvalidRequest)
    (let bankMetadata = WasmMetadataToSdk (if wmBase metadata = '''' then metadata\<lparr>wmBase := denom\<rparr> else metadata) in
     thenM (liftO (MetadataValidate F bankMetadata))
       (restM (SetDenomMetaData F bankMetadata)))))"

definition PerformCreateDenom ::
  "('m, 'y) tf_fns \<Rightarrow> token_codec \<Rightarrow> AccAddress \<Rightarrow> CreateDenom \<Rightarrow> (('m, 'y tfw) st, bytes) go" where
  "PerformCreateDenom F E contractAddr createDenom =
    (let msg = \<lparr>cdSender = accString (tfSdk F) contractAddr, cdSubdenom = bcSubdenom createDenom\<rparr> in
     thenM (wrapM errWrap (liftO (MsgCreateDenom_ValidateBasic F msg)))
     (bindM (wrapM errWrap (tf_CreateDenom F msg)) (\<lambda>newDenom.
      thenM (case bcMetadata createDenom of
          None \<Rightarrow> retM ()
        | Some metadata \<Rightarrow> wrapM errWrap (PerformSetMetadata F contractAddr newDenom metadata))
      (liftO (tcMarshal E newDenom)))))"

text \<open>When the recipient is blocked the code wraps an error that is nil at that point, which gives nil.\<close>

definition PerformMint :: "('m, 'y) tf_fns \<Rightarrow> AccAddress \<Rightarrow> MintTokens \<Rightarrow> (('m, 'y tfw) st, unit) go" where
  "PerformMint F contractAddr mint =
    bindM (liftO (parseAddress F (bmMintToAddress mint))) (\<lambda>rcpt.
    (let coin = \<lparr>Denom = bmDenom mint, Amount = bmAmount mint\<rparr>;
         sdkMsg = NewMsgMint (accString (tfSdk F) contractAddr) coin in
     thenM (liftO (MsgMint_ValidateBasic F sdkMsg))
     (thenM (wrapM errWrap (tf_Mint F sdkMsg))
     (if BlockedAddr F rcpt then retM ()
      else bindM (liftO (NewCoins F [coin])) (\<lambda>coins.
        wrapM errWrap (restM (SendCoins F contractAddr rcpt coins)))))))"

definition bindChangeAdmin :: "('m, 'y) tf_fns \<Rightarrow> AccAddress \<Rightarrow> ChangeAdmin \<Rightarrow> (('m, 'y tfw) st, unit) go" where
  "bindChangeAdmin F contractAddr changeAdmin =
    bindM (liftO (parseAddress F (baNewAdminAddress changeAdmin))) (\<lambda>newAdminAddr.
    (let msg = \<lparr>chSender = accString (tfSdk F) contractAddr, chDenom = baDenom changeAdmin,
          chNewAdmin = accString (tfSdk F) newAdminAddr\<rparr> in
     thenM (liftO (MsgChangeAdmin_ValidateBasic F msg))
       (wrapM errWrap (tf_ChangeAdmin F msg))))"

definition PerformBurn :: "('m, 'y) tf_fns \<Rightarrow> AccAddress \<Rightarrow> BurnTokens \<Rightarrow> (('m, 'y tfw) st, unit) go" where
  "PerformBurn F contractAddr burn =
    (let coin = \<lparr>Denom = bbDenom burn, Amount = bbAmount burn\<rparr>;
         sdkMsg = (if bbBurnFromAddress burn \<noteq> ''''
           then NewMsgBurnFrom (accString (tfSdk F) contractAddr) coin (bbBurnFromAddress burn)
           else NewMsgBurn (accString (tfSdk F) contractAddr) coin) in
     thenM (liftO (MsgBurn_ValidateBasic F sdkMsg))
       (wrapM errWrap (tf_Burn F sdkMsg)))"

definition PerformForceTransfer ::
  "('m, 'y) tf_fns \<Rightarrow> AccAddress \<Rightarrow> ForceTransfer \<Rightarrow> (('m, 'y tfw) st, unit) go" where
  "PerformForceTransfer F contractAddr forcetransfer =
    bindM (liftO (parseAddress F (bfFromAddress forcetransfer))) (\<lambda>_.
    bindM (liftO (parseAddress F (bfToAddress forcetransfer))) (\<lambda>_.
    (let sdkMsg = \<lparr>ftSender = accString (tfSdk F) contractAddr,
          ftAmount = \<lparr>Denom = bfDenom forcetransfer, Amount = bfAmount forcetransfer\<rparr>,
          ftTransferFromAddress = bfFromAddress forcetransfer, ftTransferToAddress = bfToAddress forcetransfer\<rparr> in
     thenM (liftO (MsgForceTransfer_ValidateBasic F sdkMsg))
       (wrapM errWrap (tf_ForceTransfer F sdkMsg)))))"

subsection \<open>The messenger\<close>

definition noResult :: "(('m, 'y tfw) st, unit) go \<Rightarrow> (('m, 'y tfw) st, dispatched) go" where
  "noResult m = thenM (wrapM errWrap m) (retM ([], [], []))"

definition CustomMessenger ::
  "('m, 'y) tf_fns \<Rightarrow> token_codec \<Rightarrow> ('m, 'y tfw, CosmosMsg) messenger \<Rightarrow> ('m, 'y tfw, CosmosMsg) messenger" where
  "CustomMessenger F E wrapped c contractAddr port msg =
    (case cmCustom msg of
       None \<Rightarrow> wrapped c contractAddr port msg
     | Some custom \<Rightarrow>
         bindM (wrapM errWrap (liftO (tcDecode E custom))) (\<lambda>token.
         case token of
           None \<Rightarrow> failM ErrUnknownRequest
         | Some tokenMsg \<Rightarrow>
            (case tmCreateDenom tokenMsg of Some m \<Rightarrow>
               bindM (wrapM errWrap (PerformCreateDenom F E contractAddr m)) (\<lambda>bz. retM ([], [Some bz], []))
             | None \<Rightarrow>
             case tmMintTokens tokenMsg of Some m \<Rightarrow> noResult (PerformMint F contractAddr m) | None \<Rightarrow>
             case tmChangeAdmin tokenMsg of Some m \<Rightarrow> noResult (bindChangeAdmin F contractAddr m) | None \<Rightarrow>
             case tmBurnTokens tokenMsg of Some m \<Rightarrow> noResult (PerformBurn F contractAddr m) | None \<Rightarrow>
             case tmSetMetadata tokenMsg of Some m \<Rightarrow>
               noResult (PerformSetMetadata F contractAddr (bsDenom m) (bsMetadata m)) | None \<Rightarrow>
             case tmForceTransfer tokenMsg of Some m \<Rightarrow> noResult (PerformForceTransfer F contractAddr m) | None \<Rightarrow>
             wrapped c contractAddr port msg)))"

subsection \<open>Queries (keeper/grpc_query.go, bindings/queries.go, bindings/query_plugin.go)\<close>

text \<open>The query server of the module, and the custom queries of contracts.  Their requests and
  responses travel as JSON; decoding and encoding are the parameters of \<open>query_codec\<close>.\<close>

definition tf_DenomAuthorityMetadata :: "bytes \<Rightarrow> (('m, 'y tfw) st, DenomAuthorityMetadata) go" where
  "tf_DenomAuthorityMetadata denom = GetAuthorityMetadata denom"

definition tf_DenomsFromCreator :: "bytes \<Rightarrow> (('m, 'y tfw) st, bytes list) go" where
  "tf_DenomsFromCreator creator = GetDenomsFromCreator creator"

definition tf_Params :: "('m, 'y) tf_fns \<Rightarrow> (('m, 'y tfw) st, tf_params) go" where
  "tf_Params F = tfGetParams F"

record TokenQuery =
  tqFullDenom :: "(bytes \<times> bytes) option"
  tqAdmin :: "bytes option"
  tqMetadata :: "bytes option"
  tqDenomsByCreator :: "bytes option"
  tqParams :: "unit option"

datatype token_response =
    FullDenomResponse bytes
  | AdminResponse bytes
  | MetadataResponse "WMetadata option"
  | DenomsByCreatorResponse "bytes list"
  | ParamsResponse "(bytes \<times> bytes) list"

record query_codec =
  qcDecode :: "bytes \<Rightarrow> TokenQuery option outcome"
  qcMarshal :: "token_response \<Rightarrow> bytes outcome"

definition GetDenomAdmin :: "bytes \<Rightarrow> (('m, 'y tfw) st, token_response) go" where
  "GetDenomAdmin denom =
    bindM (wrapM (\<lambda>_. PlainErr ''failed to get admin for denom'') (GetAuthorityMetadata denom)) (\<lambda>metadata.
      retM (AdminResponse (daAdmin metadata)))"

definition GetDenomsByCreator :: "bytes \<Rightarrow> (('m, 'y tfw) st, token_response) go" where
  "GetDenomsByCreator creator =
    bindM (GetDenomsFromCreator creator) (\<lambda>denoms. retM (DenomsByCreatorResponse denoms))"

definition GetMetadata :: "('m, 'y) tf_fns \<Rightarrow> bytes \<Rightarrow> (('m, 'y tfw) st, token_response) go" where
  "GetMetadata F denom = bindM (restGets (\<lambda>y. GetDenomMetaData F y denom)) (\<lambda>metadata.
     retM (MetadataResponse (map_option SdkMetadataToWasm metadata)))"

definition ConvertSdkCoinToWasmCoin :: "Coin \<Rightarrow> bytes \<times> bytes" where
  "ConvertSdkCoinToWasmCoin coin = (Denom coin, formatInt (Amount coin))"

definition ConvertSdkCoinsToWasmCoins :: "Coins \<Rightarrow> (bytes \<times> bytes) list" where
  "ConvertSdkCoinsToWasmCoins coins = map ConvertSdkCoinToWasmCoin coins"

definition qpGetParams :: "('m, 'y) tf_fns \<Rightarrow> (('m, 'y tfw) st, token_response) go" where
  "qpGetParams F = bindM (tfGetParams F) (\<lambda>params. retM (ParamsResponse
     (ConvertSdkCoinsToWasmCoins (case DenomCreationFee params of None \<Rightarrow> [] | Some fee \<Rightarrow> fee))))"

definition tokenQuery :: "('m, 'y) tf_fns \<Rightarrow> TokenQuery \<Rightarrow> (('m, 'y tfw) st, token_response) go" where
  "tokenQuery F q =
    (case tqFullDenom q of Some (creator, subdenom) \<Rightarrow>
       bindM (wrapM errWrap (liftO (GetFullDenom F creator subdenom))) (\<lambda>d. retM (FullDenomResponse d)) | None \<Rightarrow>
     case tqAdmin q of Some denom \<Rightarrow> GetDenomAdmin denom | None \<Rightarrow>
     case tqMetadata q of Some denom \<Rightarrow> GetMetadata F denom | None \<Rightarrow>
     case tqDenomsByCreator q of Some creator \<Rightarrow> GetDenomsByCreator creator | None \<Rightarrow>
     case tqParams q of Some _ \<Rightarrow> qpGetParams F | None \<Rightarrow>
     failM (SystemError (OtherSystemError ''unsupported request'')))"

definition CustomQuerier ::
  "('m, 'y) tf_fns \<Rightarrow> query_codec \<Rightarrow> bytes \<Rightarrow> (('m, 'y tfw) st, bytes) go" where
  "CustomQuerier F E request =
    bindM (wrapM errWrap (liftO (qcDecode E request))) (\<lambda>contractQuery.
    case contractQuery of
      None \<Rightarrow> failM ErrUnknownRequest
    | Some q \<Rightarrow> bindM (tokenQuery F q) (\<lambda>res. wrapM errWrap (liftO (qcMarshal E res))))"

text \<open>No query changes the state, whatever it returns.\<close>

lemma CustomQuerier_readonly: "snd (CustomQuerier F E request s) = s"
proof -
  have "preserves (\<lambda>t. t = s) (CustomQuerier F E request)"
    unfolding CustomQuerier_def tokenQuery_def GetDenomAdmin_def GetDenomsByCreator_def GetMetadata_def qpGetParams_def
      GetAuthorityMetadata_def GetDenomsFromCreator_def tfGetParams_def restGets_def tfGet_def
    by (intro pres)
  then show ?thesis by (simp add: preserves_def)
qed

text \<open>The conversion of metadata loses the two URI fields and nothing else.\<close>

lemma metadata_roundtrip: "WasmMetadataToSdk (SdkMetadataToWasm md) = md\<lparr>mdURI := '''', mdURIHash := ''''\<rparr>"
  by (cases md) (simp add: WasmMetadataToSdk_def SdkMetadataToWasm_def o_def map_idI)

subsection \<open>Acting in the name of the contract\<close>

fun tf_sender :: "tf_msg \<Rightarrow> bytes" where
  "tf_sender (TfCreateDenom m) = cdSender m"
| "tf_sender (TfMint m) = mtSender m"
| "tf_sender (TfBurn m) = buSender m"
| "tf_sender (TfForceTransfer m) = ftSender m"
| "tf_sender (TfChangeAdmin m) = chSender m"
| "tf_sender (TfSetDenomMetadata m) = sdSender m"

fun spec_run :: "tf_msg list \<Rightarrow> factory \<Rightarrow> factory option" where
  "spec_run [] f = Some f"
| "spec_run (m # ms) f = (if spec_allows m f then spec_run ms (spec_step m f) else None)"

text \<open>The token factory messages a custom message stands for, signed by the contract.\<close>

definition withBase :: "bytes \<Rightarrow> WMetadata \<Rightarrow> Metadata" where
  "withBase d md = WasmMetadataToSdk (if wmBase md = '''' then md\<lparr>wmBase := d\<rparr> else md)"

definition requested :: "('m, 'y) tf_fns \<Rightarrow> bytes \<Rightarrow> TokenMsg \<Rightarrow> tf_msg list" where
  "requested F addr tm =
    (case tmCreateDenom tm of Some m \<Rightarrow>
       (let cd = \<lparr>cdSender = addr, cdSubdenom = bcSubdenom m\<rparr> in
        TfCreateDenom cd # (case bcMetadata m of None \<Rightarrow> []
          | Some md \<Rightarrow> [TfSetDenomMetadata \<lparr>sdSender = addr, sdMetadata = withBase (denomOf cd) md\<rparr>]))
     | None \<Rightarrow>
     case tmMintTokens tm of Some m \<Rightarrow> [TfMint (NewMsgMint addr \<lparr>Denom = bmDenom m, Amount = bmAmount m\<rparr>)] | None \<Rightarrow>
     case tmChangeAdmin tm of Some m \<Rightarrow>
       (case parseAddress F (baNewAdminAddress m) of
          Ok n \<Rightarrow> [TfChangeAdmin \<lparr>chSender = addr, chDenom = baDenom m, chNewAdmin = accString (tfSdk F) n\<rparr>] | _ \<Rightarrow> [])
     | None \<Rightarrow>
     case tmBurnTokens tm of Some m \<Rightarrow>
       [TfBurn (NewMsgBurnFrom addr \<lparr>Denom = bbDenom m, Amount = bbAmount m\<rparr> (bbBurnFromAddress m))] | None \<Rightarrow>
     case tmSetMetadata tm of Some m \<Rightarrow>
       [TfSetDenomMetadata \<lparr>sdSender = addr, sdMetadata = withBase (bsDenom m) (bsMetadata m)\<rparr>] | None \<Rightarrow>
     case tmForceTransfer tm of Some m \<Rightarrow>
       [TfForceTransfer \<lparr>ftSender = addr, ftAmount = \<lparr>Denom = bfDenom m, Amount = bfAmount m\<rparr>,
          ftTransferFromAddress = bfFromAddress m, ftTransferToAddress = bfToAddress m\<rparr>] | None \<Rightarrow> [])"

definition acts :: "('m, 'y) tf_fns \<Rightarrow> tf_msg list \<Rightarrow> ('m, 'y tfw) st \<Rightarrow> ('m, 'y tfw) st \<Rightarrow> bool" where
  "acts F msgs s t \<longleftrightarrow> store t = store s \<and> tf_reach F t \<and>
     spec_run msgs (tf_abs (tfStore (world s))) = Some (tf_abs (tfStore (world t)))"

lemma spec_run_append: "spec_run ms f = Some g \<Longrightarrow> spec_run (ms @ ns) f = spec_run ns g"
  by (induction ms arbitrary: f) (auto split: if_splits)

lemma acts_trans: "acts F ms s t \<Longrightarrow> acts F ns t u \<Longrightarrow> acts F (ms @ ns) s u"
  unfolding acts_def by (simp add: spec_run_append)

lemma preserves_tfSet [pres]: "preserves (\<lambda>s. P (store s)) (tfSet k v)"
  by (auto simp: tfSet_def intro!: preserves_modifyM)

lemma preserves_tf_simple [pres]:
  "preserves (\<lambda>s. P (store s)) (restM f)" "preserves (\<lambda>s. P (store s)) (restGets g)" "preserves (\<lambda>s. P (store s)) (tfGet k)"
  by (simp_all add: restM_def restGets_def tfGet_def preserves_extM preserves_getsM)

lemma preserves_tf_admin [pres]:
  "preserves (\<lambda>s. P (store s)) (GetAuthorityMetadata d)" "preserves (\<lambda>s. P (store s)) (requireAdmin d a)"
  "preserves (\<lambda>s. P (store s)) (setAuthorityMetadata F d m)" "preserves (\<lambda>s. P (store s)) (setAdmin F d a)"
  unfolding GetAuthorityMetadata_def requireAdmin_def setAuthorityMetadata_def setAdmin_def by (intro pres)+

lemma preserves_tf_bank [pres]:
  "preserves (\<lambda>s. P (store s)) (mintTo F coin to)" "preserves (\<lambda>s. P (store s)) (burnFrom F coin from)"
  "preserves (\<lambda>s. P (store s)) (forceTransfer F coin from to)" "preserves (\<lambda>s. P (store s)) (tfCreateDenom F a sub)"
  unfolding mintTo_def burnFrom_def forceTransfer_def tfCreateDenom_def validateCreateDenom_def chargeForCreateDenom_def
    createDenomAfterValidation_def addDenomFromCreator_def tfGetParams_def
  by (intro pres)+

lemma preserves_tf_handlers [pres]:
  "preserves (\<lambda>s. P (store s)) (tf_CreateDenom F m1)" "preserves (\<lambda>s. P (store s)) (tf_Mint F m2)"
  "preserves (\<lambda>s. P (store s)) (tf_Burn F m3)" "preserves (\<lambda>s. P (store s)) (tf_ForceTransfer F m4)"
  "preserves (\<lambda>s. P (store s)) (tf_ChangeAdmin F m5)" "preserves (\<lambda>s. P (store s)) (tf_SetDenomMetadata F m6)"
  unfolding tf_CreateDenom_def tf_Mint_def tf_Burn_def tf_ForceTransfer_def tf_ChangeAdmin_def
    tf_SetDenomMetadata_def Let_def by (intro pres)+

lemma preserves_tf_serve: "preserves (\<lambda>s. P (store s)) (tf_serve F msg)"
  by (cases msg) (auto intro!: pres)

lemma acts_serve:
  assumes laws: "tf_laws F" and reach: "tf_reach F s" and valid: "tf_ValidateBasic F msg = Ok ()"
    and run: "tf_serve F msg s = (Ok r, t)"
  shows "acts F [msg] s t"
proof -
  have deliver: "tf_deliver F msg s = (Ok r, t)"
    using valid run by (simp add: tf_deliver_def thenM_Ok_iff)
  have "store t = store s" using preservesD [OF preserves_tf_serve [where P = "\<lambda>x. x = store s"] run] by simp
  then show ?thesis
    using token_spec_step [OF laws reach deliver] tr_msg [OF reach deliver] by (simp add: acts_def)
qed

lemma acts_quiet:
  assumes "quiet F m" and "m s = (r, t)" and "store t = store s" and "tf_reach F s"
  shows "acts F [] s t"
  using quietD [OF assms(1,2)] assms(3) tr_other [OF assms(4)] by (simp add: acts_def)

text \<open>One binding at a time.  \<open>addr\<close> is the text of the contract's address, which is not empty.\<close>

lemma PerformSetMetadata_acts:
  assumes laws: "tf_laws F" and reach: "tf_reach F s" and addr: "accString (tfSdk F) a = addr" "addr \<noteq> ''''"
    and run: "PerformSetMetadata F a d md s = (Ok u, t)"
  shows "acts F [TfSetDenomMetadata \<lparr>sdSender = addr, sdMetadata = withBase d md\<rparr>] s t"
proof -
  obtain auth where get: "asAuthority (kv_get (tfStore (world s)) (authKey d)) = Ok auth" and ad: "daAdmin auth = addr"
    and base: "wmBase md = '''' \<or> wmBase md = d" and set: "restM (SetDenomMetaData F (withBase d md)) s = (Ok u, t)"
    using run addr unfolding PerformSetMetadata_def GetAuthorityMetadata_def Let_def withBase_def
    by (simp add: go_Ok_iff) blast
  have "adminOf (tfStore (world s)) d = Some addr"
    using get ad addr(2) by (auto simp: adminOf_def elim!: asAuthority.elims)
  moreover have "mdBase (withBase d md) = d" using base by (auto simp: withBase_def WasmMetadataToSdk_def)
  moreover have "acts F [] s t"
    using set by (intro acts_quiet [OF quiet_world_calls(2) [OF laws] set _ reach]) (auto simp: restM_Ok_iff)
  ultimately show ?thesis by (simp add: acts_def tf_abs_def)
qed

lemma PerformCreateDenom_acts:
  assumes laws: "tf_laws F" and reach: "tf_reach F s" and addr: "accString (tfSdk F) a = addr" "addr \<noteq> ''''"
    and run: "PerformCreateDenom F E a m s = (Ok bz, t)" and tm: "tmCreateDenom tm = Some m"
  shows "acts F (requested F addr tm) s t"
proof -
  let ?msg = "\<lparr>cdSender = addr, cdSubdenom = bcSubdenom m\<rparr>"
  obtain d s1 where valid: "MsgCreateDenom_ValidateBasic F ?msg = Ok ()" and create: "tf_CreateDenom F ?msg s = (Ok d, s1)"
    and meta: "(case bcMetadata m of None \<Rightarrow> t = s1 | Some md \<Rightarrow> PerformSetMetadata F a d md s1 = (Ok (), t))"
    using run addr(1) unfolding PerformCreateDenom_def Let_def
    by (cases "bcMetadata m") (auto simp: go_Ok_iff)
  have step: "acts F [TfCreateDenom ?msg] s s1"
    using acts_serve [OF laws reach, of "TfCreateDenom ?msg"] valid create by simp
  then have reach1: "tf_reach F s1" by (simp add: acts_def)
  have d: "d = denomOf ?msg"
    using create by (auto simp: tf_CreateDenom_def tfCreateDenom_def validateCreateDenom_def go_Ok_iff
        GetTokenDenom_Ok denomOf_def)
  show ?thesis
    using meta step tm acts_trans [OF step PerformSetMetadata_acts [OF laws reach1 addr]] d
    by (cases "bcMetadata m") (auto simp: requested_def Let_def)
qed

lemma PerformMint_acts:
  assumes laws: "tf_laws F" and reach: "tf_reach F s" and addr: "accString (tfSdk F) a = addr"
    and run: "PerformMint F a m s = (Ok u, t)"
  shows "acts F [TfMint (NewMsgMint addr \<lparr>Denom = bmDenom m, Amount = bmAmount m\<rparr>)] s t"
proof -
  let ?msg = "NewMsgMint addr \<lparr>Denom = bmDenom m, Amount = bmAmount m\<rparr>"
  obtain s1 where valid: "MsgMint_ValidateBasic F ?msg = Ok ()" and mint: "tf_Mint F ?msg s = (Ok (), s1)"
    and send: "t = s1 \<or> (\<exists>to coins. restM (SendCoins F a to coins) s1 = (Ok u, t))"
    using run addr by (auto simp: PerformMint_def Let_def go_Ok_iff split: if_splits)
  have step: "acts F [TfMint ?msg] s s1"
    using acts_serve [OF laws reach, of "TfMint ?msg"] valid mint by (auto simp: go_Ok_iff)
  then have reach1: "tf_reach F s1" by (simp add: acts_def)
  have "acts F [] s1 t" if "restM (SendCoins F a to coins) s1 = (Ok u, t)" for to coins
    using that by (intro acts_quiet [OF quiet_world_calls(7) [OF laws] that _ reach1]) (auto simp: restM_Ok_iff)
  then show ?thesis using send step acts_trans [OF step] by fastforce
qed

lemma bindChangeAdmin_acts:
  assumes "tf_laws F" and "tf_reach F s" and addr: "accString (tfSdk F) a = addr"
    and run: "bindChangeAdmin F a m s = (Ok u, t)"
  shows "\<exists>n. parseAddress F (baNewAdminAddress m) = Ok n \<and>
    acts F [TfChangeAdmin \<lparr>chSender = addr, chDenom = baDenom m, chNewAdmin = accString (tfSdk F) n\<rparr>] s t"
  using run addr acts_serve [OF assms(1,2), of "TfChangeAdmin _"]
  by (fastforce simp: bindChangeAdmin_def Let_def go_Ok_iff)

lemma PerformBurn_acts:
  assumes "tf_laws F" and "tf_reach F s" and addr: "accString (tfSdk F) a = addr"
    and run: "PerformBurn F a m s = (Ok u, t)"
  shows "acts F [TfBurn (NewMsgBurnFrom addr \<lparr>Denom = bbDenom m, Amount = bbAmount m\<rparr> (bbBurnFromAddress m))] s t"
  using run addr acts_serve [OF assms(1,2), of "TfBurn (NewMsgBurnFrom addr _ (bbBurnFromAddress m))"]
  by (auto simp: PerformBurn_def Let_def go_Ok_iff NewMsgBurn_def NewMsgBurnFrom_def split: if_splits)

lemma PerformForceTransfer_acts:
  assumes "tf_laws F" and "tf_reach F s" and addr: "accString (tfSdk F) a = addr"
    and run: "PerformForceTransfer F a m s = (Ok u, t)"
  shows "acts F [TfForceTransfer \<lparr>ftSender = addr, ftAmount = \<lparr>Denom = bfDenom m, Amount = bfAmount m\<rparr>,
      ftTransferFromAddress = bfFromAddress m, ftTransferToAddress = bfToAddress m\<rparr>] s t"
  using run addr acts_serve [OF assms(1,2), of "TfForceTransfer _"]
  by (fastforce simp: PerformForceTransfer_def Let_def go_Ok_iff)

definition hasVariant :: "TokenMsg \<Rightarrow> bool" where
  "hasVariant tm \<longleftrightarrow> tmCreateDenom tm \<noteq> None \<or> tmChangeAdmin tm \<noteq> None \<or> tmMintTokens tm \<noteq> None \<or>
    tmBurnTokens tm \<noteq> None \<or> tmSetMetadata tm \<noteq> None \<or> tmForceTransfer tm \<noteq> None"

lemma noResult_Ok: "noResult m s = (Ok r, t) \<longleftrightarrow> m s = (Ok (), t) \<and> r = ([], [], [])"
  by (auto simp: noResult_def go_Ok_iff)

lemma requested_sender: "m \<in> set (requested F addr tm) \<Longrightarrow> tf_sender m = addr"
  by (auto simp: requested_def NewMsgMint_def NewMsgBurnFrom_def Let_def split: option.splits outcome.splits)

lemma CustomMessenger_acts:
  assumes laws: "tf_laws F" and reach: "tf_reach F s" and addr: "accString (tfSdk F) a = addr" "addr \<noteq> ''''"
    and msg: "cmCustom msg = Some bz" "tcDecode E bz = Ok (Some tm)" "hasVariant tm"
    and run: "CustomMessenger F E wrapped c a p msg s = (Ok r, t)"
  shows "acts F (requested F addr tm) s t"
proof -
  note served = PerformMint_acts [OF laws reach addr(1)] bindChangeAdmin_acts [OF laws reach addr(1)]
    PerformBurn_acts [OF laws reach addr(1)] PerformForceTransfer_acts [OF laws reach addr(1)]
    PerformSetMetadata_acts [OF laws reach addr]
  show ?thesis
  proof (cases "tmCreateDenom tm")
    case (Some m)
    then obtain bz' where "PerformCreateDenom F E a m s = (Ok bz', t)"
      using run msg by (auto simp: CustomMessenger_def go_Ok_iff)
    then show ?thesis using PerformCreateDenom_acts [OF laws reach addr _ Some] by blast
  next
    case None
    then show ?thesis
      using run msg unfolding CustomMessenger_def requested_def
      by (auto simp: go_Ok_iff noResult_Ok hasVariant_def split: option.splits dest!: served)
  qed
qed

lemma preserves_bindings [pres]:
  "preserves (\<lambda>s. P (store s)) (PerformSetMetadata F a d md)" "preserves (\<lambda>s. P (store s)) (PerformMint F a m1)"
  "preserves (\<lambda>s. P (store s)) (bindChangeAdmin F a m2)" "preserves (\<lambda>s. P (store s)) (PerformBurn F a m3)"
  "preserves (\<lambda>s. P (store s)) (PerformForceTransfer F a m4)"
  unfolding PerformSetMetadata_def PerformMint_def bindChangeAdmin_def PerformBurn_def PerformForceTransfer_def Let_def
  by (intro pres)+

lemma preserves_PerformCreateDenom [pres]: "preserves (\<lambda>s. P (store s)) (PerformCreateDenom F E a m)"
  unfolding PerformCreateDenom_def Let_def by (intro pres)

lemma keeps_noResult: "preserves (\<lambda>s. P (store s)) m \<Longrightarrow> keeps (\<lambda>s. P (store s)) (noResult m)"
  unfolding noResult_def by (intro preserves_keeps pres)

text \<open>The decorator fits the chain of \<open>Chain\<close>: it keeps the invariant of the x/wasm store whenever
  the messenger it wraps does.\<close>

lemma CustomMessenger_keeps:
  assumes "keeps (\<lambda>s. P (store s)) (wrapped c a p msg)"
  shows "keeps (\<lambda>s. P (store s)) (CustomMessenger F E wrapped c a p msg)"
  unfolding CustomMessenger_def
  by (intro keeps_case_option assms keeps_bindM keeps_wrapM keeps_simple keeps_noResult
      preserves_keeps [OF preserves_PerformCreateDenom] pres)

lemma other_ok_bindings:
  "other_ok A \<Longrightarrow> other_ok (A\<lparr>caDecorate := \<lambda>f. CustomMessenger F E (caDecorate A f)\<rparr>)"
  unfolding other_ok_def by (auto intro: CustomMessenger_keeps [where P = keeper_inv])

text \<open>Minting to a blocked recipient: the contract is told that the mint succeeded, and the coins stay
  in its own account.\<close>

lemma mint_to_blocked_reports_success:
  assumes "parseAddress F (bmMintToAddress m) = Ok rcpt" and "BlockedAddr F rcpt"
    and "MsgMint_ValidateBasic F (NewMsgMint (accString (tfSdk F) a) \<lparr>Denom = bmDenom m, Amount = bmAmount m\<rparr>) = Ok ()"
    and "tf_Mint F (NewMsgMint (accString (tfSdk F) a) \<lparr>Denom = bmDenom m, Amount = bmAmount m\<rparr>) s = (Ok (), t)"
  shows "PerformMint F a m s = (Ok (), t)"
  using assms by (simp add: PerformMint_def Let_def go_Ok_iff)

subsection \<open>Properties\<close>

text \<open>C9. Contracts handle tokens in their own name only.  When the messenger accepts a custom token
  message of a contract, the messages it stands for are all signed by the contract, each of them was allowed by
  the specification when its turn came (so the contract administers the denomination or creates a new
  one), the token factory's state is the one they specify, and the x/wasm store is untouched.\<close>

theorem contract_tokens_own_name:
  assumes "tf_laws F" and "tf_reach F s" and "accString (tfSdk F) a = addr" and "addr \<noteq> ''''"
    and "cmCustom msg = Some bz" and "tcDecode E bz = Ok (Some tm)" and "hasVariant tm"
    and "CustomMessenger F E wrapped c a p msg s = (Ok r, t)"
  shows "(\<forall>m \<in> set (requested F addr tm). tf_sender m = addr) \<and>
    spec_run (requested F addr tm) (tf_abs (tfStore (world s))) = Some (tf_abs (tfStore (world t))) \<and>
    store t = store s"
  using CustomMessenger_acts [OF assms] requested_sender [of _ F addr tm] by (auto simp: acts_def)

definition exTokenMsg :: TokenMsg where
  "exTokenMsg = \<lparr>tmCreateDenom = Some \<lparr>bcSubdenom = ''silver'', bcMetadata = None\<rparr>, tmChangeAdmin = None,
     tmMintTokens = None, tmBurnTokens = None, tmSetMetadata = None, tmForceTransfer = None\<rparr>"

definition exTokenCodec :: token_codec where
  "exTokenCodec = \<lparr>tcDecode = (\<lambda>_. Ok (Some exTokenMsg)), tcMarshal = Ok\<rparr>"

definition exCustom :: CosmosMsg where
  "exCustom = \<lparr>cmBank = None, cmCustom = Some ''{}'', cmDistribution = None, cmGov = None, cmIBC = None,
     cmStaking = None, cmAny = None, cmWasm = None\<rparr>"

definition exTokenRun :: "dispatched outcome \<times> (unit, (bytes \<times> Metadata) list tfw) st" where
  "exTokenRun = CustomMessenger exTF exTokenCodec (\<lambda>_ _ _ _. failM ErrUnknownMsg) exCtx ''carol'' ''port'' exCustom exTfState"

theorem contract_tokens_own_name_witness:
  "spec_run (requested exTF ''carol'' exTokenMsg) (tf_abs (tfStore (world exTfState))) =
    Some (tf_abs (tfStore (world (snd exTokenRun))))"
proof -
  have "fst exTokenRun = Ok ([], [Some ''factory/carol/silver''], [])" by code_simp
  then have run: "CustomMessenger exTF exTokenCodec (\<lambda>_ _ _ _. failM ErrUnknownMsg) exCtx ''carol'' ''port'' exCustom exTfState =
      (Ok ([], [Some ''factory/carol/silver''], []), snd exTokenRun)"
    unfolding exTokenRun_def by (metis prod.collapse)
  show ?thesis
    using contract_tokens_own_name [OF exTF_laws exTf_reach _ _ _ _ _ run, of "''carol''" "''{}''" exTokenMsg]
    by (simp add: exTF_def exSdk_def exCustom_def exTokenCodec_def exTokenMsg_def hasVariant_def)
qed

end
