(* ===== verification/GoText.thy ===== *)
theory GoText
  imports Msgs
begin

section \<open>Text functions of the Go standard library\<close>

text \<open>
  The parts of \<^verbatim>\<open>unicode/utf8\<close>, \<^verbatim>\<open>bytes\<close>, \<^verbatim>\<open>strings\<close> and \<^verbatim>\<open>encoding/json\<close> behind the authorizations of
  src/x/wasm/types/authz.go: encoding runes, comparing under case folding, lower case, and the names of the
  members of a JSON object as \<^verbatim>\<open>json.Unmarshal\<close> puts them into a Go map.  The case data of Unicode beyond ASCII is the
  parameter \<open>unicode_case\<close>.
\<close>

subsection \<open>Runes\<close>

definition EncodeRune :: "nat \<Rightarrow> bytes" where
  "EncodeRune r =
    (if r < 128 then bytesOf [r]
     else if r < 2048 then bytesOf [192 + r div 64, 128 + r mod 64]
     else if r > 1114111 \<or> 55296 \<le> r \<and> r \<le> 57343 then bytesOf [239, 191, 189]
     else if r < 65536 then bytesOf [224 + r div 4096, 128 + r div 64 mod 64, 128 + r mod 64]
     else bytesOf [240 + r div 262144, 128 + r div 4096 mod 64, 128 + r div 64 mod 64, 128 + r mod 64])"

function runesOf :: "bytes \<Rightarrow> nat list" where
  "runesOf [] = []"
| "runesOf (c # s) = fst (DecodeRune (c # s)) # runesOf (drop (snd (DecodeRune (c # s))) (c # s))"
  by pat_completeness auto

termination
  by (relation "measure length") (simp_all add: DecodeRune_width del: DecodeRune.simps)

record unicode_case =
  sameFold :: "nat \<Rightarrow> nat \<Rightarrow> bool"
  lowerRune :: "nat \<Rightarrow> nat"

text \<open>\<^verbatim>\<open>bytes.EqualFold\<close> and \<^verbatim>\<open>strings.EqualFold\<close>: two runes match when they are equal, when they are the two
  cases of an ASCII letter, or when one of them is not ASCII and the folding data relates them.  A byte that is
  not part of a rune decodes to the error rune, so any two such bytes match.\<close>

definition foldRune :: "unicode_case \<Rightarrow> nat \<Rightarrow> nat \<Rightarrow> bool" where
  "foldRune U a b = (let sr = min a b; tr = max a b in
     sr = tr \<or> (if tr < 128 then 65 \<le> sr \<and> sr \<le> 90 \<and> tr = sr + 32 else sameFold U sr tr))"

definition EqualFold :: "unicode_case \<Rightarrow> bytes \<Rightarrow> bytes \<Rightarrow> bool" where
  "EqualFold U s t = list_all2 (foldRune U) (runesOf s) (runesOf t)"

definition ToLower :: "unicode_case \<Rightarrow> bytes \<Rightarrow> bytes" where
  "ToLower U s = concat (map (\<lambda>r. EncodeRune (if r < 128 then (if 65 \<le> r \<and> r \<le> 90 then r + 32 else r) else lowerRune U r))
     (runesOf s))"

subsection \<open>Members of a JSON object\<close>

text \<open>Valid JSON text as tokens: strings (undecoded), numbers, and single characters of everything
  else.\<close>

datatype json_tok = JStr bytes | JNum bytes | JChr char

fun rawString :: "bytes \<Rightarrow> bytes \<times> bytes" where
  "rawString [] = ([], [])"
| "rawString (c # s) =
    (if c = CHR 0x22 then ([], s)
     else if c = CHR 0x5C then (case s of [] \<Rightarrow> ([c], []) | d # s' \<Rightarrow> (case rawString s' of (r, t) \<Rightarrow> (c # d # r, t)))
     else (case rawString s of (r, t) \<Rightarrow> (c # r, t)))"

definition numChar :: "char \<Rightarrow> bool" where
  "numChar c = (isDigit c \<or> c \<in> set ''+-.eE'')"

lemma rawString_length: "length (snd (rawString s)) \<le> length s"
proof (induction s rule: rawString.induct)
  case (2 c s)
  then show ?case
    by (subst rawString.simps) (auto simp del: rawString.simps split: prod.splits list.splits)
qed simp

function jsonTokens :: "bytes \<Rightarrow> json_tok list" where
  "jsonTokens [] = []"
| "jsonTokens (c # s) =
    (if c = CHR 0x22 then JStr (fst (rawString s)) # jsonTokens (snd (rawString s))
     else if c = CHR ''-'' \<or> isDigit c then JNum (c # takeWhile numChar s) # jsonTokens (dropWhile numChar s)
     else if json_space c then jsonTokens s
     else JChr c # jsonTokens s)"
  by pat_completeness auto

termination
  by (relation "measure length") (auto simp: le_imp_less_Suc rawString_length length_dropWhile_le)

text \<open>Decoding a string: escapes, surrogate pairs, and the error rune for what is not UTF-8.\<close>

definition hexVal :: "char \<Rightarrow> nat" where
  "hexVal c = (if isDigit c then byte c - 48 else if byte c \<ge> 97 then byte c - 87 else byte c - 55)"

fun getu4 :: "bytes \<Rightarrow> nat option" where
  "getu4 (b # u # c1 # c2 # c3 # c4 # _) =
    (if b = CHR 0x5C \<and> u = CHR ''u'' \<and> isHex c1 \<and> isHex c2 \<and> isHex c3 \<and> isHex c4
     then Some (((hexVal c1 * 16 + hexVal c2) * 16 + hexVal c3) * 16 + hexVal c4) else None)"
| "getu4 _ = None"

definition unescape :: "char \<Rightarrow> char" where
  "unescape c = (if c = CHR ''b'' then CHR 0x08 else if c = CHR ''f'' then CHR 0x0C
     else if c = CHR ''n'' then CHR 0x0A else if c = CHR ''r'' then CHR 0x0D
     else if c = CHR ''t'' then CHR 0x09 else c)"

definition surrogate :: "nat \<Rightarrow> bool" where
  "surrogate r = (55296 \<le> r \<and> r \<le> 57343)"

text \<open>One step of decoding: the bytes it yields and the input bytes it uses.\<close>

definition unquoteStep :: "bytes \<Rightarrow> bytes \<times> nat" where
  "unquoteStep s =
    (case getu4 s of
       Some r \<Rightarrow>
         if surrogate r then
           (case getu4 (drop 6 s) of
              Some r2 \<Rightarrow> if r < 56320 \<and> 56320 \<le> r2 \<and> r2 \<le> 57343
                then (EncodeRune ((r - 55296) * 1024 + (r2 - 56320) + 65536), 12)
                else (EncodeRune RuneError, 6)
            | None \<Rightarrow> (EncodeRune RuneError, 6))
         else (EncodeRune r, 6)
     | None \<Rightarrow>
         if take 1 s = [CHR 0x5C] then (map unescape (take 1 (drop 1 s)), 2)
         else (case DecodeRune s of (r, w) \<Rightarrow> (EncodeRune r, w)))"

lemma unquoteStep_pos: "s \<noteq> [] \<Longrightarrow> 0 < snd (unquoteStep s)"
  using DecodeRune_width [of s] by (auto simp: unquoteStep_def split: option.splits prod.splits)

function unquote :: "bytes \<Rightarrow> bytes" where
  "unquote [] = []"
| "unquote (c # s) = fst (unquoteStep (c # s)) @ unquote (drop (snd (unquoteStep (c # s))) (c # s))"
  by pat_completeness auto

termination
  by (relation "measure length") (auto simp: unquoteStep_pos)

text \<open>A number that \<^verbatim>\<open>strconv.ParseFloat\<close> rounds to infinity makes \<^verbatim>\<open>json.Unmarshal\<close> fail.\<close>

definition digitsVal :: "bytes \<Rightarrow> int" where
  "digitsVal s = foldl (\<lambda>n c. n * 10 + int (byte c - 48)) 0 (filter isDigit s)"

definition floatOverflows :: "bytes \<Rightarrow> bool" where
  "floatOverflows s =
    (let mant = takeWhile (\<lambda>c. c \<notin> set ''eE'') s;
         expo = drop (Suc (length mant)) s;
         frac = filter isDigit (drop 1 (dropWhile (\<lambda>c. c \<noteq> CHR ''.'') mant));
         e = (if take 1 expo = ''-'' then - digitsVal expo else digitsVal expo) - int (length frac);
         bound = 2 ^ 1024 - (2 :: int) ^ 970 in
     if e \<ge> 0 then bound \<le> digitsVal mant * 10 ^ nat e else bound * 10 ^ nat (- e) \<le> digitsVal mant)"

fun memberNames :: "nat \<Rightarrow> json_tok list \<Rightarrow> bytes list" where
  "memberNames d [] = []"
| "memberNames d (JStr s # JChr c # ts) =
    (if c = CHR '':'' \<and> d = 1 then unquote s # memberNames d ts else memberNames d (JChr c # ts))"
| "memberNames d (JChr c # ts) =
    (if c \<in> set ''{['' then memberNames (Suc d) ts
     else if c \<in> set '']}'' then memberNames (d - 1) ts else memberNames d ts)"
| "memberNames d (_ # ts) = memberNames d ts"

text \<open>The keys of the map that \<^verbatim>\<open>json.Unmarshal\<close> fills from valid JSON text; None is an error (the text
  is no object, or a number is out of range).  \<^verbatim>\<open>null\<close> gives an empty map.\<close>

definition unmarshalKeys :: "bytes \<Rightarrow> bytes list option" where
  "unmarshalKeys text =
    (let ts = jsonTokens text in
     if ts = map JChr ''null'' then Some []
     else if take 1 ts \<noteq> [JChr CHR ''{''] then None
     else if list_ex (\<lambda>t. case t of JNum n \<Rightarrow> floatOverflows n | _ \<Rightarrow> False) ts then None
     else Some (remdups (memberNames 0 ts)))"

subsection \<open>Examples\<close>

lemma unmarshalKeys_examples:
  "unmarshalKeys ''{ }'' = Some []" "unmarshalKeys ''[1]'' = None"
  "unmarshalKeys (''{'' @ [CHR 0x22] @ ''a'' @ [CHR 0x22] @ '': {'' @ [CHR 0x22] @ ''b'' @ [CHR 0x22] @ '':1}}'') = Some [''a'']"
  "unmarshalKeys (''{'' @ [CHR 0x22] @ ''a'' @ [CHR 0x22] @ '':1e309}'') = None"
  by code_simp+

end
