(* ===== verification/Authz.thy ===== *)
theory Authz
  imports GoText Handlers "HOL-Library.Extended_Nat"
begin

section \<open>Authorizations\<close>

text \<open>
  The authorizations of src/x/wasm/types/authz.go with which an account lets another one upload code,
  execute or migrate contracts in its name.  A contract grant has a limit, which is used up, and a filter on the
  payload.  \<^verbatim>\<open>AcceptGrantedMessage\<close> looks for the first grant that applies and returns the grants that are left.

  Parameters are the coin arithmetic of the SDK, the checksum function of the engine, the gzip reader
  and the gas meter.  A nil payload is the empty one.  The protobuf Any around a limit or a filter is the value
  itself, or the undefined one when nothing is cached.  The code builds the new list of grants inside the array of
  the old one; the old list is not used again, so the model builds a new list.

  The budget property is about sequences of messages, with the state kept by x/authz between them: what is accepted
  never exceeds the limits granted.
\<close>

subsection \<open>Data\<close>

datatype ContractAuthzLimitX =
    UndefinedLimit
  | MaxCallsLimit u64
  | MaxFundsLimit Coins
  | CombinedLimit u64 Coins

datatype ContractAuthzFilterX =
    UndefinedFilter
  | AllowAllMessagesFilter
  | AcceptedMessageKeysFilter "bytes list"
  | AcceptedMessagesFilter "bytes list"

record ContractGrant =
  cgContract :: bytes
  cgLimit :: ContractAuthzLimitX
  cgFilter :: ContractAuthzFilterX

record CodeGrant =
  grCodeHash :: bytes
  grInstantiatePermission :: "AccessConfig option"

datatype authorization =
    StoreCodeAuthorization "CodeGrant list"
  | ContractExecutionAuthorization "ContractGrant list"
  | ContractMigrationAuthorization "ContractGrant list"

record ContractAuthzLimitAcceptResult =
  Accepted :: bool
  DeleteLimit :: bool
  UpdateLimit :: "ContractAuthzLimitX option"

record AcceptResponse =
  Accept :: bool
  Delete :: bool
  Updated :: "authorization option"

record 'm authz_fns =
  azBasic :: basic_fns
  azMeter :: "'m meter_fns"
  azUnicode :: unicode_case
  azIsAllLTE :: "Coins \<Rightarrow> Coins \<Rightarrow> bool"
  azSub :: "Coins \<Rightarrow> Coins \<Rightarrow> Coins outcome"
  azIsZero :: "Coins \<Rightarrow> bool"
  azNewCoins :: "Coin list \<Rightarrow> Coins outcome"
  azGasRegister :: "WasmGasRegisterConfig option"
  azMulFloor :: "UFraction \<Rightarrow> u64 \<Rightarrow> u64"
  azGunzip :: "bytes \<Rightarrow> nat option \<Rightarrow> bytes outcome"
  azChecksum :: "bytes \<Rightarrow> bytes outcome"

abbreviation "ErrNotFoundSdk \<equiv> sdkErr 38"

subsection \<open>Uploading code\<close>

definition CodehashWildcard :: bytes where
  "CodehashWildcard = ''*''"

definition CodeGrant_ValidateBasic :: "'m authz_fns \<Rightarrow> CodeGrant \<Rightarrow> unit outcome" where
  "CodeGrant_ValidateBasic Z g =
    thenO (failIf (length (grCodeHash g) = 0) ErrEmpty)
      (case grInstantiatePermission g of
         None \<Rightarrow> Ok ()
       | Some a \<Rightarrow> AccessConfig_ValidateBasic (bFromBech32 (azBasic Z)) a)"

text \<open>A nil permission against a grant with a permission is a nil dereference.\<close>

definition CodeGrant_Accept :: "'m authz_fns \<Rightarrow> CodeGrant \<Rightarrow> bytes \<Rightarrow> AccessConfig option \<Rightarrow> bool outcome" where
  "CodeGrant_Accept Z g checksum permission =
    (if \<not> EqualFold (azUnicode Z) (grCodeHash g) CodehashWildcard \<and> \<not> EqualFold (azUnicode Z) (grCodeHash g) checksum
     then Ok False
     else case grInstantiatePermission g of
         None \<Rightarrow> Ok True
       | Some super \<Rightarrow> (case permission of
             None \<Rightarrow> Panic (OtherPanic ''nil pointer dereference'')
           | Some a \<Rightarrow> Ok (AccessConfig_IsSubset a super)))"

fun anyCodeGrant :: "'m authz_fns \<Rightarrow> bytes \<Rightarrow> AccessConfig option \<Rightarrow> CodeGrant list \<Rightarrow> bool outcome" where
  "anyCodeGrant Z checksum permission [] = Ok False"
| "anyCodeGrant Z checksum permission (g # gs) =
    withValue (CodeGrant_Accept Z g checksum permission) (\<lambda>ok.
      if ok then Ok True else anyCodeGrant Z checksum permission gs)"

definition accepted :: AcceptResponse where
  "accepted = \<lparr>Accept = True, Delete = False, Updated = None\<rparr>"

definition notAccepted :: AcceptResponse where
  "notAccepted = \<lparr>Accept = False, Delete = False, Updated = None\<rparr>"

definition StoreCodeAuthorization_Accept ::
  "'m authz_fns \<Rightarrow> CodeGrant list \<Rightarrow> wasm_msg \<Rightarrow> (('m, 'x) st, AcceptResponse) go" where
  "StoreCodeAuthorization_Accept Z gs msg =
    (case msg of
       WStoreCode storeMsg \<Rightarrow>
         bindM (if IsGzip (scWASMByteCode storeMsg) then
             (case azGasRegister Z of
                None \<Rightarrow> failM ErrNotFoundSdk
              | Some reg \<Rightarrow>
                  bindM (liftO (UncompressCosts (azMulFloor Z) reg (int (length (scWASMByteCode storeMsg))))) (\<lambda>cost.
                  thenM (consumeGas (azMeter Z) cost)
                  (wrapM (\<lambda>_. ErrInvalidRequest)
                    (liftO (Uncompress (azGunzip Z) (scWASMByteCode storeMsg) (Some MaxWasmSize))))))
           else retM (scWASMByteCode storeMsg)) (\<lambda>code.
         bindM (wrapM (\<lambda>_. ErrInvalidRequest) (liftO (azChecksum Z code))) (\<lambda>checksum.
         bindM (liftO (anyCodeGrant Z checksum (scInstantiatePermission storeMsg) gs)) (\<lambda>ok.
           retM (if ok then accepted else notAccepted))))
     | _ \<Rightarrow> failM ErrInvalidRequest)"

fun validateCodeGrants :: "'m authz_fns \<Rightarrow> CodeGrant list \<Rightarrow> unit outcome" where
  "validateCodeGrants Z [] = Ok ()"
| "validateCodeGrants Z (g # gs) =
    thenO (failIf (EqualFold (azUnicode Z) (grCodeHash g) CodehashWildcard) ErrInvalidRequest)
    (thenO (wrapO errWrap (CodeGrant_ValidateBasic Z g)) (validateCodeGrants Z gs))"

definition StoreCodeAuthorization_ValidateBasic :: "'m authz_fns \<Rightarrow> CodeGrant list \<Rightarrow> unit outcome" where
  "StoreCodeAuthorization_ValidateBasic Z gs =
    (case gs of
       [] \<Rightarrow> Err ErrEmpty
     | [g] \<Rightarrow> wrapO errWrap (CodeGrant_ValidateBasic Z g)
     | _ \<Rightarrow> thenO (validateCodeGrants Z gs)
         (failIf (card (set (map (\<lambda>g. ToLower (azUnicode Z) (grCodeHash g)) gs)) \<noteq> length gs) ErrInvalidRequest))"

subsection \<open>Messages under a contract grant\<close>

datatype authzable = AExecute MsgExecuteContract | AMigrate MsgMigrateContract

fun GetFunds :: "'m authz_fns \<Rightarrow> authzable \<Rightarrow> Coins outcome" where
  "GetFunds Z (AExecute m) = Ok (exFunds m)"
| "GetFunds Z (AMigrate m) = azNewCoins Z []"

fun GetMsg :: "authzable \<Rightarrow> bytes" where
  "GetMsg (AExecute m) = exMsgBytes m"
| "GetMsg (AMigrate m) = miMsg m"

fun GetContract :: "authzable \<Rightarrow> bytes" where
  "GetContract (AExecute m) = exContract m"
| "GetContract (AMigrate m) = miContract m"

fun authzable_ValidateBasic :: "basic_fns \<Rightarrow> authzable \<Rightarrow> unit outcome" where
  "authzable_ValidateBasic B (AExecute m) = MsgExecuteContract_ValidateBasic B m"
| "authzable_ValidateBasic B (AMigrate m) = MsgMigrateContract_ValidateBasic B m"

text \<open>The type assertion on the message: each kind of authorization takes one type.\<close>

fun asExecute :: "wasm_msg \<Rightarrow> authzable option" where
  "asExecute (WExecute m) = Some (AExecute m)"
| "asExecute _ = None"

fun asMigrate :: "wasm_msg \<Rightarrow> authzable option" where
  "asMigrate (WMigrate m) = Some (AMigrate m)"
| "asMigrate _ = None"

subsection \<open>Limits\<close>

definition limitResult :: "bool \<Rightarrow> bool \<Rightarrow> ContractAuthzLimitX option \<Rightarrow> ContractAuthzLimitAcceptResult" where
  "limitResult a d u = \<lparr>Accepted = a, DeleteLimit = d, UpdateLimit = u\<rparr>"

definition MaxCallsLimit_Accept :: "u64 \<Rightarrow> Coins \<Rightarrow> ContractAuthzLimitAcceptResult outcome" where
  "MaxCallsLimit_Accept n funds =
    (if funds \<noteq> [] then Ok (limitResult False False None)
     else if n = 0 then Err ErrUnauthorized
     else if n = 1 then Ok (limitResult True True None)
     else Ok (limitResult True False (Some (MaxCallsLimit (n - 1)))))"

definition MaxFundsLimit_Accept ::
  "'m authz_fns \<Rightarrow> Coins \<Rightarrow> Coins \<Rightarrow> ContractAuthzLimitAcceptResult outcome" where
  "MaxFundsLimit_Accept Z amounts funds =
    (if funds = [] then Ok (limitResult True False None)
     else if \<not> azIsAllLTE Z funds amounts then Ok (limitResult False False None)
     else withValue (azSub Z amounts funds) (\<lambda>newAmounts.
       if azIsZero Z newAmounts then Ok (limitResult True True None)
       else Ok (limitResult True False (Some (MaxFundsLimit newAmounts)))))"

definition CombinedLimit_Accept ::
  "'m authz_fns \<Rightarrow> u64 \<Rightarrow> Coins \<Rightarrow> Coins \<Rightarrow> ContractAuthzLimitAcceptResult outcome" where
  "CombinedLimit_Accept Z n amounts transferFunds =
    (if \<not> azIsAllLTE Z transferFunds amounts then Ok (limitResult False False None)
     else if n = 0 then Err ErrUnauthorized
     else if n = 1 then Ok (limitResult True True None)
     else withValue (azSub Z amounts transferFunds) (\<lambda>remainingAmounts.
       if azIsZero Z remainingAmounts then Ok (limitResult True True None)
       else withValue (azNewCoins Z remainingAmounts) (\<lambda>coins.
         Ok (limitResult True False (Some (CombinedLimit (n - 1) coins))))))"

fun limit_Accept ::
  "'m authz_fns \<Rightarrow> ContractAuthzLimitX \<Rightarrow> authzable \<Rightarrow> ContractAuthzLimitAcceptResult outcome" where
  "limit_Accept Z UndefinedLimit msg = Err ErrNotFoundSdk"
| "limit_Accept Z (MaxCallsLimit n) msg = withValue (GetFunds Z msg) (MaxCallsLimit_Accept n)"
| "limit_Accept Z (MaxFundsLimit a) msg = withValue (GetFunds Z msg) (MaxFundsLimit_Accept Z a)"
| "limit_Accept Z (CombinedLimit n a) msg = withValue (GetFunds Z msg) (CombinedLimit_Accept Z n a)"

fun limit_ValidateBasic :: "'m authz_fns \<Rightarrow> ContractAuthzLimitX \<Rightarrow> unit outcome" where
  "limit_ValidateBasic Z UndefinedLimit = Err ErrInvalidType"
| "limit_ValidateBasic Z (MaxCallsLimit n) = failIf (n = 0) ErrEmpty"
| "limit_ValidateBasic Z (MaxFundsLimit a) =
    thenO (bCoinsValidate (azBasic Z) a) (failIf (azIsZero Z a) ErrEmpty)"
| "limit_ValidateBasic Z (CombinedLimit n a) =
    thenO (failIf (n = 0) ErrEmpty)
    (thenO (failIf (azIsZero Z a) ErrEmpty) (wrapO errWrap (bCoinsValidate (azBasic Z) a)))"

subsection \<open>Filters\<close>

definition isJSONObjectWithTopLevelKey :: "bytes \<Rightarrow> bytes list \<Rightarrow> bool outcome" where
  "isJSONObjectWithTopLevelKey jsonBytes allowedKeys =
    thenO (RawContractMessage_ValidateBasic jsonBytes)
      (case unmarshalKeys jsonBytes of
         None \<Rightarrow> Ok False
       | Some [topLevelKey] \<Rightarrow> Ok (topLevelKey \<in> set allowedKeys)
       | Some _ \<Rightarrow> Ok False)"

fun filter_Accept :: "'m authz_fns \<Rightarrow> ContractAuthzFilterX \<Rightarrow> bytes \<Rightarrow> (('m, 'x) st, bool) go" where
  "filter_Accept Z UndefinedFilter msg = failM ErrNotFoundSdk"
| "filter_Accept Z AllowAllMessagesFilter msg = thenM (liftO (RawContractMessage_ValidateBasic msg)) (retM True)"
| "filter_Accept Z (AcceptedMessageKeysFilter keys) msg =
    thenM (consumeGas (azMeter Z) (of_nat (length msg)))
      (wrapM (\<lambda>_. ErrUnauthorized) (liftO (isJSONObjectWithTopLevelKey msg keys)))"
| "filter_Accept Z (AcceptedMessagesFilter msgs) msg = retM (list_ex (\<lambda>v. v = msg) msgs)"

fun validateKeys :: "bytes list \<Rightarrow> bytes list \<Rightarrow> unit outcome" where
  "validateKeys idx [] = Ok ()"
| "validateKeys idx (m # ms) =
    thenO (failIf (m = '''') ErrEmpty)
    (thenO (failIf (m \<noteq> TrimSpace m) ErrInvalid)
    (thenO (failIf (m \<in> set idx) ErrDuplicate) (validateKeys (m # idx) ms)))"

fun validateMessages :: "bytes list \<Rightarrow> bytes list \<Rightarrow> unit outcome" where
  "validateMessages idx [] = Ok ()"
| "validateMessages idx (m # ms) =
    thenO (failIf (length m = 0) ErrEmpty)
    (thenO (RawContractMessage_ValidateBasic m)
    (thenO (failIf (m \<in> set idx) ErrDuplicate) (validateMessages (m # idx) ms)))"

fun filter_ValidateBasic :: "ContractAuthzFilterX \<Rightarrow> unit outcome" where
  "filter_ValidateBasic UndefinedFilter = Err ErrInvalidType"
| "filter_ValidateBasic AllowAllMessagesFilter = Ok ()"
| "filter_ValidateBasic (AcceptedMessageKeysFilter keys) = thenO (failIf (keys = []) ErrEmpty) (validateKeys [] keys)"
| "filter_ValidateBasic (AcceptedMessagesFilter msgs) = thenO (failIf (msgs = []) ErrEmpty) (validateMessages [] msgs)"

subsection \<open>Accepting a message\<close>

definition ContractGrant_ValidateBasic :: "'m authz_fns \<Rightarrow> ContractGrant \<Rightarrow> unit outcome" where
  "ContractGrant_ValidateBasic Z g =
    thenO (wrapO errWrap (bFromBech32 (azBasic Z) (cgContract g)))
    (thenO (wrapO errWrap (limit_ValidateBasic Z (cgLimit g)))
      (wrapO errWrap (filter_ValidateBasic (cgFilter g))))"

fun validateEach :: "'m authz_fns \<Rightarrow> ContractGrant list \<Rightarrow> unit outcome" where
  "validateEach Z [] = Ok ()"
| "validateEach Z (g # gs) = thenO (wrapO errWrap (ContractGrant_ValidateBasic Z g)) (validateEach Z gs)"

definition validateGrants :: "'m authz_fns \<Rightarrow> ContractGrant list \<Rightarrow> unit outcome" where
  "validateGrants Z gs = thenO (failIf (gs = []) ErrEmpty) (validateEach Z gs)"

definition WithNewLimits :: "ContractGrant \<Rightarrow> ContractAuthzLimitX \<Rightarrow> ContractGrant" where
  "WithNewLimits g limit = g\<lparr>cgLimit := limit\<rparr>"

definition withNewAuthz ::
  "'m authz_fns \<Rightarrow> (ContractGrant list \<Rightarrow> authorization) \<Rightarrow> ContractGrant list \<Rightarrow> (('m, 'x) st, AcceptResponse) go" where
  "withNewAuthz Z NewAuthz gs =
    thenM (wrapM (\<lambda>_. ErrInvalid) (liftO (validateGrants Z gs)))
      (retM \<lparr>Accept = True, Delete = False, Updated = Some (NewAuthz gs)\<rparr>)"

text \<open>The loop over the grants; \<open>before\<close> are the grants already passed.\<close>

fun acceptLoop ::
  "'m authz_fns \<Rightarrow> (ContractGrant list \<Rightarrow> authorization) \<Rightarrow> authzable \<Rightarrow> ContractGrant list \<Rightarrow> ContractGrant list
    \<Rightarrow> (('m, 'x) st, AcceptResponse) go" where
  "acceptLoop Z NewAuthz exec before [] = retM notAccepted"
| "acceptLoop Z NewAuthz exec before (g # after) =
    (if cgContract g \<noteq> GetContract exec then acceptLoop Z NewAuthz exec (before @ [g]) after
     else bindM (wrapM errWrap (liftO (limit_Accept Z (cgLimit g) exec))) (\<lambda>result.
      if \<not> Accepted result then acceptLoop Z NewAuthz exec (before @ [g]) after
      else bindM (wrapM errWrap (filter_Accept Z (cgFilter g) (GetMsg exec))) (\<lambda>ok.
       if \<not> ok then acceptLoop Z NewAuthz exec (before @ [g]) after
       else if DeleteLimit result then
         (if before @ after = [] then retM \<lparr>Accept = True, Delete = True, Updated = None\<rparr>
          else withNewAuthz Z NewAuthz (before @ after))
       else (case UpdateLimit result of
           Some limit \<Rightarrow> withNewAuthz Z NewAuthz (before @ WithNewLimits g limit # after)
         | None \<Rightarrow> retM accepted))))"

definition AcceptGrantedMessage ::
  "'m authz_fns \<Rightarrow> (ContractGrant list \<Rightarrow> authorization) \<Rightarrow> ContractGrant list \<Rightarrow> authzable option
    \<Rightarrow> (('m, 'x) st, AcceptResponse) go" where
  "AcceptGrantedMessage Z NewAuthz gs msg =
    (case msg of
       None \<Rightarrow> failM ErrInvalidType
     | Some exec \<Rightarrow>
         thenM (guardM (GetMsg exec \<noteq> []) ErrInvalidType)
         (thenM (liftO (authzable_ValidateBasic (azBasic Z) exec))
           (acceptLoop Z NewAuthz exec [] gs)))"

fun authorization_Accept :: "'m authz_fns \<Rightarrow> authorization \<Rightarrow> wasm_msg \<Rightarrow> (('m, 'x) st, AcceptResponse) go" where
  "authorization_Accept Z (StoreCodeAuthorization gs) msg = StoreCodeAuthorization_Accept Z gs msg"
| "authorization_Accept Z (ContractExecutionAuthorization gs) msg =
    AcceptGrantedMessage Z ContractExecutionAuthorization gs (asExecute msg)"
| "authorization_Accept Z (ContractMigrationAuthorization gs) msg =
    AcceptGrantedMessage Z ContractMigrationAuthorization gs (asMigrate msg)"

fun authorization_ValidateBasic :: "'m authz_fns \<Rightarrow> authorization \<Rightarrow> unit outcome" where
  "authorization_ValidateBasic Z (StoreCodeAuthorization gs) = StoreCodeAuthorization_ValidateBasic Z gs"
| "authorization_ValidateBasic Z (ContractExecutionAuthorization gs) = validateGrants Z gs"
| "authorization_ValidateBasic Z (ContractMigrationAuthorization gs) = validateGrants Z gs"

subsection \<open>Budgets\<close>

text \<open>What a limit still allows: coins of each denomination, and calls.\<close>

definition amountOf :: "Coins \<Rightarrow> bytes \<Rightarrow> int" where
  "amountOf cs d = sum_list (map Amount (filter (\<lambda>c. Denom c = d) cs))"

fun fundsLeft :: "ContractAuthzLimitX \<Rightarrow> bytes \<Rightarrow> int" where
  "fundsLeft (MaxFundsLimit a) d = amountOf a d"
| "fundsLeft (CombinedLimit n a) d = amountOf a d"
| "fundsLeft _ d = 0"

fun callsLeft :: "ContractAuthzLimitX \<Rightarrow> enat" where
  "callsLeft UndefinedLimit = 0"
| "callsLeft (MaxCallsLimit n) = enat (unat n)"
| "callsLeft (MaxFundsLimit a) = \<infinity>"
| "callsLeft (CombinedLimit n a) = enat (unat n)"

definition fundsOf :: "'m authz_fns \<Rightarrow> authzable \<Rightarrow> bytes \<Rightarrow> int" where
  "fundsOf Z m d = (case GetFunds Z m of Ok cs \<Rightarrow> amountOf cs d | _ \<Rightarrow> 0)"

definition fundsBudget :: "bytes \<Rightarrow> bytes \<Rightarrow> ContractGrant list \<Rightarrow> int" where
  "fundsBudget c d gs = sum_list (map (\<lambda>g. if cgContract g = c then fundsLeft (cgLimit g) d else 0) gs)"

definition callsBudget :: "bytes \<Rightarrow> ContractGrant list \<Rightarrow> enat" where
  "callsBudget c gs = sum_list (map (\<lambda>g. if cgContract g = c then callsLeft (cgLimit g) else 0) gs)"

definition fundsUsed :: "'m authz_fns \<Rightarrow> bytes \<Rightarrow> bytes \<Rightarrow> authzable list \<Rightarrow> int" where
  "fundsUsed Z c d ms = sum_list (map (\<lambda>m. if GetContract m = c then fundsOf Z m d else 0) ms)"

definition callsUsed :: "bytes \<Rightarrow> authzable list \<Rightarrow> nat" where
  "callsUsed c ms = length (filter (\<lambda>m. GetContract m = c) ms)"

text \<open>What the code relies on in the coin functions of the SDK.\<close>

definition coin_laws :: "'m authz_fns \<Rightarrow> bool" where
  "coin_laws Z \<longleftrightarrow>
    (\<forall>a b d. azIsAllLTE Z a b \<longrightarrow> (\<forall>e. 0 \<le> amountOf b e) \<longrightarrow> amountOf a d \<le> amountOf b d) \<and>
    (\<forall>a b c d. azSub Z a b = Ok c \<longrightarrow> amountOf c d = amountOf a d - amountOf b d) \<and>
    (\<forall>cs c d. azNewCoins Z cs = Ok c \<longrightarrow> amountOf c d = amountOf cs d) \<and>
    (\<forall>a d. bCoinsValidate (azBasic Z) a = Ok () \<longrightarrow> 0 \<le> amountOf a d)"

text \<open>The state x/authz keeps: an accepted message leaves the authorization as it is, updates it or
  deletes it; a rejected one changes nothing.  The list holds the accepted messages; between them the chain may
  do anything (\<open>run_other\<close>).\<close>

definition nextAuthz :: "authorization \<Rightarrow> AcceptResponse \<Rightarrow> authorization option" where
  "nextAuthz a r = (if Delete r then None else case Updated r of None \<Rightarrow> Some a | Some b \<Rightarrow> Some b)"

inductive authz_run ::
  "'m authz_fns \<Rightarrow> authorization \<Rightarrow> wasm_msg list \<Rightarrow> ('m, 'x) st \<Rightarrow> authorization option \<Rightarrow> bool" for Z a where
  run_start: "authz_run Z a [] s (Some a)"
| run_other: "authz_run Z a ms s b \<Longrightarrow> authz_run Z a ms t b"
| run_accept: "authz_run Z a ms s (Some b) \<Longrightarrow> authorization_Accept Z b msg s = (Ok r, t) \<Longrightarrow> Accept r \<Longrightarrow>
    authz_run Z a (ms @ [msg]) t (nextAuthz b r)"

definition limit_nonneg :: "ContractAuthzLimitX \<Rightarrow> bool" where
  "limit_nonneg L \<longleftrightarrow> (\<forall>d. 0 \<le> fundsLeft L d)"

lemma amountOf_Nil [simp]: "amountOf [] d = 0"
  by (simp add: amountOf_def)

lemma unat_pred: "n \<noteq> 0 \<Longrightarrow> Suc (unat (n - 1)) = unat (n :: u64)"
  by (simp add: unat_minus_one unat_gt_0)

lemma unat_one_le: "n \<noteq> 0 \<Longrightarrow> Suc 0 \<le> unat (n :: u64)"
  by (simp add: Suc_le_eq unat_gt_0)

text \<open>An accepted message fits the limit, and what remains of the limit is at most the rest.\<close>

lemma limit_spent:
  assumes laws: "coin_laws Z" and pos: "limit_nonneg L" and run: "limit_Accept Z L m = Ok res" and acc: "Accepted res"
  shows "fundsOf Z m d \<le> fundsLeft L d" and "1 \<le> callsLeft L"
    and "\<not> DeleteLimit res \<Longrightarrow> UpdateLimit res = Some L' \<Longrightarrow>
      fundsOf Z m d + fundsLeft L' d \<le> fundsLeft L d \<and> 1 + callsLeft L' \<le> callsLeft L \<and> limit_nonneg L'"
    and "\<not> DeleteLimit res \<Longrightarrow> UpdateLimit res = None \<Longrightarrow> fundsOf Z m d = 0 \<and> callsLeft L = \<infinity>"
proof -
  have lte: "amountOf f d \<le> amountOf a d" if "azIsAllLTE Z f a" "\<forall>e. 0 \<le> amountOf a e" for f a d
    using laws that unfolding coin_laws_def by blast
  have sub: "amountOf x d = amountOf a d - amountOf f d" if "azSub Z a f = Ok x" for a f x d
    using laws that unfolding coin_laws_def by blast
  have new: "amountOf x d = amountOf cs d" if "azNewCoins Z cs = Ok x" for cs x d
    using laws that unfolding coin_laws_def by blast
  show "fundsOf Z m d \<le> fundsLeft L d" and "1 \<le> callsLeft L"
    using run acc pos lte
    by (cases L; auto simp: withValue_Ok_iff fundsOf_def limit_nonneg_def MaxCallsLimit_Accept_def
        MaxFundsLimit_Accept_def CombinedLimit_Accept_def limitResult_def one_enat_def unat_one_le split: if_splits)+
  show "fundsOf Z m d + fundsLeft L' d \<le> fundsLeft L d \<and> 1 + callsLeft L' \<le> callsLeft L \<and> limit_nonneg L'"
    if "\<not> DeleteLimit res" "UpdateLimit res = Some L'"
    using run acc pos that lte sub new
    by (cases L; auto simp: withValue_Ok_iff fundsOf_def limit_nonneg_def MaxCallsLimit_Accept_def
        MaxFundsLimit_Accept_def CombinedLimit_Accept_def limitResult_def one_enat_def unat_pred split: if_splits)
  show "fundsOf Z m d = 0 \<and> callsLeft L = \<infinity>" if "\<not> DeleteLimit res" "UpdateLimit res = None"
    using run acc that
    by (cases L; auto simp: withValue_Ok_iff fundsOf_def MaxCallsLimit_Accept_def
        MaxFundsLimit_Accept_def CombinedLimit_Accept_def limitResult_def split: if_splits)
qed

subsection \<open>One accepted message\<close>

fun grantsOf :: "authorization option \<Rightarrow> ContractGrant list" where
  "grantsOf (Some (ContractExecutionAuthorization gs)) = gs"
| "grantsOf (Some (ContractMigrationAuthorization gs)) = gs"
| "grantsOf _ = []"

lemma withNewAuthz_Ok [simp]:
  "withNewAuthz Z N gs s = (Ok r, t) \<longleftrightarrow>
    validateGrants Z gs = Ok () \<and> t = s \<and> r = \<lparr>Accept = True, Delete = False, Updated = Some (N gs)\<rparr>"
  by (auto simp: withNewAuthz_def go_Ok_iff)

text \<open>The grant that applied, with the grants around it, and the grants left.\<close>

definition spends ::
  "'m authz_fns \<Rightarrow> (ContractGrant list \<Rightarrow> authorization) \<Rightarrow> authzable \<Rightarrow> ContractGrant list \<Rightarrow> AcceptResponse \<Rightarrow> bool" where
  "spends Z N m gs r \<longleftrightarrow> (\<exists>pre g post res. gs = pre @ g # post \<and> cgContract g = GetContract m \<and>
     limit_Accept Z (cgLimit g) m = Ok res \<and> Accepted res \<and>
     (if DeleteLimit res then (if pre @ post = [] then Delete r else \<not> Delete r \<and> Updated r = Some (N (pre @ post)))
      else \<not> Delete r \<and> (case UpdateLimit res of
          Some L \<Rightarrow> Updated r = Some (N (pre @ WithNewLimits g L # post))
        | None \<Rightarrow> Updated r = None)))"

lemma acceptLoop_spends:
  assumes "acceptLoop Z N m before gs s = (Ok r, t)" and "Accept r"
  shows "spends Z N m (before @ gs) r"
  using assms(1)
proof (induction gs arbitrary: before s)
  case Nil
  then show ?case using assms(2) by (auto simp: notAccepted_def)
next
  case (Cons g gs)
  have skip: "spends Z N m (before @ g # gs) r" if "acceptLoop Z N m (before @ [g]) gs s' = (Ok r, t)" for s'
    using Cons.IH [OF that] by simp
  show ?case
  proof (cases "cgContract g = GetContract m")
    case True
    then obtain res where res: "limit_Accept Z (cgLimit g) m = Ok res"
      using Cons.prems by (auto simp: go_Ok_iff)
    consider (skipped) s' where "acceptLoop Z N m (before @ [g]) gs s' = (Ok r, t)"
      | (used) "Accepted res" "if DeleteLimit res then (if before @ gs = [] then Delete r
            else \<not> Delete r \<and> Updated r = Some (N (before @ gs)))
          else \<not> Delete r \<and> (case UpdateLimit res of
              Some L \<Rightarrow> Updated r = Some (N (before @ WithNewLimits g L # gs)) | None \<Rightarrow> Updated r = None)"
      using Cons.prems True res
      by (auto simp: go_Ok_iff accepted_def split: if_splits option.splits)
    then show ?thesis
    proof cases
      case skipped
      then show ?thesis by (rule skip)
    next
      case used
      then show ?thesis using True res unfolding spends_def by blast
    qed
  next
    case False
    then show ?thesis using Cons.prems skip by simp
  qed
qed

lemma budget_append [simp]:
  "fundsBudget c d (xs @ ys) = fundsBudget c d xs + fundsBudget c d ys"
  "callsBudget c (xs @ ys) = callsBudget c xs + callsBudget c ys"
  "fundsBudget c d (g # ys) = (if cgContract g = c then fundsLeft (cgLimit g) d else 0) + fundsBudget c d ys"
  "callsBudget c (g # ys) = (if cgContract g = c then callsLeft (cgLimit g) else 0) + callsBudget c ys"
  "fundsBudget c d [] = 0" "callsBudget c [] = 0"
  by (simp_all add: fundsBudget_def callsBudget_def)

lemma enat_shift: "(1 :: enat) + x \<le> y \<Longrightarrow> 1 + (p + (x + q)) \<le> p + (y + q)"
  by (metis add.assoc add.left_commute add_left_mono add_right_mono)

abbreviation all_nonneg :: "ContractGrant list \<Rightarrow> bool" where
  "all_nonneg gs \<equiv> \<forall>g \<in> set gs. limit_nonneg (cgLimit g)"

lemma accept_spends:
  assumes laws: "coin_laws Z" and pos: "all_nonneg gs" and N: "\<And>xs. grantsOf (Some (N xs)) = xs"
    and run: "acceptLoop Z N m [] gs s = (Ok r, t)" "Accept r"
  shows "(if GetContract m = c then fundsOf Z m d else 0) + fundsBudget c d (grantsOf (nextAuthz (N gs) r)) \<le> fundsBudget c d gs \<and>
    (if GetContract m = c then 1 else 0) + callsBudget c (grantsOf (nextAuthz (N gs) r)) \<le> callsBudget c gs \<and>
    all_nonneg (grantsOf (nextAuthz (N gs) r))"
proof -
  obtain pre g post res where gs: "gs = pre @ g # post" and g: "cgContract g = GetContract m"
    and lim: "limit_Accept Z (cgLimit g) m = Ok res" "Accepted res"
    and out: "if DeleteLimit res then (if pre @ post = [] then Delete r else \<not> Delete r \<and> Updated r = Some (N (pre @ post)))
      else \<not> Delete r \<and> (case UpdateLimit res of
          Some L \<Rightarrow> Updated r = Some (N (pre @ WithNewLimits g L # post)) | None \<Rightarrow> Updated r = None)"
    using acceptLoop_spends [OF run] unfolding spends_def append_Nil by blast
  have gpos: "limit_nonneg (cgLimit g)" using pos gs by simp
  note spent = limit_spent [OF laws gpos lim]
  consider (gone) "grantsOf (nextAuthz (N gs) r) = pre @ post"
    | (less) L where "\<not> DeleteLimit res" "UpdateLimit res = Some L"
        "grantsOf (nextAuthz (N gs) r) = pre @ WithNewLimits g L # post"
    | (same) "\<not> DeleteLimit res" "UpdateLimit res = None" "grantsOf (nextAuthz (N gs) r) = gs"
    using out N by (auto simp: nextAuthz_def split: if_splits option.splits)
  then show ?thesis
  proof cases
    case gone
    have "(if GetContract m = c then 1 else 0) + callsBudget c (pre @ post) \<le> callsBudget c gs"
      using enat_shift [of 0] spent(2) g by (simp add: gs)
    then show ?thesis using gone spent(1) [of d] gpos g pos by (simp add: gs limit_nonneg_def)
  next
    case less
    have "(if GetContract m = c then 1 else 0) + callsBudget c (pre @ WithNewLimits g L # post) \<le> callsBudget c gs"
      using enat_shift spent(3) [OF less(1,2)] g by (simp add: gs WithNewLimits_def)
    then show ?thesis using less(3) spent(3) [OF less(1,2), of d] g pos by (simp add: gs WithNewLimits_def)
  next
    case same
    then show ?thesis using spent(4) [OF same(1,2), of d] g pos by (simp add: gs)
  qed
qed

subsection \<open>Sequences of messages\<close>

text \<open>The message as the authorization sees it.\<close>

fun viewed :: "wasm_msg \<Rightarrow> authzable list" where
  "viewed (WExecute m) = [AExecute m]"
| "viewed (WMigrate m) = [AMigrate m]"
| "viewed _ = []"

definition seen :: "wasm_msg list \<Rightarrow> authzable list" where
  "seen ms = concat (map viewed ms)"

fun contractAuthz :: "authorization \<Rightarrow> bool" where
  "contractAuthz (StoreCodeAuthorization gs) = False"
| "contractAuthz _ = True"

lemma validateEach_nonneg: "coin_laws Z \<Longrightarrow> validateEach Z gs = Ok () \<Longrightarrow> all_nonneg gs"
proof (induction gs)
  case (Cons g gs)
  have "limit_ValidateBasic Z (cgLimit g) = Ok ()" using Cons.prems(2) by (auto simp: ContractGrant_ValidateBasic_def)
  then have "limit_nonneg (cgLimit g)"
    using Cons.prems(1) by (cases "cgLimit g") (auto simp: limit_nonneg_def coin_laws_def)
  then show ?case using Cons by simp
qed simp

lemma used_append [simp]:
  "fundsUsed Z c d (xs @ ys) = fundsUsed Z c d xs + fundsUsed Z c d ys" "callsUsed c (xs @ ys) = callsUsed c xs + callsUsed c ys"
  "seen (as @ bs) = seen as @ seen bs"
  by (simp_all add: fundsUsed_def callsUsed_def seen_def)

lemma accept_step:
  assumes laws: "coin_laws Z" and kind: "contractAuthz b" and pos: "all_nonneg (grantsOf (Some b))"
    and run: "authorization_Accept Z b msg s = (Ok r, t)" "Accept r"
  shows "fundsUsed Z c d (viewed msg) + fundsBudget c d (grantsOf (nextAuthz b r)) \<le> fundsBudget c d (grantsOf (Some b))"
    and "enat (callsUsed c (viewed msg)) + callsBudget c (grantsOf (nextAuthz b r)) \<le> callsBudget c (grantsOf (Some b))"
    and "all_nonneg (grantsOf (nextAuthz b r))" and "nextAuthz b r = Some b' \<Longrightarrow> contractAuthz b'"
    and "length (viewed msg) = 1"
proof -
  obtain N m gs s' where N: "b = N gs" "\<And>xs. grantsOf (Some (N xs)) = xs" "\<And>xs. contractAuthz (N xs)"
    and m: "viewed msg = [m]" and loop: "acceptLoop Z N m [] gs s' = (Ok r, t)"
  proof (cases b)
    case (ContractExecutionAuthorization gs)
    then show ?thesis using run that [of ContractExecutionAuthorization gs]
      by (cases msg) (auto simp: AcceptGrantedMessage_def go_Ok_iff)
  next
    case (ContractMigrationAuthorization gs)
    then show ?thesis using run that [of ContractMigrationAuthorization gs]
      by (cases msg) (auto simp: AcceptGrantedMessage_def go_Ok_iff)
  qed (use kind in simp)
  note spends = accept_spends [OF laws _ N(2) loop run(2)]
  show "fundsUsed Z c d (viewed msg) + fundsBudget c d (grantsOf (nextAuthz b r)) \<le> fundsBudget c d (grantsOf (Some b))"
    using spends [of c d] pos by (simp add: m N(1) N(2) fundsUsed_def)
  show "enat (callsUsed c (viewed msg)) + callsBudget c (grantsOf (nextAuthz b r)) \<le> callsBudget c (grantsOf (Some b))"
    using spends [of c d] pos by (auto simp: m N(1) N(2) callsUsed_def one_enat_def zero_enat_def split: if_splits)
  show "all_nonneg (grantsOf (nextAuthz b r))" using spends pos by (simp add: N(1) N(2))
  show "length (viewed msg) = 1" by (simp add: m)
  show "contractAuthz b'" if "nextAuthz b r = Some b'"
    using that acceptLoop_spends [OF loop run(2)] N(1,3)
    by (auto simp: spends_def nextAuthz_def split: if_splits option.splits)
qed

lemma run_within_budget:
  assumes laws: "coin_laws Z" and kind: "contractAuthz a" and pos: "all_nonneg (grantsOf (Some a))"
    and run: "authz_run Z a ms s b"
  shows "fundsUsed Z c d (seen ms) + fundsBudget c d (grantsOf b) \<le> fundsBudget c d (grantsOf (Some a)) \<and>
    enat (callsUsed c (seen ms)) + callsBudget c (grantsOf b) \<le> callsBudget c (grantsOf (Some a)) \<and>
    all_nonneg (grantsOf b) \<and> (\<forall>b'. b = Some b' \<longrightarrow> contractAuthz b') \<and> length (seen ms) = length ms"
  using run
proof (induction rule: authz_run.induct)
  case run_start
  then show ?case using kind pos by (simp add: fundsUsed_def callsUsed_def seen_def zero_enat_def)
next
  case (run_other ms s b t)
  then show ?case by blast
next
  case (run_accept ms s b msg r t)
  have kind': "contractAuthz b" and pos': "all_nonneg (grantsOf (Some b))" using run_accept.IH by simp_all
  note step = accept_step [OF laws kind' pos' run_accept.hyps(2,3)]
  have "enat (callsUsed c (seen ms) + callsUsed c (viewed msg)) + callsBudget c (grantsOf (nextAuthz b r)) =
      enat (callsUsed c (seen ms)) + (enat (callsUsed c (viewed msg)) + callsBudget c (grantsOf (nextAuthz b r)))"
    by (simp add: add.assoc flip: plus_enat_simps(1))
  also have "\<dots> \<le> enat (callsUsed c (seen ms)) + callsBudget c (grantsOf (Some b))"
    by (intro add_left_mono step(2))
  also have "\<dots> \<le> callsBudget c (grantsOf (Some a))" using run_accept.IH by blast
  finally have "enat (callsUsed c (seen ms) + callsUsed c (viewed msg)) + callsBudget c (grantsOf (nextAuthz b r)) \<le>
      callsBudget c (grantsOf (Some a))" .
  moreover have "fundsUsed Z c d (seen ms) + fundsUsed Z c d (viewed msg) + fundsBudget c d (grantsOf (nextAuthz b r)) \<le>
      fundsBudget c d (grantsOf (Some a))"
    using step(1) [of c d] run_accept.IH by linarith
  moreover have "seen (ms @ [msg]) = seen ms @ viewed msg" by (simp add: seen_def)
  moreover have "length (seen ms) = length ms" using run_accept.IH by blast
  ultimately show ?case using step(3,4,5) by simp
qed

lemma budget_nonneg: "all_nonneg gs \<Longrightarrow> 0 \<le> fundsBudget c d gs"
  by (induction gs) (auto simp: limit_nonneg_def)

subsection \<open>Code hashes under case folding\<close>

text \<open>Code hashes are raw bytes, but they are compared as text under case folding.  Bytes that are no
  UTF-8 all decode to the error rune, so a grant for one hash also matches others.\<close>

lemma runesOf_stray: "128 \<le> byte c \<Longrightarrow> byte c < 194 \<Longrightarrow> runesOf (replicate n c) = replicate n RuneError"
  by (induction n) auto

lemma code_grant_matches_other_hash:
  "CodeGrant_Accept Z \<lparr>grCodeHash = replicate 32 (CHR 0x80), grInstantiatePermission = None\<rparr> (replicate 32 (CHR 0x81)) p = Ok True"
proof -
  have "EqualFold (azUnicode Z) (replicate 32 (CHR 0x80)) (replicate 32 (CHR 0x81))"
    unfolding EqualFold_def by (subst (1 2) runesOf_stray) (auto simp: byte_def list_all2_conv_all_nth foldRune_def)
  then show ?thesis by (simp add: CodeGrant_Accept_def)
qed

subsection \<open>Properties\<close>


definition exAuthzFns :: "(u64 \<times> u64) authz_fns" where
  "exAuthzFns = \<lparr>azBasic = exBasic\<lparr>bCoinsValidate := \<lambda>cs. if list_all (\<lambda>c. 0 \<le> Amount c) cs then Ok () else Err ErrInvalidCoins\<rparr>,
     azMeter = exMeter,
     azUnicode = \<lparr>sameFold = (\<lambda>a b. False), lowerRune = id\<rparr>,
     azIsAllLTE = (\<lambda>a b. list_all (\<lambda>x. amountOf a (Denom x) \<le> amountOf b (Denom x)) (a @ b)),
     azSub = (\<lambda>a b. let c = map (\<lambda>x. x\<lparr>Amount := Amount x - amountOf b (Denom x)\<rparr>) a in
       if list_all (\<lambda>x. amountOf c (Denom x) = amountOf a (Denom x) - amountOf b (Denom x)) (a @ b) then Ok c
       else Panic (OtherPanic ''negative coin amount'')),
     azIsZero = (\<lambda>a. list_all (\<lambda>x. amountOf a (Denom x) = 0) a), azNewCoins = Ok,
     azGasRegister = None, azMulFloor = (\<lambda>_ n. n), azGunzip = (\<lambda>_ _. Err errLimit), azChecksum = Ok\<rparr>"

definition exCall :: MsgExecuteContract where
  "exCall = \<lparr>exSender = ''alice'', exContract = ''game'', exMsgBytes = ''{}'', exFunds = [\<lparr>Denom = ''orai'', Amount = 3\<rparr>]\<rparr>"

definition exAuthz :: authorization where
  "exAuthz = ContractExecutionAuthorization [\<lparr>cgContract = ''game'', cgLimit = CombinedLimit 2 [\<lparr>Denom = ''orai'', Amount = 5\<rparr>],
     cgFilter = AllowAllMessagesFilter\<rparr>]"

lemma amountOf_absent: "\<forall>x \<in> set a. Denom x \<noteq> d \<Longrightarrow> amountOf a d = 0"
  by (simp add: amountOf_def filter_empty_conv [THEN iffD2])

lemma amountOf_pos: "list_all (\<lambda>c. 0 \<le> Amount c) a \<Longrightarrow> 0 \<le> amountOf a d"
  by (induction a) (auto simp: amountOf_def)

lemma amountOf_cases: "(\<exists>x \<in> set (a @ b). Denom x = d) \<or> amountOf a d = 0 \<and> amountOf b d = 0"
  using amountOf_absent [of a d] amountOf_absent [of b d] by auto

lemma exAuthz_laws: "coin_laws exAuthzFns"
proof -
  have lte: "amountOf a d \<le> amountOf b d" if "list_all (\<lambda>x. amountOf a (Denom x) \<le> amountOf b (Denom x)) (a @ b)" for a b d
    using that amountOf_cases [of a b d] unfolding list_all_iff by auto
  have sub: "amountOf (map (\<lambda>x. x\<lparr>Amount := Amount x - amountOf b (Denom x)\<rparr>) a) d = amountOf a d - amountOf b d"
    if "list_all (\<lambda>x. amountOf (map (\<lambda>x. x\<lparr>Amount := Amount x - amountOf b (Denom x)\<rparr>) a) (Denom x) =
      amountOf a (Denom x) - amountOf b (Denom x)) (a @ b)" for a b d
  proof (cases "\<exists>x \<in> set (a @ b). Denom x = d")
    case False
    then show ?thesis by (simp add: amountOf_absent)
  qed (use that in \<open>auto simp: list_all_iff\<close>)
  show ?thesis
    unfolding coin_laws_def
  proof (intro conjI allI impI)
    show "amountOf a d \<le> amountOf b d" if "azIsAllLTE exAuthzFns a b" for a b d
      using that by (intro lte) (simp add: exAuthzFns_def)
    show "amountOf c d = amountOf a d - amountOf b d" if "azSub exAuthzFns a b = Ok c" for a b c d
      using that sub [of b a d] by (auto simp: exAuthzFns_def Let_def simp del: list_all_append split: if_splits)
    show "amountOf c d = amountOf cs d" if "azNewCoins exAuthzFns cs = Ok c" for cs c d
      using that by (simp add: exAuthzFns_def)
    show "0 \<le> amountOf a d" if "bCoinsValidate (azBasic exAuthzFns) a = Ok ()" for a d
      using that by (intro amountOf_pos) (simp add: exAuthzFns_def split: if_splits)
  qed
qed

lemma exAuthz_accepts:
  "fst (authorization_Accept exAuthzFns exAuthz (WExecute exCall) (exSt [])) =
    Ok \<lparr>Accept = True, Delete = False, Updated = Some (ContractExecutionAuthorization
       [\<lparr>cgContract = ''game'', cgLimit = CombinedLimit 1 [\<lparr>Denom = ''orai'', Amount = 2\<rparr>],
         cgFilter = AllowAllMessagesFilter\<rparr>])\<rparr>"
  by code_simp


end
