(* ===== verification/Ante.thy ===== *)
theory Ante
  imports KeeperExample
begin

section \<open>Ante handlers\<close>

text \<open>
  The decorators of x/wasm that run before the messages of a transaction (src/x/wasm/keeper/ante.go with
  the context values of src/x/wasm/types/context.go) and the ante handler of the application that chains
  them (src/app/ante.go).  A decorator gets the context, the transaction, the simulation flag and the rest
  of the chain.  The decorators of other modules, the SDK function that chains decorators and the handlers
  of the EVM module are parameters of \<open>ante_options\<close>; \<open>chain_law\<close> and \<open>passes\<close> say what is documented of
  them: a chain calls its members from left to right, and a foreign decorator that lets a transaction
  pass calls the rest of the chain without touching the transaction counter.

  The gas meter and the loaded contracts belong to the state \<open>st\<close>, so a context with another meter is a state
  with another meter.  The two context values that only ante handlers set are fields of \<open>tx_ctx\<close>.
\<close>

record tx_ctx = ctx +
  ctxGasRegister :: "WasmGasRegisterConfig option"
  ctxConsensusMaxGas :: "int option"

type_synonym ('m, 'x, 'tx) ante_handler = "tx_ctx \<Rightarrow> 'tx \<Rightarrow> bool \<Rightarrow> (('m, 'x) st, tx_ctx) go"

type_synonym ('m, 'x, 'tx) ante_decorator =
  "tx_ctx \<Rightarrow> 'tx \<Rightarrow> bool \<Rightarrow> ('m, 'x, 'tx) ante_handler \<Rightarrow> (('m, 'x) st, tx_ctx) go"

subsection \<open>The transaction counter\<close>

definition WithTXCounter :: "tx_ctx \<Rightarrow> u32 \<Rightarrow> tx_ctx" where
  "WithTXCounter c counter = c\<lparr>ctxTXCounter := Some counter\<rparr>"

definition encodeHeightCounter :: "int \<Rightarrow> u32 \<Rightarrow> bytes" where
  "encodeHeightCounter height counter = Uint64ToBigEndian (word_of_int height) @ PutUint32 counter"

definition decodeHeightCounter :: "bytes \<Rightarrow> (int \<times> u32) outcome" where
  "decodeHeightCounter bz =
    (if length bz < 8 then Panic (OtherPanic ''slice bounds out of range'')
     else if length bz < 12 then Panic (OtherPanic ''index out of range'')
     else Ok (sint (BigEndianToUint64 (take 8 bz)), BigEndianUint32 (drop 8 bz)))"

definition CountTX_AnteHandle :: "('m, 'x, 'tx) ante_decorator" where
  "CountTX_AnteHandle c tx simulate next =
    (if simulate then next c tx simulate
     else bindM (storeGet TXCounterPrefix) (\<lambda>v.
       bindM (case v of
           None \<Rightarrow> retM 0
         | Some x \<Rightarrow> bindM (liftO (asBytes x)) (\<lambda>bz.
             bindM (liftO (decodeHeightCounter bz)) (\<lambda>(lastHeight, val).
             retM (if ctxBlockHeight c = lastHeight then val else 0)))) (\<lambda>txCounter.
       thenM (storeSet TXCounterPrefix (SBytes (encodeHeightCounter (ctxBlockHeight c) (txCounter + 1))))
         (next (WithTXCounter c txCounter) tx simulate))))"

subsection \<open>The other decorators\<close>

definition NewLimitSimulationGasDecorator :: "u64 option \<Rightarrow> u64 option outcome" where
  "NewLimitSimulationGasDecorator gasLimit =
    (if gasLimit = Some 0 then Panic (OtherPanic ''gas limit must not be zero'') else Ok gasLimit)"

definition setMeterM :: "'m \<Rightarrow> (('m, 'x) st, unit) go" where
  "setMeterM m = modifyM (\<lambda>s. s\<lparr>meter := m\<rparr>)"

definition LimitSimulationGas_AnteHandle ::
  "'m meter_fns \<Rightarrow> u64 option \<Rightarrow> ('m, 'x, 'tx) ante_decorator" where
  "LimitSimulationGas_AnteHandle M gasLimit c tx simulate next =
    (if \<not> simulate then next c tx simulate
     else case gasLimit of
       Some l \<Rightarrow> thenM (setMeterM (NewGasMeter M l)) (next c tx simulate)
     | None \<Rightarrow> (case ctxConsensusMaxGas c of
         None \<Rightarrow> panicM (OtherPanic ''nil pointer dereference'')
       | Some maxGas \<Rightarrow>
           if maxGas > 0 then thenM (setMeterM (NewGasMeter M (word_of_int maxGas))) (next c tx simulate)
           else next c tx simulate))"

definition WithGasRegister :: "tx_ctx \<Rightarrow> WasmGasRegisterConfig \<Rightarrow> tx_ctx" where
  "WithGasRegister c gr = c\<lparr>ctxGasRegister := Some gr\<rparr>"

definition GasRegister_AnteHandle :: "WasmGasRegisterConfig \<Rightarrow> ('m, 'x, 'tx) ante_decorator" where
  "GasRegister_AnteHandle gr c tx simulate next = next (WithGasRegister c gr) tx simulate"

definition TxContracts_AnteHandle :: "('m, 'x, 'tx) ante_decorator" where
  "TxContracts_AnteHandle c tx simulate next =
    thenM (modifyM (\<lambda>s. s\<lparr>txContracts := Some []\<rparr>)) (next c tx simulate)"

subsection \<open>The ante handler of the application\<close>

text \<open>\<open>aoExtensionOptions\<close> gives the type URLs of the extension options, or \<open>None\<close> for a transaction type
  without extension options.  \<open>aoRest\<close> is the part of the chain after the decorators of x/wasm.\<close>

record ('m, 'x, 'tx) ante_options =
  aoExtensionOptions :: "'tx \<Rightarrow> bytes list option"
  aoChain :: "('m, 'x, 'tx) ante_decorator list \<Rightarrow> ('m, 'x, 'tx) ante_handler"
  aoRejectMessages :: "('m, 'x, 'tx) ante_decorator"
  aoSetUpContext :: "('m, 'x, 'tx) ante_decorator"
  aoMeter :: "'m meter_fns"
  aoSimulationGasLimit :: "u64 option"
  aoGasRegister :: WasmGasRegisterConfig
  aoRest :: "('m, 'x, 'tx) ante_decorator list"
  aoEthDecorators :: "('m, 'x, 'tx) ante_decorator list"
  aoEip712 :: "('m, 'x, 'tx) ante_handler"

abbreviation "ErrUnknownExtensionOptions \<equiv> sdkErr 31"
abbreviation "ErrPanic \<equiv> Registered ''undefined'' 111222"

definition newCosmosAnteHandler :: "('m, 'x, 'tx) ante_options \<Rightarrow> ('m, 'x, 'tx) ante_handler" where
  "newCosmosAnteHandler A = (\<lambda>c tx sim.
    bindM (liftO (NewLimitSimulationGasDecorator (aoSimulationGasLimit A))) (\<lambda>gasLimit.
    aoChain A
      ([aoRejectMessages A, aoSetUpContext A, LimitSimulationGas_AnteHandle (aoMeter A) gasLimit,
        CountTX_AnteHandle, GasRegister_AnteHandle (aoGasRegister A), TxContracts_AnteHandle] @ aoRest A)
      c tx sim))"

definition newEthAnteHandler :: "('m, 'x, 'tx) ante_options \<Rightarrow> ('m, 'x, 'tx) ante_handler" where
  "newEthAnteHandler A = aoChain A (aoEthDecorators A)"

text \<open>\<^verbatim>\<open>defer Recover\<close> turns a panic of the chain into an error.\<close>

definition Recover :: "('s, 'a) go \<Rightarrow> ('s, 'a) go" where
  "Recover m = (\<lambda>s. case m s of (Panic _, t) \<Rightarrow> (Err ErrPanic, t) | r \<Rightarrow> r)"

definition EthereumTxOption :: bytes where
  "EthereumTxOption = ''/ethermint.evm.v1.ExtensionOptionsEthereumTx''"

definition Web3TxOption :: bytes where
  "Web3TxOption = ''/ethermint.types.v1.ExtensionOptionsWeb3Tx''"

definition NewAnteHandler :: "('m, 'x, 'tx) ante_options \<Rightarrow> ('m, 'x, 'tx) ante_handler" where
  "NewAnteHandler A c tx sim = Recover
    (case aoExtensionOptions A tx of
       Some [typeURL] \<Rightarrow>
         if typeURL = EthereumTxOption then newEthAnteHandler A c tx sim
         else if typeURL = Web3TxOption then aoEip712 A c tx sim
         else failM ErrUnknownExtensionOptions
     | Some (_ # _ # _) \<Rightarrow> failM ErrInvalidRequest
     | _ \<Rightarrow> newCosmosAnteHandler A c tx sim)"

subsection \<open>What is assumed of foreign code\<close>

text \<open>A chain of the SDK runs its members from left to right and ends with a terminator that returns the
  context.\<close>

definition chain_law :: "(('m, 'x, 'tx) ante_decorator list \<Rightarrow> ('m, 'x, 'tx) ante_handler) \<Rightarrow> bool" where
  "chain_law chain =
    ((\<forall>d. chain [d] = (\<lambda>c tx sim. d c tx sim (\<lambda>c' _ _. retM c'))) \<and>
     (\<forall>d d' ds. chain (d # d' # ds) = (\<lambda>c tx sim. d c tx sim (chain (d' # ds)))))"

definition counterEntry :: "('m, 'x) st \<Rightarrow> stored option" where
  "counterEntry s = kv_get (store s) TXCounterPrefix"

text \<open>A handler leaves the counter alone; a decorator that lets a transaction pass has called the
  rest of the chain, before and after which it left the counter and the block height alone.\<close>

definition handler_passes :: "('m, 'x, 'tx) ante_handler \<Rightarrow> bool" where
  "handler_passes h = (\<forall>c tx sim s c' t. h c tx sim s = (Ok c', t) \<longrightarrow>
     ctxTXCounter c' = ctxTXCounter c \<and> counterEntry t = counterEntry s)"

definition passes :: "('m, 'x, 'tx) ante_decorator \<Rightarrow> bool" where
  "passes d = (\<forall>next c tx sim s c' t. d c tx sim next s = (Ok c', t) \<longrightarrow>
     (\<exists>c1 s1 c2 s2. next c1 tx sim s1 = (Ok c2, s2) \<and>
        ctxTXCounter c1 = ctxTXCounter c \<and> ctxBlockHeight c1 = ctxBlockHeight c \<and>
        counterEntry s1 = counterEntry s \<and>
        ctxTXCounter c' = ctxTXCounter c2 \<and> counterEntry t = counterEntry s2))"

definition ante_ok :: "('m, 'x, 'tx) ante_options \<Rightarrow> bool" where
  "ante_ok A =
    (chain_law (aoChain A) \<and> passes (aoRejectMessages A) \<and> passes (aoSetUpContext A) \<and>
     (\<forall>d \<in> set (aoRest A). passes d) \<and> (\<forall>d \<in> set (aoEthDecorators A). passes d) \<and>
     handler_passes (aoEip712 A) \<and> aoEthDecorators A \<noteq> [])"

subsection \<open>Facts\<close>

lemma passes_LimitSimulationGas: "passes (LimitSimulationGas_AnteHandle M l :: ('m, 'x, 'tx) ante_decorator)"
  unfolding passes_def
proof (intro allI impI)
  fix "next" :: "('m, 'x, 'tx) ante_handler" and c tx sim s c' t
  assume run: "LimitSimulationGas_AnteHandle M l c tx sim next s = (Ok c', t)"
  have "\<exists>m. next c tx sim (s\<lparr>meter := m\<rparr>) = (Ok c', t)"
    using run
    by (auto simp: LimitSimulationGas_AnteHandle_def setMeterM_def go_Ok_iff split: if_splits option.splits
        intro: exI [of _ "meter s"])
  then show "\<exists>c1 s1 c2 s2. next c1 tx sim s1 = (Ok c2, s2) \<and>
        ctxTXCounter c1 = ctxTXCounter c \<and> ctxBlockHeight c1 = ctxBlockHeight c \<and>
        counterEntry s1 = counterEntry s \<and>
        ctxTXCounter c' = ctxTXCounter c2 \<and> counterEntry t = counterEntry s2"
    by (fastforce simp: counterEntry_def)
qed

lemma passes_GasRegister: "passes (GasRegister_AnteHandle gr)"
  unfolding passes_def GasRegister_AnteHandle_def WithGasRegister_def by fastforce

lemma passes_TxContracts: "passes TxContracts_AnteHandle"
  unfolding passes_def TxContracts_AnteHandle_def by (fastforce simp: go_Ok_iff counterEntry_def)

lemma chain_single: "chain_law ch \<Longrightarrow> ch [d] c tx sim = d c tx sim (\<lambda>c' _ _. retM c')"
  by (simp add: chain_law_def)

lemma chain_step: "chain_law ch \<Longrightarrow> ds \<noteq> [] \<Longrightarrow> ch (d # ds) c tx sim = d c tx sim (ch ds)"
  by (cases ds) (simp_all add: chain_law_def)

lemma handler_passesD:
  "handler_passes h \<Longrightarrow> h c tx sim s = (Ok c', t) \<Longrightarrow>
    ctxTXCounter c' = ctxTXCounter c \<and> counterEntry t = counterEntry s"
  by (simp add: handler_passes_def)

lemma chain_passes:
  "chain_law ch \<Longrightarrow> ds \<noteq> [] \<Longrightarrow> \<forall>d \<in> set ds. passes d \<Longrightarrow> handler_passes (ch ds)"
proof (induction ds)
  case Nil
  then show ?case by simp
next
  case (Cons d ds)
  show ?case
    unfolding handler_passes_def
  proof (intro allI impI)
    fix c tx sim s c' t assume run: "ch (d # ds) c tx sim s = (Ok c', t)"
    obtain "next" where "next": "ch (d # ds) c tx sim = d c tx sim next" "handler_passes next"
    proof (cases "ds = []")
      case True
      then show thesis
        using that [of "\<lambda>c' _ _. retM c'"] Cons.prems(1) by (simp add: chain_single handler_passes_def)
    next
      case False
      then show thesis using that [of "ch ds"] Cons by (simp add: chain_step)
    qed
    have d: "passes d" using Cons.prems(3) by simp
    have run': "d c tx sim next s = (Ok c', t)" using run unfolding "next"(1) .
    obtain c1 s1 c2 s2 where inner: "next c1 tx sim s1 = (Ok c2, s2)"
        "ctxTXCounter c1 = ctxTXCounter c" "counterEntry s1 = counterEntry s"
        "ctxTXCounter c' = ctxTXCounter c2" "counterEntry t = counterEntry s2"
      using d [unfolded passes_def, rule_format, OF run'] by blast
    then show "ctxTXCounter c' = ctxTXCounter c \<and> counterEntry t = counterEntry s"
      using handler_passesD [OF "next"(2) inner(1)] by simp
  qed
qed

lemma sint_word_of_int64: "- (2 ^ 63) \<le> h \<Longrightarrow> h < 2 ^ 63 \<Longrightarrow> sint (word_of_int h :: u64) = h"
  by (simp add: signed_take_bit_int_eq_self sint_sbintrunc')

lemma decode_encode_HeightCounter:
  "- (2 ^ 63) \<le> h \<Longrightarrow> h < 2 ^ 63 \<Longrightarrow> decodeHeightCounter (encodeHeightCounter h n) = Ok (h, n)"
  by (simp add: decodeHeightCounter_def encodeHeightCounter_def sint_word_of_int64)

lemma CountTX_Ok:
  assumes "CountTX_AnteHandle c tx False next s = (Ok c', t)"
    and "counterEntry s = None \<and> n = 0 \<or>
      (\<exists>h k. counterEntry s = Some (SBytes (encodeHeightCounter h k)) \<and> - (2 ^ 63) \<le> h \<and> h < 2 ^ 63 \<and>
        n = (if ctxBlockHeight c = h then k else 0))"
  shows "next (c\<lparr>ctxTXCounter := Some n\<rparr>) tx False
    (s\<lparr>store := kv_set TXCounterPrefix (SBytes (encodeHeightCounter (ctxBlockHeight c) (n + 1))) (store s)\<rparr>)
      = (Ok c', t)"
  using assms(2)
proof
  assume "counterEntry s = None \<and> n = 0"
  then show ?thesis
    using assms(1) by (simp add: CountTX_AnteHandle_def counterEntry_def go_Ok_iff WithTXCounter_def)
next
  assume "\<exists>h k. counterEntry s = Some (SBytes (encodeHeightCounter h k)) \<and> - (2 ^ 63) \<le> h \<and> h < 2 ^ 63 \<and>
      n = (if ctxBlockHeight c = h then k else 0)"
  then obtain h k where "kv_get (store s) TXCounterPrefix = Some (SBytes (encodeHeightCounter h k))"
      "- (2 ^ 63) \<le> h" "h < 2 ^ 63" "n = (if ctxBlockHeight c = h then k else 0)"
    by (auto simp: counterEntry_def)
  then show ?thesis
    using assms(1)
    by (simp add: CountTX_AnteHandle_def go_Ok_iff WithTXCounter_def decode_encode_HeightCounter)
qed

subsection \<open>The transactions of a block\<close>

text \<open>A run of the chain, seen from the counter: \<open>cs\<close> lists the extension options of the transactions of
  the current block that passed the ante handler, each with the counter in its context.  In between the
  rest of the chain does anything that leaves the counter alone; a transaction that was refused is
  rolled back.\<close>

definition isCosmos :: "bytes list option \<Rightarrow> bool" where
  "isCosmos opts = (case opts of Some (_ # _) \<Rightarrow> False | _ \<Rightarrow> True)"

inductive tx_trace ::
  "('m, 'x, 'tx) ante_options \<Rightarrow> int \<Rightarrow> (bytes list option \<times> u32 option) list \<Rightarrow> ('m, 'x) st \<Rightarrow> bool"
  for A where
  tt_start: "counterEntry s = None \<Longrightarrow> 0 \<le> h \<Longrightarrow> h < 2 ^ 63 \<Longrightarrow> tx_trace A h [] s"
| tt_block: "tx_trace A h cs s \<Longrightarrow> h < h' \<Longrightarrow> h' < 2 ^ 63 \<Longrightarrow> tx_trace A h' [] s"
| tt_tx: "tx_trace A h cs s \<Longrightarrow> ctxBlockHeight c = h \<Longrightarrow> ctxTXCounter c = None \<Longrightarrow>
    NewAnteHandler A c tx False s = (Ok c', t) \<Longrightarrow>
    tx_trace A h (cs @ [(aoExtensionOptions A tx, ctxTXCounter c')]) t"
| tt_rest: "tx_trace A h cs s \<Longrightarrow> counterEntry t = counterEntry s \<Longrightarrow> tx_trace A h cs t"

definition numCosmos :: "(bytes list option \<times> u32 option) list \<Rightarrow> nat" where
  "numCosmos cs = length (filter (isCosmos \<circ> fst) cs)"

definition counter_inv :: "int \<Rightarrow> nat \<Rightarrow> ('m, 'x) st \<Rightarrow> bool" where
  "counter_inv h n s = (0 \<le> h \<and> h < 2 ^ 63 \<and>
    (counterEntry s = None \<and> n = 0 \<or>
     (\<exists>h' k. counterEntry s = Some (SBytes (encodeHeightCounter h' k)) \<and> 0 \<le> h' \<and> h' \<le> h \<and>
        of_nat n = (if h' = h then k else 0) \<and> (h' < h \<longrightarrow> n = 0))))"

definition counted :: "(bytes list option \<times> u32 option) list \<Rightarrow> bool" where
  "counted cs =
    (map snd (filter (isCosmos \<circ> fst) cs) = map (\<lambda>i. Some (of_nat i)) [0..<numCosmos cs] \<and>
     (\<forall>(opts, n) \<in> set cs. isCosmos opts \<or> n = None))"

lemma chain_prefix:
  assumes "chain_law ch" and "\<forall>d \<in> set pre. passes d" and "ch (pre @ d # ds) c tx sim s = (Ok c', t)"
  shows "\<exists>c1 s1 c2 s2. ch (d # ds) c1 tx sim s1 = (Ok c2, s2) \<and>
    ctxTXCounter c1 = ctxTXCounter c \<and> ctxBlockHeight c1 = ctxBlockHeight c \<and>
    counterEntry s1 = counterEntry s \<and>
    ctxTXCounter c' = ctxTXCounter c2 \<and> counterEntry t = counterEntry s2"
  using assms(2, 3)
proof (induction pre arbitrary: c s c' t)
  case Nil
  then have "ch (d # ds) c tx sim s = (Ok c', t)" by simp
  then show ?case by (intro exI conjI) (assumption | rule refl)+
next
  case (Cons p pre)
  have run: "p c tx sim (ch (pre @ d # ds)) s = (Ok c', t)"
    using Cons.prems(2) by (simp add: chain_step [OF assms(1)])
  have p: "passes p" using Cons.prems(1) by simp
  obtain c1 s1 c2 s2 where inner: "ch (pre @ d # ds) c1 tx sim s1 = (Ok c2, s2)"
      "ctxTXCounter c1 = ctxTXCounter c" "ctxBlockHeight c1 = ctxBlockHeight c"
      "counterEntry s1 = counterEntry s"
      "ctxTXCounter c' = ctxTXCounter c2" "counterEntry t = counterEntry s2"
    using p [unfolded passes_def, rule_format, OF run] by blast
  have "\<forall>d \<in> set pre. passes d" using Cons.prems(1) by simp
  from Cons.IH [OF this inner(1)] show ?case
    unfolding inner(2-) by blast
qed

lemma cosmos_tx_counts:
  assumes ok: "ante_ok A" and inv: "counter_inv (ctxBlockHeight c) n s"
    and run: "newCosmosAnteHandler A c tx False s = (Ok c', t)"
  shows "ctxTXCounter c' = Some (of_nat n) \<and> counter_inv (ctxBlockHeight c) (Suc n) t"
proof -
  let ?wasm = "[GasRegister_AnteHandle (aoGasRegister A), TxContracts_AnteHandle] @ aoRest A"
  have law: "chain_law (aoChain A)" using ok by (simp add: ante_ok_def)
  have pass: "handler_passes (aoChain A ?wasm)"
    using ok by (intro chain_passes) (auto simp: ante_ok_def passes_GasRegister passes_TxContracts)
  obtain l where whole: "aoChain A ([aoRejectMessages A, aoSetUpContext A,
      LimitSimulationGas_AnteHandle (aoMeter A) l] @ CountTX_AnteHandle # ?wasm) c tx False s = (Ok c', t)"
    using run by (auto simp: newCosmosAnteHandler_def go_Ok_iff)
  let ?pre = "[aoRejectMessages A, aoSetUpContext A, LimitSimulationGas_AnteHandle (aoMeter A) l]"
  have pre: "\<forall>d \<in> set ?pre. passes d"
    using ok by (simp add: ante_ok_def passes_LimitSimulationGas)
  obtain c1 s1 c2 s2 where
    inner: "aoChain A (CountTX_AnteHandle # ?wasm) c1 tx False s1 = (Ok c2, s2)"
      "ctxBlockHeight c1 = ctxBlockHeight c" "counterEntry s1 = counterEntry s"
      "ctxTXCounter c' = ctxTXCounter c2" "counterEntry t = counterEntry s2"
    using chain_prefix [where ch = "aoChain A" and pre = ?pre and d = CountTX_AnteHandle and ds = ?wasm
        and c = c and tx = tx and sim = False and s = s and c' = c' and t = t, OF law pre whole] by blast
  have count: "CountTX_AnteHandle c1 tx False (aoChain A ?wasm) s1 = (Ok c2, s2)"
    using inner(1) by (simp add: chain_step [OF law])
  have "counterEntry s1 = None \<and> of_nat n = (0 :: u32) \<or>
      (\<exists>h k. counterEntry s1 = Some (SBytes (encodeHeightCounter h k)) \<and> - (2 ^ 63) \<le> h \<and> h < 2 ^ 63 \<and>
        of_nat n = (if ctxBlockHeight c1 = h then k else 0))"
    using inv unfolding counter_inv_def inner(2, 3)
    by (elim conjE disjE exE) (simp, intro disjI2 exI conjI, assumption, auto)
  note rest = CountTX_Ok [OF count this, unfolded inner(2)]
  show ?thesis
    using handler_passesD [OF pass rest] inv inner(4, 5)
    by (auto simp: counter_inv_def counterEntry_def add.commute)
qed

lemma Recover_Ok: "Recover m s = (Ok x, t) \<longleftrightarrow> m s = (Ok x, t)"
  by (auto simp: Recover_def split: prod.splits outcome.splits)

text \<open>A transaction with an extension option takes another chain, which does not count.\<close>

lemma other_tx_keeps_counter:
  assumes "ante_ok A" and "\<not> isCosmos (aoExtensionOptions A tx)" and "NewAnteHandler A c tx False s = (Ok c', t)"
  shows "ctxTXCounter c' = ctxTXCounter c \<and> counterEntry t = counterEntry s"
proof -
  have eth: "handler_passes (newEthAnteHandler A)" and eip: "handler_passes (aoEip712 A)"
    using assms(1) by (auto simp: ante_ok_def newEthAnteHandler_def intro: chain_passes)
  obtain url urls where opts: "aoExtensionOptions A tx = Some (url # urls)"
    using assms(2) by (auto simp: isCosmos_def split: option.splits list.splits)
  have "newEthAnteHandler A c tx False s = (Ok c', t) \<or> aoEip712 A c tx False s = (Ok c', t)"
    using assms(3) by (auto simp: NewAnteHandler_def Recover_Ok opts split: list.splits if_splits)
  then show ?thesis
    using handler_passesD [OF eth, of c tx False s c' t] handler_passesD [OF eip, of c tx False s c' t] by blast
qed

lemma cosmos_route:
  "isCosmos (aoExtensionOptions A tx) \<Longrightarrow> NewAnteHandler A c tx sim s = (Ok c', t) \<Longrightarrow>
    newCosmosAnteHandler A c tx sim s = (Ok c', t)"
  by (auto simp: NewAnteHandler_def Recover_Ok isCosmos_def split: option.splits list.splits)

lemma counted_snoc:
  "counted cs \<Longrightarrow> (if isCosmos opts then n = Some (of_nat (numCosmos cs)) else n = None) \<Longrightarrow>
    counted (cs @ [(opts, n)])"
  by (auto simp: counted_def numCosmos_def split: if_splits)

lemma numCosmos_snoc:
  "numCosmos (cs @ [(opts, n)]) = (if isCosmos opts then Suc (numCosmos cs) else numCosmos cs)"
  by (simp add: numCosmos_def)

lemma counter_inv_block:
  assumes "counter_inv h n s" and "h < h'" and "h' < 2 ^ 63"
  shows "counter_inv h' 0 s"
proof (cases "counterEntry s")
  case None
  then show ?thesis using assms by (auto simp: counter_inv_def)
next
  case (Some e)
  then obtain h0 k where "e = SBytes (encodeHeightCounter h0 k)" "0 \<le> h0" "h0 \<le> h"
    using assms(1) by (auto simp: counter_inv_def)
  then show ?thesis
    using assms(2, 3) Some unfolding counter_inv_def
    by (intro conjI disjI2 exI [of _ h0] exI [of _ k]) auto
qed

lemma tx_trace_counted:
  assumes "ante_ok A" and "tx_trace A h cs s"
  shows "counter_inv h (numCosmos cs) s \<and> counted cs"
  using assms(2)
proof induction
  case (tt_start s h)
  then show ?case by (simp add: counter_inv_def numCosmos_def counted_def)
next
  case (tt_block h cs s h')
  then show ?case using counter_inv_block by (auto simp: numCosmos_def counted_def)
next
  case (tt_tx h cs s c tx c' t)
  then have inv: "counter_inv (ctxBlockHeight c) (numCosmos cs) s" "counted cs" by auto
  show ?case
  proof (cases "isCosmos (aoExtensionOptions A tx)")
    case True
    note cosmos_tx_counts [OF assms(1) inv(1) cosmos_route [OF True tt_tx.hyps(4)]]
    then show ?thesis using True inv(2) tt_tx.hyps(2) by (simp add: counted_snoc numCosmos_snoc)
  next
    case False
    note other_tx_keeps_counter [OF assms(1) False tt_tx.hyps(4)]
    then show ?thesis
      using False inv tt_tx.hyps(2, 3) by (simp add: counted_snoc numCosmos_snoc counter_inv_def)
  qed
next
  case (tt_rest h cs s t)
  then show ?case by (simp add: counter_inv_def)
qed

subsection \<open>An example\<close>

text \<open>Foreign decorators that pass everything on.  Two transactions of the SDK and one of the EVM in one
  block.\<close>

definition exChain :: "('m, 'x, 'tx) ante_decorator list \<Rightarrow> ('m, 'x, 'tx) ante_handler" where
  "exChain ds = foldr (\<lambda>d next c tx sim. d c tx sim next) ds (\<lambda>c _ _. retM c)"

definition exPass :: "('m, 'x, 'tx) ante_decorator" where
  "exPass c tx sim next = next c tx sim"

definition exAnte :: "(u64 \<times> u64, unit, bytes list option) ante_options" where
  "exAnte = \<lparr>aoExtensionOptions = id, aoChain = exChain, aoRejectMessages = exPass, aoSetUpContext = exPass,
     aoMeter = exMeter, aoSimulationGasLimit = None, aoGasRegister = DefaultGasRegisterConfig,
     aoRest = [exPass], aoEthDecorators = [exPass], aoEip712 = (\<lambda>c _ _. retM c)\<rparr>"

definition exTxCtx :: tx_ctx where
  "exTxCtx = \<lparr>ctxBlockHeight = 7, ctxBlockTimeNano = 1000, ctxChainID = ''orai'', ctxBlockGas = Some 5,
     ctxTXCounter = None, ctxQueryStackSize = None, ctxCallDepth = None, ctxSubMsgAuthzPolicy = None,
     ctxGasRegister = None, ctxConsensusMaxGas = None\<rparr>"

definition exCounted :: "u32 \<Rightarrow> (u64 \<times> u64, unit) st" where
  "exCounted n =
    (exSt (kv_set TXCounterPrefix (SBytes (encodeHeightCounter 7 n)) []))\<lparr>txContracts := Some []\<rparr>"

lemma passes_exPass: "passes exPass"
  unfolding passes_def exPass_def by fastforce

lemma exAnte_ok: "ante_ok exAnte"
  by (simp add: ante_ok_def exAnte_def passes_exPass chain_law_def exChain_def handler_passes_def)

lemmas exAnte_run = NewAnteHandler_def newCosmosAnteHandler_def newEthAnteHandler_def Recover_Ok exAnte_def
  exChain_def exPass_def NewLimitSimulationGasDecorator_def LimitSimulationGas_AnteHandle_def
  CountTX_AnteHandle_def GasRegister_AnteHandle_def TxContracts_AnteHandle_def WithTXCounter_def
  WithGasRegister_def go_Ok_iff exTxCtx_def exCounted_def exSt_def decode_encode_HeightCounter

lemma exTx1: "\<exists>c'. NewAnteHandler exAnte exTxCtx None False (exSt []) = (Ok c', exCounted 1) \<and>
    ctxTXCounter c' = Some 0"
  by (simp add: exAnte_run)

lemma exTx2: "NewAnteHandler exAnte exTxCtx (Some [EthereumTxOption]) False (exCounted 1) =
    (Ok exTxCtx, exCounted 1)"
  by (simp add: exAnte_run)

lemma exTx3: "\<exists>c'. NewAnteHandler exAnte exTxCtx None False (exCounted 1) = (Ok c', exCounted 2) \<and>
    ctxTXCounter c' = Some 1"
  by (simp add: exAnte_run kv_get_def)

lemma exTrace:
  "tx_trace exAnte 7 [(None, Some 0), (Some [EthereumTxOption], None), (None, Some 1)] (exCounted 2)"
proof -
  have step: "tx_trace exAnte 7 (cs @ [(opts, n)]) t"
    if "tx_trace exAnte 7 cs s" "NewAnteHandler exAnte exTxCtx opts False s = (Ok c', t)" "ctxTXCounter c' = n"
    for cs s opts c' t n
    using tt_tx [OF that(1) _ _ that(2)] that(3) by (simp add: exTxCtx_def exAnte_def)
  have "tx_trace exAnte 7 [] (exSt [])" by (rule tt_start) (simp_all add: counterEntry_def exSt_def)
  then have "tx_trace exAnte 7 ([] @ [(None, Some 0)]) (exCounted 1)" using exTx1 step by blast
  then have "tx_trace exAnte 7 (([] @ [(None, Some 0)]) @ [(Some [EthereumTxOption], None)]) (exCounted 1)"
    by (rule step [OF _ exTx2]) (simp add: exTxCtx_def)
  then have "tx_trace exAnte 7
      ((([] @ [(None, Some 0)]) @ [(Some [EthereumTxOption], None)]) @ [(None, Some 1)]) (exCounted 2)"
    using exTx3 step by blast
  then show ?thesis by simp
qed

subsection \<open>Properties\<close>

text \<open>C23. The transaction counter a contract sees in its environment numbers the transactions of a block:
  the SDK transactions that pass the ante handler of the application get 0, 1, 2 and so on in the order they are
  executed (modulo \<open>2\<^sup>3\<^sup>2\<close>), starting again at 0 in every block, whatever the rest of the chain does in between and
  whichever transactions are refused; EVM and EIP-712 transactions are not counted and carry no counter.\<close>

theorem tx_counters_consecutive:
  assumes "ante_ok A" and "tx_trace A h cs s"
  shows "map snd (filter (isCosmos \<circ> fst) cs) =
      map (\<lambda>i. Some (of_nat i)) [0..<length (filter (isCosmos \<circ> fst) cs)] \<and>
    (\<forall>(opts, n) \<in> set cs. isCosmos opts \<or> n = None)"
  using tx_trace_counted [OF assms] by (simp add: counted_def numCosmos_def)

theorem tx_counters_consecutive_witness:
  "ante_ok exAnte \<and>
   map snd (filter (isCosmos \<circ> fst)
      [(None, Some 0), (Some [EthereumTxOption], None), (None, Some (1 :: u32))]) = map (\<lambda>i. Some (of_nat i)) [0..<2]"
  using tx_counters_consecutive [OF exAnte_ok exTrace] exAnte_ok by (simp add: isCosmos_def numeral_2_eq_2)

end
