(* ===== verification/Spec2Isabelle.thy ===== *)
theory Spec2Isabelle
  imports TokenBindings Authz Ante
begin

text \<open>
  \<^bold>\<open>A verification library for the bignftd chain (a wasmd fork)\<close>

  The program is a Cosmos chain whose modules run CosmWasm smart contracts.  The theories follow its
  packages:

  \<^item> \<open>Prelude\<close>: byte strings, words, big-endian encodings and their order.
  \<^item> \<open>GoMonad\<close>: the outcomes of Go functions (value, error, panic) over a mutable state, and the
    rules for invariants of such computations.
  \<^item> \<open>GoStd\<close>: the parts of Go's standard library the code uses.
  \<^item> \<open>KVStore\<close>: the ordered store with prefix iteration; interface \<open>kv_store\<close>.
  \<^item> \<open>Types\<close>, \<open>Keys\<close>: the stored messages, the key layout and the contract addresses of x/wasm
    (types.go, keys.go, addresses.go).
\<close>

end
